(* ===== verification/Prelude.thy ===== *)
theory Prelude
  imports "HOL-Library.Word" "HOL-Library.Sublist"
begin

text \<open>
  Shared vocabulary of the development: machine integers and bytes, results of fallible
  operations, the parts of Rust's standard library the sources use (checked and saturating
  arithmetic, slice access, UTF-8 validation, decimal and hexadecimal printing), and the
  interface of an encoder with its offset-driven decoder.
\<close>

section \<open>Types\<close>

type_synonym u8 = "8 word"
type_synonym u16 = "16 word"
type_synonym u32 = "32 word"
type_synonym u64 = "64 word"
type_synonym bytes = "u8 list"

text \<open>
  A fallible operation returns \<open>Inl\<close> of its error or \<open>Inr\<close> of its value. \<open>rbind\<close> is the
  question-mark operator, \<open>ok_or\<close> is \<^verbatim>\<open>Option::ok_or\<close>, \<open>ensure\<close> an early return and
  \<open>map_err\<close> is \<^verbatim>\<open>Result::map_err\<close>.
\<close>

definition rbind :: "'e + 'a \<Rightarrow> ('a \<Rightarrow> 'e + 'b) \<Rightarrow> 'e + 'b" where
  "rbind m f = (case m of Inl e \<Rightarrow> Inl e | Inr x \<Rightarrow> f x)"

definition ok_or :: "'e \<Rightarrow> 'a option \<Rightarrow> 'e + 'a" where
  "ok_or e m = (case m of None \<Rightarrow> Inl e | Some x \<Rightarrow> Inr x)"

definition ensure :: "'e \<Rightarrow> bool \<Rightarrow> 'e + unit" where
  "ensure e b = (if b then Inr () else Inl e)"

definition map_err :: "('e \<Rightarrow> 'f) \<Rightarrow> 'e + 'a \<Rightarrow> 'f + 'a" where
  "map_err f m = (case m of Inl e \<Rightarrow> Inl (f e) | Inr x \<Rightarrow> Inr x)"

definition is_ok :: "'e + 'a \<Rightarrow> bool" where
  "is_ok m = (case m of Inl _ \<Rightarrow> False | Inr _ \<Rightarrow> True)"

named_theorems result_simps

lemma rbind_simps [simp]:
  "rbind (Inl e) f = Inl e"
  "rbind (Inr x) f = f x"
  by (simp_all add: rbind_def)

lemma rbind_Inr_iff [result_simps]:
  "rbind m f = Inr y \<longleftrightarrow> (\<exists>x. m = Inr x \<and> f x = Inr y)"
  by (cases m) simp_all

lemma rbind_Inl_iff [result_simps]:
  "rbind m f = Inl e \<longleftrightarrow> m = Inl e \<or> (\<exists>x. m = Inr x \<and> f x = Inl e)"
  by (cases m) simp_all

lemma rbind_assoc: "rbind (rbind m f) g = rbind m (\<lambda>x. rbind (f x) g)"
  by (cases m) simp_all

lemma rbind_cong [fundef_cong]:
  "m = m' \<Longrightarrow> (\<And>x. m' = Inr x \<Longrightarrow> f x = f' x) \<Longrightarrow> rbind m f = rbind m' f'"
  by (cases m') simp_all

lemma ok_or_simps [simp]:
  "ok_or e None = Inl e"
  "ok_or e (Some x) = Inr x"
  by (simp_all add: ok_or_def)

lemma ok_or_Inr_iff [result_simps]: "ok_or e m = Inr x \<longleftrightarrow> m = Some x"
  by (cases m) simp_all

lemma ok_or_Inl_iff [result_simps]: "ok_or e m = Inl f \<longleftrightarrow> m = None \<and> f = e"
  by (cases m) auto

lemma ensure_simps [simp]:
  "ensure e True = Inr ()"
  "ensure e False = Inl e"
  by (simp_all add: ensure_def)

lemma ensure_Inr_iff [result_simps]: "ensure e b = Inr x \<longleftrightarrow> b"
  by (cases b) simp_all

lemma ensure_Inl_iff [result_simps]: "ensure e b = Inl f \<longleftrightarrow> \<not> b \<and> f = e"
  by (cases b) auto

lemma map_err_simps [simp]:
  "map_err f (Inl e) = Inl (f e)"
  "map_err f (Inr x) = Inr x"
  by (simp_all add: map_err_def)

lemma map_err_Inr_iff [result_simps]: "map_err f m = Inr x \<longleftrightarrow> m = Inr x"
  by (cases m) simp_all

lemma map_err_Inl_iff [result_simps]: "map_err f m = Inl e \<longleftrightarrow> (\<exists>e'. m = Inl e' \<and> e = f e')"
  by (cases m) auto

lemma if_guard_Inr_iff [result_simps]: "(if b then Inl e else m) = Inr x \<longleftrightarrow> \<not> b \<and> m = Inr x"
  by simp

lemma is_ok_simps [simp]:
  "\<not> is_ok (Inl e)"
  "is_ok (Inr x)"
  by (simp_all add: is_ok_def)

lemma is_ok_iff: "is_ok m \<longleftrightarrow> (\<exists>x. m = Inr x)"
  by (cases m) simp_all

section \<open>Integers\<close>

definition u64_max :: nat where
  "u64_max = 2 ^ 64 - 1"

text \<open>Lengths and offsets (\<^verbatim>\<open>usize\<close>, 64 bits wide) are natural numbers; additions the code checks
  are checked here, at the same width.\<close>

definition checked_add :: "nat \<Rightarrow> nat \<Rightarrow> nat option" where
  "checked_add a b = (if a + b \<le> u64_max then Some (a + b) else None)"

definition saturating_add :: "u64 \<Rightarrow> u64 \<Rightarrow> u64" where
  "saturating_add a b = (if unat a + unat b \<le> u64_max then a + b else 18446744073709551615)"

definition saturating_sub :: "u64 \<Rightarrow> u64 \<Rightarrow> u64" where
  "saturating_sub a b = (if a < b then 0 else a - b)"

text \<open>\<^verbatim>\<open>value as i64\<close>: two's complement reinterpretation.\<close>

definition i64_limit :: nat where
  "i64_limit = 2 ^ 63"

definition as_i64 :: "u64 \<Rightarrow> int" where
  "as_i64 w = (if unat w < i64_limit then int (unat w) else int (unat w) - 2 * int i64_limit)"

lemma checked_add_Some_iff [result_simps]:
  "checked_add a b = Some c \<longleftrightarrow> c = a + b \<and> a + b \<le> u64_max"
  by (auto simp: checked_add_def)

lemma unat_saturating_add: "unat (saturating_add a b) = min (unat a + unat b) u64_max"
proof (cases "unat a + unat b \<le> u64_max")
  case True
  then have "unat a + unat b < 2 ^ LENGTH(64)" by (simp add: u64_max_def)
  then have "unat (a + b) = unat a + unat b" by (rule unat_add_lem [THEN iffD1])
  with True show ?thesis by (simp add: saturating_add_def)
next
  case False
  then show ?thesis by (simp add: saturating_add_def u64_max_def)
qed

lemma saturating_add_ge: "a \<le> saturating_add a b"
proof -
  have "unat a \<le> u64_max" using unsigned_less [of a, where 'a = nat] by (simp add: u64_max_def)
  then have "unat a \<le> unat (saturating_add a b)" by (simp add: unat_saturating_add)
  then show ?thesis by (simp add: word_le_nat_alt)
qed

lemma as_i64_small: "unat w < i64_limit \<Longrightarrow> as_i64 w = int (unat w)"
  by (simp add: as_i64_def)

section \<open>Byte slices\<close>

text \<open>\<^verbatim>\<open>slice.get(a..b)\<close>: the sub-slice, or \<open>None\<close> when the range is not inside the slice.\<close>

definition slice_get :: "'a list \<Rightarrow> nat \<Rightarrow> nat \<Rightarrow> 'a list option" where
  "slice_get xs a b = (if a \<le> b \<and> b \<le> length xs then Some (take (b - a) (drop a xs)) else None)"

text \<open>\<^verbatim>\<open>slice.starts_with(p)\<close> and \<^verbatim>\<open>slice.strip_prefix(p)\<close>.\<close>

fun strip_prefix :: "'a list \<Rightarrow> 'a list \<Rightarrow> 'a list option" where
  "strip_prefix [] xs = Some xs"
| "strip_prefix (p # ps) [] = None"
| "strip_prefix (p # ps) (x # xs) = (if p = x then strip_prefix ps xs else None)"

definition starts_with :: "'a list \<Rightarrow> 'a list \<Rightarrow> bool" where
  "starts_with p xs = (strip_prefix p xs \<noteq> None)"

lemma strip_prefix_Some_iff: "strip_prefix p xs = Some ys \<longleftrightarrow> xs = p @ ys"
  by (induction p xs rule: strip_prefix.induct) auto

lemma strip_prefix_append [simp]: "strip_prefix p (p @ ys) = Some ys"
  by (simp add: strip_prefix_Some_iff)

lemma starts_with_iff: "starts_with p xs \<longleftrightarrow> prefix p xs"
  by (auto simp: starts_with_def strip_prefix_Some_iff prefix_def)

lemma starts_with_append [simp]: "starts_with p (p @ ys)"
  by (simp add: starts_with_iff)

lemma slice_get_Some_iff:
  "slice_get xs a b = Some ys \<longleftrightarrow> a \<le> b \<and> b \<le> length xs \<and> ys = take (b - a) (drop a xs)"
  by (auto simp: slice_get_def)

lemma slice_get_middle [simp]:
  "slice_get (pre @ mid @ post) (length pre) (length pre + length mid) = Some mid"
  by (simp add: slice_get_def)

lemma length_slice_get: "slice_get xs a b = Some ys \<Longrightarrow> length ys = b - a"
  by (auto simp: slice_get_def split: if_splits)

section \<open>Fixed-width integers as bytes\<close>

fun le_bytes :: "nat \<Rightarrow> nat \<Rightarrow> bytes" where
  "le_bytes 0 v = []"
| "le_bytes (Suc n) v = word_of_nat (v mod 256) # le_bytes n (v div 256)"

fun le_value :: "bytes \<Rightarrow> nat" where
  "le_value [] = 0"
| "le_value (b # bs) = unat b + 256 * le_value bs"

definition be_bytes :: "nat \<Rightarrow> nat \<Rightarrow> bytes" where
  "be_bytes n v = rev (le_bytes n v)"

definition be_value :: "bytes \<Rightarrow> nat" where
  "be_value bs = le_value (rev bs)"

lemma length_le_bytes [simp]: "length (le_bytes n v) = n"
  by (induction n arbitrary: v) auto

lemma length_be_bytes [simp]: "length (be_bytes n v) = n"
  by (simp add: be_bytes_def)

lemma unat_byte_mod [simp]: "unat (word_of_nat (v mod 256) :: u8) = v mod 256"
  by (simp add: unsigned_of_nat take_bit_eq_mod)

lemma unat_u8_less [simp]: "unat (b :: u8) < 256"
  using unsigned_less [of b, where 'a = nat] by simp

lemma le_value_le_bytes: "le_value (le_bytes n v) = v mod 256 ^ n"
proof (induction n arbitrary: v)
  case 0
  then show ?case by simp
next
  case (Suc n)
  have "v mod 256 + 256 * (v div 256 mod 256 ^ n) = v mod 256 ^ Suc n"
    by (simp add: mod_mult2_eq)
  with Suc show ?case by simp
qed

lemma le_value_le_bytes_small: "v < 256 ^ n \<Longrightarrow> le_value (le_bytes n v) = v"
  by (simp add: le_value_le_bytes)

lemma le_value_less: "le_value bs < 256 ^ length bs"
proof (induction bs)
  case Nil
  then show ?case by simp
next
  case (Cons b bs)
  have "unat b < 256" by simp
  with Cons have "unat b + 256 * le_value bs < 256 + 256 * (256 ^ length bs - 1)"
    by (intro add_less_le_mono mult_le_mono) auto
  also have "\<dots> = 256 ^ length (b # bs)" by (simp add: algebra_simps)
  finally show ?case by simp
qed

lemma le_bytes_le_value [simp]: "le_bytes (length bs) (le_value bs) = bs"
proof (induction bs)
  case Nil
  then show ?case by simp
next
  case (Cons b bs)
  have b: "unat b < 256" by simp
  then have "(unat b + 256 * le_value bs) mod 256 = unat b"
    and "(unat b + 256 * le_value bs) div 256 = le_value bs"
    by simp_all
  with Cons show ?case by simp
qed

lemma le_bytes_inj: "le_bytes n v = le_bytes n w \<Longrightarrow> v < 256 ^ n \<Longrightarrow> w < 256 ^ n \<Longrightarrow> v = w"
  by (metis le_value_le_bytes_small)

lemma be_value_be_bytes_small: "v < 256 ^ n \<Longrightarrow> be_value (be_bytes n v) = v"
  by (simp add: be_value_def be_bytes_def le_value_le_bytes_small)

lemma be_bytes_inj: "be_bytes n v = be_bytes n w \<Longrightarrow> v < 256 ^ n \<Longrightarrow> w < 256 ^ n \<Longrightarrow> v = w"
  by (metis be_value_be_bytes_small)

section \<open>Strings\<close>

text \<open>
  A Rust string is its UTF-8 bytes, one \<open>char\<close> per byte; \<open>from_utf8\<close> accepts exactly the
  well-formed byte sequences (Unicode Table 3-7), as \<^verbatim>\<open>core::str::from_utf8\<close> does.
\<close>

definition byte_of_char :: "char \<Rightarrow> u8" where
  "byte_of_char c = word_of_nat (of_char c)"

definition char_of_byte :: "u8 \<Rightarrow> char" where
  "char_of_byte b = char_of (unat b)"

definition as_bytes :: "string \<Rightarrow> bytes" where
  "as_bytes s = map byte_of_char s"

definition utf8_cont :: "u8 \<Rightarrow> bool" where
  "utf8_cont b = (0x80 \<le> b \<and> b \<le> 0xBF)"

fun valid_utf8 :: "bytes \<Rightarrow> bool" where
  "valid_utf8 [] = True"
| "valid_utf8 (b # bs) =
     (if b < 0x80 then valid_utf8 bs
      else if 0xC2 \<le> b \<and> b \<le> 0xDF then
        (case bs of c1 # r \<Rightarrow> utf8_cont c1 \<and> valid_utf8 r | _ \<Rightarrow> False)
      else if 0xE0 \<le> b \<and> b \<le> 0xEF then
        (case bs of c1 # c2 # r \<Rightarrow>
           (if b = 0xE0 then 0xA0 \<le> c1 \<and> c1 \<le> 0xBF
            else if b = 0xED then 0x80 \<le> c1 \<and> c1 \<le> 0x9F
            else utf8_cont c1) \<and> utf8_cont c2 \<and> valid_utf8 r
         | _ \<Rightarrow> False)
      else if 0xF0 \<le> b \<and> b \<le> 0xF4 then
        (case bs of c1 # c2 # c3 # r \<Rightarrow>
           (if b = 0xF0 then 0x90 \<le> c1 \<and> c1 \<le> 0xBF
            else if b = 0xF4 then 0x80 \<le> c1 \<and> c1 \<le> 0x8F
            else utf8_cont c1) \<and> utf8_cont c2 \<and> utf8_cont c3 \<and> valid_utf8 r
         | _ \<Rightarrow> False)
      else False)"

definition from_utf8 :: "bytes \<Rightarrow> string option" where
  "from_utf8 bs = (if valid_utf8 bs then Some (map char_of_byte bs) else None)"

text \<open>The type invariant of \<^verbatim>\<open>String\<close> and \<^verbatim>\<open>&str\<close>.\<close>

definition str_ok :: "string \<Rightarrow> bool" where
  "str_ok s = valid_utf8 (as_bytes s)"

lemma char_of_byte_of_char [simp]: "char_of_byte (byte_of_char c) = c"
proof -
  have "(of_char c :: nat) mod 256 = of_char c" by (metis of_char_of char_of_char)
  then have "unat (word_of_nat (of_char c) :: u8) = of_char c"
    by (simp add: unsigned_of_nat take_bit_eq_mod)
  then show ?thesis by (simp add: char_of_byte_def byte_of_char_def)
qed

lemma byte_of_char_of_byte [simp]: "byte_of_char (char_of_byte b) = b"
proof -
  have "of_char (char_of (unat b)) = unat b mod (256 :: nat)"
    by (simp add: of_char_of)
  also have "\<dots> = unat b" by simp
  finally show ?thesis by (simp add: char_of_byte_def byte_of_char_def)
qed

lemma length_as_bytes [simp]: "length (as_bytes s) = length s"
  by (simp add: as_bytes_def)

lemma as_bytes_append [simp]: "as_bytes (s @ t) = as_bytes s @ as_bytes t"
  by (simp add: as_bytes_def)

lemma map_char_of_byte_as_bytes [simp]: "map char_of_byte (as_bytes s) = s"
  by (simp add: as_bytes_def comp_def)

lemma as_bytes_map_char_of_byte [simp]: "as_bytes (map char_of_byte bs) = bs"
  by (simp add: as_bytes_def comp_def)

lemma as_bytes_inj: "as_bytes s = as_bytes t \<Longrightarrow> s = t"
  by (metis map_char_of_byte_as_bytes)

lemma as_bytes_eq_iff [simp]: "as_bytes s = as_bytes t \<longleftrightarrow> s = t"
  by (auto dest: as_bytes_inj)

lemma from_utf8_as_bytes [simp]: "str_ok s \<Longrightarrow> from_utf8 (as_bytes s) = Some s"
  by (simp add: from_utf8_def str_ok_def)

lemma from_utf8_Some_iff [result_simps]: "from_utf8 bs = Some s \<longleftrightarrow> bs = as_bytes s \<and> str_ok s"
  by (auto simp: from_utf8_def str_ok_def)

lemma valid_utf8_ascii: "\<forall>b \<in> set bs. b < 0x80 \<Longrightarrow> valid_utf8 bs"
  by (induction bs) auto

section \<open>Printing\<close>

definition digit_char :: "nat \<Rightarrow> char" where
  "digit_char d = char_of (48 + d)"

text \<open>\<^verbatim>\<open>usize::to_string\<close> and \<^verbatim>\<open>u64::to_string\<close>.\<close>

fun dec_string :: "nat \<Rightarrow> string" where
  "dec_string n = (if n < 10 then [digit_char n] else dec_string (n div 10) @ [digit_char (n mod 10)])"

declare dec_string.simps [simp del]

definition hex_digit :: "nat \<Rightarrow> char" where
  "hex_digit d = (if d < 10 then char_of (48 + d) else char_of (87 + d))"

text \<open>\<^verbatim>\<open>{:02x}\<close> of one byte, and of a byte slice.\<close>

definition hex_byte :: "u8 \<Rightarrow> string" where
  "hex_byte b = [hex_digit (unat b div 16), hex_digit (unat b mod 16)]"

definition hex_lower :: "bytes \<Rightarrow> string" where
  "hex_lower bs = concat (map hex_byte bs)"

definition bool_string :: "bool \<Rightarrow> string" where
  "bool_string b = (if b then ''true'' else ''false'')"

definition dec_value :: "string \<Rightarrow> nat" where
  "dec_value = foldl (\<lambda>v c. 10 * v + (of_char c - 48)) 0"

lemma of_char_digit: "d < 10 \<Longrightarrow> (of_char (digit_char d) :: nat) = 48 + d"
  by (simp add: digit_char_def)

lemma dec_value_dec_string [simp]: "dec_value (dec_string n) = n"
proof (induction n rule: dec_string.induct)
  case (1 n)
  show ?case
  proof (cases "n < 10")
    case True
    then show ?thesis
      by (simp add: dec_string.simps [of n] dec_value_def of_char_digit)
  next
    case False
    with "1" have IH: "dec_value (dec_string (n div 10)) = n div 10" by simp
    have "dec_value (dec_string n) =
        10 * dec_value (dec_string (n div 10)) + (of_char (digit_char (n mod 10)) - 48)"
      using False by (simp add: dec_string.simps [of n] dec_value_def)
    then show ?thesis by (simp add: IH of_char_digit)
  qed
qed

lemma dec_string_inj: "dec_string m = dec_string n \<Longrightarrow> m = n"
  by (metis dec_value_dec_string)

lemma dec_string_eq_iff [simp]: "dec_string m = dec_string n \<longleftrightarrow> m = n"
  by (auto dest: dec_string_inj)

lemma dec_string_not_Nil [simp]: "dec_string n \<noteq> []"
  by (simp add: dec_string.simps [of n])

lemma dec_string_digits: "c \<in> set (dec_string n) \<Longrightarrow> 48 \<le> (of_char c :: nat) \<and> (of_char c :: nat) \<le> 57"
proof (induction n rule: dec_string.induct)
  case (1 n)
  show ?case
  proof (cases "n < 10")
    case True
    with "1.prems" show ?thesis by (simp add: dec_string.simps [of n] of_char_digit)
  next
    case False
    with "1.prems" consider "c \<in> set (dec_string (n div 10))" | "c = digit_char (n mod 10)"
      by (auto simp: dec_string.simps [of n])
    then show ?thesis
    proof cases
      case 1
      with False "1.IH" show ?thesis by simp
    next
      case 2
      then show ?thesis by (simp add: of_char_digit)
    qed
  qed
qed

lemma colon_not_in_dec_string: "CHR '':'' \<notin> set (dec_string n)"
  using dec_string_digits [of "CHR '':''" n] by auto

lemma hex_digit_inj: "a < 16 \<Longrightarrow> b < 16 \<Longrightarrow> hex_digit a = hex_digit b \<Longrightarrow> a = b"
proof -
  assume a: "a < 16" and b: "b < 16" and eq: "hex_digit a = hex_digit b"
  have code: "(of_char (hex_digit d) :: nat) = (if d < 10 then 48 + d else 87 + d)" if "d < 16" for d
    using that by (simp add: hex_digit_def)
  from eq have "(of_char (hex_digit a) :: nat) = of_char (hex_digit b)" by simp
  then have "(if a < 10 then 48 + a else 87 + a) = (if b < 10 then 48 + b else 87 + b)"
    by (simp only: code [OF a] code [OF b])
  then show "a = b" by (simp split: if_splits)
qed

lemma hex_byte_inj: "hex_byte a = hex_byte b \<Longrightarrow> a = b"
proof -
  assume eq: "hex_byte a = hex_byte b"
  have bound: "unat (c :: u8) div 16 < 16 \<and> unat c mod 16 < 16" for c
    using unat_u8_less [of c] by (simp add: less_mult_imp_div_less del: unat_u8_less)
  from eq have "unat a div 16 = unat b div 16"
    using bound [of a] bound [of b] by (auto simp: hex_byte_def intro: hex_digit_inj)
  moreover from eq have "unat a mod 16 = unat b mod 16"
    using bound [of a] bound [of b] by (intro hex_digit_inj) (auto simp: hex_byte_def)
  ultimately have "unat a = unat b" by (metis div_mult_mod_eq)
  then show "a = b" by (simp add: word_unat_eq_iff)
qed

lemma length_hex_byte [simp]: "length (hex_byte b) = 2"
  by (simp add: hex_byte_def)

lemma length_hex_lower [simp]: "length (hex_lower bs) = 2 * length bs"
  by (induction bs) (simp_all add: hex_lower_def)

lemma hex_lower_inj: "hex_lower as = hex_lower bs \<Longrightarrow> as = bs"
proof (induction as arbitrary: bs)
  case Nil
  then have "length (hex_lower bs) = 0" by (metis hex_lower_def concat.simps(1) list.map(1) list.size(3))
  then show ?case by simp
next
  case (Cons a as)
  from Cons.prems have "length (hex_lower bs) = 2 * length (a # as)" by (metis length_hex_lower)
  then obtain b bs' where bs: "bs = b # bs'" by (cases bs) auto
  from Cons.prems bs have "hex_byte a @ hex_lower as = hex_byte b @ hex_lower bs'"
    by (simp add: hex_lower_def)
  then have "hex_byte a = hex_byte b" and "hex_lower as = hex_lower bs'" by simp_all
  with bs Cons.IH show ?case by (auto dest: hex_byte_inj)
qed

section \<open>String operations\<close>

text \<open>
  \<open>ws_only s\<close> is \<^verbatim>\<open>s.trim().is_empty()\<close>: every character has the Unicode White\_Space property
  (tab to carriage return, space, U+0085, U+00A0, U+1680, U+2000 to U+200A, U+2028, U+2029,
  U+202F, U+205F, U+3000), read off the UTF-8 bytes.
\<close>

fun ws_only_bytes :: "bytes \<Rightarrow> bool" where
  "ws_only_bytes [] = True"
| "ws_only_bytes (b # bs) =
     (if (9 \<le> b \<and> b \<le> 13) \<or> b = 32 then ws_only_bytes bs
      else if b = 0xC2 then (case bs of c # r \<Rightarrow> (c = 0x85 \<or> c = 0xA0) \<and> ws_only_bytes r | _ \<Rightarrow> False)
      else if b = 0xE1 \<or> b = 0xE2 \<or> b = 0xE3 then
        (case bs of c1 # c2 # r \<Rightarrow>
           (if b = 0xE1 then c1 = 0x9A \<and> c2 = 0x80
            else if b = 0xE3 then c1 = 0x80 \<and> c2 = 0x80
            else (c1 = 0x80 \<and> (c2 \<le> 0x8A \<and> 0x80 \<le> c2 \<or> c2 = 0xA8 \<or> c2 = 0xA9 \<or> c2 = 0xAF))
               \<or> (c1 = 0x81 \<and> c2 = 0x9F)) \<and> ws_only_bytes r
         | _ \<Rightarrow> False)
      else False)"

definition ws_only :: "string \<Rightarrow> bool" where
  "ws_only s = ws_only_bytes (as_bytes s)"

lemma ws_only_Nil [simp]: "ws_only []"
  by (simp add: ws_only_def as_bytes_def)

text \<open>\<^verbatim>\<open>str::trim\<close> strips such characters at both ends; the end is read backwards.\<close>

definition ws1 :: "u8 \<Rightarrow> bool" where
  "ws1 b = ((9 \<le> b \<and> b \<le> 13) \<or> b = 32)"

definition ws2 :: "u8 \<Rightarrow> u8 \<Rightarrow> bool" where
  "ws2 b c = (b = 0xC2 \<and> (c = 0x85 \<or> c = 0xA0))"

definition ws3 :: "u8 \<Rightarrow> u8 \<Rightarrow> u8 \<Rightarrow> bool" where
  "ws3 b c d = (b = 0xE1 \<and> c = 0x9A \<and> d = 0x80 \<or> b = 0xE3 \<and> c = 0x80 \<and> d = 0x80
     \<or> b = 0xE2 \<and> c = 0x80 \<and> (0x80 \<le> d \<and> d \<le> 0x8A \<or> d = 0xA8 \<or> d = 0xA9 \<or> d = 0xAF)
     \<or> b = 0xE2 \<and> c = 0x81 \<and> d = 0x9F)"

fun trim_start_bytes :: "bytes \<Rightarrow> bytes" where
  "trim_start_bytes (b # c # d # bs) =
     (if ws1 b then trim_start_bytes (c # d # bs)
      else if ws2 b c then trim_start_bytes (d # bs)
      else if ws3 b c d then trim_start_bytes bs
      else b # c # d # bs)"
| "trim_start_bytes [b, c] =
     (if ws1 b then trim_start_bytes [c] else if ws2 b c then [] else [b, c])"
| "trim_start_bytes [b] = (if ws1 b then [] else [b])"
| "trim_start_bytes [] = []"

fun trim_rev_bytes :: "bytes \<Rightarrow> bytes" where
  "trim_rev_bytes (d # c # b # bs) =
     (if ws1 d then trim_rev_bytes (c # b # bs)
      else if ws2 c d then trim_rev_bytes (b # bs)
      else if ws3 b c d then trim_rev_bytes bs
      else d # c # b # bs)"
| "trim_rev_bytes [d, c] =
     (if ws1 d then trim_rev_bytes [c] else if ws2 c d then [] else [d, c])"
| "trim_rev_bytes [d] = (if ws1 d then [] else [d])"
| "trim_rev_bytes [] = []"

definition trim :: "string \<Rightarrow> string" where
  "trim s = map char_of_byte (rev (trim_rev_bytes (rev (trim_start_bytes (as_bytes s)))))"

text \<open>\<^verbatim>\<open>str::contains\<close>, \<^verbatim>\<open>str::split(c)\<close> with a character, \<^verbatim>\<open>[T]::join\<close> and
  \<^verbatim>\<open>str::to_ascii_lowercase\<close>.\<close>

fun str_contains :: "string \<Rightarrow> string \<Rightarrow> bool" where
  "str_contains pat [] = (pat = [])"
| "str_contains pat (c # cs) = (starts_with pat (c # cs) \<or> str_contains pat cs)"

fun split_on :: "char \<Rightarrow> string \<Rightarrow> string list" where
  "split_on d [] = [[]]"
| "split_on d (c # cs) =
     (if c = d then [] # split_on d cs
      else case split_on d cs of [] \<Rightarrow> [[c]] | p # ps \<Rightarrow> (c # p) # ps)"

fun join :: "string \<Rightarrow> string list \<Rightarrow> string" where
  "join sep [] = []"
| "join sep [s] = s"
| "join sep (s # t # ss) = s @ sep @ join sep (t # ss)"

definition ascii_lower_char :: "char \<Rightarrow> char" where
  "ascii_lower_char c =
     (let n = of_char c :: nat in if 65 \<le> n \<and> n \<le> 90 then char_of (n + 32) else c)"

definition to_ascii_lowercase :: "string \<Rightarrow> string" where
  "to_ascii_lowercase s = map ascii_lower_char s"

lemma split_on_not_Nil [simp]: "split_on d s \<noteq> []"
  by (cases s) (auto split: list.splits)

lemma join_split_on: "join [d] (split_on d s) = s"
proof (induction s)
  case Nil
  then show ?case by simp
next
  case (Cons c cs)
  obtain p ps where "split_on d cs = p # ps" by (cases "split_on d cs") auto
  with Cons show ?case by (cases ps) auto
qed

lemma split_on_delim_free: "p \<in> set (split_on d s) \<Longrightarrow> d \<notin> set p"
  by (induction s arbitrary: p) (auto split: if_splits list.splits)

lemma split_on_delim_free_id: "d \<notin> set p \<Longrightarrow> split_on d p = [p]"
  by (induction p) auto

lemma split_on_append: "d \<notin> set p \<Longrightarrow> split_on d (p @ d # s) = p # split_on d s"
  by (induction p) auto

lemma split_on_join:
  "ps \<noteq> [] \<Longrightarrow> \<forall>p \<in> set ps. d \<notin> set p \<Longrightarrow> split_on d (join [d] ps) = ps"
proof (induction ps)
  case Nil
  then show ?case by simp
next
  case (Cons p ps)
  then show ?case
    by (cases ps) (auto simp: split_on_append split_on_delim_free_id)
qed

section \<open>Searching, splitting and trimming\<close>

definition strip_suffix :: "string \<Rightarrow> string \<Rightarrow> string option" where
  "strip_suffix suf s = map_option rev (strip_prefix (rev suf) (rev s))"

fun split_once :: "char \<Rightarrow> string \<Rightarrow> (string \<times> string) option" where
  "split_once d [] = None"
| "split_once d (c # cs) =
     (if c = d then Some ([], cs) else map_option (\<lambda>(p, r). (c # p, r)) (split_once d cs))"

lemma split_once_append: "d \<notin> set p \<Longrightarrow> split_once d (p @ d # r) = Some (p, r)"
  by (induction p) auto

lemma strip_suffix_Some_iff: "strip_suffix suf s = Some t \<longleftrightarrow> s = t @ suf"
  by (auto simp: strip_suffix_def strip_prefix_Some_iff rev_swap intro: exI [of _ "rev t"])

lemma find_Some_in: "find P xs = Some x \<Longrightarrow> x \<in> set xs \<and> P x"
  by (induction xs) (auto split: if_splits)

lemma find_exists: "x \<in> set xs \<Longrightarrow> P x \<Longrightarrow> \<exists>y. find P xs = Some y \<and> P y"
  by (induction xs) auto

lemma unat_eq_word: "unat a = unat b \<longleftrightarrow> a = b"
  by (auto intro: unsigned_word_eqI)

lemma trim_start_plain: "\<not> ws1 b \<Longrightarrow> b < 0x80 \<Longrightarrow> trim_start_bytes (b # bs) = b # bs"
  by (induction "b # bs" rule: trim_start_bytes.induct) (auto simp: ws2_def ws3_def)

lemma trim_rev_plain: "\<not> ws1 b \<Longrightarrow> b < 0x80 \<Longrightarrow> trim_rev_bytes (b # bs) = b # bs"
  by (induction "b # bs" rule: trim_rev_bytes.induct) (auto simp: ws2_def ws3_def)

text \<open>A string whose first and last bytes are plain ASCII is its own trimming.\<close>

definition plain_char :: "char \<Rightarrow> bool" where
  "plain_char ch = (\<not> ws1 (byte_of_char ch) \<and> byte_of_char ch < 0x80)"

lemma trim_plain:
  assumes "s = [] \<or> plain_char (hd s) \<and> plain_char (last s)"
  shows "trim s = s"
proof (cases "s = []")
  case False
  then obtain f u t l where s: "s = f # u" "s = t @ [l]"
    by (metis append_butlast_last_id list.exhaust)
  have "trim_start_bytes (as_bytes s) = as_bytes s"
    using assms unfolding s(1) by (simp add: as_bytes_def trim_start_plain plain_char_def)
  moreover have "trim_rev_bytes (rev (as_bytes s)) = rev (as_bytes s)"
    using assms unfolding s(2) by (simp add: as_bytes_def trim_rev_plain plain_char_def)
  ultimately show ?thesis by (simp add: trim_def)
qed (simp add: trim_def as_bytes_def)

lemma unat_byte_of_char: "unat (byte_of_char ch) = of_char ch"
proof -
  have "of_char ch mod 256 = (of_char ch :: nat)" by (metis of_char_of char_of_char)
  then show ?thesis
    by (simp add: byte_of_char_def unsigned_of_nat take_bit_eq_mod del: of_char_mod_256)
qed

lemmas plain_literal = plain_char_def ws1_def byte_of_char_def

end
