(* ===== verification/Basics.thy ===== *)
theory Basics
  imports Prelude
begin

text \<open>
  What the server's components share: the typed verification errors (\<^verbatim>\<open>server/src/verifier.rs\<close>), the
  fail-closed clock (\<^verbatim>\<open>clock.rs\<close>), the runtime modes (\<^verbatim>\<open>runtime_mode.rs\<close>), the semantic constants
  (\<^verbatim>\<open>ontology.rs\<close>), authenticator kinds (\<^verbatim>\<open>receipt.rs\<close>), JSON values as serde_json presents them, and the
  cryptographic primitives as a record of functions.
\<close>

section \<open>Cryptographic primitives\<close>

text \<open>SHA-256 and Ed25519 are third-party code: the model takes them as the fields of a record. Secret
  keys, verifying keys and signatures are byte strings.\<close>

record crypto =
  c_sha256 :: "bytes \<Rightarrow> bytes"
  c_public :: "bytes \<Rightarrow> bytes"
  c_sign :: "bytes \<Rightarrow> bytes \<Rightarrow> bytes"
  c_verify :: "bytes \<Rightarrow> bytes \<Rightarrow> bytes \<Rightarrow> bool"

text \<open>The documented behaviour of Ed25519 that honest signing relies on: signatures are 64 bytes and
  verify under the public key of the secret key that made them.\<close>

definition signing_correct :: "crypto \<Rightarrow> bool" where
  "signing_correct c = (\<forall>sk m. length (c_sign c sk m) = 64 \<and> c_verify c (c_public c sk) m (c_sign c sk m))"

text \<open>\<^verbatim>\<open>Signature::from_slice\<close> accepts exactly 64 bytes.\<close>

definition signature_from_slice :: "bytes \<Rightarrow> bytes option" where
  "signature_from_slice s = (if length s = 64 then Some s else None)"

section \<open>Verification errors\<close>

text \<open>The variants of \<^verbatim>\<open>VerificationError\<close>, by family: those of the key registries, those of the
  authority roots, those of the evidence policy, and all others.\<close>

datatype KeyError =
    UnknownVerifierKey | RevokedVerifierKey | ExpiredVerifierKey | NotYetValidVerifierKey
  | UntrustedVerifierKey | BadCallerProof | UnknownCallerKey | RevokedCallerKey
  | ExpiredCallerKey | NotYetValidCallerKey | MissingCallerRegistry

datatype AuthorityError =
    WrongTrustRoot | WrongRegistryRoot | WrongRoot | WrongEpoch | Stale | Revoked | NotFinal
  | Equivocated | MalformedDreggAuthority | UnsupportedSuite | WrongBinding | MissingStatus
  | MissingRevocationRoot | WrongRevocationRoot | UnsupportedRevocationVerifier
  | UnsupportedBlsThresholdFinality | UnsupportedRotatedReplayVerifier
  | MissingLiveDreggVerifier | MissingLiveDreggRevocationVerifier
  | MissingLiveDreggBlsThresholdVerifier | MissingLiveDreggRotatedReplayVerifier

datatype EvidenceError =
    EvidenceTierTooWeak | UnsupportedEvidenceKind | UnsupportedEvidenceTier
  | UnsupportedAuthorityMode | AuthorityModeDowngrade | ReservedAuthorityMode
  | StaleDreggRevocationRoot | InvalidDreggRevocationProof | InvalidDreggFinalityQc
  | UnsupportedDreggFinalityCommittee | InvalidDreggRotatedProof | InvalidAdmission
  | RevokedIssuer | RevokedCredential | StaleRegistryStatus

datatype VerificationError =
    MalformedPacket | ExpiredClaim | ClaimTtlExceedsDescriptorMax | InvalidSession
  | MissingPrototypeProofEnvelope | BadPrototypeProofEnvelope | MissingTunnelKey | BadMac
  | UnknownOperation | HandlerUnavailable | PrototypeOperationNotProductionAuthorized
  | WrongAudience | WrongSubject | WrongOrigin | WrongOperation | WrongResource
  | ResourceLockViolation | AuthorityAmplification | InsufficientEvidence
  | InvalidPresentation | InvalidSignature | NotYetValidClaim | UnsupportedSignatureSuite
  | UnknownIssuer | WrongIssuerKey | PrivacyPolicyViolation | OverDisclosedPresentation
  | ForbiddenFieldPresent | InternalError
  | KeyErr KeyError | AuthorityErr AuthorityError | EvidenceErr EvidenceError

definition key_error_code :: "KeyError \<Rightarrow> string" where
  "key_error_code e = (case e of
       UnknownVerifierKey \<Rightarrow> ''unknown_verifier_key''
     | RevokedVerifierKey \<Rightarrow> ''revoked_verifier_key''
     | ExpiredVerifierKey \<Rightarrow> ''expired_verifier_key''
     | NotYetValidVerifierKey \<Rightarrow> ''not_yet_valid_verifier_key''
     | UntrustedVerifierKey \<Rightarrow> ''untrusted_verifier_key''
     | BadCallerProof \<Rightarrow> ''bad_caller_proof''
     | UnknownCallerKey \<Rightarrow> ''unknown_caller_key''
     | RevokedCallerKey \<Rightarrow> ''revoked_caller_key''
     | ExpiredCallerKey \<Rightarrow> ''expired_caller_key''
     | NotYetValidCallerKey \<Rightarrow> ''not_yet_valid_caller_key''
     | MissingCallerRegistry \<Rightarrow> ''missing_caller_registry'')"

definition authority_error_code :: "AuthorityError \<Rightarrow> string" where
  "authority_error_code e = (case e of
       WrongTrustRoot \<Rightarrow> ''wrong_trust_root''
     | WrongRegistryRoot \<Rightarrow> ''wrong_registry_root''
     | WrongRoot \<Rightarrow> ''wrong_root''
     | WrongEpoch \<Rightarrow> ''wrong_epoch''
     | Stale \<Rightarrow> ''stale''
     | Revoked \<Rightarrow> ''revoked''
     | NotFinal \<Rightarrow> ''not_final''
     | Equivocated \<Rightarrow> ''equivocated''
     | MalformedDreggAuthority \<Rightarrow> ''malformed''
     | UnsupportedSuite \<Rightarrow> ''unsupported_suite''
     | WrongBinding \<Rightarrow> ''wrong_binding''
     | MissingStatus \<Rightarrow> ''missing_status''
     | MissingRevocationRoot \<Rightarrow> ''missing_revocation_root''
     | WrongRevocationRoot \<Rightarrow> ''wrong_revocation_root''
     | UnsupportedRevocationVerifier \<Rightarrow> ''unsupported_revocation_verifier''
     | UnsupportedBlsThresholdFinality \<Rightarrow> ''unsupported_bls_threshold_finality''
     | UnsupportedRotatedReplayVerifier \<Rightarrow> ''unsupported_rotated_replay_verifier''
     | MissingLiveDreggVerifier \<Rightarrow> ''missing_live_dregg_verifier''
     | MissingLiveDreggRevocationVerifier \<Rightarrow> ''missing_live_dregg_revocation_verifier''
     | MissingLiveDreggBlsThresholdVerifier \<Rightarrow> ''missing_live_dregg_bls_threshold_verifier''
     | MissingLiveDreggRotatedReplayVerifier \<Rightarrow> ''missing_live_dregg_rotated_replay_verifier'')"

definition evidence_error_code :: "EvidenceError \<Rightarrow> string" where
  "evidence_error_code e = (case e of
       EvidenceTierTooWeak \<Rightarrow> ''evidence_tier_too_weak''
     | UnsupportedEvidenceKind \<Rightarrow> ''unsupported_evidence_kind''
     | UnsupportedEvidenceTier \<Rightarrow> ''unsupported_evidence_tier''
     | UnsupportedAuthorityMode \<Rightarrow> ''unsupported_authority_mode''
     | AuthorityModeDowngrade \<Rightarrow> ''authority_mode_downgrade''
     | ReservedAuthorityMode \<Rightarrow> ''reserved_authority_mode''
     | StaleDreggRevocationRoot \<Rightarrow> ''stale_dregg_revocation_root''
     | InvalidDreggRevocationProof \<Rightarrow> ''invalid_dregg_revocation_proof''
     | InvalidDreggFinalityQc \<Rightarrow> ''invalid_dregg_finality_qc''
     | UnsupportedDreggFinalityCommittee \<Rightarrow> ''unsupported_dregg_finality_committee''
     | InvalidDreggRotatedProof \<Rightarrow> ''invalid_dregg_rotated_proof''
     | InvalidAdmission \<Rightarrow> ''invalid_admission''
     | RevokedIssuer \<Rightarrow> ''revoked_issuer''
     | RevokedCredential \<Rightarrow> ''revoked_credential''
     | StaleRegistryStatus \<Rightarrow> ''stale_registry_status'')"

definition reason_code :: "VerificationError \<Rightarrow> string" where
  "reason_code e = (case e of
       MalformedPacket \<Rightarrow> ''malformed_packet''
     | ExpiredClaim \<Rightarrow> ''expired_claim''
     | ClaimTtlExceedsDescriptorMax \<Rightarrow> ''claim_ttl_exceeds_descriptor_max''
     | InvalidSession \<Rightarrow> ''invalid_session''
     | MissingPrototypeProofEnvelope \<Rightarrow> ''missing_prototype_proof_envelope''
     | BadPrototypeProofEnvelope \<Rightarrow> ''bad_prototype_proof_envelope''
     | MissingTunnelKey \<Rightarrow> ''missing_tunnel_key''
     | BadMac \<Rightarrow> ''bad_mac''
     | UnknownOperation \<Rightarrow> ''unknown_operation''
     | HandlerUnavailable \<Rightarrow> ''handler_unavailable''
     | PrototypeOperationNotProductionAuthorized \<Rightarrow> ''prototype_operation_not_production_authorized''
     | WrongAudience \<Rightarrow> ''wrong_audience''
     | WrongSubject \<Rightarrow> ''wrong_subject''
     | WrongOrigin \<Rightarrow> ''wrong_origin''
     | WrongOperation \<Rightarrow> ''wrong_operation''
     | WrongResource \<Rightarrow> ''wrong_resource''
     | ResourceLockViolation \<Rightarrow> ''resource_lock_violation''
     | AuthorityAmplification \<Rightarrow> ''authority_amplification''
     | InsufficientEvidence \<Rightarrow> ''insufficient_evidence''
     | InvalidPresentation \<Rightarrow> ''invalid_presentation''
     | InvalidSignature \<Rightarrow> ''invalid_signature''
     | NotYetValidClaim \<Rightarrow> ''not_yet_valid_claim''
     | UnsupportedSignatureSuite \<Rightarrow> ''unsupported_signature_suite''
     | UnknownIssuer \<Rightarrow> ''unknown_issuer''
     | WrongIssuerKey \<Rightarrow> ''wrong_issuer_key''
     | PrivacyPolicyViolation \<Rightarrow> ''privacy_policy_violation''
     | OverDisclosedPresentation \<Rightarrow> ''over_disclosed_presentation''
     | ForbiddenFieldPresent \<Rightarrow> ''forbidden_field_present''
     | InternalError \<Rightarrow> ''internal_error''
     | KeyErr k \<Rightarrow> key_error_code k
     | AuthorityErr a \<Rightarrow> authority_error_code a
     | EvidenceErr v \<Rightarrow> evidence_error_code v)"

section \<open>Clock and runtime mode\<close>

definition CLOCK_READ_FAILURE_SENTINEL :: u64 where
  "CLOCK_READ_FAILURE_SENTINEL = 18446744073709551615"

text \<open>The system clock as a parameter: \<open>None\<close> is a clock before the epoch.\<close>

definition failclosed_unix_seconds :: "u64 option \<Rightarrow> u64" where
  "failclosed_unix_seconds clock = (case clock of None \<Rightarrow> CLOCK_READ_FAILURE_SENTINEL | Some t \<Rightarrow> t)"

definition is_clock_read_failure :: "u64 \<Rightarrow> bool" where
  "is_clock_read_failure now = (now = CLOCK_READ_FAILURE_SENTINEL)"

datatype RuntimeMode = LocalDevPlaintext | LocalDevTunnel | ProductionVerified

definition RuntimeMode_parse :: "string \<Rightarrow> RuntimeMode option" where
  "RuntimeMode_parse v =
     (if v = ''local_dev_plaintext'' then Some LocalDevPlaintext
      else if v = ''local_dev_tunnel'' then Some LocalDevTunnel
      else if v = ''production_verified'' then Some ProductionVerified
      else None)"

text \<open>The environment as a function from variable names to values.\<close>

definition RuntimeMode_from_env :: "(string \<Rightarrow> string option) \<Rightarrow> RuntimeMode" where
  "RuntimeMode_from_env env =
     (case (case env ''SECS_RUNTIME_MODE'' of Some v \<Rightarrow> Some v | None \<Rightarrow> env ''SECZ_RUNTIME_MODE'') of
        None \<Rightarrow> ProductionVerified
      | Some v \<Rightarrow> (case RuntimeMode_parse v of None \<Rightarrow> ProductionVerified | Some m \<Rightarrow> m))"

definition RuntimeMode_label :: "RuntimeMode \<Rightarrow> string" where
  "RuntimeMode_label m = (case m of
       LocalDevPlaintext \<Rightarrow> ''local_dev_plaintext''
     | LocalDevTunnel \<Rightarrow> ''local_dev_tunnel''
     | ProductionVerified \<Rightarrow> ''production_verified'')"

definition allows_plaintext :: "RuntimeMode \<Rightarrow> bool" where
  "allows_plaintext m = (m = LocalDevPlaintext)"

section \<open>Shared vocabulary\<close>

definition PROTOTYPE_LOCAL_SUBJECT :: string where
  "PROTOTYPE_LOCAL_SUBJECT = ''prototype.local-dev.subject''"

definition UNVERIFIED_PROTOTYPE_OPERATION :: string where
  "UNVERIFIED_PROTOTYPE_OPERATION = ''unverified.prototype''"

definition REPLAY_DETECTED_REASON :: string where
  "REPLAY_DETECTED_REASON = ''replay_detected''"

definition REPLAY_RESERVATION_FAILED_REASON :: string where
  "REPLAY_RESERVATION_FAILED_REASON = ''replay_reservation_failed''"

datatype AuthenticatorKind =
    LocalDevUntrusted | LocalMac | Ed25519Node | Ed25519Verifier | Ed25519NodeAndVerifier | ExternalAnchor

datatype VerificationKeyStatus = Active | Revoked | Expired | Unknown | NotYetValid

section \<open>JSON values\<close>

text \<open>A parsed JSON value. \<open>JNumber\<close> carries the value of numbers that fit a \<^verbatim>\<open>u64\<close>; other numbers
  carry \<open>None\<close>. Objects list their members in the order serde_json iterates them.\<close>

datatype json = JNull | JBool bool | JNumber "u64 option" | JString string
  | JArray "json list" | JObject "(string \<times> json) list"

definition json_get :: "string \<Rightarrow> json \<Rightarrow> json option" where
  "json_get k v = (case v of JObject ms \<Rightarrow> map_of ms k | _ \<Rightarrow> None)"

definition json_as_str :: "json \<Rightarrow> string option" where
  "json_as_str v = (case v of JString s \<Rightarrow> Some s | _ \<Rightarrow> None)"

definition json_as_u64 :: "json \<Rightarrow> u64 option" where
  "json_as_u64 v = (case v of JNumber n \<Rightarrow> n | _ \<Rightarrow> None)"

definition json_as_bool :: "json \<Rightarrow> bool option" where
  "json_as_bool v = (case v of JBool b \<Rightarrow> Some b | _ \<Rightarrow> None)"

definition json_as_array :: "json \<Rightarrow> json list option" where
  "json_as_array v = (case v of JArray xs \<Rightarrow> Some xs | _ \<Rightarrow> None)"

section \<open>Named, length-prefixed fields\<close>

text \<open>The line format \<^verbatim>\<open>name:length:value\<close> of the caller's canonical bytes (\<open>append_field\<close> in
  \<^verbatim>\<open>core/src/caller_proof.rs\<close>) and of the descriptor fingerprint (the closure \<open>field\<close> in
  \<^verbatim>\<open>server/src/manifest.rs\<close>).\<close>

definition named_field :: "string \<Rightarrow> bytes \<Rightarrow> bytes" where
  "named_field name value =
     as_bytes name @ [58] @ as_bytes (dec_string (length value)) @ [58] @ value @ [10]"

lemma byte_58: "byte_of_char ch = 58 \<longleftrightarrow> ch = CHR '':''"
proof -
  have "byte_of_char (CHR '':'') = 58" by (simp add: byte_of_char_def)
  then show ?thesis by (metis char_of_byte_of_char)
qed

lemma colon_free_bytes: "CHR '':'' \<notin> set s \<Longrightarrow> 58 \<notin> set (as_bytes s)"
  using byte_58 by (force simp: as_bytes_def)

lemma append_delim_eq: "d \<notin> set a \<Longrightarrow> d \<notin> set b \<Longrightarrow> a @ d # r = b @ d # s \<Longrightarrow> a = b \<and> r = s"
  by (induction a arbitrary: b) (auto simp: Cons_eq_append_conv append_eq_Cons_conv split: list.splits)

text \<open>Fields are self-delimiting: a concatenation of fields determines the first one and the rest.\<close>

lemma named_field_append_eq:
  assumes "CHR '':'' \<notin> set n" and "CHR '':'' \<notin> set n'"
    and eq: "named_field n v @ r = named_field n' v' @ r'"
  shows "n = n' \<and> v = v' \<and> r = r'"
proof -
  let ?tail = "\<lambda>v r. as_bytes (dec_string (length v)) @ 58 # (v @ 10 # r)"
  have "as_bytes n @ 58 # ?tail v r = as_bytes n' @ 58 # ?tail v' r'"
    using eq by (simp add: named_field_def)
  from append_delim_eq [OF colon_free_bytes [OF assms(1)] colon_free_bytes [OF assms(2)] this]
  have n: "n = n'" and tail: "?tail v r = ?tail v' r'" by simp_all
  from append_delim_eq [OF _ _ tail] colon_free_bytes [OF colon_not_in_dec_string]
  have "length v = length v'" and "v @ 10 # r = v' @ 10 # r'" by simp_all
  then show ?thesis using n by simp
qed

lemma named_field_neq_Nil [simp]: "named_field n v \<noteq> []"
  by (simp add: named_field_def)

lemma named_fields_inj:
  "list_all (\<lambda>(n, v). CHR '':'' \<notin> set n) fs \<Longrightarrow> list_all (\<lambda>(n, v). CHR '':'' \<notin> set n) gs \<Longrightarrow>
     concat (map (\<lambda>(n, v). named_field n v) fs) = concat (map (\<lambda>(n, v). named_field n v) gs) \<Longrightarrow> fs = gs"
proof (induction fs arbitrary: gs)
  case Nil
  then show ?case by (cases gs) auto
next
  case (Cons f fs)
  then obtain g gs' where gs: "gs = g # gs'" by (cases gs) (auto split: prod.splits)
  obtain n v n' v' where fg: "f = (n, v)" "g = (n', v')" by (cases f; cases g)
  from Cons.prems have "named_field n v @ concat (map (\<lambda>(n, v). named_field n v) fs) =
      named_field n' v' @ concat (map (\<lambda>(n, v). named_field n v) gs')"
    by (simp add: gs fg)
  from named_field_append_eq [OF _ _ this] Cons.prems Cons.IH [of gs'] show ?case
    by (simp add: gs fg)
qed

section \<open>Facts\<close>

lemma RuntimeMode_label_parse: "RuntimeMode_parse (RuntimeMode_label m) = Some m"
  by (cases m) (simp_all add: RuntimeMode_parse_def RuntimeMode_label_def)

end
