(* ===== verification/Privacy.thy ===== *)
theory Privacy
  imports Basics
begin

text \<open>
  Deny-by-default disclosure policies and the scanner that refuses forbidden fields on a surface
  (\<^verbatim>\<open>server/src/privacy.rs\<close>).
\<close>

section \<open>Data\<close>

datatype PrivacySurface =
    VerifyReceipt | RejectReceipt | ExecuteReceipt | ReadinessStatus | DemoProjection | Log
  | OperatorCli | PublicAudit | HandlerContext

definition PrivacySurface_as_str :: "PrivacySurface \<Rightarrow> string" where
  "PrivacySurface_as_str s = (case s of
       VerifyReceipt \<Rightarrow> ''verify_receipt''
     | RejectReceipt \<Rightarrow> ''reject_receipt''
     | ExecuteReceipt \<Rightarrow> ''execute_receipt''
     | ReadinessStatus \<Rightarrow> ''readiness_status''
     | DemoProjection \<Rightarrow> ''demo_projection''
     | Log \<Rightarrow> ''log''
     | OperatorCli \<Rightarrow> ''operator_cli''
     | PublicAudit \<Rightarrow> ''public_audit''
     | HandlerContext \<Rightarrow> ''handler_context'')"

datatype ForbiddenFieldClass =
    WalletIdentity | HolderIdentity | SubjectIdentity | CredentialIdentity | RawCredentialAttributes
  | RawProofBytes | WitnessPrivateInputs | TraceDebugMaterial | TokenSecret | SourceAuthToken
  | IssuerPrivateMaterial | StableNullifier | NetworkMetadata

definition ForbiddenFieldClass_as_str :: "ForbiddenFieldClass \<Rightarrow> string" where
  "ForbiddenFieldClass_as_str f = (case f of
       WalletIdentity \<Rightarrow> ''wallet_identity''
     | HolderIdentity \<Rightarrow> ''holder_identity''
     | SubjectIdentity \<Rightarrow> ''subject_identity''
     | CredentialIdentity \<Rightarrow> ''credential_identity''
     | RawCredentialAttributes \<Rightarrow> ''raw_credential_attributes''
     | RawProofBytes \<Rightarrow> ''raw_proof_bytes''
     | WitnessPrivateInputs \<Rightarrow> ''witness_private_inputs''
     | TraceDebugMaterial \<Rightarrow> ''trace_debug_material''
     | TokenSecret \<Rightarrow> ''token_secret''
     | SourceAuthToken \<Rightarrow> ''source_auth_token''
     | IssuerPrivateMaterial \<Rightarrow> ''issuer_private_material''
     | StableNullifier \<Rightarrow> ''stable_nullifier''
     | NetworkMetadata \<Rightarrow> ''network_metadata'')"

datatype DisclosureRepresentation = RedactedDigest | RedactedPlaceholder | DerivedStatus

definition DisclosureRepresentation_as_str :: "DisclosureRepresentation \<Rightarrow> string" where
  "DisclosureRepresentation_as_str r = (case r of
       RedactedDigest \<Rightarrow> ''redacted_digest''
     | RedactedPlaceholder \<Rightarrow> ''redacted_placeholder''
     | DerivedStatus \<Rightarrow> ''derived_status'')"

record DisclosurePermission =
  dp_class :: ForbiddenFieldClass
  dp_surface :: PrivacySurface
  dp_representation :: DisclosureRepresentation

record DisclosurePolicy =
  dpol_policy_id :: string
  dpol_policy_version :: u16
  dpol_permissions :: "DisclosurePermission list"

definition deny_by_default :: "string \<Rightarrow> u16 \<Rightarrow> DisclosurePolicy" where
  "deny_by_default policy_id policy_version =
     \<lparr>dpol_policy_id = policy_id, dpol_policy_version = policy_version, dpol_permissions = []\<rparr>"

definition with_permission :: "DisclosurePolicy \<Rightarrow> DisclosurePermission \<Rightarrow> DisclosurePolicy" where
  "with_permission policy p =
     (if p \<in> set (dpol_permissions policy) then policy
      else policy\<lparr>dpol_permissions := dpol_permissions policy @ [p]\<rparr>)"

definition default_classes :: "ForbiddenFieldClass list" where
  "default_classes =
     [WalletIdentity, HolderIdentity, SubjectIdentity, CredentialIdentity, RawCredentialAttributes,
      RawProofBytes, WitnessPrivateInputs, TraceDebugMaterial, TokenSecret, SourceAuthToken,
      IssuerPrivateMaterial, StableNullifier, NetworkMetadata]"

definition default_surfaces :: "PrivacySurface list" where
  "default_surfaces =
     [VerifyReceipt, RejectReceipt, ExecuteReceipt, ReadinessStatus, DemoProjection, Log, OperatorCli,
      PublicAudit]"

definition default_representations :: "DisclosureRepresentation list" where
  "default_representations = [RedactedDigest, RedactedPlaceholder, DerivedStatus]"

text \<open>The three nested loops add one permission per class, surface and representation.\<close>

definition default_i02 :: DisclosurePolicy where
  "default_i02 =
     foldl (\<lambda>policy f. foldl (\<lambda>policy s. foldl (\<lambda>policy r.
         with_permission policy \<lparr>dp_class = f, dp_surface = s, dp_representation = r\<rparr>)
       policy default_representations) policy default_surfaces)
     (deny_by_default ''secs-i02-deny-by-default'' 1) default_classes"

definition permits ::
  "DisclosurePolicy \<Rightarrow> ForbiddenFieldClass \<Rightarrow> PrivacySurface \<Rightarrow> DisclosureRepresentation \<Rightarrow> bool" where
  "permits policy f s r =
     list_ex (\<lambda>p. dp_class p = f \<and> dp_surface p = s \<and> dp_representation p = r) (dpol_permissions policy)"

record PrivacyViolation =
  pv_surface :: PrivacySurface
  pv_class :: ForbiddenFieldClass
  pv_field :: string

section \<open>Strings\<close>

text \<open>\<^verbatim>\<open>String::from_utf8_lossy\<close>: every maximal invalid sequence becomes U+FFFD.\<close>

definition replacement :: bytes where
  "replacement = [0xEF, 0xBF, 0xBD]"

definition second_ok :: "u8 \<Rightarrow> u8 \<Rightarrow> bool" where
  "second_ok b c =
     (if b = 0xE0 then 0xA0 \<le> c \<and> c \<le> 0xBF
      else if b = 0xED then 0x80 \<le> c \<and> c \<le> 0x9F
      else if b = 0xF0 then 0x90 \<le> c \<and> c \<le> 0xBF
      else if b = 0xF4 then 0x80 \<le> c \<and> c \<le> 0x8F
      else utf8_cont c)"

function lossy_bytes :: "bytes \<Rightarrow> bytes" where
  "lossy_bytes [] = []"
| "lossy_bytes (b # bs) =
     (if b < 0x80 then b # lossy_bytes bs
      else if 0xC2 \<le> b \<and> b \<le> 0xDF then
        (case bs of c # r \<Rightarrow> if utf8_cont c then b # c # lossy_bytes r else replacement @ lossy_bytes bs
         | [] \<Rightarrow> replacement)
      else if 0xE0 \<le> b \<and> b \<le> 0xEF then
        (case bs of
           c # d # r \<Rightarrow>
             if \<not> second_ok b c then replacement @ lossy_bytes bs
             else if utf8_cont d then b # c # d # lossy_bytes r else replacement @ lossy_bytes (d # r)
         | [c] \<Rightarrow> if second_ok b c then replacement else replacement @ lossy_bytes bs
         | [] \<Rightarrow> replacement)
      else if 0xF0 \<le> b \<and> b \<le> 0xF4 then
        (case bs of
           c # d # e # r \<Rightarrow>
             if \<not> second_ok b c then replacement @ lossy_bytes bs
             else if \<not> utf8_cont d then replacement @ lossy_bytes (d # e # r)
             else if utf8_cont e then b # c # d # e # lossy_bytes r
             else replacement @ lossy_bytes (e # r)
         | [c, d] \<Rightarrow>
             if \<not> second_ok b c then replacement @ lossy_bytes bs
             else if utf8_cont d then replacement else replacement @ lossy_bytes [d]
         | [c] \<Rightarrow> if second_ok b c then replacement else replacement @ lossy_bytes bs
         | [] \<Rightarrow> replacement)
      else replacement @ lossy_bytes bs)"
  by pat_completeness auto
termination
  by (relation "measure length") auto

definition from_utf8_lossy :: "bytes \<Rightarrow> string" where
  "from_utf8_lossy bs = map char_of_byte (lossy_bytes bs)"

section \<open>Scanning\<close>

definition field_classes :: "(ForbiddenFieldClass \<times> string list) list" where
  "field_classes = [
     (WalletIdentity,
        [''wallet_id'', ''walletId'', ''wallet'', ''wallet_address'', ''walletAddress'']),
     (HolderIdentity,
        [''holder_id'', ''holderId'', ''holder'', ''holder_did'', ''holderDid'']),
     (SubjectIdentity,
        [''subject_id'', ''subjectId'', ''subject'', ''subject_handle'', ''subjectHandle'',
         ''stable_subject_handle'']),
     (CredentialIdentity,
        [''credential_id'', ''credentialId'', ''cred_id'', ''credential_uuid'']),
     (RawCredentialAttributes,
        [''credential'', ''credential_payload'', ''attributes'', ''claims'',
         ''raw_attributes'', ''rawCredentialAttributes'']),
     (RawProofBytes,
        [''proof'', ''proof_bytes'', ''raw_proof'', ''signature'', ''sig_bytes'',
         ''presentation_proof'']),
     (WitnessPrivateInputs,
        [''witness'', ''private_witness'', ''secret'', ''preimage'', ''nullifier_preimage'']),
     (TraceDebugMaterial,
        [''trace'', ''debug_trace'', ''presentation_trace'', ''span_payload'',
         ''backtrace_with_payload'']),
     (TokenSecret,
        [''token'', ''bearer'', ''authorization'', ''auth_header'', ''api_key'',
         ''session_token'']),
     (SourceAuthToken,
        [''source_auth_token'', ''sourceAuthToken'', ''authority_source_token'',
         ''upstream_token'']),
     (IssuerPrivateMaterial,
        [''issuer_private_key'', ''issuer_sk'', ''issuer_secret'',
         ''issuer_private_material'', ''signing_secret'']),
     (StableNullifier,
        [''nullifier'', ''stable_nullifier'', ''global_nullifier'', ''link_secret'',
         ''linking_tag'']),
     (NetworkMetadata,
        [''ip'', ''ip_address'', ''remote_addr'', ''peer_addr'', ''x_forwarded_for'',
         ''user_agent'', ''network_metadata''])]"

definition class_of_base :: "string \<Rightarrow> ForbiddenFieldClass option" where
  "class_of_base base = map_option fst (find (\<lambda>(f, names). base \<in> set names) field_classes)"

definition classify_field_name :: "string \<Rightarrow> (ForbiddenFieldClass \<times> DisclosureRepresentation) option" where
  "classify_field_name field =
     (let representation = (if strip_suffix ''_sha256'' field \<noteq> None then RedactedDigest else DerivedStatus);
          base = (case strip_suffix ''_sha256'' field of Some b \<Rightarrow> b | None \<Rightarrow> field)
      in map_option (\<lambda>f. (f, representation)) (class_of_base base))"

definition check_field_name ::
  "PrivacySurface \<Rightarrow> string \<Rightarrow> DisclosurePolicy \<Rightarrow> PrivacyViolation + unit" where
  "check_field_name surface field policy =
     (if field = ''signature'' \<and> surface \<in> {VerifyReceipt, RejectReceipt, ExecuteReceipt, PublicAudit}
      then Inr ()
      else case classify_field_name field of
          Some (f, representation) \<Rightarrow>
            if representation \<noteq> RedactedDigest \<or> \<not> permits policy f surface representation
            then Inl \<lparr>pv_surface = surface, pv_class = f, pv_field = field\<rparr>
            else Inr ()
        | None \<Rightarrow> Inr ())"

definition is_redacted_marker :: "string \<Rightarrow> bool" where
  "is_redacted_marker v = (let value = to_ascii_lowercase v in
     str_contains ''[redacted]'' value \<or> str_contains ''redacted_'' value
     \<or> starts_with ''sha256:'' value \<or> starts_with ''digest:'' value)"

definition scan_text :: "PrivacySurface \<Rightarrow> string \<Rightarrow> DisclosurePolicy \<Rightarrow> PrivacyViolation + unit" where
  "scan_text surface txt policy =
     (if str_contains ''I02_SENTINEL_'' txt
      then Inl \<lparr>pv_surface = surface, pv_class = TraceDebugMaterial, pv_field = ''sentinel''\<rparr>
      else case split_once CHR '':'' txt of
          Some (pre, rest) \<Rightarrow>
            if classify_field_name pre \<noteq> None \<and> is_redacted_marker rest then Inr ()
            else check_field_name surface pre policy
        | None \<Rightarrow> Inr ())"

fun scan_value :: "PrivacySurface \<Rightarrow> json \<Rightarrow> DisclosurePolicy \<Rightarrow> PrivacyViolation + unit"
and scan_members :: "PrivacySurface \<Rightarrow> (string \<times> json) list \<Rightarrow> DisclosurePolicy \<Rightarrow> PrivacyViolation + unit"
and scan_elements :: "PrivacySurface \<Rightarrow> json list \<Rightarrow> DisclosurePolicy \<Rightarrow> PrivacyViolation + unit" where
  "scan_value surface (JObject object) policy = scan_members surface object policy"
| "scan_value surface (JArray values) policy = scan_elements surface values policy"
| "scan_value surface (JString txt) policy = scan_text surface txt policy"
| "scan_value surface JNull policy = Inr ()"
| "scan_value surface (JBool b) policy = Inr ()"
| "scan_value surface (JNumber n) policy = Inr ()"
| "scan_members surface [] policy = Inr ()"
| "scan_members surface ((key, nested) # ms) policy =
     rbind (check_field_name surface key policy) (\<lambda>_.
     rbind (scan_value surface nested policy) (\<lambda>_.
     scan_members surface ms policy))"
| "scan_elements surface [] policy = Inr ()"
| "scan_elements surface (v # vs) policy =
     rbind (scan_value surface v policy) (\<lambda>_. scan_elements surface vs policy)"

definition scan_json_value :: "PrivacySurface \<Rightarrow> json \<Rightarrow> DisclosurePolicy \<Rightarrow> PrivacyViolation + unit" where
  "scan_json_value surface v policy = scan_value surface v policy"

text \<open>\<^verbatim>\<open>serde_json::from_slice\<close> is the parameter \<^term>\<open>parse_json\<close>.\<close>

definition scan_json_bytes ::
  "(bytes \<Rightarrow> json option) \<Rightarrow> PrivacySurface \<Rightarrow> bytes \<Rightarrow> DisclosurePolicy \<Rightarrow> PrivacyViolation + unit" where
  "scan_json_bytes parse_json surface bs policy =
     (if bs = [] then Inr ()
      else case parse_json bs of
          None \<Rightarrow> scan_text surface (from_utf8_lossy bs) policy
        | Some v \<Rightarrow> scan_json_value surface v policy)"

fun scan_string_fields ::
  "PrivacySurface \<Rightarrow> string list \<Rightarrow> DisclosurePolicy \<Rightarrow> PrivacyViolation + unit" where
  "scan_string_fields surface [] policy = Inr ()"
| "scan_string_fields surface (field # fs) policy =
     rbind (scan_text surface field policy) (\<lambda>_. scan_string_fields surface fs policy)"

section \<open>Reference definitions\<close>

text \<open>The member names and the string values of a document, at every depth.\<close>

fun json_keys :: "json \<Rightarrow> string set" and json_keys_ms :: "(string \<times> json) list \<Rightarrow> string set"
and json_keys_vs :: "json list \<Rightarrow> string set" where
  "json_keys (JObject ms) = json_keys_ms ms"
| "json_keys (JArray vs) = json_keys_vs vs"
| "json_keys (JString s) = {}"
| "json_keys JNull = {}"
| "json_keys (JBool b) = {}"
| "json_keys (JNumber n) = {}"
| "json_keys_ms [] = {}"
| "json_keys_ms ((k, v) # ms) = insert k (json_keys v \<union> json_keys_ms ms)"
| "json_keys_vs [] = {}"
| "json_keys_vs (v # vs) = json_keys v \<union> json_keys_vs vs"

fun json_texts :: "json \<Rightarrow> string set" and json_texts_ms :: "(string \<times> json) list \<Rightarrow> string set"
and json_texts_vs :: "json list \<Rightarrow> string set" where
  "json_texts (JObject ms) = json_texts_ms ms"
| "json_texts (JArray vs) = json_texts_vs vs"
| "json_texts (JString s) = {s}"
| "json_texts JNull = {}"
| "json_texts (JBool b) = {}"
| "json_texts (JNumber n) = {}"
| "json_texts_ms [] = {}"
| "json_texts_ms ((k, v) # ms) = json_texts v \<union> json_texts_ms ms"
| "json_texts_vs [] = {}"
| "json_texts_vs (v # vs) = json_texts v \<union> json_texts_vs vs"

section \<open>Lemmas\<close>

lemma lossy_valid: "valid_utf8 bs \<Longrightarrow> lossy_bytes bs = bs"
proof (induction bs rule: length_induct)
  case (1 bs)
  show ?case
  proof (cases bs)
    case Nil
    then show ?thesis by simp
  next
    case (Cons b r)
    have shorter: "length ys < Suc (length r) \<Longrightarrow> valid_utf8 ys \<Longrightarrow> lossy_bytes ys = ys" for ys
      using "1.IH" Cons by simp
    have "valid_utf8 (b # r)" using "1.prems" Cons by simp
    then have "lossy_bytes (b # r) = b # r"
      unfolding valid_utf8.simps(2) [of b r] lossy_bytes.simps(2) [of b r]
      by (auto simp: second_ok_def shorter simp del: lossy_bytes.simps valid_utf8.simps
          split: list.split_asm if_split_asm)
    then show ?thesis using Cons by simp
  qed
qed

lemma from_utf8_lossy_as_bytes: "str_ok s \<Longrightarrow> from_utf8_lossy (as_bytes s) = s"
  by (simp add: from_utf8_lossy_def str_ok_def lossy_valid)

lemma dpol_permissions_with_permission [simp]:
  "set (dpol_permissions (with_permission policy p)) = insert p (set (dpol_permissions policy))"
  by (auto simp: with_permission_def)

lemma foldl_permissions:
  "(\<And>policy x. set (dpol_permissions (f policy x)) = g x \<union> set (dpol_permissions policy)) \<Longrightarrow>
   set (dpol_permissions (foldl f policy xs)) = (\<Union>x \<in> set xs. g x) \<union> set (dpol_permissions policy)"
  by (induction xs arbitrary: policy) auto

lemma permissions_default_i02:
  "set (dpol_permissions default_i02) =
     (\<Union>f \<in> set default_classes. \<Union>s \<in> set default_surfaces. \<Union>r \<in> set default_representations.
        {\<lparr>dp_class = f, dp_surface = s, dp_representation = r\<rparr>})"
proof -
  have reps: "set (dpol_permissions (foldl (\<lambda>policy r.
        with_permission policy \<lparr>dp_class = f, dp_surface = s, dp_representation = r\<rparr>) policy rs)) =
      (\<Union>r \<in> set rs. {\<lparr>dp_class = f, dp_surface = s, dp_representation = r\<rparr>})
        \<union> set (dpol_permissions policy)" for f s rs policy
    by (rule foldl_permissions) simp
  show ?thesis
    unfolding default_i02_def
    by (subst foldl_permissions, rule foldl_permissions, rule reps) (simp add: deny_by_default_def)
qed

lemma permits_default_i02: "permits default_i02 f s r \<longleftrightarrow> s \<noteq> HandlerContext"
proof -
  have "f \<in> set default_classes" by (cases f) (simp_all add: default_classes_def)
  moreover have "r \<in> set default_representations" by (cases r) (simp_all add: default_representations_def)
  moreover have "s \<in> set default_surfaces \<longleftrightarrow> s \<noteq> HandlerContext"
    by (cases s) (simp_all add: default_surfaces_def)
  ultimately show ?thesis
    by (simp add: permits_def list_ex_iff permissions_default_i02)
qed

lemma scan_all:
  "scan_value surface v policy = Inr () \<longleftrightarrow>
     (\<forall>k \<in> json_keys v. check_field_name surface k policy = Inr ()) \<and>
     (\<forall>t \<in> json_texts v. scan_text surface t policy = Inr ())"
  "scan_members surface ms policy = Inr () \<longleftrightarrow>
     (\<forall>k \<in> json_keys_ms ms. check_field_name surface k policy = Inr ()) \<and>
     (\<forall>t \<in> json_texts_ms ms. scan_text surface t policy = Inr ())"
  "scan_elements surface vs policy = Inr () \<longleftrightarrow>
     (\<forall>k \<in> json_keys_vs vs. check_field_name surface k policy = Inr ()) \<and>
     (\<forall>t \<in> json_texts_vs vs. scan_text surface t policy = Inr ())"
  by (induction surface v policy and surface ms policy and surface vs policy
      rule: scan_value_scan_members_scan_elements.induct)
    (auto simp: rbind_Inr_iff)

lemma scan_json_value_iff:
  "scan_json_value surface v policy = Inr () \<longleftrightarrow>
     json_keys v \<subseteq> {k. check_field_name surface k policy = Inr ()} \<and>
     json_texts v \<subseteq> {t. scan_text surface t policy = Inr ()}"
  by (auto simp: scan_json_value_def scan_all)

lemma scan_value_violation:
  "scan_value surface v policy = Inl e \<Longrightarrow> pv_surface e = surface"
  "scan_members surface ms policy = Inl e \<Longrightarrow> pv_surface e = surface"
  "scan_elements surface vs policy = Inl e \<Longrightarrow> pv_surface e = surface"
  by (induction surface v policy and surface ms policy and surface vs policy
      rule: scan_value_scan_members_scan_elements.induct)
    (auto simp: rbind_Inl_iff check_field_name_def scan_text_def split: if_splits option.splits)

lemma check_field_name_default:
  "check_field_name surface k default_i02 = Inr () \<longleftrightarrow>
     k = ''signature'' \<and> surface \<in> {VerifyReceipt, RejectReceipt, ExecuteReceipt, PublicAudit} \<or>
     (case strip_suffix ''_sha256'' k of
        None \<Rightarrow> class_of_base k = None
      | Some b \<Rightarrow> class_of_base b = None \<or> surface \<noteq> HandlerContext)"
  by (auto simp: check_field_name_def classify_field_name_def permits_default_i02 Let_def split: option.splits)

lemma check_field_name_handler:
  "check_field_name HandlerContext k default_i02 = Inr () \<longleftrightarrow> classify_field_name k = None"
  by (auto simp: check_field_name_default classify_field_name_def Let_def strip_suffix_def
      split: option.splits)

section \<open>Properties\<close>

text \<open>The recursive scanner accepts a document exactly when every member name at every depth
  passes the field-name check and every string value at every depth passes the text check: no
  nesting of objects and arrays hides a forbidden field.\<close>

theorem scan_reaches_every_depth:
  "scan_json_value surface v policy = Inr () \<longleftrightarrow>
     json_keys v \<subseteq> {k. check_field_name surface k policy = Inr ()} \<and>
     json_texts v \<subseteq> {t. scan_text surface t policy = Inr ()}"
  by (rule scan_json_value_iff)

text \<open>C25. Under the default policy nothing classified reaches a handler, not even as a digest: a
  document passes on the handler surface exactly when no member name at any depth is classified, and
  every string value is free of the sentinel and, when it starts with a classified name and a colon,
  carries a redaction marker after it.\<close>

theorem handler_context_discloses_no_classified_field:
  "scan_json_value HandlerContext v default_i02 = Inr () \<longleftrightarrow>
     json_keys v \<subseteq> {k. classify_field_name k = None} \<and>
     json_texts v \<subseteq> {t. \<not> str_contains ''I02_SENTINEL_'' t \<and>
        (case split_once CHR '':'' t of
           None \<Rightarrow> True
         | Some (pre, rest) \<Rightarrow> classify_field_name pre = None \<or> is_redacted_marker rest)}"
proof -
  have "scan_text HandlerContext t default_i02 = Inr () \<longleftrightarrow>
      \<not> str_contains ''I02_SENTINEL_'' t \<and>
        (case split_once CHR '':'' t of
           None \<Rightarrow> True
         | Some (pre, rest) \<Rightarrow> classify_field_name pre = None \<or> is_redacted_marker rest)" for t
    by (cases "split_once CHR '':'' t")
      (auto simp: scan_text_def check_field_name_handler simp del: not_None_eq)
  then show ?thesis
    by (simp add: scan_json_value_iff check_field_name_handler)
qed

end
