(* ===== verification/Manifest.thy ===== *)
theory Manifest
  imports Privacy
begin

text \<open>
  The receiver-local operation manifest (\<^verbatim>\<open>server/src/manifest.rs\<close>): opcode ranges, operation
  descriptors, their authorisation fingerprint, the manifest as a finite map from opcodes, and the
  authority modes of \<^verbatim>\<open>server/src/dregg_authority.rs\<close> a descriptor may require.
\<close>

section \<open>Authority modes\<close>

datatype AuthorityMode =
    LocalFixture | SignedSource | SoloVerifiedReceipt | FederationCheckpoint | LightClientVerified
  | RecursiveProofCarryingState

definition AuthorityMode_as_str :: "AuthorityMode \<Rightarrow> string" where
  "AuthorityMode_as_str m = (case m of
       LocalFixture \<Rightarrow> ''local_fixture''
     | SignedSource \<Rightarrow> ''signed_source''
     | SoloVerifiedReceipt \<Rightarrow> ''solo_verified_receipt''
     | FederationCheckpoint \<Rightarrow> ''federation_checkpoint''
     | LightClientVerified \<Rightarrow> ''light_client_verified''
     | RecursiveProofCarryingState \<Rightarrow> ''recursive_proof_carrying_state'')"

definition is_reserved :: "AuthorityMode \<Rightarrow> bool" where
  "is_reserved m \<longleftrightarrow> m = LightClientVerified \<or> m = RecursiveProofCarryingState"

definition AuthorityMode_from_str :: "string \<Rightarrow> VerificationError + AuthorityMode" where
  "AuthorityMode_from_str v =
     (if v = ''local_fixture'' then Inr LocalFixture
      else if v = ''signed_source'' then Inr SignedSource
      else if v = ''solo_verified_receipt'' then Inr SoloVerifiedReceipt
      else if v = ''federation_checkpoint'' then Inr FederationCheckpoint
      else if v = ''light_client_verified'' then Inr LightClientVerified
      else if v = ''recursive_proof_carrying_state'' then Inr RecursiveProofCarryingState
      else Inl (EvidenceErr UnsupportedAuthorityMode))"

definition satisfies_required_mode :: "AuthorityMode \<Rightarrow> AuthorityMode \<Rightarrow> VerificationError + unit" where
  "satisfies_required_mode m required =
     (if is_reserved m \<or> is_reserved required then Inl (EvidenceErr ReservedAuthorityMode)
      else if m = required then Inr ()
      else Inl (EvidenceErr AuthorityModeDowngrade))"

text \<open>The labels are \<open>filter_map (strip_prefix ''authority_mode:'')\<close>; exactly one must be present.\<close>

definition from_verified_summary :: "string list \<Rightarrow> VerificationError + AuthorityMode" where
  "from_verified_summary fs =
     (case List.map_filter (strip_prefix ''authority_mode:'') fs of
        [label] \<Rightarrow> AuthorityMode_from_str label
      | _ \<Rightarrow> Inl (EvidenceErr UnsupportedAuthorityMode))"

record AuthorityModePolicyDecision =
  amd_observed :: AuthorityMode
  amd_required :: AuthorityMode
  amd_result :: "VerificationError + unit"

definition AuthorityModePolicyDecision_evaluate :: "AuthorityMode \<Rightarrow> AuthorityMode \<Rightarrow> AuthorityModePolicyDecision" where
  "AuthorityModePolicyDecision_evaluate observed required =
     \<lparr>amd_observed = observed, amd_required = required,
      amd_result = satisfies_required_mode observed required\<rparr>"

definition amd_is_satisfied :: "AuthorityModePolicyDecision \<Rightarrow> bool" where
  "amd_is_satisfied d = is_ok (amd_result d)"

definition amd_reason :: "AuthorityModePolicyDecision \<Rightarrow> string option" where
  "amd_reason d = (case amd_result d of Inl e \<Rightarrow> Some (reason_code e) | Inr _ \<Rightarrow> None)"

definition redacted_summary_fields :: "AuthorityModePolicyDecision \<Rightarrow> string list" where
  "redacted_summary_fields d =
     [''authority_mode:'' @ AuthorityMode_as_str (amd_observed d),
      ''required_authority_mode:'' @ AuthorityMode_as_str (amd_required d),
      ''authority_mode_satisfied:'' @ bool_string (amd_is_satisfied d)]
     @ (case amd_reason d of Some reason \<Rightarrow> [''reason:'' @ reason] | None \<Rightarrow> [])"

section \<open>Descriptors\<close>

definition CORE_STANDARDIZED_START :: u8 where "CORE_STANDARDIZED_START = 0x01"
definition CORE_STANDARDIZED_END :: u8 where "CORE_STANDARDIZED_END = 0x0A"
definition CASTALIA_STANDARD_CANDIDATE_START :: u8 where "CASTALIA_STANDARD_CANDIDATE_START = 0x0B"
definition CASTALIA_STANDARD_CANDIDATE_END :: u8 where "CASTALIA_STANDARD_CANDIDATE_END = 0x3F"
definition OPERATOR_DEFINED_START :: u8 where "OPERATOR_DEFINED_START = 0x40"

datatype OpcodeRange = Reserved | CoreStandardized | CastaliaStandardCandidate | OperatorDefined

definition OpcodeRange_classify :: "u8 \<Rightarrow> OpcodeRange" where
  "OpcodeRange_classify opcode =
     (if CORE_STANDARDIZED_START \<le> opcode \<and> opcode \<le> CORE_STANDARDIZED_END then CoreStandardized
      else if CASTALIA_STANDARD_CANDIDATE_START \<le> opcode \<and> opcode \<le> CASTALIA_STANDARD_CANDIDATE_END
        then CastaliaStandardCandidate
      else if OPERATOR_DEFINED_START \<le> opcode then OperatorDefined
      else Reserved)"

datatype TargetKind = LegacyCoreExample | LocalDevProcess | ReceiverProductionHandler

datatype ReplayScope = SessionOpcodeNonce

record OutputProfile =
  op_schema_id :: string
  op_max_output_bytes :: nat
  op_max_execution_response_bytes :: nat

record OperationDescriptor =
  od_opcode :: u8
  od_name :: string
  od_payload_schema :: "string option"
  od_output_profile :: "OutputProfile option"
  od_target_kind :: TargetKind
  od_required_credentials :: "string list"
  od_required_capabilities :: "string list"
  od_accepted_evidence :: "string list"
  od_required_authority_mode :: "AuthorityMode option"
  od_replay_scope :: ReplayScope
  od_max_ttl_seconds :: u64
  od_handler_id :: string
  od_dev_binding :: bool
  od_range :: OpcodeRange
  od_disclosure_policy :: DisclosurePolicy

definition OperationDescriptor_validate :: "OperationDescriptor \<Rightarrow> VerificationError + unit" where
  "OperationDescriptor_validate d = (case od_output_profile d of
       Some profile \<Rightarrow>
         if op_schema_id profile = [] \<or> op_max_output_bytes profile = 0
           \<or> op_max_execution_response_bytes profile = 0
         then Inl InternalError else Inr ()
     | None \<Rightarrow> Inr ())"

definition target_kind_label :: "TargetKind \<Rightarrow> string" where
  "target_kind_label k = (case k of
       LegacyCoreExample \<Rightarrow> ''legacy_core_example''
     | LocalDevProcess \<Rightarrow> ''local_dev_process''
     | ReceiverProductionHandler \<Rightarrow> ''receiver_production_handler'')"

definition replay_scope_fingerprint_label :: "ReplayScope \<Rightarrow> string" where
  "replay_scope_fingerprint_label s = (case s of SessionOpcodeNonce \<Rightarrow> ''session_opcode_nonce'')"

definition opcode_range_label :: "OpcodeRange \<Rightarrow> string" where
  "opcode_range_label r = (case r of
       Reserved \<Rightarrow> ''reserved''
     | CoreStandardized \<Rightarrow> ''core_standardized''
     | CastaliaStandardCandidate \<Rightarrow> ''castalia_standard_candidate''
     | OperatorDefined \<Rightarrow> ''operator_defined'')"

definition permission_label :: "DisclosurePermission \<Rightarrow> string" where
  "permission_label p = ForbiddenFieldClass_as_str (dp_class p) @ '':'' @
     PrivacySurface_as_str (dp_surface p) @ '':'' @
     DisclosureRepresentation_as_str (dp_representation p)"

text \<open>The fields of the fingerprint in their order, and the bytes that are hashed.\<close>

definition fingerprint_fields :: "OperationDescriptor \<Rightarrow> (string \<times> string) list" where
  "fingerprint_fields d =
     [(''version'', ''secs-descriptor-fingerprint-v1''),
      (''opcode'', hex_byte (od_opcode d)),
      (''operation'', od_name d),
      (''payload_schema'', case od_payload_schema d of Some s \<Rightarrow> s | None \<Rightarrow> ''''),
      (''output_profile_present'', bool_string (od_output_profile d \<noteq> None))]
     @ (case od_output_profile d of
          Some profile \<Rightarrow>
            [(''output_schema_id'', op_schema_id profile),
             (''output_max_bytes'', dec_string (op_max_output_bytes profile)),
             (''output_max_execution_response_bytes'',
                dec_string (op_max_execution_response_bytes profile))]
        | None \<Rightarrow> [])
     @ [(''target_kind'', target_kind_label (od_target_kind d))]
     @ map (Pair ''required_credential'') (od_required_credentials d)
     @ map (Pair ''required_capability'') (od_required_capabilities d)
     @ map (Pair ''accepted_evidence'') (od_accepted_evidence d)
     @ [(''required_authority_mode'',
           case od_required_authority_mode d of Some m \<Rightarrow> AuthorityMode_as_str m | None \<Rightarrow> ''''),
        (''replay_scope'', replay_scope_fingerprint_label (od_replay_scope d)),
        (''max_ttl_seconds'', dec_string (unat (od_max_ttl_seconds d))),
        (''handler_id'', od_handler_id d),
        (''dev_binding'', bool_string (od_dev_binding d)),
        (''range'', opcode_range_label (od_range d)),
        (''disclosure_policy_id'', dpol_policy_id (od_disclosure_policy d)),
        (''disclosure_policy_version'', dec_string (unat (dpol_policy_version (od_disclosure_policy d))))]
     @ map (\<lambda>p. (''disclosure_permission'', permission_label p)) (dpol_permissions (od_disclosure_policy d))"

definition fingerprint_preimage :: "OperationDescriptor \<Rightarrow> bytes" where
  "fingerprint_preimage d = concat (map (\<lambda>(n, v). named_field n (as_bytes v)) (fingerprint_fields d))"

definition authorization_fingerprint :: "crypto \<Rightarrow> OperationDescriptor \<Rightarrow> string" where
  "authorization_fingerprint C d =
     ''descriptor:sha256:'' @ hex_lower (c_sha256 C (fingerprint_preimage d))"

section \<open>Manifests\<close>

record ReceiverManifest =
  rm_descriptors :: "u8 \<rightharpoonup> OperationDescriptor"

definition ReceiverManifest_new :: "OperationDescriptor list \<Rightarrow> ReceiverManifest" where
  "ReceiverManifest_new ds = \<lparr>rm_descriptors = foldl (\<lambda>m d. m(od_opcode d \<mapsto> d)) Map.empty ds\<rparr>"

definition with_descriptor :: "ReceiverManifest \<Rightarrow> OperationDescriptor \<Rightarrow> ReceiverManifest" where
  "with_descriptor m d = m\<lparr>rm_descriptors := (rm_descriptors m)(od_opcode d \<mapsto> d)\<rparr>"

definition manifest_lookup :: "ReceiverManifest \<Rightarrow> u8 \<Rightarrow> VerificationError + OperationDescriptor" where
  "manifest_lookup m opcode = ok_or UnknownOperation (rm_descriptors m opcode)"

definition legacy_descriptor :: "u8 \<Rightarrow> string \<Rightarrow> string \<Rightarrow> OperationDescriptor" where
  "legacy_descriptor opcode name handler_id =
     \<lparr>od_opcode = opcode, od_name = name, od_payload_schema = None, od_output_profile = None,
      od_target_kind = LegacyCoreExample, od_required_credentials = [''legacy.prototype''],
      od_required_capabilities = [''legacy.execute''],
      od_accepted_evidence = [''prototype-proof-envelope''], od_required_authority_mode = None,
      od_replay_scope = SessionOpcodeNonce, od_max_ttl_seconds = 3600, od_handler_id = handler_id,
      od_dev_binding = False, od_range = OpcodeRange_classify opcode,
      od_disclosure_policy = default_i02\<rparr>"

definition dregg_demo_descriptor :: "u8 \<Rightarrow> OperationDescriptor" where
  "dregg_demo_descriptor opcode =
     \<lparr>od_opcode = opcode, od_name = ''candidate.dev.dregg_receipt_demo'',
      od_payload_schema = Some ''application/json'', od_output_profile = None,
      od_target_kind = LocalDevProcess, od_required_credentials = [''prototype.local-dev''],
      od_required_capabilities = [''dev.execute''], od_accepted_evidence = [''dregg_receipt''],
      od_required_authority_mode = None, od_replay_scope = SessionOpcodeNonce,
      od_max_ttl_seconds = 300, od_handler_id = ''dev/bash-echo'', od_dev_binding = True,
      od_range = OpcodeRange_classify opcode, od_disclosure_policy = default_i02\<rparr>"

definition DEMO_FILE_WRITE_HANDLER_ID :: string where
  "DEMO_FILE_WRITE_HANDLER_ID = ''demo/file-write''"

definition demo_file_write_descriptor :: "u8 \<Rightarrow> OperationDescriptor" where
  "demo_file_write_descriptor opcode =
     \<lparr>od_opcode = opcode, od_name = ''demo.file.write'',
      od_payload_schema = Some ''application/json'', od_output_profile = None,
      od_target_kind = LocalDevProcess, od_required_credentials = [''prototype.local-dev''],
      od_required_capabilities = [''demo.file.write''],
      od_accepted_evidence = [''prototype-proof-envelope''], od_required_authority_mode = None,
      od_replay_scope = SessionOpcodeNonce, od_max_ttl_seconds = 300,
      od_handler_id = DEMO_FILE_WRITE_HANDLER_ID, od_dev_binding = True,
      od_range = OpcodeRange_classify opcode, od_disclosure_policy = default_i02\<rparr>"

definition dev_candidate_descriptor :: "u8 \<Rightarrow> string \<Rightarrow> string option \<Rightarrow> string \<Rightarrow> OperationDescriptor" where
  "dev_candidate_descriptor opcode name payload_schema handler_id =
     \<lparr>od_opcode = opcode, od_name = name, od_payload_schema = payload_schema, od_output_profile = None,
      od_target_kind = LocalDevProcess, od_required_credentials = [''prototype.local-dev''],
      od_required_capabilities = [''dev.execute''],
      od_accepted_evidence = [''prototype-proof-envelope''], od_required_authority_mode = None,
      od_replay_scope = SessionOpcodeNonce, od_max_ttl_seconds = 300, od_handler_id = handler_id,
      od_dev_binding = True, od_range = OpcodeRange_classify opcode,
      od_disclosure_policy = default_i02\<rparr>"

definition membership_provision_descriptor :: OperationDescriptor where
  "membership_provision_descriptor =
     \<lparr>od_opcode = 0x44, od_name = ''membership.provision'',
      od_payload_schema = Some ''application/json'', od_output_profile = None,
      od_target_kind = ReceiverProductionHandler,
      od_required_credentials = [''trusted.membership'', ''wallet.presentation'', ''dregg.authority''],
      od_required_capabilities = [''membership.provision'', ''dregg_authority''],
      od_accepted_evidence = [''wallet_presentation'', ''membership_credential'', ''dregg_authority''],
      od_required_authority_mode = None, od_replay_scope = SessionOpcodeNonce,
      od_max_ttl_seconds = 300, od_handler_id = ''membership/provision'', od_dev_binding = False,
      od_range = OpcodeRange_classify 0x44, od_disclosure_policy = default_i02\<rparr>"

definition NODE_REGISTRATION_OPCODE :: u8 where
  "NODE_REGISTRATION_OPCODE = 0x45"
definition NODE_REGISTRATION_OPERATION :: string where
  "NODE_REGISTRATION_OPERATION = ''node.registration.v0''"
definition NODE_REGISTRATION_HANDLER_ID :: string where
  "NODE_REGISTRATION_HANDLER_ID = ''node_registration/register/v0''"
definition NODE_REGISTRATION_PAYLOAD_SCHEMA :: string where
  "NODE_REGISTRATION_PAYLOAD_SCHEMA = ''secs-node-registration-request-v0''"
definition NODE_REGISTRATION_DISCLOSURE_POLICY_ID :: string where
  "NODE_REGISTRATION_DISCLOSURE_POLICY_ID = ''registration_public_directory_v0''"
definition NODE_REGISTRATION_MAX_AGE_SECONDS :: u64 where
  "NODE_REGISTRATION_MAX_AGE_SECONDS = 300"

definition node_registration_descriptor :: OperationDescriptor where
  "node_registration_descriptor =
     \<lparr>od_opcode = NODE_REGISTRATION_OPCODE, od_name = NODE_REGISTRATION_OPERATION,
      od_payload_schema = Some NODE_REGISTRATION_PAYLOAD_SCHEMA, od_output_profile = None,
      od_target_kind = ReceiverProductionHandler,
      od_required_credentials = [''receiver-held.node-registration''],
      od_required_capabilities = [NODE_REGISTRATION_OPERATION],
      od_accepted_evidence = [''dregg_authority''],
      od_required_authority_mode = Some LocalFixture, od_replay_scope = SessionOpcodeNonce,
      od_max_ttl_seconds = NODE_REGISTRATION_MAX_AGE_SECONDS,
      od_handler_id = NODE_REGISTRATION_HANDLER_ID, od_dev_binding = False,
      od_range = OpcodeRange_classify NODE_REGISTRATION_OPCODE,
      od_disclosure_policy = deny_by_default NODE_REGISTRATION_DISCLOSURE_POLICY_ID 1\<rparr>"

definition default_v0 :: ReceiverManifest where
  "default_v0 = ReceiverManifest_new
     [legacy_descriptor 0x01 ''legacy.generate'' ''legacy/generate'',
      legacy_descriptor 0x02 ''legacy.chat'' ''legacy/chat'',
      dev_candidate_descriptor 0x10 ''candidate.dev.bash_echo'' None ''dev/bash-echo'',
      dev_candidate_descriptor 0x20 ''candidate.dev.json_validate'' (Some ''application/json'')
        ''dev/json-validate'',
      dev_candidate_descriptor 0x30 ''candidate.dev.jq_identity'' None ''dev/jq-identity'',
      membership_provision_descriptor,
      node_registration_descriptor]"

section \<open>Lemmas\<close>

lemma AuthorityMode_as_str_inj: "AuthorityMode_as_str a = AuthorityMode_as_str b \<longleftrightarrow> a = b"
  by (cases a; cases b) (simp_all add: AuthorityMode_as_str_def)

lemma AuthorityMode_as_str_neq_Nil [simp]: "AuthorityMode_as_str a \<noteq> []" "[] \<noteq> AuthorityMode_as_str a"
  by (cases a; simp add: AuthorityMode_as_str_def)+

lemma AuthorityMode_round_trip: "AuthorityMode_from_str (AuthorityMode_as_str m) = Inr m"
  by (cases m) (simp_all add: AuthorityMode_from_str_def AuthorityMode_as_str_def)

lemma satisfies_required_mode_iff:
  "satisfies_required_mode m r = Inr u \<longleftrightarrow> m = r \<and> \<not> is_reserved m"
  by (auto simp: satisfies_required_mode_def)

lemma target_kind_label_inj: "target_kind_label a = target_kind_label b \<longleftrightarrow> a = b"
  by (cases a; cases b) (simp_all add: target_kind_label_def)

lemma opcode_range_label_inj: "opcode_range_label a = opcode_range_label b \<longleftrightarrow> a = b"
  by (cases a; cases b) (simp_all add: opcode_range_label_def)

lemma bool_string_inj: "bool_string a = bool_string b \<longleftrightarrow> a = b"
  by (cases a; cases b) (simp_all add: bool_string_def)

lemma class_as_str_plain: "CHR '':'' \<notin> set (ForbiddenFieldClass_as_str f)"
  by (cases f) (simp_all add: ForbiddenFieldClass_as_str_def)

lemma surface_as_str_plain: "CHR '':'' \<notin> set (PrivacySurface_as_str s)"
  by (cases s) (simp_all add: PrivacySurface_as_str_def)

lemma class_as_str_inj: "ForbiddenFieldClass_as_str a = ForbiddenFieldClass_as_str b \<Longrightarrow> a = b"
  by (cases a; cases b) (simp_all add: ForbiddenFieldClass_as_str_def)

lemma surface_as_str_inj: "PrivacySurface_as_str a = PrivacySurface_as_str b \<Longrightarrow> a = b"
  by (cases a; cases b) (simp_all add: PrivacySurface_as_str_def)

lemma representation_as_str_inj:
  "DisclosureRepresentation_as_str a = DisclosureRepresentation_as_str b \<Longrightarrow> a = b"
  by (cases a; cases b) (simp_all add: DisclosureRepresentation_as_str_def)

lemma permission_label_inj:
  assumes eq: "permission_label p = permission_label q"
  shows "p = q"
proof -
  let ?rest = "\<lambda>p. PrivacySurface_as_str (dp_surface p) @ CHR '':'' #
     DisclosureRepresentation_as_str (dp_representation p)"
  have "ForbiddenFieldClass_as_str (dp_class p) @ CHR '':'' # ?rest p =
      ForbiddenFieldClass_as_str (dp_class q) @ CHR '':'' # ?rest q"
    using eq by (simp add: permission_label_def)
  from append_delim_eq [OF class_as_str_plain class_as_str_plain this]
  have f: "dp_class p = dp_class q" and rest: "?rest p = ?rest q"
    using class_as_str_inj by simp_all
  from append_delim_eq [OF surface_as_str_plain surface_as_str_plain rest] f show ?thesis
    by (simp add: surface_as_str_inj representation_as_str_inj)
qed

lemma map_Pair_append_eq:
  "map (Pair a) xs @ r = map (Pair a) ys @ s \<Longrightarrow> r \<noteq> [] \<Longrightarrow> s \<noteq> [] \<Longrightarrow> fst (hd r) \<noteq> a \<Longrightarrow> fst (hd s) \<noteq> a \<Longrightarrow>
     xs = ys \<and> r = s"
proof (induction xs arbitrary: ys)
  case Nil
  then show ?case by (cases ys) auto
next
  case (Cons x xs)
  show ?case
  proof (cases ys)
    case Nil
    then have "hd s = (a, x)" using Cons.prems(1) by (metis append_Nil append_Cons list.map(1,2) list.sel(1))
    then show ?thesis using Cons.prems(5) by simp
  next
    case (Cons y ys')
    then show ?thesis using Cons.prems Cons.IH [of ys'] by simp
  qed
qed

lemma fingerprint_names_plain:
  "list_all (\<lambda>(n, v). CHR '':'' \<notin> set n) (map (\<lambda>(n, v). (n, as_bytes v)) (fingerprint_fields d))"
  by (auto simp: fingerprint_fields_def list_all_iff split: option.splits)

lemma map_as_bytes_inj: "map (\<lambda>(n, v). (n, as_bytes v)) fs = map (\<lambda>(n, v). (n, as_bytes v)) gs \<Longrightarrow> fs = gs"
  by (induction fs arbitrary: gs) (auto simp: Cons_eq_map_conv)

lemma fingerprint_preimage_fields:
  "fingerprint_preimage a = fingerprint_preimage b \<longleftrightarrow> fingerprint_fields a = fingerprint_fields b"
proof
  have eq: "fingerprint_preimage d =
      concat (map (\<lambda>(n, v). named_field n v) (map (\<lambda>(n, v). (n, as_bytes v)) (fingerprint_fields d)))" for d
    by (simp add: fingerprint_preimage_def comp_def split_def)
  assume "fingerprint_preimage a = fingerprint_preimage b"
  from named_fields_inj [OF fingerprint_names_plain fingerprint_names_plain this [unfolded eq]]
  show "fingerprint_fields a = fingerprint_fields b" by (rule map_as_bytes_inj)
qed (simp add: fingerprint_preimage_def)

lemma mode_text_inj:
  "(case a of Some m \<Rightarrow> AuthorityMode_as_str m | None \<Rightarrow> '''') =
   (case b of Some m \<Rightarrow> AuthorityMode_as_str m | None \<Rightarrow> '''') \<longleftrightarrow> a = b"
  by (cases a; cases b) (simp_all add: AuthorityMode_as_str_inj)

lemma map_permission_label_inj:
  "map (\<lambda>p. (n, permission_label p)) ps = map (\<lambda>p. (n, permission_label p)) qs \<longleftrightarrow> ps = qs"
  by (induction ps arbitrary: qs) (auto simp: Cons_eq_map_conv dest: permission_label_inj)

definition schema_text :: "string option \<Rightarrow> string" where
  "schema_text s = (case s of Some t \<Rightarrow> t | None \<Rightarrow> '''')"

lemma fingerprint_fields_schema:
  "fingerprint_fields d =
     fingerprint_fields (d\<lparr>od_payload_schema := None\<rparr>\<lparr>od_payload_schema := Some (schema_text (od_payload_schema d))\<rparr>)"
  by (simp add: fingerprint_fields_def schema_text_def)

lemma fingerprint_fields_inj:
  assumes eq: "fingerprint_fields a = fingerprint_fields b"
  shows "a\<lparr>od_payload_schema := None\<rparr> = b\<lparr>od_payload_schema := None\<rparr>"
    and "schema_text (od_payload_schema a) = schema_text (od_payload_schema b)"
proof -
  have profile: "od_output_profile a = None \<longleftrightarrow> od_output_profile b = None"
    using eq by (auto simp: fingerprint_fields_def bool_string_inj simp del: not_None_eq)
  let ?tail = "\<lambda>d. [(''required_authority_mode'',
           case od_required_authority_mode d of Some m \<Rightarrow> AuthorityMode_as_str m | None \<Rightarrow> ''''),
        (''replay_scope'', replay_scope_fingerprint_label (od_replay_scope d)),
        (''max_ttl_seconds'', dec_string (unat (od_max_ttl_seconds d))),
        (''handler_id'', od_handler_id d),
        (''dev_binding'', bool_string (od_dev_binding d)),
        (''range'', opcode_range_label (od_range d)),
        (''disclosure_policy_id'', dpol_policy_id (od_disclosure_policy d)),
        (''disclosure_policy_version'', dec_string (unat (dpol_policy_version (od_disclosure_policy d))))]
     @ map (\<lambda>p. (''disclosure_permission'', permission_label p)) (dpol_permissions (od_disclosure_policy d))"
  let ?ev = "\<lambda>d. map (Pair ''accepted_evidence'') (od_accepted_evidence d) @ ?tail d"
  let ?cap = "\<lambda>d. map (Pair ''required_capability'') (od_required_capabilities d) @ ?ev d"
  let ?cred = "\<lambda>d. map (Pair ''required_credential'') (od_required_credentials d) @ ?cap d"
  have front: "od_opcode a = od_opcode b" "od_name a = od_name b"
      "schema_text (od_payload_schema a) = schema_text (od_payload_schema b)"
      "od_output_profile a = od_output_profile b" "od_target_kind a = od_target_kind b"
    and cred: "?cred a = ?cred b"
    using eq profile
    by (auto simp: fingerprint_fields_def schema_text_def target_kind_label_inj dest: hex_byte_inj
        split: option.split_asm)
  show "schema_text (od_payload_schema a) = schema_text (od_payload_schema b)" by (rule front)
  from map_Pair_append_eq [OF cred] have creds: "od_required_credentials a = od_required_credentials b"
    and cap: "?cap a = ?cap b" by (simp_all add: hd_append hd_map)
  from map_Pair_append_eq [OF cap] have caps: "od_required_capabilities a = od_required_capabilities b"
    and ev: "?ev a = ?ev b" by (simp_all add: hd_append hd_map)
  from map_Pair_append_eq [OF ev] have evs: "od_accepted_evidence a = od_accepted_evidence b"
    and tail: "?tail a = ?tail b" by (simp_all add: hd_append)
  have "od_disclosure_policy a = od_disclosure_policy b"
    using tail
    by (cases "od_disclosure_policy a"; cases "od_disclosure_policy b") (simp add: map_permission_label_inj unat_eq_word)
  moreover have "od_required_authority_mode a = od_required_authority_mode b"
      "od_max_ttl_seconds a = od_max_ttl_seconds b" "od_handler_id a = od_handler_id b"
      "od_dev_binding a = od_dev_binding b" "od_range a = od_range b"
    using tail by (simp_all add: mode_text_inj bool_string_inj opcode_range_label_inj unat_eq_word)
  moreover have "od_replay_scope a = od_replay_scope b"
    by (cases "od_replay_scope a"; cases "od_replay_scope b") simp
  ultimately show "a\<lparr>od_payload_schema := None\<rparr> = b\<lparr>od_payload_schema := None\<rparr>"
    using front creds caps evs by (intro OperationDescriptor.equality) simp_all
qed

lemma ReceiverManifest_new_lookup:
  "rm_descriptors (ReceiverManifest_new ds) opcode = find (\<lambda>d. od_opcode d = opcode) (rev ds)"
proof -
  have "foldl (\<lambda>m d. m(od_opcode d \<mapsto> d)) m ds opcode =
      (case find (\<lambda>d. od_opcode d = opcode) (rev ds) of None \<Rightarrow> m opcode | Some d \<Rightarrow> Some d)" for m
    by (induction ds rule: rev_induct) auto
  then show ?thesis by (simp add: ReceiverManifest_new_def split: option.splits)
qed

lemma manifest_lookup_opcode:
  "manifest_lookup (ReceiverManifest_new ds) opcode = Inr d \<Longrightarrow> od_opcode d = opcode \<and> d \<in> set ds"
  by (auto simp: manifest_lookup_def ok_or_Inr_iff ReceiverManifest_new_lookup dest: find_Some_in)

lemma default_v0_descriptors:
  "manifest_lookup default_v0 opcode = Inr d \<Longrightarrow>
     d \<in> {legacy_descriptor 0x01 ''legacy.generate'' ''legacy/generate'',
      legacy_descriptor 0x02 ''legacy.chat'' ''legacy/chat'',
      dev_candidate_descriptor 0x10 ''candidate.dev.bash_echo'' None ''dev/bash-echo'',
      dev_candidate_descriptor 0x20 ''candidate.dev.json_validate'' (Some ''application/json'')
        ''dev/json-validate'',
      dev_candidate_descriptor 0x30 ''candidate.dev.jq_identity'' None ''dev/jq-identity'',
      membership_provision_descriptor,
      node_registration_descriptor}"
  unfolding default_v0_def by (drule manifest_lookup_opcode) (simp only: list.set insert_iff)

section \<open>Properties\<close>

text \<open>The authorisation fingerprint hashes an injective encoding: two descriptors have the same
  preimage exactly when they agree on every field, except that a missing payload schema and an empty
  one are not told apart. A context bound to one descriptor's fingerprint therefore cannot be routed
  under a descriptor with any other routing or authorisation field.\<close>

theorem fingerprint_determines_descriptor:
  "fingerprint_preimage a = fingerprint_preimage b \<longleftrightarrow>
     a\<lparr>od_payload_schema := None\<rparr> = b\<lparr>od_payload_schema := None\<rparr> \<and>
     schema_text (od_payload_schema a) = schema_text (od_payload_schema b)"
proof
  assume "fingerprint_preimage a = fingerprint_preimage b"
  then have "fingerprint_fields a = fingerprint_fields b" by (simp only: fingerprint_preimage_fields)
  then show "a\<lparr>od_payload_schema := None\<rparr> = b\<lparr>od_payload_schema := None\<rparr> \<and>
     schema_text (od_payload_schema a) = schema_text (od_payload_schema b)"
    by (intro conjI fingerprint_fields_inj)
next
  assume "a\<lparr>od_payload_schema := None\<rparr> = b\<lparr>od_payload_schema := None\<rparr> \<and>
     schema_text (od_payload_schema a) = schema_text (od_payload_schema b)"
  then have "fingerprint_fields a = fingerprint_fields b"
    by (metis fingerprint_fields_schema)
  then show "fingerprint_preimage a = fingerprint_preimage b" by (simp only: fingerprint_preimage_fields)
qed

text \<open>Installing a descriptor changes the lookup of its own opcode and of no other, and an opcode
  that was never installed is refused.\<close>

theorem with_descriptor_lookup:
  "manifest_lookup (with_descriptor m d) opcode =
     (if opcode = od_opcode d then Inr d else manifest_lookup m opcode)"
  by (simp add: manifest_lookup_def with_descriptor_def)

end
