(* ===== verification/Dregg_Authority.thy ===== *)
theory Dregg_Authority
  imports Manifest
begin

text \<open>
  The receiver-held authority registry and the authority snapshots (\<^verbatim>\<open>server/src/dregg_authority.rs\<close>): entry
  validation, registry construction, the policy lookup with its status, revocation and finality rules, and
  the entity/resource lookup of a snapshot. serde_json is a parameter: a function from the text to the
  decoded entries or its error message. Error messages that format a value carry the value.
\<close>

section \<open>Data\<close>

datatype DreggAuthorityStatus = AuthorityActive | AuthorityRevoked

datatype DreggAuthorityRevocationStatus = RevocationActive | RevocationRevoked

datatype DreggAuthorityFinalityStatus = FinalityFinal | FinalityNotFinal | FinalityEquivocated

datatype DreggAuthorityRevocationVerifierMode =
    RevocationFixtureStatusOnly | ExpectedRootBinding | LiveRevocationVerifierRequired

datatype DreggAuthorityFinalityMode =
    FinalityNotRequired | FinalityFixtureStatusOnly | BlsThresholdRequired | RotatedReplayRequired

record DreggAuthorityStatusPolicy =
  sp_require_status :: bool
  sp_max_status_age_seconds :: u64
  sp_require_revocation_check :: bool
  sp_require_finality :: bool
  sp_revocation_verifier_mode :: DreggAuthorityRevocationVerifierMode
  sp_finality_mode :: DreggAuthorityFinalityMode
  sp_expected_revocation_root_ref :: "string option"

definition default_revocation_verifier_mode :: DreggAuthorityRevocationVerifierMode where
  "default_revocation_verifier_mode = RevocationFixtureStatusOnly"

definition default_finality_mode :: DreggAuthorityFinalityMode where
  "default_finality_mode = FinalityNotRequired"

record DreggAuthorityEntry =
  ae_issuer_id :: string
  ae_issuer_key_id :: string
  ae_issuer_public_key_hex :: string
  ae_federation_id :: string
  ae_root_ref :: string
  ae_root_fingerprint :: string
  ae_epoch_id :: string
  ae_epoch_not_before :: u64
  ae_epoch_not_after :: u64
  ae_accepted_audiences :: "string list"
  ae_accepted_operations :: "string list"
  ae_accepted_resources :: "string list"
  ae_accepted_suites :: "string list"
  ae_status_policy :: DreggAuthorityStatusPolicy
  ae_root_status :: DreggAuthorityStatus
  ae_issuer_status :: DreggAuthorityStatus

record DreggAuthorityLookup =
  al_issuer_id :: string
  al_issuer_key_id :: string
  al_root_ref :: string
  al_root_fingerprint :: string
  al_epoch_id :: string
  al_audience :: string
  al_operation :: string
  al_resource :: string
  al_suite :: string
  al_validation_time :: u64
  al_status_checked_at :: "u64 option"
  al_revocation_status :: "DreggAuthorityRevocationStatus option"
  al_finality_status :: "DreggAuthorityFinalityStatus option"
  al_attested_revocation_root_ref :: "string option"

record DreggAuthoritySnapshotIssuer =
  si_issuer_id :: string
  si_issuer_key_id :: string
  si_trust_root_ref :: string
  si_authority_root_ref :: string
  si_accepted_evidence :: "string list"
  si_accepted_audiences :: "string list"
  si_accepted_operations :: "string list"
  si_accepted_resources :: "string list"
  si_status :: DreggAuthorityStatus
  si_not_before :: u64
  si_not_after :: u64
  si_status_ref :: string

record DreggAuthoritySnapshotResource =
  sr_resource_id :: string
  sr_resource_kind :: string
  sr_controller_entity_id :: string
  sr_allowed_operations :: "string list"
  sr_required_evidence :: "string list"
  sr_status :: DreggAuthorityStatus
  sr_status_ref :: string

record DreggAuthoritySnapshot =
  sn_schema_version :: string
  sn_snapshot_id :: string
  sn_source_node_id :: string
  sn_federation_id :: string
  sn_entity_id :: string
  sn_namespace_id :: string
  sn_entity_display_name :: string
  sn_observed_at :: u64
  sn_expires_at :: u64
  sn_authority_mode :: string
  sn_issuers :: "DreggAuthoritySnapshotIssuer list"
  sn_resources :: "DreggAuthoritySnapshotResource list"

record DreggAuthoritySnapshotLookup =
  sl_entity_id :: string
  sl_namespace_id :: string
  sl_issuer_id :: string
  sl_trust_root_ref :: string
  sl_authority_root_ref :: string
  sl_audience :: string
  sl_operation :: string
  sl_resource :: string
  sl_evidence_kind :: string
  sl_validation_time :: u64

record DreggAuthoritySnapshotDecision =
  sd_entity_id :: string
  sd_namespace_id :: string
  sd_authority_mode :: string
  sd_matched_resource_scope :: string

datatype EntryFault =
    Fault string
  | DuplicateIssuerKeyId string
  | DuplicateResourceId string

datatype DreggAuthorityRegistryError =
    EmptyAuthorityRegistry
  | MalformedAuthorityRegistry string
  | InvalidEntry EntryFault
  | DuplicateIssuer string
  | DuplicateEpochRoot string
  | UnreadableAuthorityRegistry string

section \<open>Topology observations\<close>

record TopologyAuthorityObservation =
  to_node_status :: "string option"
  to_downstream_federation_id :: "string option"
  to_downstream_committee_label :: "string option"

definition observed_authority_mode :: "TopologyAuthorityObservation \<Rightarrow> AuthorityMode" where
  "observed_authority_mode _ = SoloVerifiedReceipt"

definition redacted_sha256_field :: "crypto \<Rightarrow> string \<Rightarrow> string \<Rightarrow> string" where
  "redacted_sha256_field C name value = name @ ''_sha256:'' @ hex_lower (c_sha256 C (as_bytes value))"

definition topology_summary_fields :: "crypto \<Rightarrow> TopologyAuthorityObservation \<Rightarrow> string list" where
  "topology_summary_fields C ob =
     [''topology_relationship:delegated_under_node'',
      ''authority_mode:'' @ AuthorityMode_as_str (observed_authority_mode ob)]
     @ (case to_node_status ob of None \<Rightarrow> [] | Some s \<Rightarrow> [''node_status:'' @ s])
     @ (case to_downstream_federation_id ob of None \<Rightarrow> []
        | Some f \<Rightarrow> [redacted_sha256_field C ''downstream_federation_id'' f])
     @ (case to_downstream_committee_label ob of None \<Rightarrow> []
        | Some l \<Rightarrow> [redacted_sha256_field C ''downstream_committee_label'' l])"

section \<open>Field checks\<close>

text \<open>The loops that report the first blank field, and the first list without a usable value.\<close>

fun require_fields :: "(string \<times> string) list \<Rightarrow> DreggAuthorityRegistryError + unit" where
  "require_fields [] = Inr ()"
| "require_fields ((field, value) # rest) =
     (if trim value = [] then Inl (InvalidEntry (Fault (field @ '' is required''))) else require_fields rest)"

fun require_lists :: "(string \<times> string list) list \<Rightarrow> DreggAuthorityRegistryError + unit" where
  "require_lists [] = Inr ()"
| "require_lists ((field, values) # rest) =
     (if values = [] \<or> list_ex (\<lambda>value. trim value = []) values
      then Inl (InvalidEntry (Fault (field @ '' must contain at least one non-empty value'')))
      else require_lists rest)"

definition lower_hex_byte :: "u8 \<Rightarrow> bool" where
  "lower_hex_byte b \<longleftrightarrow> 0x30 \<le> b \<and> b \<le> 0x39 \<or> 0x61 \<le> b \<and> b \<le> 0x66"

section \<open>The registry\<close>

definition authority_validate_entry :: "DreggAuthorityEntry \<Rightarrow> DreggAuthorityRegistryError + unit" where
  "authority_validate_entry e =
     (let p = ae_status_policy e in
      if trim (ae_issuer_id e) = [] then Inl (InvalidEntry (Fault ''issuer_id is required''))
      else if trim (ae_issuer_key_id e) = [] then Inl (InvalidEntry (Fault ''issuer_key_id is required''))
      else if length (ae_issuer_public_key_hex e) \<noteq> 64
        \<or> \<not> list_all lower_hex_byte (as_bytes (ae_issuer_public_key_hex e))
      then Inl (InvalidEntry (Fault ''issuer_public_key_hex must be 32-byte lowercase hex''))
      else rbind (require_fields
          [(''federation_id'', ae_federation_id e), (''root_ref'', ae_root_ref e),
           (''root_fingerprint'', ae_root_fingerprint e), (''epoch_id'', ae_epoch_id e)]) (\<lambda>_.
        if ae_epoch_not_after e \<le> ae_epoch_not_before e
        then Inl (InvalidEntry (Fault ''epoch_not_before must be less than epoch_not_after''))
        else if sp_require_status p \<and> sp_max_status_age_seconds p = 0
        then Inl (InvalidEntry (Fault ''max_status_age_seconds is required when status is required''))
        else if sp_revocation_verifier_mode p = ExpectedRootBinding
          \<and> sp_expected_revocation_root_ref p = None
        then Inl (InvalidEntry (Fault ''expected_revocation_root_ref is required for expected_root_binding''))
        else if \<not> sp_require_finality p \<and> sp_finality_mode p \<in> {BlsThresholdRequired, RotatedReplayRequired}
        then Inl (InvalidEntry (Fault ''require_finality is required for live finality verifier modes''))
        else require_lists
          [(''accepted_audiences'', ae_accepted_audiences e), (''accepted_operations'', ae_accepted_operations e),
           (''accepted_resources'', ae_accepted_resources e), (''accepted_suites'', ae_accepted_suites e)]))"

record DreggAuthorityRegistry =
  ar_entries :: "DreggAuthorityEntry list"

definition epoch_root_key :: "DreggAuthorityEntry \<Rightarrow> string" where
  "epoch_root_key e = ae_federation_id e @ ''|'' @ ae_root_ref e @ ''|'' @ ae_epoch_id e"

fun check_authority_entries ::
  "string set \<Rightarrow> string set \<Rightarrow> DreggAuthorityEntry list \<Rightarrow> DreggAuthorityRegistryError + unit" where
  "check_authority_entries issuer_ids epoch_roots [] = Inr ()"
| "check_authority_entries issuer_ids epoch_roots (e # es) =
     rbind (authority_validate_entry e) (\<lambda>_.
       if ae_issuer_id e \<in> issuer_ids then Inl (DuplicateIssuer (ae_issuer_id e))
       else if epoch_root_key e \<in> epoch_roots then Inl (DuplicateEpochRoot (epoch_root_key e))
       else check_authority_entries (insert (ae_issuer_id e) issuer_ids) (insert (epoch_root_key e) epoch_roots) es)"

definition DreggAuthorityRegistry_new ::
  "DreggAuthorityEntry list \<Rightarrow> DreggAuthorityRegistryError + DreggAuthorityRegistry" where
  "DreggAuthorityRegistry_new entries =
     (if entries = [] then Inl EmptyAuthorityRegistry
      else rbind (check_authority_entries {} {} entries) (\<lambda>_. Inr \<lparr>ar_entries = entries\<rparr>))"

definition authority_registry_from_json_str ::
  "(string \<Rightarrow> string + DreggAuthorityEntry list) \<Rightarrow> string \<Rightarrow> DreggAuthorityRegistryError + DreggAuthorityRegistry" where
  "authority_registry_from_json_str parse text =
     (if trim text = [] then Inl EmptyAuthorityRegistry
      else rbind (map_err MalformedAuthorityRegistry (parse text)) DreggAuthorityRegistry_new)"

definition requires_live_revocation_verifier_dependency :: "DreggAuthorityRegistry \<Rightarrow> bool" where
  "requires_live_revocation_verifier_dependency reg \<longleftrightarrow>
     list_ex (\<lambda>e. sp_revocation_verifier_mode (ae_status_policy e) = LiveRevocationVerifierRequired) (ar_entries reg)"

definition requires_live_finality_verifier_dependency :: "DreggAuthorityRegistry \<Rightarrow> bool" where
  "requires_live_finality_verifier_dependency reg \<longleftrightarrow>
     list_ex (\<lambda>e. sp_finality_mode (ae_status_policy e) \<in> {BlsThresholdRequired, RotatedReplayRequired}) (ar_entries reg)"

definition requires_live_rotated_replay_verifier_dependency :: "DreggAuthorityRegistry \<Rightarrow> bool" where
  "requires_live_rotated_replay_verifier_dependency reg \<longleftrightarrow>
     list_ex (\<lambda>e. sp_finality_mode (ae_status_policy e) = RotatedReplayRequired) (ar_entries reg)"

definition requires_live_verifier_dependency :: "DreggAuthorityRegistry \<Rightarrow> bool" where
  "requires_live_verifier_dependency reg \<longleftrightarrow>
     requires_live_revocation_verifier_dependency reg \<or> requires_live_finality_verifier_dependency reg"

definition check_status :: "DreggAuthorityStatusPolicy \<Rightarrow> DreggAuthorityLookup \<Rightarrow> VerificationError + unit" where
  "check_status p lookup =
     (if \<not> sp_require_status p then Inr ()
      else rbind (ok_or (AuthorityErr MissingStatus) (al_status_checked_at lookup)) (\<lambda>checked_at.
        if al_validation_time lookup < checked_at then Inl (AuthorityErr Stale)
        else ensure (AuthorityErr Stale)
          (al_validation_time lookup - checked_at \<le> sp_max_status_age_seconds p)))"

definition check_revocation :: "DreggAuthorityStatusPolicy \<Rightarrow> DreggAuthorityLookup \<Rightarrow> VerificationError + unit" where
  "check_revocation p lookup =
     (if \<not> sp_require_revocation_check p then Inr ()
      else rbind (ok_or (AuthorityErr MissingStatus) (al_revocation_status lookup)) (\<lambda>status.
        case status of RevocationActive \<Rightarrow> Inr () | RevocationRevoked \<Rightarrow> Inl (AuthorityErr AuthorityError.Revoked)))"

definition check_revocation_root :: "DreggAuthorityStatusPolicy \<Rightarrow> DreggAuthorityLookup \<Rightarrow> VerificationError + unit" where
  "check_revocation_root p lookup = (case sp_revocation_verifier_mode p of
       RevocationFixtureStatusOnly \<Rightarrow> Inr ()
     | ExpectedRootBinding \<Rightarrow>
         rbind (ok_or (AuthorityErr MissingRevocationRoot) (sp_expected_revocation_root_ref p)) (\<lambda>expected.
         rbind (ok_or (AuthorityErr MissingRevocationRoot) (al_attested_revocation_root_ref lookup)) (\<lambda>attested.
         ensure (AuthorityErr WrongRevocationRoot) (attested = expected)))
     | LiveRevocationVerifierRequired \<Rightarrow> Inr ())"

definition check_finality :: "DreggAuthorityStatusPolicy \<Rightarrow> DreggAuthorityLookup \<Rightarrow> VerificationError + unit" where
  "check_finality p lookup = (case sp_finality_mode p of
       FinalityNotRequired \<Rightarrow> Inr ()
     | FinalityFixtureStatusOnly \<Rightarrow>
         (if sp_require_finality p
          then rbind (ok_or (AuthorityErr NotFinal) (al_finality_status lookup)) (\<lambda>status.
            case status of
              FinalityFinal \<Rightarrow> Inr ()
            | FinalityNotFinal \<Rightarrow> Inl (AuthorityErr NotFinal)
            | FinalityEquivocated \<Rightarrow> Inl (AuthorityErr Equivocated))
          else Inr ())
     | BlsThresholdRequired \<Rightarrow> Inr ()
     | RotatedReplayRequired \<Rightarrow> Inr ())"

definition lookup_active_policy ::
  "DreggAuthorityRegistry \<Rightarrow> DreggAuthorityLookup \<Rightarrow> VerificationError + DreggAuthorityEntry" where
  "lookup_active_policy reg lookup =
     rbind (ok_or UnknownIssuer (find (\<lambda>e. ae_issuer_id e = al_issuer_id lookup) (ar_entries reg))) (\<lambda>e.
       if ae_issuer_key_id e \<noteq> al_issuer_key_id lookup then Inl WrongIssuerKey
       else if ae_root_ref e \<noteq> al_root_ref lookup \<or> ae_root_fingerprint e \<noteq> al_root_fingerprint lookup
       then Inl (AuthorityErr WrongRoot)
       else if ae_epoch_id e \<noteq> al_epoch_id lookup \<or> al_validation_time lookup < ae_epoch_not_before e
         \<or> ae_epoch_not_after e < al_validation_time lookup
       then Inl (AuthorityErr WrongEpoch)
       else if ae_root_status e \<noteq> AuthorityActive \<or> ae_issuer_status e \<noteq> AuthorityActive
       then Inl (AuthorityErr AuthorityError.Revoked)
       else rbind (check_status (ae_status_policy e) lookup) (\<lambda>_.
         rbind (check_revocation (ae_status_policy e) lookup) (\<lambda>_.
         rbind (check_revocation_root (ae_status_policy e) lookup) (\<lambda>_.
         rbind (check_finality (ae_status_policy e) lookup) (\<lambda>_.
           if al_audience lookup \<notin> set (ae_accepted_audiences e) then Inl WrongAudience
           else if al_operation lookup \<notin> set (ae_accepted_operations e) then Inl WrongOperation
           else if al_resource lookup \<notin> set (ae_accepted_resources e) then Inl WrongResource
           else if al_suite lookup \<notin> set (ae_accepted_suites e) then Inl (AuthorityErr UnsupportedSuite)
           else Inr e)))))"

section \<open>Snapshots\<close>

definition SNAPSHOT_SCHEMA_VERSION :: string where
  "SNAPSHOT_SCHEMA_VERSION = ''secs-dregg-authority-snapshot-v1''"

fun check_snapshot_issuers ::
  "string set \<Rightarrow> string set \<Rightarrow> DreggAuthoritySnapshotIssuer list \<Rightarrow> DreggAuthorityRegistryError + unit" where
  "check_snapshot_issuers issuer_ids issuer_key_ids [] = Inr ()"
| "check_snapshot_issuers issuer_ids issuer_key_ids (i # is) =
     (if si_issuer_id i \<in> issuer_ids then Inl (DuplicateIssuer (si_issuer_id i))
      else if si_issuer_key_id i \<in> issuer_key_ids
      then Inl (InvalidEntry (DuplicateIssuerKeyId (si_issuer_key_id i)))
      else rbind (require_fields
          [(''issuer_id'', si_issuer_id i), (''issuer_key_id'', si_issuer_key_id i),
           (''trust_root_ref'', si_trust_root_ref i), (''authority_root_ref'', si_authority_root_ref i),
           (''status_ref'', si_status_ref i)]) (\<lambda>_.
        if si_not_after i \<le> si_not_before i
        then Inl (InvalidEntry (Fault ''issuer not_before must be less than not_after''))
        else rbind (require_lists
            [(''accepted_evidence'', si_accepted_evidence i), (''accepted_audiences'', si_accepted_audiences i),
             (''accepted_operations'', si_accepted_operations i), (''accepted_resources'', si_accepted_resources i)])
          (\<lambda>_. check_snapshot_issuers (insert (si_issuer_id i) issuer_ids)
             (insert (si_issuer_key_id i) issuer_key_ids) is)))"

fun check_snapshot_resources ::
  "string set \<Rightarrow> DreggAuthoritySnapshotResource list \<Rightarrow> DreggAuthorityRegistryError + unit" where
  "check_snapshot_resources resource_ids [] = Inr ()"
| "check_snapshot_resources resource_ids (r # rs) =
     (if sr_resource_id r \<in> resource_ids then Inl (InvalidEntry (DuplicateResourceId (sr_resource_id r)))
      else if trim (sr_controller_entity_id r) = [] \<or> sr_allowed_operations r = [] \<or> sr_required_evidence r = []
      then Inl (InvalidEntry (Fault
        ''resources require controller_entity_id, allowed_operations, and required_evidence''))
      else check_snapshot_resources (insert (sr_resource_id r) resource_ids) rs)"

definition snapshot_validate :: "DreggAuthoritySnapshot \<Rightarrow> DreggAuthorityRegistryError + unit" where
  "snapshot_validate s =
     (if sn_schema_version s \<noteq> SNAPSHOT_SCHEMA_VERSION
      then Inl (InvalidEntry (Fault ''unsupported Dregg authority snapshot schema_version''))
      else rbind (require_fields
          [(''snapshot_id'', sn_snapshot_id s), (''source_node_id'', sn_source_node_id s),
           (''federation_id'', sn_federation_id s), (''entity_id'', sn_entity_id s),
           (''namespace_id'', sn_namespace_id s), (''authority_mode'', sn_authority_mode s)]) (\<lambda>_.
        if sn_expires_at s \<le> sn_observed_at s
        then Inl (InvalidEntry (Fault ''observed_at must be less than expires_at''))
        else if sn_authority_mode s \<noteq> ''fixture_snapshot''
        then Inl (InvalidEntry (Fault ''unsupported Dregg authority snapshot authority_mode''))
        else if sn_issuers s = [] \<or> sn_resources s = []
        then Inl (InvalidEntry (Fault ''authority snapshot requires at least one issuer and one resource''))
        else rbind (check_snapshot_issuers {} {} (sn_issuers s)) (\<lambda>_.
          check_snapshot_resources {} (sn_resources s))))"

definition snapshot_from_json_str ::
  "(string \<Rightarrow> string + DreggAuthoritySnapshot) \<Rightarrow> string \<Rightarrow> DreggAuthorityRegistryError + DreggAuthoritySnapshot" where
  "snapshot_from_json_str parse text =
     (if trim text = [] then Inl EmptyAuthorityRegistry
      else rbind (map_err MalformedAuthorityRegistry (parse text)) (\<lambda>s.
        rbind (snapshot_validate s) (\<lambda>_. Inr s)))"

definition validate_fresh_at :: "DreggAuthoritySnapshot \<Rightarrow> u64 \<Rightarrow> DreggAuthorityRegistryError + unit" where
  "validate_fresh_at s validation_time =
     (if validation_time < sn_observed_at s \<or> sn_expires_at s < validation_time
      then Inl (InvalidEntry (Fault ''stale Dregg authority snapshot'')) else Inr ())"

text \<open>The file source and the cache in front of it: every load reads the file again and replaces the
  cached snapshot only when it is valid and fresh.\<close>

definition file_snapshot_load_at ::
  "(string \<Rightarrow> string + string) \<Rightarrow> (string \<Rightarrow> string + DreggAuthoritySnapshot) \<Rightarrow> string \<Rightarrow> u64 \<Rightarrow>
     DreggAuthorityRegistryError + DreggAuthoritySnapshot" where
  "file_snapshot_load_at read_file parse path validation_time =
     rbind (map_err UnreadableAuthorityRegistry (read_file path)) (\<lambda>text.
     rbind (snapshot_from_json_str parse text) (\<lambda>s.
     rbind (validate_fresh_at s validation_time) (\<lambda>_. Inr s)))"

definition cached_snapshot_load_at ::
  "(string \<Rightarrow> string + string) \<Rightarrow> (string \<Rightarrow> string + DreggAuthoritySnapshot) \<Rightarrow> string \<Rightarrow> u64 \<Rightarrow>
     DreggAuthoritySnapshot option \<Rightarrow>
     (DreggAuthorityRegistryError + DreggAuthoritySnapshot) \<times> DreggAuthoritySnapshot option" where
  "cached_snapshot_load_at read_file parse path validation_time cached =
     (case file_snapshot_load_at read_file parse path validation_time of
        Inl e \<Rightarrow> (Inl e, cached)
      | Inr s \<Rightarrow> (Inr s, Some s))"

definition resource_scope_matches :: "string \<Rightarrow> string \<Rightarrow> bool" where
  "resource_scope_matches scope resource = (case strip_suffix ''*'' scope of
       Some pre \<Rightarrow> starts_with pre resource
     | None \<Rightarrow> scope = resource)"

definition lookup_entity_resource_authority ::
  "DreggAuthoritySnapshot \<Rightarrow> DreggAuthoritySnapshotLookup \<Rightarrow> VerificationError + DreggAuthoritySnapshotDecision" where
  "lookup_entity_resource_authority s lookup =
     (if sn_expires_at s < sl_validation_time lookup \<or> sl_validation_time lookup < sn_observed_at s
      then Inl (AuthorityErr Stale)
      else if sn_entity_id s \<noteq> sl_entity_id lookup \<or> sn_namespace_id s \<noteq> sl_namespace_id lookup
      then Inl (AuthorityErr WrongBinding)
      else rbind (ok_or UnknownIssuer (find (\<lambda>i. si_issuer_id i = sl_issuer_id lookup) (sn_issuers s))) (\<lambda>i.
        if si_status i \<noteq> AuthorityActive then Inl (AuthorityErr AuthorityError.Revoked)
        else if si_trust_root_ref i \<noteq> sl_trust_root_ref lookup then Inl (AuthorityErr WrongTrustRoot)
        else if si_authority_root_ref i \<noteq> sl_authority_root_ref lookup then Inl (AuthorityErr WrongRoot)
        else if sl_validation_time lookup < si_not_before i \<or> si_not_after i < sl_validation_time lookup
        then Inl (AuthorityErr Stale)
        else if sl_audience lookup \<notin> set (si_accepted_audiences i) then Inl WrongAudience
        else if sl_operation lookup \<notin> set (si_accepted_operations i) then Inl WrongOperation
        else if sl_evidence_kind lookup \<notin> set (si_accepted_evidence i) then Inl InsufficientEvidence
        else rbind (ok_or WrongResource
            (find (\<lambda>scope. resource_scope_matches scope (sl_resource lookup)) (si_accepted_resources i))) (\<lambda>matched_scope.
          rbind (ok_or WrongResource
            (find (\<lambda>r. sr_resource_id r = sl_resource lookup) (sn_resources s))) (\<lambda>r.
          if sr_status r \<noteq> AuthorityActive then Inl (AuthorityErr AuthorityError.Revoked)
          else if sr_controller_entity_id r \<noteq> sl_entity_id lookup then Inl (AuthorityErr WrongBinding)
          else if sl_operation lookup \<notin> set (sr_allowed_operations r) then Inl WrongOperation
          else if sl_evidence_kind lookup \<notin> set (sr_required_evidence r) then Inl InsufficientEvidence
          else Inr \<lparr>sd_entity_id = sn_entity_id s, sd_namespace_id = sn_namespace_id s,
                    sd_authority_mode = sn_authority_mode s, sd_matched_resource_scope = matched_scope\<rparr>))))"

section \<open>Lemmas\<close>

lemma check_status_Inr_iff:
  "check_status p l = Inr u \<longleftrightarrow> (if sp_require_status p then
       (case al_status_checked_at l of None \<Rightarrow> False
        | Some t \<Rightarrow> t \<le> al_validation_time l
            \<and> unat (al_validation_time l) - unat t \<le> unat (sp_max_status_age_seconds p)) else True)"
  by (cases "al_status_checked_at l")
    (auto simp: check_status_def result_simps not_less unat_sub word_le_nat_alt)

lemma check_revocation_Inr_iff:
  "check_revocation p l = Inr u \<longleftrightarrow>
     (if sp_require_revocation_check p then al_revocation_status l = Some RevocationActive else True)"
  by (cases "al_revocation_status l")
    (auto simp: check_revocation_def split: DreggAuthorityRevocationStatus.splits)

lemma check_revocation_root_Inr_iff:
  "check_revocation_root p l = Inr u \<longleftrightarrow> (if sp_revocation_verifier_mode p = ExpectedRootBinding
     then sp_expected_revocation_root_ref p \<noteq> None
       \<and> al_attested_revocation_root_ref l = sp_expected_revocation_root_ref p else True)"
  by (auto simp: check_revocation_root_def result_simps split: DreggAuthorityRevocationVerifierMode.splits)

lemma check_finality_Inr_iff:
  "check_finality p l = Inr u \<longleftrightarrow> (if sp_finality_mode p = FinalityFixtureStatusOnly \<and> sp_require_finality p
     then al_finality_status l = Some FinalityFinal else True)"
  by (cases "al_finality_status l")
    (auto simp: check_finality_def split: DreggAuthorityFinalityMode.splits DreggAuthorityFinalityStatus.splits)

lemmas policy_checks_iff = check_status_Inr_iff check_revocation_Inr_iff check_revocation_root_Inr_iff
  check_finality_Inr_iff

lemma lookup_active_policy_Inr_iff:
  "lookup_active_policy reg l = Inr e \<longleftrightarrow>
     find (\<lambda>e. ae_issuer_id e = al_issuer_id l) (ar_entries reg) = Some e \<and>
     ae_issuer_key_id e = al_issuer_key_id l \<and> ae_root_ref e = al_root_ref l \<and>
     ae_root_fingerprint e = al_root_fingerprint l \<and> ae_epoch_id e = al_epoch_id l \<and>
     ae_epoch_not_before e \<le> al_validation_time l \<and> al_validation_time l \<le> ae_epoch_not_after e \<and>
     ae_root_status e = AuthorityActive \<and> ae_issuer_status e = AuthorityActive \<and>
     check_status (ae_status_policy e) l = Inr () \<and> check_revocation (ae_status_policy e) l = Inr () \<and>
     check_revocation_root (ae_status_policy e) l = Inr () \<and> check_finality (ae_status_policy e) l = Inr () \<and>
     al_audience l \<in> set (ae_accepted_audiences e) \<and> al_operation l \<in> set (ae_accepted_operations e) \<and>
     al_resource l \<in> set (ae_accepted_resources e) \<and> al_suite l \<in> set (ae_accepted_suites e)"
  by (auto simp: lookup_active_policy_def result_simps not_less)

lemma check_authority_entries_Inr:
  "check_authority_entries ids roots es = Inr u \<longleftrightarrow>
     list_all (\<lambda>e. authority_validate_entry e = Inr ()) es \<and> distinct (map ae_issuer_id es) \<and>
     distinct (map epoch_root_key es) \<and> ae_issuer_id ` set es \<inter> ids = {} \<and> epoch_root_key ` set es \<inter> roots = {}"
  by (induction es arbitrary: ids roots) (auto simp: result_simps)

lemma registry_new_Inr_iff:
  "DreggAuthorityRegistry_new es = Inr reg \<longleftrightarrow> es \<noteq> [] \<and> reg = \<lparr>ar_entries = es\<rparr> \<and>
     list_all (\<lambda>e. authority_validate_entry e = Inr ()) es \<and> distinct (map ae_issuer_id es) \<and>
     distinct (map epoch_root_key es)"
  by (auto simp: DreggAuthorityRegistry_new_def result_simps check_authority_entries_Inr)

lemma find_unique_key:
  assumes "distinct (map key xs)"
  shows "find (\<lambda>x. key x = k) xs = Some x \<longleftrightarrow> x \<in> set xs \<and> key x = k"
proof
  assume "x \<in> set xs \<and> key x = k"
  with assms show "find (\<lambda>x. key x = k) xs = Some x"
    by (induction xs) auto
qed (auto dest: find_Some_in)

section \<open>Properties\<close>

text \<open>C28. The authority lookup: in a registry built from any entries, an issuer's grant is accepted exactly
  when the one entry of that issuer has the same key, root and fingerprint, its epoch covers the validation
  time, root and issuer are active, the status it requires is present and no older than allowed, it is not
  revoked where revocation is checked, the attested revocation root is the expected one where bound, the
  fixture finality it requires is final, and audience, operation, resource and suite are accepted.\<close>

theorem authority_lookup_accepts_iff:
  "case DreggAuthorityRegistry_new es of Inl _ \<Rightarrow> True | Inr reg \<Rightarrow>
     lookup_active_policy reg l = Inr e \<longleftrightarrow>
       e \<in> set es \<and> ae_issuer_id e = al_issuer_id l \<and> ae_issuer_key_id e = al_issuer_key_id l \<and>
       ae_root_ref e = al_root_ref l \<and> ae_root_fingerprint e = al_root_fingerprint l \<and>
       ae_epoch_id e = al_epoch_id l \<and>
       al_validation_time l \<in> {ae_epoch_not_before e .. ae_epoch_not_after e} \<and>
       ae_root_status e = AuthorityActive \<and> ae_issuer_status e = AuthorityActive \<and>
       (if sp_require_status (ae_status_policy e) then (case al_status_checked_at l of None \<Rightarrow> False
          | Some t \<Rightarrow> t \<le> al_validation_time l \<and> unat (al_validation_time l) - unat t
               \<le> unat (sp_max_status_age_seconds (ae_status_policy e))) else True) \<and>
       (if sp_require_revocation_check (ae_status_policy e)
        then al_revocation_status l = Some RevocationActive else True) \<and>
       (if sp_revocation_verifier_mode (ae_status_policy e) = ExpectedRootBinding
        then sp_expected_revocation_root_ref (ae_status_policy e) \<noteq> None \<and>
          al_attested_revocation_root_ref l = sp_expected_revocation_root_ref (ae_status_policy e) else True) \<and>
       (if sp_finality_mode (ae_status_policy e) = FinalityFixtureStatusOnly \<and> sp_require_finality (ae_status_policy e)
        then al_finality_status l = Some FinalityFinal else True) \<and>
       al_audience l \<in> set (ae_accepted_audiences e) \<and> al_operation l \<in> set (ae_accepted_operations e) \<and>
       al_resource l \<in> set (ae_accepted_resources e) \<and> al_suite l \<in> set (ae_accepted_suites e)"
proof (cases "DreggAuthorityRegistry_new es")
  case (Inr reg)
  then have reg: "ar_entries reg = es" and distinct: "distinct (map ae_issuer_id es)"
    by (simp_all add: registry_new_Inr_iff)
  show ?thesis
    unfolding Inr sum.case lookup_active_policy_Inr_iff reg find_unique_key [OF distinct] policy_checks_iff
    by (simp only: conj_assoc atLeastAtMost_iff)
qed simp

text \<open>A required finality is not enforced under the default finality mode: an entry that sets
  require_finality and leaves the mode at its default passes validation exactly like one that does not
  require it, and its lookups give the same answer whatever finality status is reported, equivocation
  included.\<close>

theorem required_finality_skipped_by_default_mode:
  "let e1 = e\<lparr>ae_status_policy := p\<lparr>sp_require_finality := True, sp_finality_mode := default_finality_mode\<rparr>\<rparr>;
       e0 = e\<lparr>ae_status_policy := p\<lparr>sp_require_finality := False, sp_finality_mode := default_finality_mode\<rparr>\<rparr> in
     authority_validate_entry e1 = authority_validate_entry e0 \<and>
     lookup_active_policy \<lparr>ar_entries = [e1]\<rparr> (l\<lparr>al_finality_status := Some FinalityEquivocated\<rparr>) =
       lookup_active_policy \<lparr>ar_entries = [e1]\<rparr> (l\<lparr>al_finality_status := Some FinalityFinal\<rparr>)"
proof -
  let ?p1 = "p\<lparr>sp_require_finality := True, sp_finality_mode := default_finality_mode\<rparr>"
  have ignored: "check_status q (l\<lparr>al_finality_status := x\<rparr>) = check_status q l"
    "check_revocation q (l\<lparr>al_finality_status := x\<rparr>) = check_revocation q l"
    "check_revocation_root q (l\<lparr>al_finality_status := x\<rparr>) = check_revocation_root q l"
    "check_finality ?p1 (l\<lparr>al_finality_status := x\<rparr>) = Inr ()" for q x
    by (simp_all add: check_status_def check_revocation_def check_revocation_root_def check_finality_def
        default_finality_mode_def cong: if_cong split: DreggAuthorityRevocationVerifierMode.split)
  show ?thesis
    unfolding Let_def
    by (cases "ae_issuer_id e = al_issuer_id l")
      (simp_all add: authority_validate_entry_def default_finality_mode_def lookup_active_policy_def
        ignored ignored(4) [unfolded default_finality_mode_def] cong: if_cong split del: if_split)
qed

text \<open>A snapshot only ever grants what both its issuer and its resource list: whatever it admits, at a
  time inside the snapshot's and the issuer's windows, the issuer is active under the given roots and
  accepts audience, operation and evidence kind, one of its scopes matches the resource exactly or by a
  trailing star, and the resource itself is active, controlled by the entity, and allows the operation
  with this evidence.\<close>

theorem snapshot_admission_needs_issuer_and_resource:
  "case lookup_entity_resource_authority s l of Inl _ \<Rightarrow> True | Inr d \<Rightarrow>
     sl_validation_time l \<in> {sn_observed_at s .. sn_expires_at s} \<and> sn_entity_id s = sl_entity_id l \<and>
     sn_namespace_id s = sl_namespace_id l \<and>
     (\<exists>i r. i \<in> set (sn_issuers s) \<and> r \<in> set (sn_resources s) \<and>
        si_issuer_id i = sl_issuer_id l \<and> si_status i = AuthorityActive \<and>
        si_trust_root_ref i = sl_trust_root_ref l \<and> si_authority_root_ref i = sl_authority_root_ref l \<and>
        sl_validation_time l \<in> {si_not_before i .. si_not_after i} \<and>
        sl_audience l \<in> set (si_accepted_audiences i) \<and> sl_operation l \<in> set (si_accepted_operations i) \<and>
        sl_evidence_kind l \<in> set (si_accepted_evidence i) \<and>
        sd_matched_resource_scope d \<in> set (si_accepted_resources i) \<and>
        (sd_matched_resource_scope d = sl_resource l \<or>
         (\<exists>pre rest. sd_matched_resource_scope d = pre @ ''*'' \<and> sl_resource l = pre @ rest)) \<and>
        sr_resource_id r = sl_resource l \<and> sr_status r = AuthorityActive \<and>
        sr_controller_entity_id r = sl_entity_id l \<and> sl_operation l \<in> set (sr_allowed_operations r) \<and>
        sl_evidence_kind l \<in> set (sr_required_evidence r))"
proof (cases "lookup_entity_resource_authority s l")
  case (Inr d)
  have scope: "scope = res \<or> (\<exists>pre rest. scope = pre @ ''*'' \<and> res = pre @ rest)"
    if "resource_scope_matches scope res" for scope res
    using that by (auto simp: resource_scope_matches_def strip_suffix_Some_iff starts_with_iff prefix_def
        split: option.splits)
  from Inr obtain i r scp where facts:
    "sl_validation_time l \<in> {sn_observed_at s .. sn_expires_at s}" "sn_entity_id s = sl_entity_id l"
    "sn_namespace_id s = sl_namespace_id l"
    "find (\<lambda>i. si_issuer_id i = sl_issuer_id l) (sn_issuers s) = Some i"
    "si_status i = AuthorityActive" "si_trust_root_ref i = sl_trust_root_ref l"
    "si_authority_root_ref i = sl_authority_root_ref l"
    "sl_validation_time l \<in> {si_not_before i .. si_not_after i}"
    "sl_audience l \<in> set (si_accepted_audiences i)" "sl_operation l \<in> set (si_accepted_operations i)"
    "sl_evidence_kind l \<in> set (si_accepted_evidence i)"
    "find (\<lambda>scope. resource_scope_matches scope (sl_resource l)) (si_accepted_resources i) = Some scp"
    "find (\<lambda>r. sr_resource_id r = sl_resource l) (sn_resources s) = Some r"
    "sr_status r = AuthorityActive" "sr_controller_entity_id r = sl_entity_id l"
    "sl_operation l \<in> set (sr_allowed_operations r)" "sl_evidence_kind l \<in> set (sr_required_evidence r)"
    "sd_matched_resource_scope d = scp"
    by (auto simp: lookup_entity_resource_authority_def result_simps not_less)
  have "scp = sl_resource l \<or> (\<exists>pre rest. scp = pre @ ''*'' \<and> sl_resource l = pre @ rest)"
    using find_Some_in [OF facts(12)] scope by blast
  then show ?thesis
    unfolding Inr sum.case
    using facts find_Some_in [OF facts(4)] find_Some_in [OF facts(12)] find_Some_in [OF facts(13)]
    by (intro conjI exI [of _ i] exI [of _ r]) (simp_all only:)
qed simp

end
