(* ===== verification/Proof_Keys.thy ===== *)
theory Proof_Keys
  imports Basics "HOL-Library.Char_ord" "HOL-Library.List_Lexorder" "HOL-Library.Product_Lexorder"
begin

text \<open>
  The receiver-held registry of proof verification keys and the proof-metadata gate
  (\<^verbatim>\<open>server/src/proof_keys.rs\<close>). Typed JSON parsing (serde) is a parameter.
\<close>

section \<open>Data\<close>

definition SHA256_HEX_LENGTH :: nat where "SHA256_HEX_LENGTH = 64"

definition METADATA_CLAIM_LABELS :: "string list" where
  "METADATA_CLAIM_LABELS = [''proof_metadata_bound'', ''proof_registry_checked'']"

datatype RequiredProofTier = MetadataBound | LightClientVerifiedTier | RecursiveProofCarryingStateTier

record ProofMetadataRoutePolicy =
  pmp_required_tier :: RequiredProofTier
  pmp_require_active :: bool

record ProofMetadataRouteConfig =
  prc_opcode :: u8
  prc_required_tier :: RequiredProofTier
  prc_require_active :: bool

datatype ProofKeyLifecycle = KeyActive | KeyDeprecated | KeyRevoked

record ProofKeyRef =
  pkr_vk_id :: string
  pkr_vk_version :: u64

record ProofKeyEntry =
  pke_vk_id :: string
  pke_vk_version :: u64
  pke_proof_system :: string
  pke_circuit_id :: string
  pke_circuit_version :: u64
  pke_vk_fingerprint_algorithm :: string
  pke_vk_fingerprint :: string
  pke_public_input_schema_id :: string
  pke_public_input_schema_hash_algorithm :: string
  pke_public_input_schema_hash :: string
  pke_lifecycle :: ProofKeyLifecycle
  pke_not_before :: u64
  pke_not_after :: "u64 option"
  pke_allowed_tiers :: "RequiredProofTier list"
  pke_supersedes :: "ProofKeyRef option"
  pke_deprecated_historical_only :: bool
  pke_claim_label :: string

record ObservedProofMetadata =
  opm_vk_id :: string
  opm_vk_version :: u64
  opm_proof_system :: string
  opm_circuit_id :: string
  opm_circuit_version :: u64
  opm_vk_fingerprint_algorithm :: string
  opm_vk_fingerprint :: string
  opm_public_input_schema_id :: string
  opm_public_input_schema_hash_algorithm :: string
  opm_public_input_schema_hash :: string
  opm_observed_tier :: RequiredProofTier
  opm_adapter_claim_label :: "string option"

datatype ProofKeyRegistryError =
    EmptyRegistry | MissingRequiredField | InvalidHashAlgorithm | InvalidVkFingerprint
  | InvalidPublicInputSchemaHash | InvalidValidityWindow | InvalidAllowedTier | InvalidSupersession
  | OverclaimingClaimLabel | DuplicateRegistryEntry | InvalidJson

definition registry_error_reason_code :: "ProofKeyRegistryError \<Rightarrow> string" where
  "registry_error_reason_code e = (case e of
       EmptyRegistry \<Rightarrow> ''empty_proof_key_registry''
     | MissingRequiredField \<Rightarrow> ''missing_proof_key_registry_field''
     | InvalidHashAlgorithm \<Rightarrow> ''invalid_proof_key_hash_algorithm''
     | InvalidVkFingerprint \<Rightarrow> ''invalid_proof_vk_fingerprint''
     | InvalidPublicInputSchemaHash \<Rightarrow> ''invalid_proof_public_input_schema_hash''
     | InvalidValidityWindow \<Rightarrow> ''invalid_proof_key_validity_window''
     | InvalidAllowedTier \<Rightarrow> ''invalid_proof_key_allowed_tier''
     | InvalidSupersession \<Rightarrow> ''invalid_proof_key_supersession''
     | OverclaimingClaimLabel \<Rightarrow> ''overclaiming_proof_key_claim_label''
     | DuplicateRegistryEntry \<Rightarrow> ''duplicate_proof_key_registry_entry''
     | InvalidJson \<Rightarrow> ''invalid_proof_key_registry_json'')"

record ProofKeyRegistry =
  pkreg_entries :: "ProofKeyEntry list"

datatype ProofGateReason =
    MissingProofKeyRegistryEntry | UnknownVerificationKey | ProofSystemMismatch | ProofCircuitMismatch
  | ProofVkFingerprintMismatch | ProofPublicInputSchemaMismatch | ProofKeyDeprecated | ProofKeyRevoked
  | ProofKeyNotYetValid | ProofKeyExpired | ProofTierBelowPolicy | ProofVerifierNotExecuted

definition gate_reason_code :: "ProofGateReason \<Rightarrow> string" where
  "gate_reason_code r = (case r of
       MissingProofKeyRegistryEntry \<Rightarrow> ''missing_proof_key_registry_entry''
     | UnknownVerificationKey \<Rightarrow> ''unknown_verification_key''
     | ProofSystemMismatch \<Rightarrow> ''proof_system_mismatch''
     | ProofCircuitMismatch \<Rightarrow> ''proof_circuit_mismatch''
     | ProofVkFingerprintMismatch \<Rightarrow> ''proof_vk_fingerprint_mismatch''
     | ProofPublicInputSchemaMismatch \<Rightarrow> ''proof_public_input_schema_mismatch''
     | ProofKeyDeprecated \<Rightarrow> ''proof_key_deprecated''
     | ProofKeyRevoked \<Rightarrow> ''proof_key_revoked''
     | ProofKeyNotYetValid \<Rightarrow> ''proof_key_not_yet_valid''
     | ProofKeyExpired \<Rightarrow> ''proof_key_expired''
     | ProofTierBelowPolicy \<Rightarrow> ''proof_tier_below_policy''
     | ProofVerifierNotExecuted \<Rightarrow> ''proof_verifier_not_executed'')"

section \<open>The registry\<close>

definition is_lower_hex_sha256 :: "string \<Rightarrow> bool" where
  "is_lower_hex_sha256 value =
     (length value = SHA256_HEX_LENGTH \<and>
      list_all (\<lambda>c. (CHR ''0'' \<le> c \<and> c \<le> CHR ''9'') \<or> (CHR ''a'' \<le> c \<and> c \<le> CHR ''f'')) value)"

definition validate_entry :: "ProofKeyEntry \<Rightarrow> ProofKeyRegistryError + unit" where
  "validate_entry entry =
     (if list_ex (\<lambda>value. trim value = [])
           [pke_vk_id entry, pke_proof_system entry, pke_circuit_id entry,
            pke_public_input_schema_id entry, pke_claim_label entry]
         \<or> pke_vk_version entry = 0 \<or> pke_circuit_version entry = 0
      then Inl MissingRequiredField
      else if pke_vk_fingerprint_algorithm entry \<noteq> ''sha256''
         \<or> pke_public_input_schema_hash_algorithm entry \<noteq> ''sha256''
      then Inl InvalidHashAlgorithm
      else if \<not> is_lower_hex_sha256 (pke_vk_fingerprint entry) then Inl InvalidVkFingerprint
      else if \<not> is_lower_hex_sha256 (pke_public_input_schema_hash entry)
      then Inl InvalidPublicInputSchemaHash
      else if (case pke_not_after entry of None \<Rightarrow> False | Some t \<Rightarrow> t \<le> pke_not_before entry)
      then Inl InvalidValidityWindow
      else if pke_allowed_tiers entry = [] \<or> list_ex (\<lambda>tier. tier \<noteq> MetadataBound) (pke_allowed_tiers entry)
      then Inl InvalidAllowedTier
      else if (case pke_supersedes entry of None \<Rightarrow> False | Some s \<Rightarrow>
           trim (pkr_vk_id s) = [] \<or> pkr_vk_version s = 0
           \<or> (pkr_vk_id s = pke_vk_id entry \<and> pke_vk_version entry \<le> pkr_vk_version s))
      then Inl InvalidSupersession
      else if pke_claim_label entry \<notin> set METADATA_CLAIM_LABELS then Inl OverclaimingClaimLabel
      else Inr ())"

definition entry_key :: "ProofKeyEntry \<Rightarrow> string \<times> string \<times> string \<times> u64" where
  "entry_key e = (pke_proof_system e, pke_circuit_id e, pke_vk_id e, pke_vk_version e)"

definition entry_identity :: "ProofKeyEntry \<Rightarrow> string \<times> u64" where
  "entry_identity e = (pke_vk_id e, pke_vk_version e)"

text \<open>The first loop of \<^verbatim>\<open>from_entries\<close>, with the keys seen so far.\<close>

fun check_entries ::
  "(string \<times> string \<times> string \<times> u64) list \<Rightarrow> ProofKeyEntry list \<Rightarrow> ProofKeyRegistryError + unit" where
  "check_entries seen [] = Inr ()"
| "check_entries seen (e # es) =
     rbind (validate_entry e) (\<lambda>_.
       if entry_key e \<in> set seen then Inl DuplicateRegistryEntry
       else check_entries (entry_key e # seen) es)"

definition from_entries :: "ProofKeyEntry list \<Rightarrow> ProofKeyRegistryError + ProofKeyRegistry" where
  "from_entries entries =
     (if entries = [] then Inl EmptyRegistry
      else rbind (check_entries [] entries) (\<lambda>_.
        if list_ex (\<lambda>e. case pke_supersedes e of None \<Rightarrow> False
             | Some s \<Rightarrow> (pkr_vk_id s, pkr_vk_version s) \<notin> set (map entry_identity entries)) entries
        then Inl InvalidSupersession
        else Inr \<lparr>pkreg_entries = sort_key entry_key entries\<rparr>))"

definition registry_lookup ::
  "ProofKeyRegistry \<Rightarrow> string \<Rightarrow> string \<Rightarrow> string \<Rightarrow> u64 \<Rightarrow> ProofKeyEntry option" where
  "registry_lookup reg proof_system circuit_id vk_id vk_version =
     find (\<lambda>e. pke_proof_system e = proof_system \<and> pke_circuit_id e = circuit_id
        \<and> pke_vk_id e = vk_id \<and> pke_vk_version e = vk_version) (pkreg_entries reg)"

definition match_observed :: "ProofKeyRegistry \<Rightarrow> ObservedProofMetadata \<Rightarrow> ProofGateReason + ProofKeyEntry" where
  "match_observed reg observed =
     rbind (ok_or UnknownVerificationKey
       (find (\<lambda>e. pke_vk_id e = opm_vk_id observed \<and> pke_vk_version e = opm_vk_version observed)
          (pkreg_entries reg))) (\<lambda>entry.
     if pke_proof_system entry \<noteq> opm_proof_system observed then Inl ProofSystemMismatch
     else if pke_circuit_id entry \<noteq> opm_circuit_id observed
        \<or> pke_circuit_version entry \<noteq> opm_circuit_version observed
     then Inl ProofCircuitMismatch
     else if pke_vk_fingerprint_algorithm entry \<noteq> opm_vk_fingerprint_algorithm observed
        \<or> pke_vk_fingerprint entry \<noteq> opm_vk_fingerprint observed
     then Inl ProofVkFingerprintMismatch
     else if pke_public_input_schema_id entry \<noteq> opm_public_input_schema_id observed
        \<or> pke_public_input_schema_hash_algorithm entry \<noteq> opm_public_input_schema_hash_algorithm observed
        \<or> pke_public_input_schema_hash entry \<noteq> opm_public_input_schema_hash observed
     then Inl ProofPublicInputSchemaMismatch
     else Inr entry)"

record ProofMetadataRuntimeConfig =
  pmc_registry :: ProofKeyRegistry
  pmc_route_policies :: "u8 \<rightharpoonup> ProofMetadataRoutePolicy"

fun collect_routes ::
  "(u8 \<rightharpoonup> ProofMetadataRoutePolicy) \<Rightarrow> ProofMetadataRouteConfig list \<Rightarrow>
     ProofKeyRegistryError + (u8 \<rightharpoonup> ProofMetadataRoutePolicy)" where
  "collect_routes m [] = Inr m"
| "collect_routes m (r # rs) =
     (if prc_required_tier r \<noteq> MetadataBound then Inl InvalidAllowedTier
      else if m (prc_opcode r) \<noteq> None then Inl DuplicateRegistryEntry
      else collect_routes (m(prc_opcode r \<mapsto>
        \<lparr>pmp_required_tier = prc_required_tier r, pmp_require_active = prc_require_active r\<rparr>)) rs)"

text \<open>\<^term>\<open>parse\<close> is serde's reading of the configuration file.\<close>

definition runtime_config_from_json_str ::
  "(string \<Rightarrow> (ProofKeyEntry list \<times> ProofMetadataRouteConfig list) option) \<Rightarrow> string \<Rightarrow>
     ProofKeyRegistryError + ProofMetadataRuntimeConfig" where
  "runtime_config_from_json_str parse json =
     rbind (ok_or InvalidJson (parse json)) (\<lambda>(entries, routes).
     rbind (from_entries entries) (\<lambda>registry.
     rbind (collect_routes Map.empty routes) (\<lambda>route_policies.
     if routes = [] then Inl InvalidAllowedTier
     else Inr \<lparr>pmc_registry = registry, pmc_route_policies = route_policies\<rparr>)))"

section \<open>The gate\<close>

record ProofMetadataBinding =
  pmb_proof_registry_checked :: bool
  pmb_proof_metadata_bound :: bool
  pmb_claim_label :: string
  pmb_vk_id :: string
  pmb_vk_version :: u64
  pmb_proof_system :: string
  pmb_circuit_id :: string
  pmb_circuit_version :: u64
  pmb_vk_fingerprint_sha256_prefix :: string
  pmb_public_input_schema_id :: string
  pmb_public_input_schema_hash_sha256_prefix :: string

definition redaction_safe_summary_fields :: "ProofMetadataBinding \<Rightarrow> string list" where
  "redaction_safe_summary_fields b =
     [''proof_registry_checked:'' @ bool_string (pmb_proof_registry_checked b),
      ''proof_metadata_bound:'' @ bool_string (pmb_proof_metadata_bound b),
      ''proof_claim_label:'' @ pmb_claim_label b,
      ''proof_vk_id:'' @ pmb_vk_id b,
      ''proof_vk_version:'' @ dec_string (unat (pmb_vk_version b)),
      ''proof_system:'' @ pmb_proof_system b,
      ''proof_circuit_id:'' @ pmb_circuit_id b,
      ''proof_circuit_version:'' @ dec_string (unat (pmb_circuit_version b)),
      ''proof_vk_fingerprint_sha256_prefix:'' @ pmb_vk_fingerprint_sha256_prefix b,
      ''proof_public_input_schema_id:'' @ pmb_public_input_schema_id b,
      ''proof_public_input_schema_hash_sha256_prefix:'' @ pmb_public_input_schema_hash_sha256_prefix b]"

definition evaluate_metadata ::
  "ProofKeyRegistry \<Rightarrow> u64 \<Rightarrow> ObservedProofMetadata option \<Rightarrow> RequiredProofTier \<Rightarrow> bool \<Rightarrow>
     ProofGateReason + ProofMetadataBinding" where
  "evaluate_metadata reg evaluated_at observed required_tier require_active =
     (if required_tier = LightClientVerifiedTier \<or> required_tier = RecursiveProofCarryingStateTier
      then Inl ProofVerifierNotExecuted
      else rbind (ok_or MissingProofKeyRegistryEntry observed) (\<lambda>observed.
        rbind (match_observed reg observed) (\<lambda>entry.
        if pke_lifecycle entry = KeyRevoked then Inl ProofKeyRevoked
        else if pke_lifecycle entry = KeyDeprecated \<and> require_active then Inl ProofKeyDeprecated
        else if evaluated_at < pke_not_before entry then Inl ProofKeyNotYetValid
        else if (case pke_not_after entry of None \<Rightarrow> False | Some t \<Rightarrow> t \<le> evaluated_at)
        then Inl ProofKeyExpired
        else if opm_observed_tier observed \<noteq> MetadataBound
           \<or> MetadataBound \<notin> set (pke_allowed_tiers entry)
        then Inl ProofTierBelowPolicy
        else Inr \<lparr>pmb_proof_registry_checked = True, pmb_proof_metadata_bound = True,
               pmb_claim_label = pke_claim_label entry, pmb_vk_id = pke_vk_id entry,
               pmb_vk_version = pke_vk_version entry, pmb_proof_system = pke_proof_system entry,
               pmb_circuit_id = pke_circuit_id entry, pmb_circuit_version = pke_circuit_version entry,
               pmb_vk_fingerprint_sha256_prefix = take 16 (pke_vk_fingerprint entry),
               pmb_public_input_schema_id = pke_public_input_schema_id entry,
               pmb_public_input_schema_hash_sha256_prefix = take 16 (pke_public_input_schema_hash entry)\<rparr>)))"

definition gate_evaluate ::
  "ProofKeyRegistry \<Rightarrow> u64 \<Rightarrow> ObservedProofMetadata option \<Rightarrow> RequiredProofTier \<Rightarrow> bool \<Rightarrow>
     ProofGateReason + unit" where
  "gate_evaluate reg evaluated_at observed required_tier require_active =
     rbind (evaluate_metadata reg evaluated_at observed required_tier require_active) (\<lambda>_. Inr ())"

section \<open>Lemmas\<close>

text \<open>The invariant that construction gives: entries are valid and their keys distinct.\<close>

definition proof_registry_ok :: "ProofKeyRegistry \<Rightarrow> bool" where
  "proof_registry_ok reg \<longleftrightarrow> pkreg_entries reg \<noteq> [] \<and>
     list_all (\<lambda>e. validate_entry e = Inr ()) (pkreg_entries reg) \<and>
     distinct (map entry_key (pkreg_entries reg)) \<and> sorted (map entry_key (pkreg_entries reg))"

lemma check_entries_Inr:
  "check_entries seen es = Inr () \<longleftrightarrow> list_all (\<lambda>e. validate_entry e = Inr ()) es \<and>
     distinct (map entry_key es) \<and> set seen \<inter> entry_key ` set es = {}"
  by (induction es arbitrary: seen) (auto simp: rbind_Inr_iff if_guard_Inr_iff)

lemma from_entries_ok:
  assumes "from_entries es = Inr reg"
  shows "proof_registry_ok reg" and "set (pkreg_entries reg) = set es"
proof -
  have reg: "reg = \<lparr>pkreg_entries = sort_key entry_key es\<rparr>" and es: "es \<noteq> []"
    and ok: "check_entries [] es = Inr ()"
    using assms by (auto simp: from_entries_def result_simps)
  from ok have "list_all (\<lambda>e. validate_entry e = Inr ()) es" "distinct (map entry_key es)"
    by (simp_all add: check_entries_Inr)
  moreover have "distinct (map entry_key (sort_key entry_key es)) = distinct (map entry_key es)"
    by (simp add: distinct_map)
  ultimately show "proof_registry_ok reg"
    using es by (simp add: proof_registry_ok_def reg list_all_iff) (metis length_0_conv length_sort)
  show "set (pkreg_entries reg) = set es" by (simp add: reg)
qed

lemma validate_entry_fingerprints:
  "validate_entry e = Inr () \<Longrightarrow> length (pke_vk_fingerprint e) = 64 \<and> length (pke_public_input_schema_hash e) = 64"
  by (auto simp: validate_entry_def result_simps is_lower_hex_sha256_def SHA256_HEX_LENGTH_def)

lemma find_first_le:
  "sorted (map f xs) \<Longrightarrow> find P xs = Some y \<Longrightarrow> x \<in> set xs \<Longrightarrow> P x \<Longrightarrow> f y \<le> f x"
  by (induction xs) (auto split: if_splits)

text \<open>The metadata an adapter reports for a registered entry.\<close>

definition observed_for :: "ProofKeyEntry \<Rightarrow> ObservedProofMetadata" where
  "observed_for e =
     \<lparr>opm_vk_id = pke_vk_id e, opm_vk_version = pke_vk_version e, opm_proof_system = pke_proof_system e,
      opm_circuit_id = pke_circuit_id e, opm_circuit_version = pke_circuit_version e,
      opm_vk_fingerprint_algorithm = pke_vk_fingerprint_algorithm e,
      opm_vk_fingerprint = pke_vk_fingerprint e,
      opm_public_input_schema_id = pke_public_input_schema_id e,
      opm_public_input_schema_hash_algorithm = pke_public_input_schema_hash_algorithm e,
      opm_public_input_schema_hash = pke_public_input_schema_hash e,
      opm_observed_tier = MetadataBound, opm_adapter_claim_label = None\<rparr>"

lemma match_observed_Inr_iff:
  "match_observed reg observed = Inr e \<longleftrightarrow>
     find (\<lambda>e. pke_vk_id e = opm_vk_id observed \<and> pke_vk_version e = opm_vk_version observed)
       (pkreg_entries reg) = Some e \<and>
     observed = (observed_for e)\<lparr>opm_observed_tier := opm_observed_tier observed,
       opm_adapter_claim_label := opm_adapter_claim_label observed\<rparr>"
proof -
  have "find (\<lambda>e. pke_vk_id e = opm_vk_id observed \<and> pke_vk_version e = opm_vk_version observed)
       (pkreg_entries reg) = Some e \<Longrightarrow> pke_vk_id e = opm_vk_id observed \<and> pke_vk_version e = opm_vk_version observed"
    by (auto simp: find_Some_iff)
  then show ?thesis
    by (cases observed) (auto simp: match_observed_def result_simps observed_for_def)
qed

lemma match_observed_first:
  assumes reg: "proof_registry_ok reg" and e: "e1 \<in> set (pkreg_entries reg)"
    and same: "entry_identity e1 = entry_identity e2" and less: "entry_key e1 < entry_key e2"
  shows "match_observed reg (observed_for e2) \<noteq> Inr e"
proof
  assume "match_observed reg (observed_for e2) = Inr e"
  then have f: "find (\<lambda>e. pke_vk_id e = pke_vk_id e2 \<and> pke_vk_version e = pke_vk_version e2)
       (pkreg_entries reg) = Some e"
    and eq: "entry_key e = entry_key e2"
    by (auto simp: match_observed_Inr_iff observed_for_def entry_key_def)
  have "entry_key e \<le> entry_key e1"
    using find_first_le [where f = entry_key, OF _ f e] reg same by (simp add: proof_registry_ok_def entry_identity_def)
  then show False using less eq by simp
qed

definition sample_entry :: "string \<Rightarrow> ProofKeyEntry" where
  "sample_entry circuit =
     \<lparr>pke_vk_id = ''vk'', pke_vk_version = 1, pke_proof_system = ''groth16'', pke_circuit_id = circuit,
      pke_circuit_version = 1, pke_vk_fingerprint_algorithm = ''sha256'',
      pke_vk_fingerprint = replicate 64 CHR ''a'', pke_public_input_schema_id = ''schema'',
      pke_public_input_schema_hash_algorithm = ''sha256'',
      pke_public_input_schema_hash = replicate 64 CHR ''b'', pke_lifecycle = KeyActive,
      pke_not_before = 0, pke_not_after = None, pke_allowed_tiers = [MetadataBound],
      pke_supersedes = None, pke_deprecated_historical_only = False,
      pke_claim_label = ''proof_metadata_bound''\<rparr>"

lemma is_lower_hex_sha256_replicate:
  "is_lower_hex_sha256 (replicate 64 CHR ''a'')" "is_lower_hex_sha256 (replicate 64 CHR ''b'')"
  by (simp_all add: is_lower_hex_sha256_def SHA256_HEX_LENGTH_def list_all_iff less_eq_char_def)

lemma sample_entry_valid:
  "trim circuit \<noteq> [] \<Longrightarrow> validate_entry (sample_entry circuit) = Inr ()"
  by (simp add: validate_entry_def sample_entry_def is_lower_hex_sha256_replicate METADATA_CLAIM_LABELS_def
      trim_plain plain_literal)

section \<open>Properties\<close>

text \<open>C23. Construction establishes the registry's invariant: whatever entries are configured, a
  registry that is built holds exactly those entries, sorted, every one valid and no two under the same
  proof system, circuit, key and version, and both digests are long enough for the gate's 16-character
  prefixes.\<close>

theorem from_entries_establishes_invariant:
  "case from_entries es of
     Inl e \<Rightarrow> \<not> (es \<noteq> [] \<and> list_all (\<lambda>e. validate_entry e = Inr ()) es \<and> distinct (map entry_key es) \<and>
       list_all (\<lambda>e. case pke_supersedes e of None \<Rightarrow> True
          | Some s \<Rightarrow> (pkr_vk_id s, pkr_vk_version s) \<in> entry_identity ` set es) es)
   | Inr reg \<Rightarrow> proof_registry_ok reg \<and> set (pkreg_entries reg) = set es \<and>
       list_all (\<lambda>e. 16 \<le> length (pke_vk_fingerprint e) \<and> 16 \<le> length (pke_public_input_schema_hash e))
         (pkreg_entries reg)"
proof (cases "from_entries es")
  case (Inl e)
  then have "es = [] \<or> check_entries [] es \<noteq> Inr () \<or>
      \<not> list_all (\<lambda>e. case pke_supersedes e of None \<Rightarrow> True
          | Some s \<Rightarrow> (pkr_vk_id s, pkr_vk_version s) \<in> entry_identity ` set es) es"
    by (auto simp: from_entries_def list_ex_iff list_all_iff split: if_splits option.splits)
  then show ?thesis by (simp add: Inl check_entries_Inr)
next
  case (Inr reg)
  from from_entries_ok [OF this] show ?thesis
    using validate_entry_fingerprints by (fastforce simp: Inr proof_registry_ok_def list_all_iff)
qed


text \<open>Registration checks uniqueness per proof system and circuit, but matching looks a key up by
  its id and version alone: when two circuits share a key id and version, the metadata of the later one,
  though registered and valid, is refused for ever.\<close>

theorem shared_key_identity_shadows_entry:
  assumes "from_entries es = Inr reg" and "e1 \<in> set es" and "e2 \<in> set es"
    and "entry_identity e1 = entry_identity e2" and "entry_key e1 < entry_key e2"
  shows "\<not> is_ok (match_observed reg (observed_for e2))"
  using match_observed_first [of reg e1 e2] from_entries_ok [OF assms(1)] assms
  by (auto simp: is_ok_iff)

theorem shared_key_identity_shadows_entry_witness:
  "\<exists>reg. from_entries [sample_entry ''a'', sample_entry ''b''] = Inr reg \<and>
     \<not> is_ok (match_observed reg (observed_for (sample_entry ''b'')))"
proof -
  have v: "validate_entry (sample_entry ''a'') = Inr ()" "validate_entry (sample_entry ''b'') = Inr ()"
    by (rule sample_entry_valid, simp add: trim_plain plain_literal)+
  have less: "entry_key (sample_entry ''a'') < entry_key (sample_entry ''b'')"
    by (simp add: entry_key_def sample_entry_def less_char_def)
  then have "from_entries [sample_entry ''a'', sample_entry ''b''] =
      Inr \<lparr>pkreg_entries = sort_key entry_key [sample_entry ''a'', sample_entry ''b'']\<rparr>"
    using v by (simp add: from_entries_def sample_entry_def)
  then show ?thesis
    using shared_key_identity_shadows_entry [of "[sample_entry ''a'', sample_entry ''b'']" _ "sample_entry ''a''"
        "sample_entry ''b''"] less
    by (simp add: entry_identity_def sample_entry_def)
qed

end
