(* ===== verification/Codec.thy ===== *)
theory Codec
  imports Prelude
begin

text \<open>
  The interface shared by the hand-written wire formats: an encoder that appends bytes and a
  decoder that reads from an offset into the whole frame and returns the next offset, as
  \<^verbatim>\<open>read_len(bytes, &mut offset)\<close> in \<^verbatim>\<open>core/src/ingress_request.rs\<close> and the \<^verbatim>\<open>Cursor\<close> of
  \<^verbatim>\<open>core/src/execution_response.rs\<close> do. Every field decoder of the two formats is an
  interpretation of this locale, and the round trips of the frames are built from its facts.
\<close>

lemma drop_add_append: "drop off bs = a @ b \<Longrightarrow> drop (off + length a) bs = b"
  by (metis append_eq_conv_conj drop_drop add.commute)

lemma drop_append_length_le:
  "drop off bs = a @ b \<Longrightarrow> off \<le> length bs \<Longrightarrow> off + length a \<le> length bs"
  by (metis add_le_cancel_left append_take_drop_id le_add1 length_append length_drop
      le_add_diff_inverse)

lemma slice_step:
  assumes "drop off bs = a @ post" and "off \<le> length bs" and "length bs \<le> u64_max"
    and "n = length a"
  shows "checked_add off n = Some (off + n) \<and> slice_get bs off (off + n) = Some a"
  using assms drop_append_length_le [OF assms(1,2)]
  by (simp add: checked_add_def slice_get_def)

lemma slice_sound:
  assumes "slice_get bs off e = Some raw"
  shows "drop off bs = raw @ drop e bs \<and> e = off + length raw \<and> e \<le> length bs"
  using assms
  by (auto simp: slice_get_Some_iff) (metis append_take_drop_id drop_drop le_add_diff_inverse2)

text \<open>A counted loop over a field decoder, as the \<^verbatim>\<open>for _ in 0..count\<close> loops of the wire formats.\<close>

fun read_n :: "(bytes \<Rightarrow> nat \<Rightarrow> 'e + 'a \<times> nat) \<Rightarrow> nat \<Rightarrow> bytes \<Rightarrow> nat \<Rightarrow> 'e + 'a list \<times> nat" where
  "read_n dec 0 bs off = Inr ([], off)"
| "read_n dec (Suc n) bs off =
     rbind (dec bs off) (\<lambda>(x, off').
     rbind (read_n dec n bs off') (\<lambda>(xs, off''). Inr (x # xs, off'')))"

locale cursor_codec =
  fixes enc :: "'a \<Rightarrow> bytes"
    and dec :: "bytes \<Rightarrow> nat \<Rightarrow> 'e + 'a \<times> nat"
    and ok :: "'a \<Rightarrow> bool"
  assumes dec_enc: "ok x \<Longrightarrow> drop off bs = enc x @ post \<Longrightarrow> off \<le> length bs \<Longrightarrow>
      length bs \<le> u64_max \<Longrightarrow> dec bs off = Inr (x, off + length (enc x))"
    and dec_sound: "dec bs off = Inr (x, off') \<Longrightarrow>
      ok x \<and> off' = off + length (enc x) \<and> off' \<le> length bs \<and> drop off bs = enc x @ drop off' bs"
begin

lemma dec_step:
  assumes "ok x" and "drop off bs = enc x @ post" and "off \<le> length bs" and "length bs \<le> u64_max"
  shows "dec bs off = Inr (x, off + length (enc x)) \<and> drop (off + length (enc x)) bs = post \<and>
    off + length (enc x) \<le> length bs"
  using dec_enc [OF assms] drop_add_append [OF assms(2)] drop_append_length_le [OF assms(2,3)]
  by blast

lemma enc_prefix_free:
  assumes "ok x" and "ok y" and eq: "enc x @ r = enc y @ s" and len: "length (enc x @ r) \<le> u64_max"
  shows "x = y \<and> r = s"
proof -
  have "dec (enc x @ r) 0 = Inr (x, length (enc x))"
    using dec_enc [of x 0 "enc x @ r" r] assms by simp
  moreover have "dec (enc x @ r) 0 = Inr (y, length (enc y))"
    using dec_enc [of y 0 "enc x @ r" s] assms by simp
  ultimately show ?thesis using eq by simp
qed

lemma enc_inj: "ok x \<Longrightarrow> ok y \<Longrightarrow> enc x = enc y \<Longrightarrow> length (enc x) \<le> u64_max \<Longrightarrow> x = y"
  using enc_prefix_free [of x y "[]" "[]"] by simp

lemma dec_advances: "dec bs off = Inr (x, off') \<Longrightarrow> off \<le> off' \<and> off' \<le> length bs"
  using dec_sound by fastforce

lemma dec_in_bounds: "dec bs off = Inr (x, off') \<Longrightarrow> off \<le> length bs"
  using dec_advances by fastforce

lemma read_n_enc:
  assumes "\<And>x. x \<in> set xs \<Longrightarrow> ok x" and "drop off bs = concat (map enc xs) @ post"
    and "off \<le> length bs" and "length bs \<le> u64_max"
  shows "read_n dec (length xs) bs off = Inr (xs, off + length (concat (map enc xs)))"
  using assms
proof (induction xs arbitrary: off)
  case (Cons x xs)
  have "ok x" and "drop off bs = enc x @ (concat (map enc xs) @ post)"
    using Cons.prems by simp_all
  note step = dec_step [OF this Cons.prems(3,4)]
  show ?case
    using step Cons.IH [of "off + length (enc x)"] Cons.prems by simp
qed simp

lemma read_n_sound:
  "read_n dec n bs off = Inr (xs, off') \<Longrightarrow> off \<le> length bs \<Longrightarrow>
     length xs = n \<and> list_all ok xs \<and> off' = off + length (concat (map enc xs)) \<and>
     off' \<le> length bs \<and> drop off bs = concat (map enc xs) @ drop off' bs"
proof (induction n arbitrary: off xs)
  case (Suc n)
  then obtain x o1 ys where step: "dec bs off = Inr (x, o1)"
    and rest: "read_n dec n bs o1 = Inr (ys, off')" and xs: "xs = x # ys"
    by (auto simp: result_simps)
  show ?case
    using dec_sound [OF step] Suc.IH [OF rest] xs by simp
qed simp

end

text \<open>Two fields one after the other are a codec for pairs, so a struct read field by field is a
  codec as soon as its fields are.\<close>

definition seq_dec ::
  "(bytes \<Rightarrow> nat \<Rightarrow> 'e + 'a \<times> nat) \<Rightarrow> (bytes \<Rightarrow> nat \<Rightarrow> 'e + 'b \<times> nat)
     \<Rightarrow> bytes \<Rightarrow> nat \<Rightarrow> 'e + ('a \<times> 'b) \<times> nat" where
  "seq_dec f g bs off =
     rbind (f bs off) (\<lambda>(a, off). rbind (g bs off) (\<lambda>(b, off). Inr ((a, b), off)))"

definition seq_enc :: "('a \<Rightarrow> bytes) \<Rightarrow> ('b \<Rightarrow> bytes) \<Rightarrow> 'a \<times> 'b \<Rightarrow> bytes" where
  "seq_enc f g = (\<lambda>(a, b). f a @ g b)"

lemma cursor_codec_seq:
  assumes "cursor_codec f df okf" and "cursor_codec g dg okg"
  shows "cursor_codec (seq_enc f g) (seq_dec df dg) (\<lambda>(a, b). okf a \<and> okg b)"
proof
  fix x off bs post
  assume ok: "case x of (a, b) \<Rightarrow> okf a \<and> okg b" and d: "drop off bs = seq_enc f g x @ post"
    and "off \<le> length bs" and len: "length bs \<le> u64_max"
  obtain a b where x: "x = (a, b)" by (cases x)
  from ok d x have "okf a" "okg b" and "drop off bs = f a @ (g b @ post)"
    by (simp_all add: seq_enc_def)
  note f = cursor_codec.dec_step [OF assms(1) \<open>okf a\<close> this(3) \<open>off \<le> length bs\<close> len]
  note g = cursor_codec.dec_step [OF assms(2) \<open>okg b\<close> f [THEN conjunct2, THEN conjunct1]
      f [THEN conjunct2, THEN conjunct2] len]
  show "seq_dec df dg bs off = Inr (x, off + length (seq_enc f g x))"
    using f g by (simp add: seq_dec_def seq_enc_def x add.assoc)
next
  fix bs off x off'
  assume "seq_dec df dg bs off = Inr (x, off')"
  then obtain a b o1 where "df bs off = Inr (a, o1)" "dg bs o1 = Inr (b, off')" "x = (a, b)"
    by (auto simp: seq_dec_def result_simps)
  then show "(case x of (a, b) \<Rightarrow> okf a \<and> okg b) \<and> off' = off + length (seq_enc f g x) \<and>
      off' \<le> length bs \<and> drop off bs = seq_enc f g x @ drop off' bs"
    using cursor_codec.dec_sound [OF assms(1)] cursor_codec.dec_sound [OF assms(2)]
    by (fastforce simp: seq_enc_def)
qed

end
