(* ===== verification/Ingress_Request.thy ===== *)
theory Ingress_Request
  imports Codec
begin

text \<open>
  The wire packet (\<^verbatim>\<open>core/src/lib.rs\<close>) and the versioned ingress request frames
  (\<^verbatim>\<open>core/src/ingress_request.rs\<close>): encoding, decoding and their round trips. The bincode
  serialisation of the packet is a parameter (\<^verbatim>\<open>ser\<close>, \<^verbatim>\<open>de\<close>).
\<close>

record ZenithPacket =
  zp_session_id :: bytes
  zp_nonce :: bytes
  zp_opcode :: u8
  zp_proof :: bytes
  zp_claim_ttl :: u64
  zp_encrypted_payload :: bytes
  zp_mac :: bytes

text \<open>The array lengths that the Rust types guarantee.\<close>

definition packet_ok :: "ZenithPacket \<Rightarrow> bool" where
  "packet_ok p = (length (zp_session_id p) = 16 \<and> length (zp_nonce p) = 12 \<and> length (zp_mac p) = 16)"

definition INGRESS_REQUEST_V1_MAGIC :: bytes where
  "INGRESS_REQUEST_V1_MAGIC = as_bytes ''SECSRQ1'' @ [0]"

definition INGRESS_REQUEST_V2_MAGIC :: bytes where
  "INGRESS_REQUEST_V2_MAGIC = as_bytes ''SECSRQ2'' @ [0]"

definition MAX_EVIDENCE_INPUTS :: nat where "MAX_EVIDENCE_INPUTS = 16"

definition MAX_EVIDENCE_INPUT_BYTES :: nat where "MAX_EVIDENCE_INPUT_BYTES = 512"

datatype IngressRequestError =
  FrameTooLarge | Malformed | TooManyEvidenceInputs | EvidenceInputTooLarge

record IngressRequestV1 =
  v1_packet :: ZenithPacket
  v1_evidence_refs :: "string list"
  v1_public_inputs :: "string list"

record IngressRequestV2 =
  v2_packet :: ZenithPacket
  v2_evidence_refs :: "string list"
  v2_public_inputs :: "string list"
  v2_client_ephemeral_public_key :: bytes

datatype IngressFrame =
  Legacy ZenithPacket | V1 IngressRequestV1 | V2 IngressRequestV2

fun dedupe_loop :: "string list \<Rightarrow> string list \<Rightarrow> string list" where
  "dedupe_loop deduped [] = deduped"
| "dedupe_loop deduped (v # vs) =
     dedupe_loop (if v \<in> set deduped then deduped else deduped @ [v]) vs"

definition dedupe_preserving_order :: "string list \<Rightarrow> string list" where
  "dedupe_preserving_order vs = dedupe_loop [] vs"

definition IngressRequestV1_new ::
  "ZenithPacket \<Rightarrow> string list \<Rightarrow> string list \<Rightarrow> IngressRequestV1" where
  "IngressRequestV1_new p refs inputs =
     \<lparr>v1_packet = p, v1_evidence_refs = dedupe_preserving_order refs, v1_public_inputs = inputs\<rparr>"

definition IngressRequestV2_new ::
  "ZenithPacket \<Rightarrow> string list \<Rightarrow> string list \<Rightarrow> bytes \<Rightarrow> IngressRequestV2" where
  "IngressRequestV2_new p refs inputs key =
     \<lparr>v2_packet = p, v2_evidence_refs = dedupe_preserving_order refs, v2_public_inputs = inputs,
      v2_client_ephemeral_public_key = key\<rparr>"

definition validate_inputs :: "string list \<Rightarrow> IngressRequestError + unit" where
  "validate_inputs inputs =
     (if length inputs > MAX_EVIDENCE_INPUTS then Inl TooManyEvidenceInputs
      else if list_ex (\<lambda>i. length i > MAX_EVIDENCE_INPUT_BYTES) inputs then Inl EvidenceInputTooLarge
      else Inr ())"

text \<open>Conversions between \<^verbatim>\<open>usize\<close> and \<^verbatim>\<open>u64\<close>; neither fails on a 64-bit target.\<close>

definition u64_try_from :: "nat \<Rightarrow> nat option" where
  "u64_try_from n = (if n \<le> u64_max then Some n else None)"

definition push_len :: "bytes \<Rightarrow> nat \<Rightarrow> IngressRequestError + bytes" where
  "push_len bs len =
     rbind (ok_or FrameTooLarge (u64_try_from len)) (\<lambda>l. Inr (bs @ le_bytes 8 l))"

definition read_len :: "bytes \<Rightarrow> nat \<Rightarrow> IngressRequestError + nat \<times> nat" where
  "read_len bs off =
     rbind (ok_or Malformed (checked_add off 8)) (\<lambda>end'.
     rbind (ok_or Malformed (slice_get bs off end')) (\<lambda>raw.
     rbind (ok_or FrameTooLarge (u64_try_from (le_value raw))) (\<lambda>v. Inr (v, end'))))"

fun push_strings :: "bytes \<Rightarrow> string list \<Rightarrow> IngressRequestError + bytes" where
  "push_strings bs [] = Inr bs"
| "push_strings bs (v # vs) =
     rbind (push_len bs (length v)) (\<lambda>bs'. push_strings (bs' @ as_bytes v) vs)"

definition push_string_vec :: "bytes \<Rightarrow> string list \<Rightarrow> IngressRequestError + bytes" where
  "push_string_vec bs vs = rbind (push_len bs (length vs)) (\<lambda>bs'. push_strings bs' vs)"

definition read_string_item :: "bytes \<Rightarrow> nat \<Rightarrow> IngressRequestError + string \<times> nat" where
  "read_string_item bs off =
     rbind (read_len bs off) (\<lambda>(len, off).
     if len > MAX_EVIDENCE_INPUT_BYTES then Inl EvidenceInputTooLarge
     else rbind (ok_or Malformed (checked_add off len)) (\<lambda>end'.
       rbind (ok_or Malformed (slice_get bs off end')) (\<lambda>raw.
       rbind (ok_or Malformed (from_utf8 raw)) (\<lambda>v. Inr (v, end')))))"

definition read_string_vec :: "bytes \<Rightarrow> nat \<Rightarrow> IngressRequestError + string list \<times> nat" where
  "read_string_vec bs off =
     rbind (read_len bs off) (\<lambda>(count, off).
     if count > MAX_EVIDENCE_INPUTS then Inl TooManyEvidenceInputs
     else read_n read_string_item count bs off)"

definition encode_ingress_request_v1 ::
  "(ZenithPacket \<Rightarrow> bytes option) \<Rightarrow> IngressRequestV1 \<Rightarrow> IngressRequestError + bytes" where
  "encode_ingress_request_v1 ser req =
     rbind (validate_inputs (v1_evidence_refs req)) (\<lambda>_.
     rbind (validate_inputs (v1_public_inputs req)) (\<lambda>_.
     rbind (ok_or Malformed (ser (v1_packet req))) (\<lambda>packet_bytes.
     rbind (push_len INGRESS_REQUEST_V1_MAGIC (length packet_bytes)) (\<lambda>bs.
     rbind (push_string_vec (bs @ packet_bytes) (v1_evidence_refs req)) (\<lambda>bs.
     push_string_vec bs (v1_public_inputs req))))))"

definition encode_ingress_request_v2 ::
  "(ZenithPacket \<Rightarrow> bytes option) \<Rightarrow> IngressRequestV2 \<Rightarrow> IngressRequestError + bytes" where
  "encode_ingress_request_v2 ser req =
     rbind (validate_inputs (v2_evidence_refs req)) (\<lambda>_.
     rbind (validate_inputs (v2_public_inputs req)) (\<lambda>_.
     rbind (ok_or Malformed (ser (v2_packet req))) (\<lambda>packet_bytes.
     rbind (push_len INGRESS_REQUEST_V2_MAGIC (length packet_bytes)) (\<lambda>bs.
     rbind (push_string_vec (bs @ packet_bytes) (v2_evidence_refs req)) (\<lambda>bs.
     rbind (push_string_vec bs (v2_public_inputs req)) (\<lambda>bs.
     Inr (bs @ v2_client_ephemeral_public_key req)))))))"

text \<open>The length-prefixed packet after the magic, read by both versions.\<close>

definition read_packet ::
  "(bytes \<Rightarrow> ZenithPacket option) \<Rightarrow> nat \<Rightarrow> bytes \<Rightarrow> nat
     \<Rightarrow> IngressRequestError + ZenithPacket \<times> nat" where
  "read_packet de max_frame_bytes bs off =
     rbind (read_len bs off) (\<lambda>(packet_len, off).
     if packet_len > max_frame_bytes \<or> checked_add off packet_len = None then Inl FrameTooLarge
     else rbind (ok_or Malformed (slice_get bs off (off + packet_len))) (\<lambda>raw.
       rbind (ok_or Malformed (de raw)) (\<lambda>p. Inr (p, off + packet_len))))"

definition decode_ingress_frame ::
  "(bytes \<Rightarrow> ZenithPacket option) \<Rightarrow> bytes \<Rightarrow> nat \<Rightarrow> IngressRequestError + IngressFrame" where
  "decode_ingress_frame de bs max_frame_bytes =
     (if length bs > max_frame_bytes then Inl FrameTooLarge
      else if starts_with INGRESS_REQUEST_V2_MAGIC bs then
        rbind (read_packet de max_frame_bytes bs (length INGRESS_REQUEST_V2_MAGIC)) (\<lambda>(packet, off).
        rbind (read_string_vec bs off) (\<lambda>(evidence_refs, off).
        rbind (read_string_vec bs off) (\<lambda>(public_inputs, off).
        rbind (ok_or Malformed (checked_add off 32)) (\<lambda>key_end.
        rbind (ok_or Malformed (slice_get bs off key_end)) (\<lambda>key.
        if key_end \<noteq> length bs then Inl Malformed
        else Inr (V2 (IngressRequestV2_new packet evidence_refs public_inputs key)))))))
      else if \<not> starts_with INGRESS_REQUEST_V1_MAGIC bs then
        rbind (ok_or Malformed (de bs)) (\<lambda>packet. Inr (Legacy packet))
      else
        rbind (read_packet de max_frame_bytes bs (length INGRESS_REQUEST_V1_MAGIC)) (\<lambda>(packet, off).
        rbind (read_string_vec bs off) (\<lambda>(evidence_refs, off).
        rbind (read_string_vec bs off) (\<lambda>(public_inputs, off).
        if off \<noteq> length bs then Inl Malformed
        else Inr (V1 (IngressRequestV1_new packet evidence_refs public_inputs))))))"

section \<open>The field codecs\<close>

definition enc_string :: "string \<Rightarrow> bytes" where
  "enc_string s = le_bytes 8 (length s) @ as_bytes s"

definition enc_string_vec :: "string list \<Rightarrow> bytes" where
  "enc_string_vec vs = le_bytes 8 (length vs) @ concat (map enc_string vs)"

definition input_ok :: "string \<Rightarrow> bool" where
  "input_ok s = (str_ok s \<and> length s \<le> MAX_EVIDENCE_INPUT_BYTES)"

definition inputs_ok :: "string list \<Rightarrow> bool" where
  "inputs_ok vs = (length vs \<le> MAX_EVIDENCE_INPUTS \<and> list_all input_ok vs)"

lemma u64_max_pow: "n \<le> u64_max \<longleftrightarrow> n < 256 ^ 8"
  by (auto simp: u64_max_def)

lemma u64_try_from_Some_iff [result_simps]: "u64_try_from n = Some m \<longleftrightarrow> n \<le> u64_max \<and> m = n"
  by (auto simp: u64_try_from_def)

interpretation len_codec: cursor_codec "le_bytes 8" read_len "\<lambda>n. n \<le> u64_max"
proof
  fix x off bs post
  assume "x \<le> u64_max" and d: "drop off bs = le_bytes 8 x @ post"
    and "off \<le> length bs" and "length bs \<le> u64_max"
  then show "read_len bs off = Inr (x, off + length (le_bytes 8 x))"
    using slice_step [OF d, of 8] le_value_le_bytes_small [of x 8]
    by (simp add: read_len_def u64_try_from_def u64_max_pow)
next
  fix bs off x off'
  assume "read_len bs off = Inr (x, off')"
  then obtain raw where raw: "slice_get bs off (off + 8) = Some raw"
    and x: "x = le_value raw" "x \<le> u64_max" and off': "off' = off + 8"
    by (auto simp: read_len_def result_simps)
  moreover have "length raw = 8" using length_slice_get [OF raw] by simp
  then have "le_bytes 8 x = raw" using le_bytes_le_value [of raw] x by simp
  ultimately show "x \<le> u64_max \<and> off' = off + length (le_bytes 8 x) \<and> off' \<le> length bs \<and>
      drop off bs = le_bytes 8 x @ drop off' bs"
    using slice_sound [OF raw] by simp
qed

interpretation string_codec: cursor_codec enc_string read_string_item input_ok
proof
  fix x off bs post
  assume ok: "input_ok x" and d: "drop off bs = enc_string x @ post"
    and "off \<le> length bs" and "length bs \<le> u64_max"
  then have "length x \<le> u64_max" and d': "drop off bs = le_bytes 8 (length x) @ (as_bytes x @ post)"
    by (simp_all add: enc_string_def input_ok_def MAX_EVIDENCE_INPUT_BYTES_def u64_max_def)
  note len = len_codec.dec_step [OF this \<open>off \<le> length bs\<close> \<open>length bs \<le> u64_max\<close>]
  with slice_step [of "off + 8" bs "as_bytes x" post "length x"] ok \<open>length bs \<le> u64_max\<close>
  show "read_string_item bs off = Inr (x, off + length (enc_string x))"
    by (simp add: read_string_item_def enc_string_def input_ok_def)
next
  fix bs off x off'
  assume "read_string_item bs off = Inr (x, off')"
  then obtain len o1 raw where len: "read_len bs off = Inr (len, o1)" "len \<le> MAX_EVIDENCE_INPUT_BYTES"
    and raw: "slice_get bs o1 (o1 + len) = Some raw" "raw = as_bytes x" "str_ok x" "off' = o1 + len"
    by (auto simp: read_string_item_def result_simps split: if_splits)
  moreover have "len = length x" using length_slice_get [OF raw(1)] raw by simp
  ultimately show "input_ok x \<and> off' = off + length (enc_string x) \<and> off' \<le> length bs \<and>
      drop off bs = enc_string x @ drop off' bs"
    using slice_sound [OF raw(1)] len_codec.dec_sound [OF len(1)]
    by (simp add: input_ok_def enc_string_def)
qed

interpretation string_vec_codec: cursor_codec enc_string_vec read_string_vec inputs_ok
proof
  fix x off bs post
  assume ok: "inputs_ok x" and d: "drop off bs = enc_string_vec x @ post"
    and "off \<le> length bs" and "length bs \<le> u64_max"
  then have "length x \<le> u64_max"
    and d': "drop off bs = le_bytes 8 (length x) @ (concat (map enc_string x) @ post)"
    by (simp_all add: enc_string_vec_def inputs_ok_def MAX_EVIDENCE_INPUTS_def u64_max_def)
  note len = len_codec.dec_step [OF this \<open>off \<le> length bs\<close> \<open>length bs \<le> u64_max\<close>]
  with string_codec.read_n_enc [of x "off + 8" bs post] ok \<open>length bs \<le> u64_max\<close>
  show "read_string_vec bs off = Inr (x, off + length (enc_string_vec x))"
    by (simp add: read_string_vec_def enc_string_vec_def inputs_ok_def list_all_iff add.assoc)
next
  fix bs off x off'
  assume "read_string_vec bs off = Inr (x, off')"
  then obtain count o1 where count: "read_len bs off = Inr (count, o1)" "count \<le> MAX_EVIDENCE_INPUTS"
    and items: "read_n read_string_item count bs o1 = Inr (x, off')"
    by (auto simp: read_string_vec_def result_simps split: if_splits)
  show "inputs_ok x \<and> off' = off + length (enc_string_vec x) \<and> off' \<le> length bs \<and>
      drop off bs = enc_string_vec x @ drop off' bs"
    using len_codec.dec_sound [OF count(1)] string_codec.read_n_sound [OF items] count(2)
    by (simp add: inputs_ok_def enc_string_vec_def)
qed

lemma push_len_ok: "n \<le> u64_max \<Longrightarrow> push_len bs n = Inr (bs @ le_bytes 8 n)"
  by (simp add: push_len_def u64_try_from_def)

lemma push_strings_ok: "list_all input_ok vs \<Longrightarrow> push_strings bs vs = Inr (bs @ concat (map enc_string vs))"
  by (induction vs arbitrary: bs)
     (auto simp: push_len_ok enc_string_def input_ok_def MAX_EVIDENCE_INPUT_BYTES_def u64_max_def)

lemma push_string_vec_ok: "inputs_ok vs \<Longrightarrow> push_string_vec bs vs = Inr (bs @ enc_string_vec vs)"
  by (simp add: push_string_vec_def push_len_ok push_strings_ok inputs_ok_def enc_string_vec_def
      MAX_EVIDENCE_INPUTS_def u64_max_def)

lemma validate_inputs_Inr_iff:
  "validate_inputs vs = Inr u \<longleftrightarrow>
     length vs \<le> MAX_EVIDENCE_INPUTS \<and> list_all (\<lambda>s. length s \<le> MAX_EVIDENCE_INPUT_BYTES) vs"
  by (auto simp: validate_inputs_def list_ex_iff list_all_iff linorder_not_le [symmetric])

section \<open>Deduplication\<close>

lemma set_dedupe_loop: "set (dedupe_loop d vs) = set d \<union> set vs"
  by (induction d vs rule: dedupe_loop.induct) auto

lemma distinct_dedupe_loop: "distinct d \<Longrightarrow> distinct (dedupe_loop d vs)"
  by (induction d vs rule: dedupe_loop.induct) auto

lemma dedupe_loop_id: "distinct (d @ vs) \<Longrightarrow> dedupe_loop d vs = d @ vs"
  by (induction d vs rule: dedupe_loop.induct) auto

lemma dedupe_loop_subseq: "\<exists>ws. dedupe_loop d vs = d @ ws \<and> subseq ws vs"
proof (induction d vs rule: dedupe_loop.induct)
  case (2 d v vs)
  then show ?case
    by (cases "v \<in> set d") (auto intro: list_emb_Cons)
qed auto

lemma dedupe_simps [simp]:
  "set (dedupe_preserving_order vs) = set vs"
  "distinct (dedupe_preserving_order vs)"
  "subseq (dedupe_preserving_order vs) vs"
  "distinct vs \<Longrightarrow> dedupe_preserving_order vs = vs"
  using dedupe_loop_subseq [of "[]" vs]
  by (auto simp: dedupe_preserving_order_def set_dedupe_loop distinct_dedupe_loop dedupe_loop_id)

section \<open>Frames\<close>

definition frame_body :: "bytes \<Rightarrow> string list \<Rightarrow> string list \<Rightarrow> bytes" where
  "frame_body pb refs inputs =
     le_bytes 8 (length pb) @ pb @ enc_string_vec refs @ enc_string_vec inputs"

definition read_body ::
  "(bytes \<Rightarrow> ZenithPacket option) \<Rightarrow> nat \<Rightarrow> bytes \<Rightarrow> nat
     \<Rightarrow> IngressRequestError + (ZenithPacket \<times> string list \<times> string list) \<times> nat" where
  "read_body de max_frame_bytes bs off =
     rbind (read_packet de max_frame_bytes bs off) (\<lambda>(packet, off).
     rbind (read_string_vec bs off) (\<lambda>(refs, off).
     rbind (read_string_vec bs off) (\<lambda>(inputs, off). Inr ((packet, refs, inputs), off))))"

lemma read_packet_enc:
  assumes "de pb = Some p" and d: "drop off bs = le_bytes 8 (length pb) @ pb @ post"
    and "off \<le> length bs" and "length bs \<le> max_frame" and "length bs \<le> u64_max"
  shows "read_packet de max_frame bs off = Inr (p, off + (8 + length pb)) \<and>
    drop (off + (8 + length pb)) bs = post \<and> off + (8 + length pb) \<le> length bs"
proof -
  have "length (drop off bs) = 8 + length pb + length post" unfolding d by simp
  then have "length pb \<le> length bs" by simp
  with assms have "length pb \<le> u64_max" and "length pb \<le> max_frame" by simp_all
  note len = len_codec.dec_step [OF this(1) d assms(3,5)]
  moreover from len have o8: "off + 8 \<le> length bs" and d8: "drop (off + 8) bs = pb @ post" by simp_all
  ultimately show ?thesis
    using assms slice_step [OF d8 o8 assms(5) refl] drop_add_append [OF d8]
      drop_append_length_le [OF d8 o8] \<open>length pb \<le> max_frame\<close>
    by (simp add: read_packet_def add.assoc)
qed

lemma read_packet_sound:
  assumes "read_packet de max_frame bs off = Inr (p, off')"
  shows "\<exists>pb. de pb = Some p \<and> drop off bs = le_bytes 8 (length pb) @ pb @ drop off' bs \<and>
    off' = off + (8 + length pb) \<and> off' \<le> length bs"
proof -
  obtain len o1 pb where len: "read_len bs off = Inr (len, o1)"
    and pb: "slice_get bs o1 (o1 + len) = Some pb" "de pb = Some p" "off' = o1 + len"
    using assms by (auto simp: read_packet_def result_simps split: if_splits)
  have "len = length pb" using length_slice_get [OF pb(1)] by simp
  then show ?thesis
    using len_codec.dec_sound [OF len] slice_sound [OF pb(1)] pb by auto
qed

lemma read_body_enc:
  assumes "de pb = Some p" and "inputs_ok refs" and "inputs_ok inputs"
    and d: "drop off bs = frame_body pb refs inputs @ post"
    and "off \<le> length bs" and "length bs \<le> max_frame" and "length bs \<le> u64_max"
  shows "\<exists>off'. read_body de max_frame bs off = Inr ((p, refs, inputs), off') \<and>
    drop off' bs = post \<and> off' \<le> length bs \<and> length bs = off' + length post"
proof -
  let ?o1 = "off + (8 + length pb)"
  have d': "drop off bs = le_bytes 8 (length pb) @ pb @ (enc_string_vec refs @ enc_string_vec inputs @ post)"
    using d by (simp add: frame_body_def)
  note p = read_packet_enc [where de = de and pb = pb, OF assms(1) d' assms(5-7)]
  note r = string_vec_codec.dec_step [OF assms(2) p [THEN conjunct2, THEN conjunct1]
      p [THEN conjunct2, THEN conjunct2] assms(7)]
  note i = string_vec_codec.dec_step [OF assms(3) r [THEN conjunct2, THEN conjunct1]
      r [THEN conjunct2, THEN conjunct2] assms(7)]
  from i have "length post = length bs - (?o1 + length (enc_string_vec refs) + length (enc_string_vec inputs))"
    using length_drop by metis
  then show ?thesis using p r i by (simp add: read_body_def)
qed

lemma read_body_sound:
  assumes "read_body de max_frame bs off = Inr ((p, refs, inputs), off')"
  shows "\<exists>pb. de pb = Some p \<and> inputs_ok refs \<and> inputs_ok inputs \<and>
    drop off bs = frame_body pb refs inputs @ drop off' bs \<and> off' \<le> length bs"
proof -
  obtain o1 o2 where steps: "read_packet de max_frame bs off = Inr (p, o1)"
    "read_string_vec bs o1 = Inr (refs, o2)" "read_string_vec bs o2 = Inr (inputs, off')"
    using assms by (auto simp: read_body_def result_simps)
  show ?thesis
    using read_packet_sound [OF steps(1)] string_vec_codec.dec_sound [OF steps(2)]
      string_vec_codec.dec_sound [OF steps(3)]
    by (auto simp: frame_body_def)
qed

lemma length_magic [simp]:
  "length INGRESS_REQUEST_V1_MAGIC = 8" "length INGRESS_REQUEST_V2_MAGIC = 8"
  by (simp_all add: INGRESS_REQUEST_V1_MAGIC_def INGRESS_REQUEST_V2_MAGIC_def)

lemma decode_read_body:
  "decode_ingress_frame de bs max_frame_bytes =
     (if length bs > max_frame_bytes then Inl FrameTooLarge
      else if prefix INGRESS_REQUEST_V2_MAGIC bs then
        rbind (read_body de max_frame_bytes bs 8) (\<lambda>((packet, refs, inputs), off).
        rbind (ok_or Malformed (checked_add off 32)) (\<lambda>key_end.
        rbind (ok_or Malformed (slice_get bs off key_end)) (\<lambda>key.
        if key_end \<noteq> length bs then Inl Malformed
        else Inr (V2 (IngressRequestV2_new packet refs inputs key)))))
      else if \<not> prefix INGRESS_REQUEST_V1_MAGIC bs then
        rbind (ok_or Malformed (de bs)) (\<lambda>packet. Inr (Legacy packet))
      else
        rbind (read_body de max_frame_bytes bs 8) (\<lambda>((packet, refs, inputs), off).
        if off \<noteq> length bs then Inl Malformed
        else Inr (V1 (IngressRequestV1_new packet refs inputs))))"
  by (simp add: decode_ingress_frame_def read_body_def rbind_assoc starts_with_iff split_def
      cong: if_cong)

lemma if_Inr_iff: "(if b then m else n) = Inr x \<longleftrightarrow> (b \<and> m = Inr x) \<or> (\<not> b \<and> n = Inr x)"
  by simp

lemma decode_V2_iff:
  assumes "length bs \<le> u64_max"
  shows "decode_ingress_frame de bs max_frame = Inr (V2 r) \<longleftrightarrow> length bs \<le> max_frame \<and>
    (\<exists>pb p refs inputs key. de pb = Some p \<and> inputs_ok refs \<and> inputs_ok inputs \<and> length key = 32 \<and>
       bs = INGRESS_REQUEST_V2_MAGIC @ frame_body pb refs inputs @ key \<and>
       r = IngressRequestV2_new p refs inputs key)" (is "?l \<longleftrightarrow> ?r")
proof
  assume ?l
  then obtain p refs inputs off key where "length bs \<le> max_frame"
    and magic: "prefix INGRESS_REQUEST_V2_MAGIC bs"
    and body: "read_body de max_frame bs 8 = Inr ((p, refs, inputs), off)"
    and key: "slice_get bs off (length bs) = Some key" "off + 32 = length bs"
    and r: "r = IngressRequestV2_new p refs inputs key"
    by (auto simp: decode_read_body result_simps if_Inr_iff)
  have "bs = INGRESS_REQUEST_V2_MAGIC @ drop 8 bs"
    using magic by (auto simp: prefix_def)
  moreover have "drop off bs = key" "length key = 32"
    using slice_sound [OF key(1)] key(2) by simp_all
  ultimately show ?r
    using read_body_sound [OF body] \<open>length bs \<le> max_frame\<close> r by fastforce
next
  assume ?r
  then obtain pb p refs inputs key where ok: "de pb = Some p" "inputs_ok refs" "inputs_ok inputs"
    and key: "length key = 32" and max: "length bs \<le> max_frame"
    and bs: "bs = INGRESS_REQUEST_V2_MAGIC @ frame_body pb refs inputs @ key"
    and r: "r = IngressRequestV2_new p refs inputs key" by blast
  have "drop 8 bs = frame_body pb refs inputs @ key" "8 \<le> length bs" by (simp_all add: bs)
  from read_body_enc [where de = de, OF ok this max assms] obtain off where
    "read_body de max_frame bs 8 = Inr ((p, refs, inputs), off)"
    and d: "drop off bs = key @ []" "off \<le> length bs" "length bs = off + length key"
    by auto
  moreover note slice_step [OF d(1,2) assms key [symmetric]]
  ultimately show ?l using max key by (simp add: decode_read_body r) (simp add: bs)
qed

lemma magic_exclusive: "\<not> prefix INGRESS_REQUEST_V2_MAGIC (INGRESS_REQUEST_V1_MAGIC @ xs)"
  by (simp add: INGRESS_REQUEST_V1_MAGIC_def INGRESS_REQUEST_V2_MAGIC_def as_bytes_def
      byte_of_char_def)

lemma decode_V1_iff:
  assumes "length bs \<le> u64_max"
  shows "decode_ingress_frame de bs max_frame = Inr (V1 r) \<longleftrightarrow> length bs \<le> max_frame \<and>
    (\<exists>pb p refs inputs. de pb = Some p \<and> inputs_ok refs \<and> inputs_ok inputs \<and>
       bs = INGRESS_REQUEST_V1_MAGIC @ frame_body pb refs inputs \<and>
       r = IngressRequestV1_new p refs inputs)" (is "?l \<longleftrightarrow> ?r")
proof
  assume ?l
  then obtain p refs inputs off where "length bs \<le> max_frame"
    and magic: "prefix INGRESS_REQUEST_V1_MAGIC bs"
    and body: "read_body de max_frame bs 8 = Inr ((p, refs, inputs), off)" "length bs = off"
    and r: "r = IngressRequestV1_new p refs inputs"
    by (auto simp: decode_read_body result_simps split: if_splits)
  have "bs = INGRESS_REQUEST_V1_MAGIC @ drop 8 bs"
    using magic by (auto simp: prefix_def)
  then show ?r
    using read_body_sound [OF body(1)] \<open>length bs \<le> max_frame\<close> r body(2) by fastforce
next
  assume ?r
  then obtain pb p refs inputs where ok: "de pb = Some p" "inputs_ok refs" "inputs_ok inputs"
    and max: "length bs \<le> max_frame"
    and bs: "bs = INGRESS_REQUEST_V1_MAGIC @ frame_body pb refs inputs"
    and r: "r = IngressRequestV1_new p refs inputs" by blast
  have "drop 8 bs = frame_body pb refs inputs @ []" "8 \<le> length bs" by (simp_all add: bs)
  from read_body_enc [where de = de, OF ok this max assms] obtain off where
    "read_body de max_frame bs 8 = Inr ((p, refs, inputs), off)" "length bs = off"
    by auto
  then show ?l using max by (simp add: decode_read_body r) (simp add: bs magic_exclusive)
qed

lemma encode_v2_normal:
  assumes "encode_ingress_request_v2 ser req = Inr bs"
    and "list_all str_ok (v2_evidence_refs req)" and "list_all str_ok (v2_public_inputs req)"
  shows "\<exists>pb. ser (v2_packet req) = Some pb \<and> inputs_ok (v2_evidence_refs req) \<and>
    inputs_ok (v2_public_inputs req) \<and>
    bs = INGRESS_REQUEST_V2_MAGIC @ frame_body pb (v2_evidence_refs req) (v2_public_inputs req)
           @ v2_client_ephemeral_public_key req"
proof -
  have "inputs_ok (v2_evidence_refs req)" "inputs_ok (v2_public_inputs req)"
    using assms by (auto simp: encode_ingress_request_v2_def result_simps validate_inputs_Inr_iff
        inputs_ok_def input_ok_def list_all_iff)
  with assms(1) show ?thesis
    by (auto simp: encode_ingress_request_v2_def result_simps push_string_vec_ok frame_body_def
        push_len_def)
qed

lemma encode_v1_normal:
  assumes "encode_ingress_request_v1 ser req = Inr bs"
    and "list_all str_ok (v1_evidence_refs req)" and "list_all str_ok (v1_public_inputs req)"
  shows "\<exists>pb. ser (v1_packet req) = Some pb \<and> inputs_ok (v1_evidence_refs req) \<and>
    inputs_ok (v1_public_inputs req) \<and>
    bs = INGRESS_REQUEST_V1_MAGIC @ frame_body pb (v1_evidence_refs req) (v1_public_inputs req)"
proof -
  have "inputs_ok (v1_evidence_refs req)" "inputs_ok (v1_public_inputs req)"
    using assms by (auto simp: encode_ingress_request_v1_def result_simps validate_inputs_Inr_iff
        inputs_ok_def input_ok_def list_all_iff)
  with assms(1) show ?thesis
    by (auto simp: encode_ingress_request_v1_def result_simps push_string_vec_ok frame_body_def
        push_len_def)
qed

lemma decode_Legacy_iff:
  "decode_ingress_frame de bs max_frame = Inr (Legacy p) \<longleftrightarrow> length bs \<le> max_frame \<and>
    \<not> prefix INGRESS_REQUEST_V1_MAGIC bs \<and> \<not> prefix INGRESS_REQUEST_V2_MAGIC bs \<and> de bs = Some p"
  by (auto simp: decode_read_body result_simps if_Inr_iff)

section \<open>Properties\<close>

definition sample_packet :: ZenithPacket where
  "sample_packet = \<lparr>zp_session_id = replicate 16 1, zp_nonce = replicate 12 2, zp_opcode = 0x10,
     zp_proof = [3], zp_claim_ttl = 300, zp_encrypted_payload = [4, 5], zp_mac = replicate 16 0\<rparr>"

definition sample_ser :: "ZenithPacket \<Rightarrow> bytes option" where
  "sample_ser p = (if p = sample_packet then Some [7] else None)"

definition sample_de :: "bytes \<Rightarrow> ZenithPacket option" where
  "sample_de bs = (if bs = [7] then Some sample_packet else None)"

text \<open>C9. Which frames the ingress decoder accepts, and as what: a frame within the size limit is a
  legacy packet exactly when it starts with neither magic and deserialises; it is a V1 request exactly
  when it is the magic, one length-prefixed packet and two bounded string vectors with nothing left
  over; and a V2 request exactly when a 32-byte key follows. The evidence references come out
  deduplicated.\<close>

theorem ingress_frame_accepted_iff:
  assumes "length bs \<le> u64_max"
  shows "decode_ingress_frame de bs max_frame = Inr frame \<longleftrightarrow> length bs \<le> max_frame \<and>
    (case frame of
       Legacy p \<Rightarrow> \<not> prefix INGRESS_REQUEST_V1_MAGIC bs \<and> \<not> prefix INGRESS_REQUEST_V2_MAGIC bs
         \<and> de bs = Some p
     | V1 r \<Rightarrow> (\<exists>pb p refs inputs. de pb = Some p \<and> inputs_ok refs \<and> inputs_ok inputs \<and>
         bs = INGRESS_REQUEST_V1_MAGIC @ frame_body pb refs inputs \<and>
         r = IngressRequestV1_new p refs inputs)
     | V2 r \<Rightarrow> (\<exists>pb p refs inputs key. de pb = Some p \<and> inputs_ok refs \<and> inputs_ok inputs \<and>
         length key = 32 \<and> bs = INGRESS_REQUEST_V2_MAGIC @ frame_body pb refs inputs @ key \<and>
         r = IngressRequestV2_new p refs inputs key))"
  using assms by (cases frame) (simp_all add: decode_V1_iff decode_V2_iff decode_Legacy_iff)

theorem ingress_frame_accepted_iff_witness:
  "decode_ingress_frame sample_de [7] 4096 = Inr (Legacy sample_packet)"
  using ingress_frame_accepted_iff [of "[7]" sample_de 4096 "Legacy sample_packet"]
  by (simp add: u64_max_def sample_de_def INGRESS_REQUEST_V1_MAGIC_def INGRESS_REQUEST_V2_MAGIC_def
      as_bytes_def byte_of_char_def)

text \<open>A V2 request built by its constructor survives encoding and decoding unchanged, whenever
  bincode reads back the packet it wrote.\<close>

theorem ingress_v2_round_trip:
  assumes "encode_ingress_request_v2 ser req = Inr bs"
    and "req = IngressRequestV2_new p refs inputs key"
    and "length key = 32" and "list_all str_ok refs" and "list_all str_ok inputs"
    and "\<And>pb. ser p = Some pb \<Longrightarrow> de pb = Some p"
    and "length bs \<le> max_frame" and "max_frame \<le> u64_max"
  shows "decode_ingress_frame de bs max_frame = Inr (V2 req)"
proof -
  have fields: "v2_packet req = p" "v2_public_inputs req = inputs" "distinct (v2_evidence_refs req)"
    "v2_client_ephemeral_public_key req = key" "list_all str_ok (v2_evidence_refs req)"
    using assms by (simp_all add: IngressRequestV2_new_def list_all_iff)
  from encode_v2_normal [OF assms(1)] fields assms obtain pb where pb: "ser p = Some pb"
    "inputs_ok (v2_evidence_refs req)" "inputs_ok inputs"
    "bs = INGRESS_REQUEST_V2_MAGIC @ frame_body pb (v2_evidence_refs req) inputs @ key" by auto
  have "req = IngressRequestV2_new p (v2_evidence_refs req) inputs key"
    using fields by (simp add: IngressRequestV2_new_def)
  moreover have "length bs \<le> u64_max" using assms by simp
  ultimately show ?thesis
    using pb assms unfolding decode_V2_iff [OF \<open>length bs \<le> u64_max\<close>] by blast
qed

theorem ingress_v2_round_trip_witness:
  "\<exists>bs. encode_ingress_request_v2 sample_ser
       (IngressRequestV2_new sample_packet [''ref:a''] [''input:b''] (replicate 32 9)) = Inr bs \<and>
     decode_ingress_frame sample_de bs 4096 =
       Inr (V2 (IngressRequestV2_new sample_packet [''ref:a''] [''input:b''] (replicate 32 9)))"
proof -
  let ?req = "IngressRequestV2_new sample_packet [''ref:a''] [''input:b''] (replicate 32 9)"
  let ?bs = "INGRESS_REQUEST_V2_MAGIC @ frame_body [7] [''ref:a''] [''input:b''] @ replicate 32 9"
  have ok: "str_ok ''ref:a''" "str_ok ''input:b''"
    by (simp_all add: str_ok_def as_bytes_def byte_of_char_def valid_utf8_ascii)
  then have "inputs_ok [''ref:a'']" "inputs_ok [''input:b'']"
    by (simp_all add: inputs_ok_def input_ok_def MAX_EVIDENCE_INPUTS_def MAX_EVIDENCE_INPUT_BYTES_def)
  then have enc: "encode_ingress_request_v2 sample_ser ?req = Inr ?bs"
    by (simp add: encode_ingress_request_v2_def IngressRequestV2_new_def sample_ser_def
        validate_inputs_def MAX_EVIDENCE_INPUTS_def MAX_EVIDENCE_INPUT_BYTES_def push_len_ok
        push_string_vec_ok frame_body_def u64_max_def)
  have "length ?bs \<le> 4096" "4096 \<le> u64_max"
    by (simp_all add: frame_body_def enc_string_vec_def enc_string_def u64_max_def)
  with ingress_v2_round_trip [OF enc refl, of sample_de 4096] ok
  have "decode_ingress_frame sample_de ?bs 4096 = Inr (V2 ?req)"
    by (simp add: sample_ser_def sample_de_def)
  with enc show ?thesis by blast
qed

text \<open>The same round trip for V1 requests; a V1 frame is never taken for a legacy packet.\<close>

theorem ingress_v1_round_trip:
  assumes "encode_ingress_request_v1 ser req = Inr bs"
    and "req = IngressRequestV1_new p refs inputs"
    and "list_all str_ok refs" and "list_all str_ok inputs"
    and "\<And>pb. ser p = Some pb \<Longrightarrow> de pb = Some p"
    and "length bs \<le> max_frame" and "max_frame \<le> u64_max"
  shows "decode_ingress_frame de bs max_frame = Inr (V1 req)"
proof -
  have fields: "v1_packet req = p" "v1_public_inputs req = inputs" "distinct (v1_evidence_refs req)"
    "list_all str_ok (v1_evidence_refs req)"
    using assms by (simp_all add: IngressRequestV1_new_def list_all_iff)
  from encode_v1_normal [OF assms(1)] fields assms obtain pb where pb: "ser p = Some pb"
    "inputs_ok (v1_evidence_refs req)" "inputs_ok inputs"
    "bs = INGRESS_REQUEST_V1_MAGIC @ frame_body pb (v1_evidence_refs req) inputs" by auto
  have "req = IngressRequestV1_new p (v1_evidence_refs req) inputs"
    using fields by (simp add: IngressRequestV1_new_def)
  moreover have "length bs \<le> u64_max" using assms by simp
  ultimately show ?thesis
    using pb assms unfolding decode_V1_iff [OF \<open>length bs \<le> u64_max\<close>] by blast
qed

theorem ingress_v1_round_trip_witness:
  "\<exists>bs. encode_ingress_request_v1 sample_ser (IngressRequestV1_new sample_packet [''a'', ''a''] []) = Inr bs \<and>
     decode_ingress_frame sample_de bs 4096 = Inr (V1 (IngressRequestV1_new sample_packet [''a''] []))"
proof -
  let ?req = "IngressRequestV1_new sample_packet [''a'', ''a''] []"
  let ?bs = "INGRESS_REQUEST_V1_MAGIC @ frame_body [7] [''a''] []"
  have req: "?req = IngressRequestV1_new sample_packet [''a''] []"
    by (simp add: IngressRequestV1_new_def dedupe_preserving_order_def)
  have ok: "str_ok ''a''"
    by (simp add: str_ok_def as_bytes_def byte_of_char_def valid_utf8_ascii)
  then have "inputs_ok [''a'']" "inputs_ok []"
    by (simp_all add: inputs_ok_def input_ok_def MAX_EVIDENCE_INPUTS_def MAX_EVIDENCE_INPUT_BYTES_def)
  then have enc: "encode_ingress_request_v1 sample_ser ?req = Inr ?bs"
    unfolding req
    by (simp add: encode_ingress_request_v1_def IngressRequestV1_new_def sample_ser_def
        validate_inputs_def MAX_EVIDENCE_INPUTS_def MAX_EVIDENCE_INPUT_BYTES_def push_len_ok
        push_string_vec_ok frame_body_def u64_max_def)
  have "length ?bs \<le> 4096" "4096 \<le> u64_max"
    by (simp_all add: frame_body_def enc_string_vec_def enc_string_def u64_max_def)
  with ingress_v1_round_trip [OF enc refl, of sample_de 4096] ok
  have "decode_ingress_frame sample_de ?bs 4096 = Inr (V1 ?req)"
    by (simp add: sample_ser_def sample_de_def)
  with enc req show ?thesis by metis
qed

end
