(* ===== verification/Call_Context.thy ===== *)
theory Call_Context
  imports Proof_Keys Ingress_Request Privacy
begin

text \<open>
  The verified call context a verifier signs and a receiver checks before routing
  (\<^verbatim>\<open>server/src/verifier.rs\<close>), and the projection of it that a handler may see.
\<close>

section \<open>Data\<close>

record VerifiedSubject =
  vs_subject_id :: string
  vs_key_id :: string

definition VERIFIED_CALL_CONTEXT_SCHEMA_VERSION :: u16 where
  "VERIFIED_CALL_CONTEXT_SCHEMA_VERSION = 4"

record VerifiedCallContext =
  vc_schema_version :: u16
  vc_context_id :: string
  vc_packet_hash :: bytes
  vc_session_id :: bytes
  vc_nonce :: bytes
  vc_opcode :: u8
  vc_operation :: string
  vc_resource :: "string option"
  vc_subject :: VerifiedSubject
  vc_audience :: string
  vc_evidence_summary :: "string list"
  vc_proof_metadata :: "ObservedProofMetadata option"
  vc_capability_result :: string
  vc_credential_result :: string
  vc_issued_at :: u64
  vc_expires_at :: u64
  vc_descriptor_fingerprint :: string
  vc_replay_scope :: string
  vc_handler_id :: "string option"

record SignedVerifiedCallContext =
  sc_context :: VerifiedCallContext
  sc_signer_key_id :: string
  sc_authenticator_kind :: AuthenticatorKind
  sc_signature :: bytes

text \<open>Serialisation with bincode is third-party code: one function per serialised type, \<^term>\<open>None\<close> for
  a serialisation error.\<close>

record bincode =
  bc_packet :: "ZenithPacket \<Rightarrow> bytes option"
  bc_context :: "VerifiedCallContext \<Rightarrow> bytes option"

text \<open>bincode writes every field of a value, so its bytes determine the value.\<close>

definition context_codec_injective :: "'a bincode_scheme \<Rightarrow> bool" where
  "context_codec_injective B \<longleftrightarrow>
     (\<forall>x y bs. bc_context B x = Some bs \<longrightarrow> bc_context B y = Some bs \<longrightarrow> x = y)"

section \<open>Signing and verification\<close>

definition context_sign_ed25519 ::
  "crypto \<Rightarrow> 'a bincode_scheme \<Rightarrow> VerifiedCallContext \<Rightarrow> string \<Rightarrow> bytes \<Rightarrow> AuthenticatorKind \<Rightarrow>
     VerificationError + SignedVerifiedCallContext" where
  "context_sign_ed25519 C B context signer_key_id secret_key authenticator_kind =
     rbind (ok_or InternalError (bc_context B context)) (\<lambda>bs.
     Inr \<lparr>sc_context = context, sc_signer_key_id = signer_key_id,
          sc_authenticator_kind = authenticator_kind, sc_signature = c_sign C secret_key bs\<rparr>)"

definition verify_ed25519_with_key ::
  "crypto \<Rightarrow> 'a bincode_scheme \<Rightarrow> SignedVerifiedCallContext \<Rightarrow> bytes \<Rightarrow> string \<Rightarrow> u64 \<Rightarrow>
     VerificationError + unit" where
  "verify_ed25519_with_key C B sctx verifying_key expected_audience now =
     (if vc_audience (sc_context sctx) \<noteq> expected_audience then Inl WrongAudience
      else if is_clock_read_failure now then Inl ExpiredClaim
      else if vc_expires_at (sc_context sctx) < now then Inl ExpiredClaim
      else rbind (ok_or InvalidSignature (signature_from_slice (sc_signature sctx))) (\<lambda>signature.
        rbind (ok_or InternalError (bc_context B (sc_context sctx))) (\<lambda>bs.
        if c_verify C verifying_key bs signature then Inr () else Inl InvalidSignature)))"

definition verify_ed25519 ::
  "crypto \<Rightarrow> 'a bincode_scheme \<Rightarrow> SignedVerifiedCallContext \<Rightarrow> bytes \<Rightarrow> string \<Rightarrow> u64 \<Rightarrow>
     VerificationError + unit" where
  "verify_ed25519 C B sctx secret_key expected_audience now =
     verify_ed25519_with_key C B sctx (c_public C secret_key) expected_audience now"

section \<open>The handler's view\<close>

record PrivacySafeHandlerContext =
  ph_context_id :: string
  ph_opcode :: u8
  ph_operation :: string
  ph_resource :: "string option"
  ph_audience :: string
  ph_evidence_summary :: "string list"
  ph_capability_result :: string
  ph_credential_result :: string
  ph_descriptor_fingerprint :: string
  ph_replay_scope :: string
  ph_handler_id :: "string option"
  ph_policy_id :: string
  ph_policy_version :: u16
  ph_identity_boundary :: string

definition privacy_safe_handler_context ::
  "VerifiedCallContext \<Rightarrow> DisclosurePolicy \<Rightarrow> PrivacySafeHandlerContext" where
  "privacy_safe_handler_context c policy =
     \<lparr>ph_context_id = vc_context_id c, ph_opcode = vc_opcode c, ph_operation = vc_operation c,
      ph_resource = vc_resource c, ph_audience = vc_audience c,
      ph_evidence_summary = vc_evidence_summary c, ph_capability_result = vc_capability_result c,
      ph_credential_result = vc_credential_result c,
      ph_descriptor_fingerprint = vc_descriptor_fingerprint c, ph_replay_scope = vc_replay_scope c,
      ph_handler_id = vc_handler_id c, ph_policy_id = dpol_policy_id policy,
      ph_policy_version = dpol_policy_version policy,
      ph_identity_boundary = ''identity_hidden_by_policy''\<rparr>"

section \<open>Lemmas\<close>

lemma verify_with_key_Inr_iff:
  "verify_ed25519_with_key C B sctx vk aud now = Inr u \<longleftrightarrow>
     vc_audience (sc_context sctx) = aud \<and> \<not> is_clock_read_failure now \<and>
     now \<le> vc_expires_at (sc_context sctx) \<and> length (sc_signature sctx) = 64 \<and>
     (\<exists>bs. bc_context B (sc_context sctx) = Some bs \<and> c_verify C vk bs (sc_signature sctx))"
  by (auto simp: verify_ed25519_with_key_def result_simps signature_from_slice_def not_less
      split: if_splits)

lemma context_sign_Inr_iff:
  "context_sign_ed25519 C B context kid sk kind = Inr sctx \<longleftrightarrow>
     (\<exists>bs. bc_context B context = Some bs \<and>
       sctx = \<lparr>sc_context = context, sc_signer_key_id = kid, sc_authenticator_kind = kind,
                 sc_signature = c_sign C sk bs\<rparr>)"
  by (auto simp: context_sign_ed25519_def result_simps)

lemma sign_then_verify:
  assumes "signing_correct C" and "context_sign_ed25519 C B context kid sk kind = Inr sctx"
  shows "verify_ed25519_with_key C B sctx (c_public C sk) aud now = Inr () \<longleftrightarrow>
     vc_audience context = aud \<and> \<not> is_clock_read_failure now \<and> now \<le> vc_expires_at context"
  using assms by (auto simp: verify_with_key_Inr_iff context_sign_Inr_iff signing_correct_def)

text \<open>The identity of the caller is not part of what a handler sees: contexts that differ in the subject
  only have the same projection.\<close>

lemma handler_context_hides_subject:
  "privacy_safe_handler_context (c\<lparr>vc_subject := s\<rparr>) policy = privacy_safe_handler_context c policy"
  by (simp add: privacy_safe_handler_context_def)

end
