(* ===== verification/Nullifier.thy ===== *)
theory Nullifier
  imports Call_Context
begin

text \<open>
  Scoped nullifier domains and commitments (\<^verbatim>\<open>server/src/nullifier.rs\<close>): how a verified context names
  the single-use marker it consumes, and how a resource URI is normalised for it.
\<close>

section \<open>Data\<close>

definition NULLIFIER_DOMAIN_VERSION :: string where
  "NULLIFIER_DOMAIN_VERSION = ''nullifier-domain-v1''"

datatype ResourceKind = Directory | File

definition ResourceKind_as_str :: "ResourceKind \<Rightarrow> string" where
  "ResourceKind_as_str k = (case k of Directory \<Rightarrow> ''directory'' | File \<Rightarrow> ''file'')"

datatype NullifierReason = DuplicateNullifier | DomainMismatch | MissingScopedNullifier | UnsupportedScope

definition NullifierReason_as_str :: "NullifierReason \<Rightarrow> string" where
  "NullifierReason_as_str r = (case r of
       DuplicateNullifier \<Rightarrow> ''duplicate_nullifier''
     | DomainMismatch \<Rightarrow> ''nullifier_domain_mismatch''
     | MissingScopedNullifier \<Rightarrow> ''missing_scoped_nullifier''
     | UnsupportedScope \<Rightarrow> ''unsupported_nullifier_scope'')"

datatype NullifierOutcome =
    ScopedUseRecorded | OutcomeDuplicateNullifier | OutcomeDomainMismatch
  | OutcomeMissingScopedNullifier | OutcomeUnsupportedScope

definition NullifierOutcome_as_str :: "NullifierOutcome \<Rightarrow> string" where
  "NullifierOutcome_as_str r = (case r of
       ScopedUseRecorded \<Rightarrow> ''scoped_use_recorded''
     | OutcomeDuplicateNullifier \<Rightarrow> NullifierReason_as_str DuplicateNullifier
     | OutcomeDomainMismatch \<Rightarrow> NullifierReason_as_str DomainMismatch
     | OutcomeMissingScopedNullifier \<Rightarrow> NullifierReason_as_str MissingScopedNullifier
     | OutcomeUnsupportedScope \<Rightarrow> NullifierReason_as_str UnsupportedScope)"

definition NullifierOutcome_from :: "NullifierReason \<Rightarrow> NullifierOutcome" where
  "NullifierOutcome_from r = (case r of
       DuplicateNullifier \<Rightarrow> OutcomeDuplicateNullifier
     | DomainMismatch \<Rightarrow> OutcomeDomainMismatch
     | MissingScopedNullifier \<Rightarrow> OutcomeMissingScopedNullifier
     | UnsupportedScope \<Rightarrow> OutcomeUnsupportedScope)"

definition for_context :: "VerifiedCallContext \<Rightarrow> NullifierReason + ResourceKind" where
  "for_context context =
     (if str_contains ''file'' (vc_operation context) then Inr File
      else if str_contains ''directory'' (vc_operation context) \<or> str_contains ''dir'' (vc_operation context)
      then Inr Directory
      else Inl UnsupportedScope)"

record NullifierDomainV1Inputs =
  ni_resource_kind :: ResourceKind
  ni_epoch_or_window :: string
  ni_issuer_or_authority_source_id :: string
  ni_root_or_checkpoint_id :: string
  ni_subject_commitment :: string
  ni_allowance_id :: "string option"

record NullifierDomainV1 =
  nd_domain_version :: string
  nd_audience :: string
  nd_operation :: string
  nd_resource_kind :: ResourceKind
  nd_canonical_resource_id :: string
  nd_epoch_or_window :: string
  nd_issuer_or_authority_source_id :: string
  nd_root_or_checkpoint_id :: string
  nd_subject_commitment :: string
  nd_allowance_id :: "string option"

section \<open>Operations\<close>

definition redacted_fingerprint :: "crypto \<Rightarrow> string \<Rightarrow> bytes \<Rightarrow> string" where
  "redacted_fingerprint C label bs = hex_lower (take 12 (c_sha256 C (as_bytes label @ [0] @ bs)))"

definition NullifierCommitment_new :: "string \<Rightarrow> NullifierReason + string" where
  "NullifierCommitment_new value =
     (if trim value = [] then Inl MissingScopedNullifier
      else if starts_with ''global:'' value \<or> value = ''global'' \<or> value = ''domainless''
      then Inl UnsupportedScope
      else Inr value)"

definition commitment_fingerprint :: "crypto \<Rightarrow> string \<Rightarrow> string" where
  "commitment_fingerprint C commitment = redacted_fingerprint C ''nullifier-commitment'' (as_bytes commitment)"

definition commitment_storage_hash :: "crypto \<Rightarrow> string \<Rightarrow> string" where
  "commitment_storage_hash C commitment =
     redacted_fingerprint C ''nullifier-commitment-storage'' (as_bytes commitment)"

text \<open>The loop over the segments, with the vector \<open>parts\<close> kept reversed: \<open>pop\<close> drops its head.\<close>

fun resolve_segments :: "string list \<Rightarrow> string list \<Rightarrow> string list" where
  "resolve_segments parts [] = rev parts"
| "resolve_segments parts (p # ps) =
     (if p = '''' \<or> p = ''.'' then resolve_segments parts ps
      else if p = ''..'' then resolve_segments (tl parts) ps
      else resolve_segments (p # parts) ps)"

definition canonical_resource_id :: "string \<Rightarrow> NullifierReason + string" where
  "canonical_resource_id resource = (case strip_prefix ''file://'' resource of
       None \<Rightarrow> Inl DomainMismatch
     | Some rest \<Rightarrow>
         if trim rest = [] then Inl MissingScopedNullifier
         else let path = join ''/'' (resolve_segments [] (split_on CHR ''/'' rest)) in
           Inr (if starts_with ''/'' rest then ''file:///'' @ path else ''file://'' @ path))"

definition reject_empty :: "string \<Rightarrow> NullifierReason + unit" where
  "reject_empty value = (if trim value = [] then Inl MissingScopedNullifier else Inr ())"

definition reject_subject_commitment :: "string \<Rightarrow> NullifierReason + unit" where
  "reject_subject_commitment value =
     rbind (reject_empty value) (\<lambda>_.
       let lower = to_ascii_lowercase value in
       if starts_with ''wallet:'' lower \<or> starts_with ''holder:'' lower
         \<or> starts_with ''subject_id:'' lower \<or> starts_with ''credential_id:'' lower
       then Inl UnsupportedScope else Inr ())"

fun find_map :: "('a \<Rightarrow> 'b option) \<Rightarrow> 'a list \<Rightarrow> 'b option" where
  "find_map f [] = None"
| "find_map f (x # xs) = (case f x of None \<Rightarrow> find_map f xs | Some y \<Rightarrow> Some y)"

definition evidence_value :: "VerifiedCallContext \<Rightarrow> string \<Rightarrow> string option" where
  "evidence_value context key = find_map (strip_prefix (key @ '':'')) (vc_evidence_summary context)"

definition from_verified_context ::
  "VerifiedCallContext \<Rightarrow> NullifierDomainV1Inputs \<Rightarrow> NullifierReason + NullifierDomainV1" where
  "from_verified_context context inputs =
     rbind (ok_or MissingScopedNullifier (vc_resource context)) (\<lambda>resource.
     rbind (reject_empty (vc_audience context)) (\<lambda>_.
     rbind (reject_empty (vc_operation context)) (\<lambda>_.
     rbind (reject_empty (ni_epoch_or_window inputs)) (\<lambda>_.
     rbind (reject_empty (ni_issuer_or_authority_source_id inputs)) (\<lambda>_.
     rbind (reject_empty (ni_root_or_checkpoint_id inputs)) (\<lambda>_.
     rbind (reject_subject_commitment (ni_subject_commitment inputs)) (\<lambda>_.
     rbind (case ni_allowance_id inputs of Some a \<Rightarrow> reject_empty a | None \<Rightarrow> Inr ()) (\<lambda>_.
     rbind (canonical_resource_id resource) (\<lambda>canonical.
     Inr \<lparr>nd_domain_version = NULLIFIER_DOMAIN_VERSION, nd_audience = vc_audience context,
          nd_operation = vc_operation context, nd_resource_kind = ni_resource_kind inputs,
          nd_canonical_resource_id = canonical, nd_epoch_or_window = ni_epoch_or_window inputs,
          nd_issuer_or_authority_source_id = ni_issuer_or_authority_source_id inputs,
          nd_root_or_checkpoint_id = ni_root_or_checkpoint_id inputs,
          nd_subject_commitment = ni_subject_commitment inputs,
          nd_allowance_id = ni_allowance_id inputs\<rparr>)))))))))"

definition domain_canonical_bytes :: "NullifierDomainV1 \<Rightarrow> bytes" where
  "domain_canonical_bytes d = as_bytes (
     ''v='' @ nd_domain_version d @ ''|aud='' @ nd_audience d @ ''|op='' @ nd_operation d
     @ ''|kind='' @ ResourceKind_as_str (nd_resource_kind d)
     @ ''|res='' @ nd_canonical_resource_id d @ ''|epoch='' @ nd_epoch_or_window d
     @ ''|issuer='' @ nd_issuer_or_authority_source_id d @ ''|root='' @ nd_root_or_checkpoint_id d
     @ ''|subject='' @ nd_subject_commitment d
     @ ''|allowance='' @ (case nd_allowance_id d of Some a \<Rightarrow> a | None \<Rightarrow> ''''))"

definition domain_fingerprint :: "crypto \<Rightarrow> NullifierDomainV1 \<Rightarrow> string" where
  "domain_fingerprint C d = redacted_fingerprint C ''nullifier-domain'' (domain_canonical_bytes d)"

record ScopedNullifierEvidence =
  sne_domain :: NullifierDomainV1
  sne_commitment :: string

definition scoped_evidence_from_context ::
  "crypto \<Rightarrow> VerifiedCallContext \<Rightarrow> NullifierReason + ScopedNullifierEvidence" where
  "scoped_evidence_from_context C context =
     (let scope = evidence_value context ''nullifier_scope'';
          required = (\<lambda>key. ok_or MissingScopedNullifier (evidence_value context key)) in
      if scope = Some ''global'' \<or> scope = Some ''domainless'' then Inl UnsupportedScope
      else if ''scoped_use_required'' \<notin> set (vc_evidence_summary context) then Inl MissingScopedNullifier
      else rbind (rbind (required ''nullifier_commitment'') NullifierCommitment_new) (\<lambda>commitment.
        rbind (for_context context) (\<lambda>kind.
        rbind (required ''nullifier_epoch'') (\<lambda>epoch.
        rbind (required ''nullifier_issuer'') (\<lambda>issuer.
        rbind (required ''nullifier_root'') (\<lambda>root.
        rbind (required ''subject_commitment'') (\<lambda>subject.
        rbind (from_verified_context context
          \<lparr>ni_resource_kind = kind, ni_epoch_or_window = epoch, ni_issuer_or_authority_source_id = issuer,
           ni_root_or_checkpoint_id = root, ni_subject_commitment = subject,
           ni_allowance_id = evidence_value context ''allowance_id''\<rparr>) (\<lambda>domain.
        case evidence_value context ''nullifier_domain_fingerprint'' of
          Some expected \<Rightarrow>
            if expected \<noteq> domain_fingerprint C domain then Inl DomainMismatch
            else Inr \<lparr>sne_domain = domain, sne_commitment = commitment\<rparr>
        | None \<Rightarrow> Inr \<lparr>sne_domain = domain, sne_commitment = commitment\<rparr>))))))))"

definition privacy_safe_summary :: "NullifierOutcome \<Rightarrow> string option \<Rightarrow> string option \<Rightarrow> string list" where
  "privacy_safe_summary outcome domain_fp commitment_fp =
     [''scoped_use_enforced:true'',
      ''nullifier_domain_version:'' @ NULLIFIER_DOMAIN_VERSION,
      ''nullifier_outcome:'' @ NullifierOutcome_as_str outcome]
     @ (case domain_fp of Some v \<Rightarrow> [''nullifier_domain_fingerprint:'' @ v] | None \<Rightarrow> [])
     @ (case commitment_fp of Some v \<Rightarrow> [''nullifier_commitment_fingerprint:'' @ v] | None \<Rightarrow> [])"

section \<open>Lemmas\<close>

definition normal_segment :: "string \<Rightarrow> bool" where
  "normal_segment p \<longleftrightarrow> p \<noteq> '''' \<and> p \<noteq> ''.'' \<and> p \<noteq> ''..'' \<and> CHR ''/'' \<notin> set p"

lemma list_all_tl: "list_all P xs \<Longrightarrow> list_all P (tl xs)"
  by (cases xs) simp_all

lemma resolve_segments_normal:
  "list_all normal_segment parts \<Longrightarrow> \<forall>p \<in> set ps. CHR ''/'' \<notin> set p \<Longrightarrow>
     list_all normal_segment (resolve_segments parts ps)"
  by (induction parts ps rule: resolve_segments.induct) (simp_all add: list_all_tl normal_segment_def)

lemma resolve_segments_fix:
  "list_all normal_segment ps \<Longrightarrow> resolve_segments parts ps = rev parts @ ps"
  by (induction parts ps rule: resolve_segments.induct) (auto simp: normal_segment_def)

lemma join_Cons_eq: "ps \<noteq> [] \<Longrightarrow> join [d] (p # ps) = p @ d # join [d] ps"
  by (cases ps) simp_all

lemma split_on_Cons_delim: "split_on d (d # s) = [] # split_on d s"
  using split_on_append [of d "[]" s] by simp

lemma resolve_path_fix:
  assumes "list_all normal_segment qs" "path = join [CHR ''/''] qs"
  shows "resolve_segments [] (split_on CHR ''/'' path) = qs"
    and "resolve_segments [] (split_on CHR ''/'' (CHR ''/'' # path)) = qs"
proof -
  have "split_on CHR ''/'' path = (if qs = [] then [''''] else qs)"
    using assms split_on_join [of qs "CHR ''/''"] by (auto simp: normal_segment_def list_all_iff)
  then show 1: "resolve_segments [] (split_on CHR ''/'' path) = qs"
    using assms(1) by (simp add: resolve_segments_fix)
  show "resolve_segments [] (split_on CHR ''/'' (CHR ''/'' # path)) = qs"
    using 1 by (simp add: split_on_Cons_delim)
qed

lemma canonical_resource_id_Inr:
  assumes "canonical_resource_id r = Inr c"
  shows "\<exists>root segs. list_all normal_segment segs \<and> root \<in> {''file:///'', ''file://''} \<and> c = root @ join ''/'' segs"
proof -
  obtain rest where "strip_prefix ''file://'' r = Some rest" "trim rest \<noteq> []"
    using assms by (auto simp: canonical_resource_id_def Let_def split: option.splits if_splits)
  then have "c = (if starts_with ''/'' rest then ''file:///'' else ''file://'') @
      join ''/'' (resolve_segments [] (split_on CHR ''/'' rest))"
    using assms by (auto simp: canonical_resource_id_def Let_def)
  moreover have "list_all normal_segment (resolve_segments [] (split_on CHR ''/'' rest))"
    by (rule resolve_segments_normal) (auto dest: split_on_delim_free)
  ultimately show ?thesis by (intro exI conjI) auto
qed

lemma normal_path_relative:
  "list_all normal_segment segs \<Longrightarrow> \<not> starts_with ''/'' (join [CHR ''/''] segs)"
  by (induction "[CHR ''/'']" segs rule: join.induct)
    (auto simp: normal_segment_def starts_with_iff prefix_def append_eq_Cons_conv)

lemma canonical_resource_id_stable:
  assumes "list_all normal_segment segs" and "root \<in> {''file:///'', ''file://''}"
  shows "canonical_resource_id (root @ join ''/'' segs) \<in> {Inr (root @ join ''/'' segs), Inl MissingScopedNullifier}"
proof -
  consider "root = ''file:///''" | "root = ''file://''" using assms(2) by blast
  then show ?thesis
  proof cases
    case 1
    have "strip_prefix ''file://'' (root @ join ''/'' segs) = Some (CHR ''/'' # join ''/'' segs)"
      by (simp add: strip_prefix_Some_iff 1)
    then show ?thesis
      using resolve_path_fix(2) [OF assms(1) refl] 1
      by (simp add: canonical_resource_id_def starts_with_iff)
  next
    case 2
    have "strip_prefix ''file://'' (root @ join ''/'' segs) = Some (join ''/'' segs)"
      by (simp add: strip_prefix_Some_iff 2)
    then show ?thesis
      using resolve_path_fix(1) [OF assms(1) refl] normal_path_relative [OF assms(1)] 2
      by (simp add: canonical_resource_id_def)
  qed
qed

definition sample_call_context :: VerifiedCallContext where
  "sample_call_context =
     \<lparr>vc_schema_version = 4, vc_context_id = ''ctx'', vc_packet_hash = replicate 32 0,
      vc_session_id = replicate 16 1, vc_nonce = replicate 12 2, vc_opcode = 0x46,
      vc_operation = ''file.write'', vc_resource = Some ''file:///a'',
      vc_subject = \<lparr>vs_subject_id = ''alice'', vs_key_id = ''alice#key''\<rparr>, vc_audience = ''rcv'',
      vc_evidence_summary = [], vc_proof_metadata = None, vc_capability_result = '''',
      vc_credential_result = '''', vc_issued_at = 100, vc_expires_at = 200,
      vc_descriptor_fingerprint = ''fp'', vc_replay_scope = ''session:opcode:nonce'',
      vc_handler_id = Some ''h''\<rparr>"

definition sample_inputs :: "string \<Rightarrow> string option \<Rightarrow> NullifierDomainV1Inputs" where
  "sample_inputs subject allowance =
     \<lparr>ni_resource_kind = File, ni_epoch_or_window = ''e'', ni_issuer_or_authority_source_id = ''i'',
      ni_root_or_checkpoint_id = ''r'', ni_subject_commitment = subject, ni_allowance_id = allowance\<rparr>"

section \<open>Properties\<close>

text \<open>Resource normalisation: a resource is refused exactly when it is not a file URI or its path is
  blank; otherwise the canonical id is the root followed by segments that are neither empty nor dots, so
  no traversal survives, and canonicalising it again changes nothing (or, when only dots and blanks were
  left, refuses it as missing).\<close>

theorem canonical_resource_id_normalises:
  "case canonical_resource_id r of
     Inl e \<Rightarrow> (case strip_prefix ''file://'' r of None \<Rightarrow> e = DomainMismatch
        | Some rest \<Rightarrow> trim rest = [] \<and> e = MissingScopedNullifier)
   | Inr c \<Rightarrow> (\<exists>root segs. list_all normal_segment segs \<and> root \<in> {''file:///'', ''file://''} \<and>
        c = root @ join ''/'' segs) \<and> canonical_resource_id c \<in> {Inr c, Inl MissingScopedNullifier}"
proof (cases "canonical_resource_id r")
  case (Inl e)
  then show ?thesis by (auto simp: canonical_resource_id_def Let_def split: option.splits if_splits)
next
  case (Inr c)
  from canonical_resource_id_Inr [OF this] obtain root segs
    where "list_all normal_segment segs" "root \<in> {''file:///'', ''file://''}" "c = root @ join ''/'' segs"
    by blast
  then show ?thesis using canonical_resource_id_stable [of segs root] Inr by (simp del: insert_iff) blast
qed

text \<open>The canonical bytes of a nullifier domain do not separate its fields: for one and the same
  context, a subject commitment that contains the next field's label and another pair of subject and
  allowance are both accepted, name different domains, and get the same fingerprint whatever the hash.\<close>

theorem nullifier_domains_collide:
  "\<exists>d1 d2.
     from_verified_context sample_call_context (sample_inputs ''x|allowance=y'' None) = Inr d1 \<and>
     from_verified_context sample_call_context (sample_inputs ''x'' (Some ''y|allowance='')) = Inr d2 \<and>
     d1 \<noteq> d2 \<and> domain_fingerprint C d1 = domain_fingerprint C d2"
  by (simp add: from_verified_context_def sample_call_context_def sample_inputs_def reject_empty_def
      reject_subject_commitment_def to_ascii_lowercase_def ascii_lower_char_def starts_with_def
      canonical_resource_id_def trim_plain plain_literal domain_fingerprint_def domain_canonical_bytes_def)

end
