(* ===== verification/Receipt.thy ===== *)
theory Receipt
  imports Nullifier
begin

text \<open>
  Signed receipts (\<^verbatim>\<open>server/src/receipt.rs\<close>): their construction from packets and contexts, the versioned
  bytes that are signed, signing, and verification with the fallbacks for older receipts.
\<close>

section \<open>Data\<close>

definition RECEIPT_SCHEMA_VERSION :: u16 where "RECEIPT_SCHEMA_VERSION = 3"

definition OUTPUT_DIGEST_DOMAIN :: bytes where
  "OUTPUT_DIGEST_DOMAIN = as_bytes ''secs-execution-output-v1/digest''"

record ReceiptOutputProjection =
  ro_schema_id :: string
  ro_byte_count :: u64
  ro_digest_sha256 :: bytes

definition from_output :: "crypto \<Rightarrow> string \<Rightarrow> bytes \<Rightarrow> VerificationError + ReceiptOutputProjection" where
  "from_output C schema_id output =
     (if schema_id = [] then Inl InternalError
      else if \<not> length output < 2 ^ 64 then Inl InternalError
      else let byte_count = word_of_nat (length output) :: u64 in
        Inr \<lparr>ro_schema_id = schema_id, ro_byte_count = byte_count,
             ro_digest_sha256 = c_sha256 C (OUTPUT_DIGEST_DOMAIN @ le_bytes 8 (unat byte_count) @ output)\<rparr>)"

datatype ReceiptKind = Reject | Verify | Execute | Forward

definition ReceiptKind_as_str :: "ReceiptKind \<Rightarrow> string" where
  "ReceiptKind_as_str k = (case k of
       Reject \<Rightarrow> ''reject'' | Verify \<Rightarrow> ''verify'' | Execute \<Rightarrow> ''execute'' | Forward \<Rightarrow> ''forward'')"

datatype Decision = Accepted | Rejected

definition Decision_as_str :: "Decision \<Rightarrow> string" where
  "Decision_as_str d = (case d of Accepted \<Rightarrow> ''accepted'' | Rejected \<Rightarrow> ''rejected'')"

definition AuthenticatorKind_as_str :: "AuthenticatorKind \<Rightarrow> string" where
  "AuthenticatorKind_as_str k = (case k of
       LocalDevUntrusted \<Rightarrow> ''local_dev_untrusted''
     | LocalMac \<Rightarrow> ''local_mac''
     | Ed25519Node \<Rightarrow> ''ed25519_node''
     | Ed25519Verifier \<Rightarrow> ''ed25519_verifier''
     | Ed25519NodeAndVerifier \<Rightarrow> ''ed25519_node_and_verifier''
     | ExternalAnchor \<Rightarrow> ''external_anchor'')"

datatype ReceiptEventKind =
    PacketReceived | PacketRejected | PacketVerified | OperationDescribed | OperationRouted
  | HandlerStarted | HandlerSucceeded | HandlerFailed | ReceiptEmitted

definition ReceiptEventKind_as_str :: "ReceiptEventKind \<Rightarrow> string" where
  "ReceiptEventKind_as_str k = (case k of
       PacketReceived \<Rightarrow> ''packet_received''
     | PacketRejected \<Rightarrow> ''packet_rejected''
     | PacketVerified \<Rightarrow> ''packet_verified''
     | OperationDescribed \<Rightarrow> ''operation_described''
     | OperationRouted \<Rightarrow> ''operation_routed''
     | HandlerStarted \<Rightarrow> ''handler_started''
     | HandlerSucceeded \<Rightarrow> ''handler_succeeded''
     | HandlerFailed \<Rightarrow> ''handler_failed''
     | ReceiptEmitted \<Rightarrow> ''receipt_emitted'')"

record Receipt =
  rc_schema_version :: u16
  rc_receipt_id :: string
  rc_context_id :: "string option"
  rc_kind :: ReceiptKind
  rc_packet_hash :: bytes
  rc_session_id :: bytes
  rc_nonce :: bytes
  rc_opcode :: u8
  rc_operation :: "string option"
  rc_decision :: Decision
  rc_reason :: "string option"
  rc_handler_id :: "string option"
  rc_timestamp :: u64
  rc_authenticator_kind :: AuthenticatorKind
  rc_signer_key_id :: string
  rc_evidence_summary :: "string list"
  rc_output_projection :: "ReceiptOutputProjection option"
  rc_signature :: bytes

text \<open>The signed projections: the fields of each version, the signature emptied.\<close>

record LegacyReceiptUnsigned =
  lu_receipt_id :: string
  lu_kind :: ReceiptKind
  lu_packet_hash :: bytes
  lu_session_id :: bytes
  lu_nonce :: bytes
  lu_opcode :: u8
  lu_operation :: "string option"
  lu_decision :: Decision
  lu_reason :: "string option"
  lu_handler_id :: "string option"
  lu_timestamp :: u64
  lu_authenticator_kind :: AuthenticatorKind
  lu_signer_key_id :: string
  lu_signature :: bytes

record ReceiptUnsignedV1 = LegacyReceiptUnsigned +
  u1_schema_version :: u16
  u1_context_id :: "string option"

record ReceiptUnsignedV2 = ReceiptUnsignedV1 +
  u2_evidence_summary :: "string list"

record ReceiptUnsignedV3 = ReceiptUnsignedV2 +
  u3_output_projection :: "ReceiptOutputProjection option"

record receipt_bincode = bincode +
  bc_legacy :: "LegacyReceiptUnsigned \<Rightarrow> bytes option"
  bc_v1 :: "ReceiptUnsignedV1 \<Rightarrow> bytes option"
  bc_v2 :: "ReceiptUnsignedV2 \<Rightarrow> bytes option"
  bc_v3 :: "ReceiptUnsignedV3 \<Rightarrow> bytes option"

section \<open>Construction\<close>

definition receipt_packet_hash :: "crypto \<Rightarrow> 'a bincode_scheme \<Rightarrow> ZenithPacket \<Rightarrow> bytes" where
  "receipt_packet_hash C B packet =
     c_sha256 C (case bc_packet B packet of Some bs \<Rightarrow> bs | None \<Rightarrow> [])"

definition reject_from_error ::
  "string \<Rightarrow> bytes \<Rightarrow> bytes \<Rightarrow> bytes \<Rightarrow> u8 \<Rightarrow> VerificationError \<Rightarrow> u64 \<Rightarrow> Receipt" where
  "reject_from_error receipt_id packet_hash session_id nonce opcode error timestamp =
     \<lparr>rc_schema_version = RECEIPT_SCHEMA_VERSION, rc_receipt_id = receipt_id, rc_context_id = None,
      rc_kind = Reject, rc_packet_hash = packet_hash, rc_session_id = session_id, rc_nonce = nonce,
      rc_opcode = opcode, rc_operation = None, rc_decision = Rejected,
      rc_reason = Some (reason_code error), rc_handler_id = None, rc_timestamp = timestamp,
      rc_authenticator_kind = LocalDevUntrusted, rc_signer_key_id = '''', rc_evidence_summary = [],
      rc_output_projection = None, rc_signature = []\<rparr>"

definition reject_from_packet ::
  "crypto \<Rightarrow> 'a bincode_scheme \<Rightarrow> string \<Rightarrow> ZenithPacket \<Rightarrow> VerificationError \<Rightarrow> u64 \<Rightarrow> Receipt" where
  "reject_from_packet C B receipt_id packet error timestamp =
     reject_from_error receipt_id (receipt_packet_hash C B packet) (zp_session_id packet)
       (zp_nonce packet) (zp_opcode packet) error timestamp"

definition receipt_outcome :: "Decision \<Rightarrow> string option \<Rightarrow> NullifierOutcome" where
  "receipt_outcome decision reason =
     (case (decision, reason) of
        (Accepted, None) \<Rightarrow> ScopedUseRecorded
      | (_, Some reason) \<Rightarrow>
          if reason = NullifierOutcome_as_str OutcomeDuplicateNullifier then OutcomeDuplicateNullifier
          else if reason = NullifierOutcome_as_str OutcomeDomainMismatch then OutcomeDomainMismatch
          else if reason = NullifierOutcome_as_str OutcomeMissingScopedNullifier
          then OutcomeMissingScopedNullifier
          else if reason = NullifierOutcome_as_str OutcomeUnsupportedScope then OutcomeUnsupportedScope
          else (case decision of Rejected \<Rightarrow> OutcomeMissingScopedNullifier | Accepted \<Rightarrow> ScopedUseRecorded)
      | (Rejected, None) \<Rightarrow> OutcomeMissingScopedNullifier)"

definition receipt_evidence_summary ::
  "crypto \<Rightarrow> VerifiedCallContext \<Rightarrow> Decision \<Rightarrow> string option \<Rightarrow> string list" where
  "receipt_evidence_summary C context decision reason =
     (if ''scoped_use_required'' \<notin> set (vc_evidence_summary context) then vc_evidence_summary context
      else case scoped_evidence_from_context C context of
          Inr evidence \<Rightarrow> privacy_safe_summary (receipt_outcome decision reason)
            (Some (domain_fingerprint C (sne_domain evidence)))
            (Some (commitment_fingerprint C (sne_commitment evidence)))
        | Inl _ \<Rightarrow> privacy_safe_summary (receipt_outcome decision reason) None None)"

definition verify_from_signed_context ::
  "crypto \<Rightarrow> string \<Rightarrow> SignedVerifiedCallContext \<Rightarrow> u64 \<Rightarrow> Receipt" where
  "verify_from_signed_context C receipt_id sctx timestamp =
     (let context = sc_context sctx in
      \<lparr>rc_schema_version = RECEIPT_SCHEMA_VERSION, rc_receipt_id = receipt_id,
       rc_context_id = Some (vc_context_id context), rc_kind = Verify,
       rc_packet_hash = vc_packet_hash context, rc_session_id = vc_session_id context,
       rc_nonce = vc_nonce context, rc_opcode = vc_opcode context,
       rc_operation = Some (vc_operation context), rc_decision = Accepted, rc_reason = None,
       rc_handler_id = vc_handler_id context, rc_timestamp = timestamp,
       rc_authenticator_kind = sc_authenticator_kind sctx, rc_signer_key_id = sc_signer_key_id sctx,
       rc_evidence_summary = receipt_evidence_summary C context Accepted None,
       rc_output_projection = None, rc_signature = []\<rparr>)"

definition reject_from_verified_context :: "string \<Rightarrow> VerifiedCallContext \<Rightarrow> string \<Rightarrow> u64 \<Rightarrow> Receipt" where
  "reject_from_verified_context receipt_id context reason timestamp =
     \<lparr>rc_schema_version = RECEIPT_SCHEMA_VERSION, rc_receipt_id = receipt_id,
      rc_context_id = Some (vc_context_id context), rc_kind = Reject,
      rc_packet_hash = vc_packet_hash context, rc_session_id = vc_session_id context,
      rc_nonce = vc_nonce context, rc_opcode = vc_opcode context,
      rc_operation = Some (vc_operation context), rc_decision = Rejected, rc_reason = Some reason,
      rc_handler_id = vc_handler_id context, rc_timestamp = timestamp,
      rc_authenticator_kind = LocalDevUntrusted, rc_signer_key_id = '''', rc_evidence_summary = [],
      rc_output_projection = None, rc_signature = []\<rparr>"

definition execution_receipt ::
  "crypto \<Rightarrow> string \<Rightarrow> VerifiedCallContext \<Rightarrow> Decision \<Rightarrow> string option \<Rightarrow> u64 \<Rightarrow> Receipt" where
  "execution_receipt C receipt_id context decision reason timestamp =
     \<lparr>rc_schema_version = RECEIPT_SCHEMA_VERSION, rc_receipt_id = receipt_id,
      rc_context_id = Some (vc_context_id context), rc_kind = Execute,
      rc_packet_hash = vc_packet_hash context, rc_session_id = vc_session_id context,
      rc_nonce = vc_nonce context, rc_opcode = vc_opcode context,
      rc_operation = Some (vc_operation context), rc_decision = decision, rc_reason = reason,
      rc_handler_id = vc_handler_id context, rc_timestamp = timestamp,
      rc_authenticator_kind = LocalDevUntrusted, rc_signer_key_id = '''',
      rc_evidence_summary = receipt_evidence_summary C context decision reason,
      rc_output_projection = None, rc_signature = []\<rparr>"

definition execution_with_output ::
  "crypto \<Rightarrow> string \<Rightarrow> VerifiedCallContext \<Rightarrow> Decision \<Rightarrow> string option \<Rightarrow> u64 \<Rightarrow> string option \<Rightarrow>
     bytes option \<Rightarrow> VerificationError + Receipt" where
  "execution_with_output C receipt_id context decision reason timestamp output_schema output =
     rbind (case (decision, output_schema, output) of
         (Accepted, Some schema_id, Some output) \<Rightarrow> rbind (from_output C schema_id output) (\<lambda>p. Inr (Some p))
       | (_, None, None) \<Rightarrow> Inr None
       | _ \<Rightarrow> Inl InternalError) (\<lambda>output_projection.
     Inr ((execution_receipt C receipt_id context decision reason timestamp)
           \<lparr>rc_output_projection := output_projection\<rparr>))"

section \<open>Signed bytes\<close>

definition legacy_receipt_unsigned :: "Receipt \<Rightarrow> LegacyReceiptUnsigned" where
  "legacy_receipt_unsigned r =
     \<lparr>lu_receipt_id = rc_receipt_id r, lu_kind = rc_kind r, lu_packet_hash = rc_packet_hash r,
      lu_session_id = rc_session_id r, lu_nonce = rc_nonce r, lu_opcode = rc_opcode r,
      lu_operation = rc_operation r, lu_decision = rc_decision r, lu_reason = rc_reason r,
      lu_handler_id = rc_handler_id r, lu_timestamp = rc_timestamp r,
      lu_authenticator_kind = rc_authenticator_kind r, lu_signer_key_id = rc_signer_key_id r,
      lu_signature = []\<rparr>"

definition receipt_unsigned_v1 :: "Receipt \<Rightarrow> ReceiptUnsignedV1" where
  "receipt_unsigned_v1 r = LegacyReceiptUnsigned.extend (legacy_receipt_unsigned r)
     (ReceiptUnsignedV1.fields (rc_schema_version r) (rc_context_id r))"

definition receipt_unsigned_v2 :: "Receipt \<Rightarrow> ReceiptUnsignedV2" where
  "receipt_unsigned_v2 r = ReceiptUnsignedV1.extend (receipt_unsigned_v1 r)
     (ReceiptUnsignedV2.fields (rc_evidence_summary r))"

definition receipt_unsigned_v3 :: "Receipt \<Rightarrow> ReceiptUnsignedV3" where
  "receipt_unsigned_v3 r = ReceiptUnsignedV2.extend (receipt_unsigned_v2 r)
     (ReceiptUnsignedV3.fields (rc_output_projection r))"

definition legacy_fallback_eligible :: "Receipt \<Rightarrow> bool" where
  "legacy_fallback_eligible r \<longleftrightarrow> rc_schema_version r = 1 \<and> rc_context_id r = None \<and>
     rc_evidence_summary r = [] \<and> rc_output_projection r = None"

definition validate_output_projection :: "Receipt \<Rightarrow> VerificationError + unit" where
  "validate_output_projection r =
     (if rc_schema_version r = 1 \<and> (rc_evidence_summary r \<noteq> [] \<or> rc_output_projection r \<noteq> None)
      then Inl InternalError
      else if rc_schema_version r = 2 \<and> rc_output_projection r \<noteq> None then Inl InternalError
      else if \<not> (1 \<le> rc_schema_version r \<and> rc_schema_version r \<le> 3) then Inl InternalError
      else case rc_output_projection r of
          Some projection \<Rightarrow>
            if rc_kind r \<noteq> Execute \<or> rc_decision r \<noteq> Accepted \<or> rc_reason r \<noteq> None
              \<or> ro_schema_id projection = []
            then Inl InternalError else Inr ()
        | None \<Rightarrow> Inr ())"

definition signed_payload_bytes :: "'a receipt_bincode_scheme \<Rightarrow> Receipt \<Rightarrow> VerificationError + bytes" where
  "signed_payload_bytes B r =
     rbind (validate_output_projection r) (\<lambda>_.
     if rc_schema_version r = 1 then ok_or InternalError (bc_v1 B (receipt_unsigned_v1 r))
     else if rc_schema_version r = 2 \<and> rc_output_projection r = None
     then ok_or InternalError (bc_v2 B (receipt_unsigned_v2 r))
     else if rc_schema_version r = 3 then ok_or InternalError (bc_v3 B (receipt_unsigned_v3 r))
     else Inl InternalError)"

definition receipt_sign_ed25519 ::
  "crypto \<Rightarrow> 'a receipt_bincode_scheme \<Rightarrow> Receipt \<Rightarrow> string \<Rightarrow> bytes \<Rightarrow> AuthenticatorKind \<Rightarrow>
     VerificationError + Receipt" where
  "receipt_sign_ed25519 C B receipt signer_key_id secret_key authenticator_kind =
     (let r = receipt\<lparr>rc_signer_key_id := signer_key_id, rc_authenticator_kind := authenticator_kind,
                      rc_signature := []\<rparr> in
      rbind (signed_payload_bytes B r) (\<lambda>bs. Inr (r\<lparr>rc_signature := c_sign C secret_key bs\<rparr>)))"

definition receipt_verify_ed25519_with_key ::
  "crypto \<Rightarrow> 'a receipt_bincode_scheme \<Rightarrow> Receipt \<Rightarrow> bytes \<Rightarrow> VerificationError + unit" where
  "receipt_verify_ed25519_with_key C B r verifying_key =
     rbind (validate_output_projection r) (\<lambda>_.
     rbind (ok_or InvalidSignature (signature_from_slice (rc_signature r))) (\<lambda>signature.
     if rc_schema_version r = 1 then
       rbind (ok_or InternalError (bc_v1 B (receipt_unsigned_v1 r))) (\<lambda>v1.
       if c_verify C verifying_key v1 signature then Inr ()
       else if \<not> legacy_fallback_eligible r then Inl InvalidSignature
       else rbind (ok_or InternalError (bc_legacy B (legacy_receipt_unsigned r))) (\<lambda>legacy.
         if c_verify C verifying_key legacy signature then Inr () else Inl InvalidSignature))
     else rbind (signed_payload_bytes B r) (\<lambda>bs.
       if c_verify C verifying_key bs signature then Inr () else Inl InvalidSignature)))"

definition receipt_verify_ed25519 ::
  "crypto \<Rightarrow> 'a receipt_bincode_scheme \<Rightarrow> Receipt \<Rightarrow> bytes \<Rightarrow> VerificationError + unit" where
  "receipt_verify_ed25519 C B r secret_key = receipt_verify_ed25519_with_key C B r (c_public C secret_key)"

section \<open>Lemmas\<close>

text \<open>Fields that signing does not change and that the signed projections do not read.\<close>

lemma unsigned_signature_update [simp]:
  "legacy_receipt_unsigned (r\<lparr>rc_signature := s\<rparr>) = legacy_receipt_unsigned r"
  "receipt_unsigned_v1 (r\<lparr>rc_signature := s\<rparr>) = receipt_unsigned_v1 r"
  "receipt_unsigned_v2 (r\<lparr>rc_signature := s\<rparr>) = receipt_unsigned_v2 r"
  "receipt_unsigned_v3 (r\<lparr>rc_signature := s\<rparr>) = receipt_unsigned_v3 r"
  "validate_output_projection (r\<lparr>rc_signature := s\<rparr>) = validate_output_projection r"
  by (simp_all add: legacy_receipt_unsigned_def receipt_unsigned_v1_def receipt_unsigned_v2_def
      receipt_unsigned_v3_def validate_output_projection_def split: option.split)

lemma signed_payload_bytes_signature [simp]:
  "signed_payload_bytes B (r\<lparr>rc_signature := s\<rparr>) = signed_payload_bytes B r"
  by (simp add: signed_payload_bytes_def)

lemma signed_payload_bytes_valid:
  "signed_payload_bytes B r = Inr bs \<Longrightarrow> validate_output_projection r = Inr ()"
  by (auto simp: signed_payload_bytes_def result_simps)

lemma signed_payload_bytes_v1:
  "signed_payload_bytes B r = Inr bs \<Longrightarrow> rc_schema_version r = 1 \<Longrightarrow> bc_v1 B (receipt_unsigned_v1 r) = Some bs"
  by (auto simp: signed_payload_bytes_def result_simps)

lemma verify_signed_bytes:
  assumes "signed_payload_bytes B r = Inr bs" and "c_verify C vk bs s" and "length s = 64"
  shows "receipt_verify_ed25519_with_key C B (r\<lparr>rc_signature := s\<rparr>) vk = Inr ()"
  using assms signed_payload_bytes_valid [OF assms(1)] signed_payload_bytes_v1 [OF assms(1)]
  by (simp add: receipt_verify_ed25519_with_key_def signature_from_slice_def)

lemma receipt_sign_Inr_iff:
  "receipt_sign_ed25519 C B r kid sk kind = Inr r' \<longleftrightarrow>
     (\<exists>bs. signed_payload_bytes B (r\<lparr>rc_signer_key_id := kid, rc_authenticator_kind := kind, rc_signature := []\<rparr>) = Inr bs \<and>
        r' = r\<lparr>rc_signer_key_id := kid, rc_authenticator_kind := kind, rc_signature := c_sign C sk bs\<rparr>)"
  by (auto simp: receipt_sign_ed25519_def Let_def result_simps)

lemma receipt_sign_verifies:
  assumes "signing_correct C" and "receipt_sign_ed25519 C B r kid sk kind = Inr r'"
  shows "receipt_verify_ed25519_with_key C B r' (c_public C sk) = Inr ()"
proof -
  let ?u = "r\<lparr>rc_signer_key_id := kid, rc_authenticator_kind := kind, rc_signature := []\<rparr>"
  obtain bs where bs: "signed_payload_bytes B ?u = Inr bs" and r': "r' = ?u\<lparr>rc_signature := c_sign C sk bs\<rparr>"
    using assms(2) by (auto simp: receipt_sign_Inr_iff)
  show ?thesis
    unfolding r' using assms(1) by (intro verify_signed_bytes [OF bs]) (simp_all add: signing_correct_def)
qed

lemma receipt_unsigned_v3_determines:
  "receipt_unsigned_v3 r = receipt_unsigned_v3 r' \<Longrightarrow> r\<lparr>rc_signature := []\<rparr> = r'\<lparr>rc_signature := []\<rparr>"
  by (cases r; cases r')
    (simp add: receipt_unsigned_v3_def receipt_unsigned_v2_def receipt_unsigned_v1_def legacy_receipt_unsigned_def
      LegacyReceiptUnsigned.defs ReceiptUnsignedV1.defs ReceiptUnsignedV2.defs ReceiptUnsignedV3.defs)

text \<open>Receipts of the current schema made by the constructors always have a signable shape.\<close>

lemma constructed_receipts_valid:
  "validate_output_projection (reject_from_error rid ph sid nc oc e t) = Inr ()"
  "validate_output_projection (verify_from_signed_context C rid sctx t) = Inr ()"
  "validate_output_projection (reject_from_verified_context rid ctx reason t) = Inr ()"
  "validate_output_projection (execution_receipt C rid ctx d ro t) = Inr ()"
  by (simp_all add: validate_output_projection_def reject_from_error_def verify_from_signed_context_def
      reject_from_verified_context_def execution_receipt_def RECEIPT_SCHEMA_VERSION_def Let_def)

lemma validate_output_projection_signer [simp]:
  "validate_output_projection (r\<lparr>rc_signer_key_id := k\<rparr>) = validate_output_projection r"
  "validate_output_projection (r\<lparr>rc_authenticator_kind := a\<rparr>) = validate_output_projection r"
  by (simp_all add: validate_output_projection_def split: option.split)

section \<open>Properties\<close>

definition sample_crypto :: crypto where
  "sample_crypto = \<lparr>c_sha256 = (\<lambda>m. replicate 32 (of_nat (length m))), c_public = (\<lambda>sk. sk),
     c_sign = (\<lambda>sk m. take 64 (sk @ m @ replicate 64 0)),
     c_verify = (\<lambda>vk m s. s = take 64 (vk @ m @ replicate 64 0))\<rparr>"

definition sample_receipt_bincode :: receipt_bincode where
  "sample_receipt_bincode = \<lparr>bc_packet = (\<lambda>p. Some [zp_opcode p]), bc_context = (\<lambda>c. Some [vc_opcode c]),
     bc_legacy = (\<lambda>r. Some [0]), bc_v1 = (\<lambda>r. Some [1]), bc_v2 = (\<lambda>r. Some [2]), bc_v3 = (\<lambda>r. Some [3])\<rparr>"

lemma sample_crypto_correct: "signing_correct sample_crypto"
  by (auto simp: signing_correct_def sample_crypto_def min_def)

text \<open>What a node signs it can verify: whatever the schema version, if signing a receipt succeeds then
  the signed receipt verifies under the signer's public key, carries the signer's id and kind, and
  differs from the unsigned receipt in nothing else.\<close>

theorem signed_receipt_verifies:
  assumes "signing_correct C" and "receipt_sign_ed25519 C B r kid sk kind = Inr r'"
  shows "receipt_verify_ed25519_with_key C B r' (c_public C sk) = Inr () \<and>
     rc_signer_key_id r' = kid \<and> rc_authenticator_kind r' = kind \<and>
     r'\<lparr>rc_signer_key_id := rc_signer_key_id r, rc_authenticator_kind := rc_authenticator_kind r,
        rc_signature := rc_signature r\<rparr> = r"
  using receipt_sign_verifies [OF assms] assms(2) by (auto simp: receipt_sign_Inr_iff)

theorem signed_receipt_verifies_witness:
  "\<exists>r'. receipt_sign_ed25519 sample_crypto sample_receipt_bincode
       (reject_from_error ''r'' [1] [2] [3] 4 ExpiredClaim 5) ''k'' [9] Ed25519Node = Inr r' \<and>
     receipt_verify_ed25519_with_key sample_crypto sample_receipt_bincode r' [9] = Inr ()"
proof -
  let ?r = "reject_from_error ''r'' [1] [2] [3] 4 ExpiredClaim 5"
  have "\<exists>r'. receipt_sign_ed25519 sample_crypto sample_receipt_bincode ?r ''k'' [9] Ed25519Node = Inr r'"
    by (simp add: receipt_sign_Inr_iff signed_payload_bytes_def validate_output_projection_def
        reject_from_error_def RECEIPT_SCHEMA_VERSION_def sample_receipt_bincode_def)
  then obtain r' where r': "receipt_sign_ed25519 sample_crypto sample_receipt_bincode ?r ''k'' [9] Ed25519Node = Inr r'"
    by blast
  have "c_public sample_crypto [9] = [9]" by (simp add: sample_crypto_def)
  with signed_receipt_verifies [OF sample_crypto_correct r'] r' show ?thesis by auto
qed

text \<open>C22. A signature of the current schema covers every field: when bincode is injective, two receipts of
  schema version 3 with the same signed bytes are the same receipt up to the signature itself, so no
  field of a verified receipt can be altered without changing what the signature is checked against.\<close>

theorem receipt_signature_covers_every_field:
  assumes "\<And>x y bs. bc_v3 B x = Some bs \<Longrightarrow> bc_v3 B y = Some bs \<Longrightarrow> x = y"
    and "signed_payload_bytes B r = Inr bs" and "signed_payload_bytes B r' = Inr bs"
    and "rc_schema_version r = 3" and "rc_schema_version r' = 3"
  shows "r\<lparr>rc_signature := []\<rparr> = r'\<lparr>rc_signature := []\<rparr>"
proof -
  have "bc_v3 B (receipt_unsigned_v3 x) = Some bs"
    if "signed_payload_bytes B x = Inr bs" "rc_schema_version x = 3" for x
    using that by (auto simp: signed_payload_bytes_def result_simps)
  then have "receipt_unsigned_v3 r = receipt_unsigned_v3 r'" using assms by metis
  then show ?thesis by (rule receipt_unsigned_v3_determines)
qed

definition sample_receipt_bincode3 :: "Receipt \<Rightarrow> receipt_bincode" where
  "sample_receipt_bincode3 r = sample_receipt_bincode\<lparr>bc_v3 := (\<lambda>u. if u = receipt_unsigned_v3 r then Some [3] else None)\<rparr>"

theorem receipt_signature_covers_every_field_witness:
  "let r = reject_from_error ''r'' [1] [2] [3] 4 ExpiredClaim 5; r' = r\<lparr>rc_signature := [7]\<rparr> in
     signed_payload_bytes (sample_receipt_bincode3 r) r = Inr [3] \<and>
     signed_payload_bytes (sample_receipt_bincode3 r) r' = Inr [3] \<and>
     r\<lparr>rc_signature := []\<rparr> = r'\<lparr>rc_signature := []\<rparr>"
proof -
  let ?r = "reject_from_error ''r'' [1] [2] [3] 4 ExpiredClaim 5"
  let ?B = "sample_receipt_bincode3 ?r"
  have bs: "signed_payload_bytes ?B ?r = Inr [3]"
    by (simp add: signed_payload_bytes_def constructed_receipts_valid sample_receipt_bincode3_def)
      (simp add: reject_from_error_def RECEIPT_SCHEMA_VERSION_def)
  moreover have "rc_schema_version ?r = 3" by (simp add: reject_from_error_def RECEIPT_SCHEMA_VERSION_def)
  moreover have "bc_v3 ?B x = Some bs \<Longrightarrow> bc_v3 ?B y = Some bs \<Longrightarrow> x = y" for x y bs
    by (simp add: sample_receipt_bincode3_def split: if_splits)
  ultimately show ?thesis
    using receipt_signature_covers_every_field [of ?B ?r "[3]" "?r\<lparr>rc_signature := [7]\<rparr>"] by (simp add: Let_def)
qed

end
