(* ===== verification/Keys.thy ===== *)
theory Keys
  imports Basics "HOL-Library.Multiset"
begin

text \<open>
  The interface of the receiver's key registries: built once from a list of keys and then only looked up,
  with an id that occurs twice usable by nobody. Both registries of the server
  (\<^verbatim>\<open>CallerKeyRegistry\<close> in \<^verbatim>\<open>caller.rs\<close>, \<^verbatim>\<open>PublicVerifierKeyRegistry\<close> in \<^verbatim>\<open>identity.rs\<close>) implement it.
\<close>

definition single :: "'a list \<Rightarrow> 'a option" where
  "single xs = (case xs of [x] \<Rightarrow> Some x | _ \<Rightarrow> None)"

lemma single_Some_iff: "single xs = Some x \<longleftrightarrow> xs = [x]"
  by (auto simp: single_def split: list.splits)

lemma single_last: "single xs = (if length xs \<ge> 2 then None else if xs = [] then None else Some (last xs))"
  by (auto simp: single_def split: list.splits)

locale key_registry =
  fixes key_id :: "'k \<Rightarrow> string"
    and from_keys :: "'k list \<Rightarrow> 'r"
    and lookup :: "'r \<Rightarrow> string \<Rightarrow> 'k option"
  assumes lookup_from_keys: "lookup (from_keys ks) i = single (filter (\<lambda>k. key_id k = i) ks)"
begin

lemma lookup_Some_iff: "lookup (from_keys ks) i = Some k \<longleftrightarrow> filter (\<lambda>k. key_id k = i) ks = [k]"
  by (simp add: lookup_from_keys single_Some_iff)

lemma lookup_sound: "lookup (from_keys ks) i = Some k \<Longrightarrow> k \<in> set ks \<and> key_id k = i"
proof -
  assume "lookup (from_keys ks) i = Some k"
  then have "filter (\<lambda>k. key_id k = i) ks = [k]" by (simp add: lookup_Some_iff)
  then have "k \<in> set (filter (\<lambda>k. key_id k = i) ks)" by simp
  then show ?thesis by simp
qed

lemma lookup_unknown: "i \<notin> key_id ` set ks \<Longrightarrow> lookup (from_keys ks) i = None"
  using lookup_sound by (cases "lookup (from_keys ks) i") auto

text \<open>A second key with the same id disables the id, whatever the two keys are.\<close>

lemma duplicate_disables:
  assumes "ks = xs @ k # ys @ k' # zs" and "key_id k = key_id k'"
  shows "lookup (from_keys ks) (key_id k) = None"
proof -
  have "length (filter (\<lambda>x. key_id x = key_id k) ks) \<ge> 2"
    using assms by simp
  then show ?thesis by (simp add: lookup_from_keys single_last)
qed

lemma lookup_distinct:
  assumes "distinct (map key_id ks)" and "k \<in> set ks"
  shows "lookup (from_keys ks) (key_id k) = Some k"
proof -
  have "filter (\<lambda>x. key_id x = key_id k) ks = [k]"
    using assms by (induction ks) (auto simp: filter_empty_conv image_iff)
  then show ?thesis by (simp add: lookup_Some_iff)
qed

text \<open>The order of the list does not matter.\<close>

lemma lookup_perm:
  assumes "mset ks = mset ks'"
  shows "lookup (from_keys ks) i = lookup (from_keys ks') i"
proof -
  have "mset (filter (\<lambda>k. key_id k = i) ks) = mset (filter (\<lambda>k. key_id k = i) ks')"
    using assms by (metis mset_filter)
  then have "filter (\<lambda>k. key_id k = i) ks = [k] \<longleftrightarrow> filter (\<lambda>k. key_id k = i) ks' = [k]" for k
    by (metis mset_single_iff_right mset_single_iff)
  then have "lookup (from_keys ks) i = Some k \<longleftrightarrow> lookup (from_keys ks') i = Some k" for k
    by (simp add: lookup_Some_iff)
  then show ?thesis by (metis option.exhaust)
qed

end

text \<open>Both registries keep a map from ids to keys and the set of the ids seen twice.\<close>

lemma registry_fold_lookup:
  fixes key_id :: "'k \<Rightarrow> string" and step :: "'r \<Rightarrow> 'k \<Rightarrow> 'r"
  assumes keys: "\<And>r k. keys (step r k) = (keys r)(key_id k \<mapsto> k)"
    and dups: "\<And>r k. dups (step r k) = (if keys r (key_id k) \<noteq> None then insert (key_id k) (dups r) else dups r)"
    and init: "keys r0 = Map.empty" "dups r0 = {}"
  shows "(if i \<in> dups (foldl step r0 ks) then None else keys (foldl step r0 ks) i) =
      single (filter (\<lambda>k. key_id k = i) ks)"
proof -
  have "keys (foldl step r0 ks) i =
        (if filter (\<lambda>k. key_id k = i) ks = [] then None else Some (last (filter (\<lambda>k. key_id k = i) ks))) \<and>
      (i \<in> dups (foldl step r0 ks) \<longleftrightarrow> length (filter (\<lambda>k. key_id k = i) ks) \<ge> 2)"
    by (induction ks rule: rev_induct) (auto simp: keys dups init Suc_le_eq split: if_splits)
  then show ?thesis by (simp add: single_last)
qed

end
