(* ===== verification/Tunnel.thy ===== *)
theory Tunnel
  imports Basics Ingress_Request
begin

text \<open>
  The encrypted tunnel: key parsing, key ids, the HKDF salt, the associated data of a packet
  (\<^verbatim>\<open>core/src/tunnel.rs\<close>), and the server's payload decryption (\<^verbatim>\<open>server/src/payload.rs\<close>). HKDF and
  ChaCha20-Poly1305 are parameters.
\<close>

section \<open>Parsing a hexadecimal key\<close>

text \<open>A slice of a string at an index inside a character panics in Rust; \<open>Panicked\<close> is that outcome.\<close>

datatype panicked = Panicked

definition is_char_boundary :: "string \<Rightarrow> nat \<Rightarrow> bool" where
  "is_char_boundary s i =
     (i = 0 \<or> i = length s \<or> i < length s \<and> \<not> utf8_cont (byte_of_char (s ! i)))"

definition str_slice :: "string \<Rightarrow> nat \<Rightarrow> nat \<Rightarrow> panicked + string" where
  "str_slice s a b =
     (if a \<le> b \<and> b \<le> length s \<and> is_char_boundary s a \<and> is_char_boundary s b
      then Inr (take (b - a) (drop a s)) else Inl Panicked)"

definition hex_value :: "char \<Rightarrow> nat option" where
  "hex_value ch =
     (let n = of_char ch :: nat in
      if 48 \<le> n \<and> n \<le> 57 then Some (n - 48)
      else if 97 \<le> n \<and> n \<le> 102 then Some (n - 87)
      else if 65 \<le> n \<and> n \<le> 70 then Some (n - 55)
      else None)"

text \<open>\<^verbatim>\<open>u8::from_str_radix(s, 16)\<close> on a two-byte slice; a leading plus sign is accepted.\<close>

definition u8_from_hex :: "string \<Rightarrow> u8 option" where
  "u8_from_hex s = (case s of
       [a, b] \<Rightarrow> (if a = CHR ''+'' then map_option word_of_nat (hex_value b)
                 else case (hex_value a, hex_value b) of
                   (Some x, Some y) \<Rightarrow> Some (word_of_nat (16 * x + y))
                 | _ \<Rightarrow> None)
     | _ \<Rightarrow> None)"

fun hex_loop :: "string \<Rightarrow> nat \<Rightarrow> nat \<Rightarrow> panicked + bytes option" where
  "hex_loop clean idx 0 = Inr (Some [])"
| "hex_loop clean idx (Suc n) =
     rbind (str_slice clean (idx * 2) (idx * 2 + 2)) (\<lambda>pair.
     case u8_from_hex pair of
       None \<Rightarrow> Inr None
     | Some b \<Rightarrow> rbind (hex_loop clean (Suc idx) n) (\<lambda>rest.
         Inr (case rest of None \<Rightarrow> None | Some bs \<Rightarrow> Some (b # bs))))"

definition parse_tunnel_key_hex :: "string \<Rightarrow> panicked + bytes option" where
  "parse_tunnel_key_hex input =
     (let clean = trim (case strip_prefix ''0x'' input of
                          Some r \<Rightarrow> r
                        | None \<Rightarrow> (case strip_prefix ''0X'' input of Some r \<Rightarrow> r | None \<Rightarrow> input)) in
      if length clean \<noteq> 64 then Inr None else hex_loop clean 0 32)"

section \<open>Keys and associated data\<close>

record TunnelPublicKeySummary =
  tks_key_id :: string
  tks_public_key_hex :: string

definition tunnel_public_key_id :: "crypto \<Rightarrow> bytes \<Rightarrow> string" where
  "tunnel_public_key_id c public_key =
     ''tunnel:x25519:'' @ hex_lower (take 16 (c_sha256 c public_key))"

definition tunnel_public_key_summary :: "crypto \<Rightarrow> bytes \<Rightarrow> TunnelPublicKeySummary" where
  "tunnel_public_key_summary c public_key =
     \<lparr>tks_key_id = tunnel_public_key_id c public_key, tks_public_key_hex = hex_lower public_key\<rparr>"

definition SECS_TUNNEL_HKDF_INFO_V1 :: bytes where
  "SECS_TUNNEL_HKDF_INFO_V1 = as_bytes ''secs-magik tunnel key v1''"

text \<open>\<open>hkdf salt secret info\<close> stands for HKDF-SHA256 extract and expand to 32 bytes.\<close>

definition derive_tunnel_key_hkdf ::
  "(bytes \<Rightarrow> bytes \<Rightarrow> bytes \<Rightarrow> bytes) \<Rightarrow> bytes \<Rightarrow> bytes \<Rightarrow> bytes \<Rightarrow> bytes \<Rightarrow> bytes" where
  "derive_tunnel_key_hkdf hkdf shared_secret session_id client_public server_public =
     hkdf (session_id @ client_public @ server_public) shared_secret SECS_TUNNEL_HKDF_INFO_V1"

definition packet_aad :: "bytes \<Rightarrow> u8 \<Rightarrow> u64 \<Rightarrow> bytes" where
  "packet_aad session_id opcode claim_ttl = session_id @ [opcode] @ be_bytes 8 (unat claim_ttl)"

text \<open>An AEAD cipher: \<open>seal key nonce plaintext aad\<close> and \<open>open key nonce ciphertext aad\<close>.\<close>

record aead =
  a_seal :: "bytes \<Rightarrow> bytes \<Rightarrow> bytes \<Rightarrow> bytes \<Rightarrow> bytes"
  a_open :: "bytes \<Rightarrow> bytes \<Rightarrow> bytes \<Rightarrow> bytes \<Rightarrow> bytes option"

definition encrypt_payload :: "aead \<Rightarrow> bytes \<Rightarrow> bytes \<Rightarrow> bytes \<Rightarrow> bytes \<Rightarrow> bytes" where
  "encrypt_payload a key nonce plaintext aad = a_seal a key nonce plaintext aad"

definition decrypt_payload :: "aead \<Rightarrow> bytes \<Rightarrow> bytes \<Rightarrow> bytes \<Rightarrow> bytes \<Rightarrow> bytes option" where
  "decrypt_payload a key nonce ciphertext aad = a_open a key nonce ciphertext aad"

section \<open>The server's payload decryption\<close>

definition load_tunnel_key :: "(string \<Rightarrow> string option) \<Rightarrow> panicked + bytes option" where
  "load_tunnel_key env =
     (case (case env ''SECS_TUNNEL_KEY_HEX'' of Some h \<Rightarrow> Some h | None \<Rightarrow> env ''SECZ_TUNNEL_KEY_HEX'') of
        None \<Rightarrow> Inr None
      | Some h \<Rightarrow> parse_tunnel_key_hex h)"

text \<open>The tunnel key, if there is one, is the session key or else the configured key.\<close>

definition decrypt_machine_payload_with_key ::
  "aead \<Rightarrow> ZenithPacket \<Rightarrow> RuntimeMode \<Rightarrow> bytes option \<Rightarrow> string + bytes" where
  "decrypt_machine_payload_with_key a packet mode key = (case key of
       Some k \<Rightarrow>
         ok_or ''ChaCha20Poly1305 authentication failed''
           (decrypt_payload a k (zp_nonce packet) (zp_encrypted_payload packet)
              (packet_aad (zp_session_id packet) (zp_opcode packet) (zp_claim_ttl packet)))
     | None \<Rightarrow>
         if allows_plaintext mode then Inr (zp_encrypted_payload packet)
         else Inl ''missing tunnel key'')"

definition decrypt_machine_payload_with_session_key ::
  "aead \<Rightarrow> (string \<Rightarrow> string option) \<Rightarrow> ZenithPacket \<Rightarrow> RuntimeMode \<Rightarrow> bytes option
     \<Rightarrow> panicked + (string + bytes)" where
  "decrypt_machine_payload_with_session_key a env packet mode session_key =
     rbind (case session_key of Some k \<Rightarrow> Inr (Some k) | None \<Rightarrow> load_tunnel_key env) (\<lambda>key.
       Inr (decrypt_machine_payload_with_key a packet mode key))"

definition decrypt_machine_payload ::
  "aead \<Rightarrow> (string \<Rightarrow> string option) \<Rightarrow> ZenithPacket \<Rightarrow> RuntimeMode \<Rightarrow> panicked + (string + bytes)" where
  "decrypt_machine_payload a env packet mode =
     decrypt_machine_payload_with_session_key a env packet mode None"

section \<open>Key parsing\<close>

lemma of_char_hex_digit: "n < 16 \<Longrightarrow> (of_char (hex_digit n) :: nat) = (if n < 10 then 48 + n else 87 + n)"
  by (simp add: hex_digit_def)

lemma hex_digit_cases:
  assumes "n < 16"
  shows "hex_value (hex_digit n) = Some n \<and> \<not> ws1 (byte_of_char (hex_digit n)) \<and>
    byte_of_char (hex_digit n) < 0x80 \<and> hex_digit n \<noteq> CHR ''+'' \<and> hex_digit n \<noteq> CHR ''x'' \<and>
    hex_digit n \<noteq> CHR ''X''"
proof -
  let ?m = "if n < 10 then 48 + n else 87 + n"
  note oc = of_char_hex_digit [OF assms]
  have "hex_digit n \<noteq> ch" if "(of_char ch :: nat) \<noteq> ?m" for ch using oc that by auto
  moreover have "unat (byte_of_char (hex_digit n)) = ?m" using oc by (simp add: unat_byte_of_char)
  ultimately show ?thesis using assms oc
    by (auto simp: hex_value_def Let_def ws1_def word_less_nat_alt word_le_nat_alt split: if_splits)
qed

lemma hex_byte_chars:
  "hex_byte b = [hex_digit (unat b div 16), hex_digit (unat b mod 16)]"
  "unat b div 16 < 16" "unat b mod 16 < 16"
  using unat_u8_less [of b] by (auto simp: hex_byte_def simp del: unat_u8_less)

lemma u8_from_hex_byte: "u8_from_hex (hex_byte b) = Some b"
proof -
  have "word_of_nat (16 * (unat b div 16) + unat b mod 16) = b" by simp
  then show ?thesis
    using hex_digit_cases [OF hex_byte_chars(2) [of b]] hex_digit_cases [OF hex_byte_chars(3) [of b]]
    by (simp add: u8_from_hex_def hex_byte_chars(1))
qed

lemma hex_lower_chars:
  "ch \<in> set (hex_lower bs) \<Longrightarrow> \<not> ws1 (byte_of_char ch) \<and> byte_of_char ch < 0x80 \<and> ch \<noteq> CHR ''x'' \<and> ch \<noteq> CHR ''X''"
  using hex_digit_cases hex_byte_chars(2,3) by (auto simp: hex_lower_def hex_byte_chars(1))

lemma char_boundary_ascii:
  assumes "i \<le> length s" and "\<And>ch. ch \<in> set s \<Longrightarrow> byte_of_char ch < 0x80"
  shows "is_char_boundary s i"
proof (cases "i < length s")
  case True
  then have "byte_of_char (s ! i) < 0x80" using assms(2) by simp
  with True show ?thesis by (simp add: is_char_boundary_def utf8_cont_def word_less_def word_le_def)
qed (use assms(1) in \<open>simp add: is_char_boundary_def\<close>)

lemma hex_loop_hex_lower:
  "hex_loop (hex_lower (pre @ bs)) (length pre) (length bs) = Inr (Some bs)"
proof (induction bs arbitrary: pre)
  case (Cons b bs)
  let ?s = "hex_lower (pre @ b # bs)"
  have "?s = hex_lower pre @ hex_byte b @ hex_lower bs" by (simp add: hex_lower_def)
  then have "take 2 (drop (length pre * 2) ?s) = hex_byte b" by (simp add: mult.commute)
  moreover have "is_char_boundary ?s i" if "i \<le> length ?s" for i
    using that hex_lower_chars by (intro char_boundary_ascii) blast+
  ultimately have "str_slice ?s (length pre * 2) (length pre * 2 + 2) = Inr (hex_byte b)"
    by (simp add: str_slice_def)
  with Cons.IH [of "pre @ [b]"] show ?case by (simp add: u8_from_hex_byte)
qed simp

lemma strip_prefix_hex:
  assumes "ch = CHR ''x'' \<or> ch = CHR ''X''"
  shows "strip_prefix [CHR ''0'', ch] (hex_lower bs) = None"
proof (cases "strip_prefix [CHR ''0'', ch] (hex_lower bs)")
  case (Some r)
  then have "ch \<in> set (hex_lower bs)" by (simp add: strip_prefix_Some_iff)
  with assms show ?thesis using hex_lower_chars by blast
qed

lemma parse_hex_lower:
  assumes "length bs = 32"
  shows "parse_tunnel_key_hex (hex_lower bs) = Inr (Some bs)"
proof -
  have "trim (hex_lower bs) = hex_lower bs"
    using hex_lower_chars [of _ bs] by (intro trim_plain) (auto simp: plain_char_def)
  then show ?thesis
    using assms hex_loop_hex_lower [of "[]" bs] strip_prefix_hex [of "CHR ''x''" bs]
      strip_prefix_hex [of "CHR ''X''" bs]
    by (simp add: parse_tunnel_key_hex_def)
qed

lemma be_bytes_8_inj: "be_bytes 8 (unat a) = be_bytes 8 (unat b) \<Longrightarrow> a = (b :: u64)"
  using be_bytes_inj [of 8 "unat a" "unat b"] unsigned_less [of a, where 'a = nat]
    unsigned_less [of b, where 'a = nat] by (simp add: word_unat_eq_iff)

lemma packet_aad_inj:
  assumes "length s = length s'" and "packet_aad s op ttl = packet_aad s' op' ttl'"
  shows "s = s' \<and> op = op' \<and> ttl = ttl'"
  using assms be_bytes_8_inj by (auto simp: packet_aad_def)

section \<open>Properties\<close>

text \<open>A key written as lower-case hexadecimal is read back. But the parser slices its input at byte
  offsets: a 64-byte text with a multi-byte character across an even offset, as in the second
  conjunct, makes it panic instead of reporting an error.\<close>

theorem parse_tunnel_key_hex_behaviour:
  "(length bs = 32) = (parse_tunnel_key_hex (hex_lower bs) = Inr (Some bs)) \<and>
   (\<exists>s. str_ok s \<and> length s = 64 \<and> parse_tunnel_key_hex s = Inl Panicked)"
proof
  have "length bs = 32" if "parse_tunnel_key_hex (hex_lower bs) = Inr (Some bs)"
  proof -
    have "trim (hex_lower bs) = hex_lower bs"
      using hex_lower_chars [of _ bs] by (intro trim_plain) (auto simp: plain_char_def)
    with that strip_prefix_hex [of "CHR ''x''" bs] strip_prefix_hex [of "CHR ''X''" bs]
    show ?thesis by (auto simp: parse_tunnel_key_hex_def split: if_splits)
  qed
  then show "(length bs = 32) = (parse_tunnel_key_hex (hex_lower bs) = Inr (Some bs))"
    using parse_hex_lower by blast
next
  let ?s = "CHR ''a'' # CHR 0xC3 # CHR 0xA9 # replicate 61 CHR ''a''"
  have "valid_utf8 (replicate n 0x61)" for n
    by (rule valid_utf8_ascii) (simp add: word_less_nat_alt)
  then have "str_ok ?s"
    by (simp add: str_ok_def as_bytes_def byte_of_char_def utf8_cont_def word_le_nat_alt word_less_nat_alt)
  moreover have "trim ?s = ?s"
    by (rule trim_plain)
      (simp add: plain_char_def byte_of_char_def ws1_def word_le_nat_alt word_less_nat_alt)
  then have "parse_tunnel_key_hex ?s = Inl Panicked"
    by (simp add: parse_tunnel_key_hex_def hex_loop.simps(2) [of _ _ 31, simplified] str_slice_def
        is_char_boundary_def utf8_cont_def byte_of_char_def word_le_nat_alt)
  ultimately show "\<exists>s. str_ok s \<and> length s = 64 \<and> parse_tunnel_key_hex s = Inl Panicked"
    by (intro exI [of _ ?s]) simp
qed


definition sample_aead :: aead where
  "sample_aead = \<lparr>a_seal = (\<lambda>_ _ pt aad. aad @ pt), a_open = (\<lambda>_ _ ct aad. strip_prefix aad ct)\<rparr>"


end
