(* ===== verification/Caller.thy ===== *)
theory Caller
  imports Keys Tunnel
begin

text \<open>
  Caller proof of origin: the signed canonical bytes and the proof envelope
  (\<^verbatim>\<open>core/src/caller_proof.rs\<close>), signature checking (\<^verbatim>\<open>core/src/zk.rs\<close>), the receiver's caller key registry,
  its loader and \<open>verify_caller_proof\<close> (\<^verbatim>\<open>server/src/caller.rs\<close>).
\<close>

section \<open>The proof envelope\<close>

definition CALLER_PROOF_VERSION :: string where
  "CALLER_PROOF_VERSION = ''secs-caller-proof-v1''"

definition CALLER_SIGNATURE_LEN :: nat where "CALLER_SIGNATURE_LEN = 64"

definition MAX_CALLER_KEY_ID_LEN :: nat where "MAX_CALLER_KEY_ID_LEN = 256"

definition append_field :: "bytes \<Rightarrow> string \<Rightarrow> bytes \<Rightarrow> bytes" where
  "append_field out name value =
     out @ as_bytes name @ [58] @ as_bytes (dec_string (length value)) @ [58] @ value @ [10]"

definition caller_canonical_bytes :: "bytes \<Rightarrow> bytes \<Rightarrow> u8 \<Rightarrow> u64 \<Rightarrow> bytes \<Rightarrow> bytes" where
  "caller_canonical_bytes session_id nonce opcode claim_ttl encrypted_payload =
     (let out = as_bytes CALLER_PROOF_VERSION @ [10];
          out = append_field out ''session_id'' session_id;
          out = append_field out ''nonce'' nonce;
          out = append_field out ''opcode'' [opcode];
          out = append_field out ''claim_ttl'' (be_bytes 8 (unat claim_ttl));
          out = append_field out ''encrypted_payload'' encrypted_payload
      in out)"

record CallerProofParts =
  cp_key_id :: string
  cp_signature :: bytes

definition encode_caller_proof :: "string \<Rightarrow> bytes \<Rightarrow> bytes" where
  "encode_caller_proof key_id signature =
     as_bytes CALLER_PROOF_VERSION @ [10] @ be_bytes 2 (length key_id mod 2 ^ 16)
       @ as_bytes key_id @ signature"

definition decode_caller_proof :: "bytes \<Rightarrow> CallerProofParts option" where
  "decode_caller_proof proof =
     (case strip_prefix (as_bytes CALLER_PROOF_VERSION) proof of None \<Rightarrow> None
      | Some rest \<Rightarrow> (case strip_prefix [10] rest of None \<Rightarrow> None
      | Some rest \<Rightarrow>
          if length rest < 2 then None
          else let key_id_len = be_value (take 2 rest); rest = drop 2 rest in
            if key_id_len = 0 \<or> key_id_len > MAX_CALLER_KEY_ID_LEN then None
            else if length rest \<noteq> key_id_len + CALLER_SIGNATURE_LEN then None
            else (case from_utf8 (take key_id_len rest) of None \<Rightarrow> None
              | Some key_id \<Rightarrow>
                  Some \<lparr>cp_key_id = key_id, cp_signature = drop key_id_len rest\<rparr>)))"

definition verify_proof :: "crypto \<Rightarrow> bytes \<Rightarrow> bytes \<Rightarrow> bytes \<Rightarrow> bool" where
  "verify_proof c public_key signature_bytes message =
     (case signature_from_slice signature_bytes of
        Some signature \<Rightarrow> c_verify c public_key message signature
      | None \<Rightarrow> False)"

definition generate_proof :: "crypto \<Rightarrow> bytes \<Rightarrow> bytes \<Rightarrow> bytes" where
  "generate_proof c secret message = c_sign c secret message"

section \<open>The caller key registry\<close>

record CallerKey =
  ck_key_id :: string
  ck_subject_id :: string
  ck_algorithm :: string
  ck_public_key :: bytes
  ck_status :: VerificationKeyStatus
  ck_not_before :: "u64 option"
  ck_not_after :: "u64 option"
  ck_revoked_at :: "u64 option"

definition CallerKey_active :: "string \<Rightarrow> string \<Rightarrow> bytes \<Rightarrow> CallerKey" where
  "CallerKey_active key_id subject_id public_key =
     \<lparr>ck_key_id = key_id, ck_subject_id = subject_id, ck_algorithm = ''ed25519'',
      ck_public_key = public_key, ck_status = VerificationKeyStatus.Active,
      ck_not_before = None, ck_not_after = None, ck_revoked_at = None\<rparr>"

definition caller_ensure_active_at :: "CallerKey \<Rightarrow> u64 \<Rightarrow> VerificationError + unit" where
  "caller_ensure_active_at k now =
     rbind (case ck_status k of
         VerificationKeyStatus.Active \<Rightarrow> Inr ()
       | VerificationKeyStatus.Revoked \<Rightarrow> Inl (KeyErr RevokedCallerKey)
       | VerificationKeyStatus.Expired \<Rightarrow> Inl (KeyErr ExpiredCallerKey)
       | VerificationKeyStatus.Unknown \<Rightarrow> Inl (KeyErr UnknownCallerKey)
       | VerificationKeyStatus.NotYetValid \<Rightarrow> Inl (KeyErr NotYetValidCallerKey)) (\<lambda>_.
     rbind (case ck_not_before k of
         Some t \<Rightarrow> if now < t then Inl (KeyErr NotYetValidCallerKey) else Inr ()
       | None \<Rightarrow> Inr ()) (\<lambda>_.
     rbind (case ck_not_after k of
         Some t \<Rightarrow> if now > t then Inl (KeyErr ExpiredCallerKey) else Inr ()
       | None \<Rightarrow> Inr ()) (\<lambda>_.
     (case ck_revoked_at k of
         Some t \<Rightarrow> if t \<le> now then Inl (KeyErr RevokedCallerKey) else Inr ()
       | None \<Rightarrow> Inr ()))))"

record AuthenticatedCaller =
  ac_subject_id :: string
  ac_key_id :: string

record CallerKeyRegistry =
  cr_keys :: "string \<rightharpoonup> CallerKey"
  cr_duplicate_key_ids :: "string set"

definition caller_registry_step :: "CallerKeyRegistry \<Rightarrow> CallerKey \<Rightarrow> CallerKeyRegistry" where
  "caller_registry_step r k =
     (let r = (if cr_keys r (ck_key_id k) \<noteq> None
               then r\<lparr>cr_duplicate_key_ids := insert (ck_key_id k) (cr_duplicate_key_ids r)\<rparr> else r)
      in r\<lparr>cr_keys := (cr_keys r)(ck_key_id k \<mapsto> k)\<rparr>)"

definition CallerKeyRegistry_from_keys :: "CallerKey list \<Rightarrow> CallerKeyRegistry" where
  "CallerKeyRegistry_from_keys ks =
     foldl caller_registry_step \<lparr>cr_keys = Map.empty, cr_duplicate_key_ids = {}\<rparr> ks"

definition CallerKeyRegistry_get :: "CallerKeyRegistry \<Rightarrow> string \<Rightarrow> CallerKey option" where
  "CallerKeyRegistry_get r key_id =
     (if key_id \<in> cr_duplicate_key_ids r then None else cr_keys r key_id)"

section \<open>Loading the registry\<close>

definition require_string :: "json \<Rightarrow> string \<Rightarrow> string + string" where
  "require_string entry field =
     ok_or (''caller registry entry missing required field '' @ [CHR 0x22] @ field @ [CHR 0x22])
       (case json_get field entry of None \<Rightarrow> None
        | Some v \<Rightarrow> (case json_as_str v of None \<Rightarrow> None
          | Some s \<Rightarrow> if ws_only s then None else Some s))"

definition registry_status :: "json \<Rightarrow> VerificationKeyStatus" where
  "registry_status entry =
     (case (case json_get ''status'' entry of None \<Rightarrow> None | Some v \<Rightarrow> json_as_str v) of
        None \<Rightarrow> VerificationKeyStatus.Active
      | Some s \<Rightarrow>
          if s = ''active'' then VerificationKeyStatus.Active
          else if s = ''revoked'' then VerificationKeyStatus.Revoked
          else if s = ''expired'' then VerificationKeyStatus.Expired
          else if s = ''not_yet_valid'' then VerificationKeyStatus.NotYetValid
          else VerificationKeyStatus.Unknown)"

definition registry_window :: "json \<Rightarrow> string \<Rightarrow> u64 option" where
  "registry_window entry field =
     (case (case json_get field entry of None \<Rightarrow> None | Some v \<Rightarrow> json_as_u64 v) of
        None \<Rightarrow> None
      | Some v \<Rightarrow> if v > 0 then Some v else None)"

text \<open>One entry of the \<^verbatim>\<open>callers\<close> array. The outer sum is a panic of the hexadecimal parser; the Debug
  quoting of ids in messages is left out of the error texts. \<open>key_ok\<close> is \<^verbatim>\<open>VerifyingKey::from_bytes\<close>.\<close>

definition load_caller_entry :: "(bytes \<Rightarrow> bool) \<Rightarrow> json \<Rightarrow> panicked + (string + CallerKey)" where
  "load_caller_entry key_ok entry =
     (case rbind (require_string entry ''key_id'') (\<lambda>key_id.
           rbind (require_string entry ''subject_id'') (\<lambda>subject_id.
           rbind (require_string entry ''algorithm'') (\<lambda>algorithm.
           rbind (ensure ''caller has unsupported algorithm'' (algorithm = ''ed25519'')) (\<lambda>_.
           rbind (require_string entry ''public_key_hex'') (\<lambda>hex.
           Inr (key_id, subject_id, algorithm, hex)))))) of
        Inl e \<Rightarrow> Inr (Inl e)
      | Inr (key_id, subject_id, algorithm, hex) \<Rightarrow>
          rbind (parse_tunnel_key_hex hex) (\<lambda>parsed. Inr (case parsed of
            None \<Rightarrow> Inl ''caller public_key_hex must be 64 hex chars''
          | Some public_key \<Rightarrow>
              if \<not> key_ok public_key then Inl ''caller public key is not a valid Ed25519 key''
              else Inr \<lparr>ck_key_id = key_id, ck_subject_id = subject_id, ck_algorithm = algorithm,
                ck_public_key = public_key, ck_status = registry_status entry,
                ck_not_before = registry_window entry ''not_before'',
                ck_not_after = registry_window entry ''not_after'',
                ck_revoked_at = registry_window entry ''revoked_at''\<rparr>)))"

fun load_caller_entries :: "(bytes \<Rightarrow> bool) \<Rightarrow> json list \<Rightarrow> panicked + (string + CallerKey list)" where
  "load_caller_entries key_ok [] = Inr (Inr [])"
| "load_caller_entries key_ok (e # es) =
     rbind (load_caller_entry key_ok e) (\<lambda>r. case r of
       Inl err \<Rightarrow> Inr (Inl err)
     | Inr k \<Rightarrow> rbind (load_caller_entries key_ok es) (\<lambda>rs.
         Inr (rbind rs (\<lambda>ks. Inr (k # ks)))))"

text \<open>The file's contents and its JSON parse are parameters.\<close>

definition load_caller_registry_from_path ::
  "(bytes \<Rightarrow> bool) \<Rightarrow> (bytes \<Rightarrow> string + json) \<Rightarrow> string + bytes
     \<Rightarrow> panicked + (string + CallerKeyRegistry \<times> bool)" where
  "load_caller_registry_from_path key_ok from_slice contents =
     (case rbind contents from_slice of
        Inl e \<Rightarrow> Inr (Inl e)
      | Inr value \<Rightarrow>
          let fixture_only = (case json_get ''fixture_only'' value of None \<Rightarrow> False
                | Some v \<Rightarrow> (case json_as_bool v of None \<Rightarrow> False | Some b \<Rightarrow> b)) in
          (case (case json_get ''callers'' value of None \<Rightarrow> None | Some v \<Rightarrow> json_as_array v) of
             None \<Rightarrow> Inr (Inl ''caller registry must contain a callers array'')
           | Some entries \<Rightarrow>
               rbind (load_caller_entries key_ok entries) (\<lambda>ks.
                 Inr (rbind ks (\<lambda>ks. Inr (CallerKeyRegistry_from_keys ks, fixture_only))))))"

section \<open>Verification\<close>

definition verify_caller_proof ::
  "crypto \<Rightarrow> ZenithPacket \<Rightarrow> CallerKeyRegistry \<Rightarrow> u64 \<Rightarrow> VerificationError + AuthenticatedCaller" where
  "verify_caller_proof c packet registry now =
     (if is_clock_read_failure now then Inl ExpiredClaim
      else rbind (ok_or (KeyErr BadCallerProof) (decode_caller_proof (zp_proof packet))) (\<lambda>parts.
        rbind (ok_or (KeyErr UnknownCallerKey) (CallerKeyRegistry_get registry (cp_key_id parts))) (\<lambda>key.
        rbind (caller_ensure_active_at key now) (\<lambda>_.
        let canonical = caller_canonical_bytes (zp_session_id packet) (zp_nonce packet) (zp_opcode packet)
              (zp_claim_ttl packet) (zp_encrypted_payload packet) in
        if \<not> verify_proof c (ck_public_key key) (cp_signature parts) canonical
        then Inl (KeyErr BadCallerProof)
        else Inr \<lparr>ac_subject_id = ck_subject_id key, ac_key_id = ck_key_id key\<rparr>))))"

section \<open>Canonical bytes and envelope\<close>

lemma caller_canonical_bytes_fields:
  "caller_canonical_bytes s n oc ttl p =
     as_bytes CALLER_PROOF_VERSION @ [10] @ concat (map (\<lambda>(name, v). named_field name v)
       [(''session_id'', s), (''nonce'', n), (''opcode'', [oc]), (''claim_ttl'', be_bytes 8 (unat ttl)),
        (''encrypted_payload'', p)])"
  by (simp add: caller_canonical_bytes_def append_field_def named_field_def Let_def)

lemma caller_canonical_bytes_inj:
  assumes "caller_canonical_bytes s n oc ttl p = caller_canonical_bytes s' n' oc' ttl' p'"
  shows "s = s' \<and> n = n' \<and> oc = oc' \<and> ttl = ttl' \<and> p = p'"
proof -
  let ?fs = "\<lambda>s n oc ttl p. [(''session_id'', s), (''nonce'', n), (''opcode'', [oc]),
      (''claim_ttl'', be_bytes 8 (unat ttl)), (''encrypted_payload'', p)]"
  have "concat (map (\<lambda>(name, v). named_field name v) (?fs s n oc ttl p)) =
      concat (map (\<lambda>(name, v). named_field name v) (?fs s' n' oc' ttl' p'))"
    using assms unfolding caller_canonical_bytes_fields by simp
  from named_fields_inj [OF _ _ this] show ?thesis
    using be_bytes_8_inj by auto
qed

lemma length_caller_version [simp]: "length CALLER_PROOF_VERSION = 20"
  by (simp add: CALLER_PROOF_VERSION_def)

lemma be_bytes_2: "n < 65536 \<Longrightarrow> be_value (be_bytes 2 n) = n"
  using be_value_be_bytes_small [of n 2] by simp

lemma be_bytes_be_value: "length bs = n \<Longrightarrow> be_bytes n (be_value bs) = bs"
  using le_bytes_le_value [of "rev bs"] by (simp add: be_bytes_def be_value_def)

lemma decode_caller_proof_Some_iff:
  "decode_caller_proof proof = Some parts \<longleftrightarrow>
     proof = encode_caller_proof (cp_key_id parts) (cp_signature parts) \<and>
     0 < length (cp_key_id parts) \<and> length (cp_key_id parts) \<le> MAX_CALLER_KEY_ID_LEN \<and>
     str_ok (cp_key_id parts) \<and> length (cp_signature parts) = CALLER_SIGNATURE_LEN"
    (is "_ \<longleftrightarrow> ?enc")
proof
  assume dec: "decode_caller_proof proof = Some parts"
  then obtain rest key_id where pf: "proof = as_bytes CALLER_PROOF_VERSION @ [10] @ rest"
    and rest: "2 \<le> length rest" "length (drop 2 rest) = be_value (take 2 rest) + CALLER_SIGNATURE_LEN"
    and len: "0 < be_value (take 2 rest)" "be_value (take 2 rest) \<le> MAX_CALLER_KEY_ID_LEN"
    and utf8: "from_utf8 (take (be_value (take 2 rest)) (drop 2 rest)) = Some key_id"
    and parts: "parts = \<lparr>cp_key_id = key_id, cp_signature = drop (be_value (take 2 rest)) (drop 2 rest)\<rparr>"
    by (auto simp: decode_caller_proof_def strip_prefix_Some_iff Let_def not_less
        split: option.splits if_splits)
  have key: "as_bytes key_id = take (be_value (take 2 rest)) (drop 2 rest)" "str_ok key_id"
    using utf8 by (simp_all add: from_utf8_Some_iff)
  then have "length (as_bytes key_id) = be_value (take 2 rest)" using rest by simp
  then have n: "length key_id = be_value (take 2 rest)" by simp
  have "be_bytes 2 (length key_id) = take 2 rest"
    using be_bytes_be_value [of "take 2 rest" 2] rest n by simp
  then have "rest = be_bytes 2 (length key_id) @ as_bytes key_id @ cp_signature parts"
    using key(1) append_take_drop_id [of 2 rest]
      append_take_drop_id [of "be_value (take 2 rest)" "drop 2 rest"] parts by simp
  moreover have "length key_id mod 2 ^ 16 = length key_id"
    using len n by (simp add: MAX_CALLER_KEY_ID_LEN_def)
  ultimately show ?enc
    using pf parts key(2) len n rest by (simp add: encode_caller_proof_def)
next
  assume enc: ?enc
  let ?k = "cp_key_id parts"
  have small: "length ?k < 65536" using enc by (simp add: MAX_CALLER_KEY_ID_LEN_def)
  then have "be_value (be_bytes 2 (length ?k)) = length ?k" by (rule be_bytes_2)
  with enc small show "decode_caller_proof proof = Some parts"
    by (simp add: decode_caller_proof_def encode_caller_proof_def Let_def
        strip_prefix_append [of "as_bytes CALLER_PROOF_VERSION" "10 # rest" for rest, simplified])
qed

section \<open>The registry\<close>

interpretation caller_registry:
  key_registry ck_key_id CallerKeyRegistry_from_keys CallerKeyRegistry_get
proof
  fix ks i
  show "CallerKeyRegistry_get (CallerKeyRegistry_from_keys ks) i = single (filter (\<lambda>k. ck_key_id k = i) ks)"
    unfolding CallerKeyRegistry_get_def CallerKeyRegistry_from_keys_def
    by (rule registry_fold_lookup [where keys = cr_keys and dups = cr_duplicate_key_ids])
      (auto simp: caller_registry_step_def Let_def)
qed

lemma caller_ensure_active_at_iff:
  "caller_ensure_active_at k now = Inr u \<longleftrightarrow> ck_status k = VerificationKeyStatus.Active \<and>
     \<not> (\<exists>t. ck_not_before k = Some t \<and> now < t) \<and> \<not> (\<exists>t. ck_not_after k = Some t \<and> now > t) \<and>
     \<not> (\<exists>t. ck_revoked_at k = Some t \<and> t \<le> now)"
  by (auto simp: caller_ensure_active_at_def result_simps split: VerificationKeyStatus.splits option.splits)

lemma parts_split_ex:
  "(\<exists>parts. P parts) \<longleftrightarrow> (\<exists>key_id sig. P \<lparr>cp_key_id = key_id, cp_signature = sig\<rparr>)"
proof
  assume "\<exists>parts. P parts"
  then obtain parts where "P parts" by blast
  then show "\<exists>key_id sig. P \<lparr>cp_key_id = key_id, cp_signature = sig\<rparr>" by (cases parts) auto
qed blast

lemma verify_caller_proof_Inr_iff:
  "verify_caller_proof c packet registry now = Inr caller \<longleftrightarrow> \<not> is_clock_read_failure now \<and>
     (\<exists>key_id sig key. zp_proof packet = encode_caller_proof key_id sig \<and>
        0 < length key_id \<and> length key_id \<le> MAX_CALLER_KEY_ID_LEN \<and> str_ok key_id \<and> length sig = 64 \<and>
        CallerKeyRegistry_get registry key_id = Some key \<and> caller_ensure_active_at key now = Inr () \<and>
        c_verify c (ck_public_key key) (caller_canonical_bytes (zp_session_id packet) (zp_nonce packet)
          (zp_opcode packet) (zp_claim_ttl packet) (zp_encrypted_payload packet)) sig \<and>
        caller = \<lparr>ac_subject_id = ck_subject_id key, ac_key_id = ck_key_id key\<rparr>)"
proof -
  let ?m = "caller_canonical_bytes (zp_session_id packet) (zp_nonce packet) (zp_opcode packet)
      (zp_claim_ttl packet) (zp_encrypted_payload packet)"
  have vp: "verify_proof c pk sig m \<longleftrightarrow> length sig = 64 \<and> c_verify c pk m sig" for pk sig m
    by (simp add: verify_proof_def signature_from_slice_def)
  have "verify_caller_proof c packet registry now = Inr caller \<longleftrightarrow> \<not> is_clock_read_failure now \<and>
     (\<exists>parts key. decode_caller_proof (zp_proof packet) = Some parts \<and>
        CallerKeyRegistry_get registry (cp_key_id parts) = Some key \<and>
        caller_ensure_active_at key now = Inr () \<and>
        c_verify c (ck_public_key key) ?m (cp_signature parts) \<and> length (cp_signature parts) = 64 \<and>
        caller = \<lparr>ac_subject_id = ck_subject_id key, ac_key_id = ck_key_id key\<rparr>)"
    by (auto simp: verify_caller_proof_def result_simps Let_def vp)
  also have "\<dots> \<longleftrightarrow> \<not> is_clock_read_failure now \<and> (\<exists>key_id sig key.
        decode_caller_proof (zp_proof packet) = Some \<lparr>cp_key_id = key_id, cp_signature = sig\<rparr> \<and>
        CallerKeyRegistry_get registry key_id = Some key \<and> caller_ensure_active_at key now = Inr () \<and>
        c_verify c (ck_public_key key) ?m sig \<and> length sig = 64 \<and>
        caller = \<lparr>ac_subject_id = ck_subject_id key, ac_key_id = ck_key_id key\<rparr>)"
    unfolding parts_split_ex by simp
  finally show ?thesis
    unfolding decode_caller_proof_Some_iff by (auto simp: CALLER_SIGNATURE_LEN_def)
qed

lemma caller_ensure_active_Inl:
  "caller_ensure_active_at k now = Inl e \<Longrightarrow>
     e \<in> KeyErr ` {RevokedCallerKey, ExpiredCallerKey, UnknownCallerKey, NotYetValidCallerKey}"
  by (auto simp: caller_ensure_active_at_def result_simps split: VerificationKeyStatus.splits
      option.splits if_splits)

section \<open>Properties\<close>

text \<open>The bytes a caller signs determine the envelope: session, nonce, opcode, lifetime and payload
  of two packets with the same canonical bytes are the same, whatever their lengths.\<close>

theorem caller_canonical_bytes_injective:
  "caller_canonical_bytes s n oc ttl p = caller_canonical_bytes s' n' oc' ttl' p' \<longleftrightarrow>
     s = s' \<and> n = n' \<and> oc = oc' \<and> ttl = ttl' \<and> p = p'"
  using caller_canonical_bytes_inj by blast

text \<open>The proof envelope decoder accepts exactly the encodings of a UTF-8 key id of 1 to 256 bytes
  and a 64-byte signature, and returns that key id and signature.\<close>

theorem decode_caller_proof_exact:
  "decode_caller_proof proof = Some parts \<longleftrightarrow>
     proof = encode_caller_proof (cp_key_id parts) (cp_signature parts) \<and>
     0 < length (cp_key_id parts) \<and> length (cp_key_id parts) \<le> MAX_CALLER_KEY_ID_LEN \<and>
     str_ok (cp_key_id parts) \<and> length (cp_signature parts) = CALLER_SIGNATURE_LEN"
  by (rule decode_caller_proof_Some_iff)

text \<open>C12. Who is authenticated: a packet is attributed to a caller exactly when the clock was read, its
  proof names a key id that occurs once in the receiver's list, that key is active, inside its window and
  not yet revoked, and its signature verifies over the canonical bytes of this very packet.\<close>

theorem authenticated_caller_iff:
  "verify_caller_proof c packet (CallerKeyRegistry_from_keys ks) now = Inr caller \<longleftrightarrow>
     \<not> is_clock_read_failure now \<and>
     (\<exists>key_id sig key. zp_proof packet = encode_caller_proof key_id sig \<and>
        0 < length key_id \<and> length key_id \<le> MAX_CALLER_KEY_ID_LEN \<and> str_ok key_id \<and> length sig = 64 \<and>
        filter (\<lambda>k. ck_key_id k = key_id) ks = [key] \<and>
        ck_status key = VerificationKeyStatus.Active \<and>
        \<not> (\<exists>t. ck_not_before key = Some t \<and> now < t) \<and> \<not> (\<exists>t. ck_not_after key = Some t \<and> now > t) \<and>
        \<not> (\<exists>t. ck_revoked_at key = Some t \<and> t \<le> now) \<and>
        c_verify c (ck_public_key key) (caller_canonical_bytes (zp_session_id packet) (zp_nonce packet)
          (zp_opcode packet) (zp_claim_ttl packet) (zp_encrypted_payload packet)) sig \<and>
        caller = \<lparr>ac_subject_id = ck_subject_id key, ac_key_id = key_id\<rparr>)"
proof -
  have "ck_key_id key = key_id" if "filter (\<lambda>k. ck_key_id k = key_id) ks = [key]" for key_id key
    using caller_registry.lookup_sound [of ks key_id key] that
    by (simp add: caller_registry.lookup_Some_iff)
  then show ?thesis
    unfolding verify_caller_proof_Inr_iff caller_registry.lookup_Some_iff caller_ensure_active_at_iff
    by blast
qed


definition sample_caller_crypto :: crypto where
  "sample_caller_crypto = \<lparr>c_sha256 = (\<lambda>b. b), c_public = (\<lambda>b. b), c_sign = (\<lambda>_ _. replicate 64 1),
     c_verify = (\<lambda>_ m _. m = caller_canonical_bytes (replicate 16 1) (replicate 12 2) 0x10 300 [4, 5])\<rparr>"

definition sample_caller_packet :: ZenithPacket where
  "sample_caller_packet = sample_packet\<lparr>zp_proof := encode_caller_proof ''k'' (replicate 64 1)\<rparr>"

lemma sample_caller_accepted:
  "verify_caller_proof sample_caller_crypto sample_caller_packet
     (CallerKeyRegistry_from_keys [CallerKey_active ''k'' ''alice'' [9]]) 7 =
     Inr \<lparr>ac_subject_id = ''alice'', ac_key_id = ''k''\<rparr>"
proof -
  have "str_ok ''k''"
    by (simp add: str_ok_def as_bytes_def byte_of_char_def valid_utf8_ascii)
  moreover have "CallerKeyRegistry_get (CallerKeyRegistry_from_keys [CallerKey_active ''k'' ''alice'' [9]]) ''k''
      = Some (CallerKey_active ''k'' ''alice'' [9])"
    by (simp add: caller_registry.lookup_Some_iff CallerKey_active_def)
  ultimately show ?thesis
    unfolding verify_caller_proof_Inr_iff
    by (auto simp: sample_caller_packet_def sample_packet_def sample_caller_crypto_def CallerKey_active_def
        caller_ensure_active_at_def is_clock_read_failure_def CLOCK_READ_FAILURE_SENTINEL_def
        MAX_CALLER_KEY_ID_LEN_def intro!: exI [of _ "''k''"] exI [of _ "replicate 64 1"])
qed


text \<open>The registry loader fails open on ill-typed members: an entry whose status is not a string and
  whose revocation time is not an unsigned number loads as an active, unrevoked key, usable at any
  time.\<close>

theorem ill_typed_status_loads_active:
  "\<exists>entry k. json_get ''status'' entry = Some JNull \<and> json_get ''revoked_at'' entry = Some (JString ''1'') \<and>
     load_caller_entry (\<lambda>_. True) entry = Inr (Inr k) \<and> caller_ensure_active_at k now = Inr ()"
proof -
  let ?key = "replicate 32 (0 :: u8)"
  let ?entry = "JObject [(''key_id'', JString ''k''), (''subject_id'', JString ''s''),
      (''algorithm'', JString ''ed25519''), (''public_key_hex'', JString (hex_lower ?key)),
      (''status'', JNull), (''revoked_at'', JString ''1'')]"
  have "?key = 0 # replicate 31 0" by (simp flip: replicate_Suc)
  then have "\<not> ws_only (hex_lower ?key)"
    by (simp add: ws_only_def as_bytes_def hex_lower_def hex_byte_def hex_digit_def byte_of_char_def)
  moreover have "parse_tunnel_key_hex (hex_lower ?key) = Inr (Some ?key)"
    by (rule parse_hex_lower) simp
  ultimately show ?thesis
    by (intro exI [of _ ?entry])
      (auto simp: load_caller_entry_def require_string_def json_get_def json_as_str_def ws_only_def
        as_bytes_def byte_of_char_def registry_status_def registry_window_def json_as_u64_def
        caller_ensure_active_at_def)
qed

end
