(* ===== verification/Exec_Response.thy ===== *)
theory Exec_Response
  imports Codec
begin

text \<open>
  The receiver-signed execution response (\<^verbatim>\<open>core/src/execution_response.rs\<close>): its states, the
  canonical body that is signed, the frame codec and the client's \<^verbatim>\<open>decode_and_verify\<close>. Ed25519
  verification is a parameter.
\<close>

section \<open>Data\<close>

definition EXECUTION_RESPONSE_SCHEMA_VERSION :: u16 where
  "EXECUTION_RESPONSE_SCHEMA_VERSION = 1"

definition EXECUTION_RESPONSE_MAGIC :: bytes where
  "EXECUTION_RESPONSE_MAGIC = as_bytes ''SECSEX1'' @ [0]"

definition MAX_EXECUTION_RESPONSE_BYTES :: nat where
  "MAX_EXECUTION_RESPONSE_BYTES = 266240"

definition MAX_EXECUTION_RESPONSE_BODY_BYTES :: nat where
  "MAX_EXECUTION_RESPONSE_BODY_BYTES = 266164"

definition EXECUTION_RESPONSE_SIGNATURE_DOMAIN :: bytes where
  "EXECUTION_RESPONSE_SIGNATURE_DOMAIN = as_bytes ''secs-execution-response-v1/signature''"

datatype ExecutionStatus = VerifierRejected | ExecutionRejected | Executed

datatype ExecutionAuthenticatorKind = Ed25519Receiver

record ExecutionResponse =
  er_schema_version :: u16
  er_status :: ExecutionStatus
  er_reason_code :: "string option"
  er_request_digest :: bytes
  er_context_id :: "string option"
  er_receipt_id :: "string option"
  er_output_schema :: "string option"
  er_output :: "bytes option"
  er_authenticator_kind :: ExecutionAuthenticatorKind
  er_signer_key_id :: string
  er_signature :: bytes

datatype ExecutionResponseError =
    EmptyFrame | FrameTooLarge | MalformedFrame | UnknownSchemaVersion | UnknownStatus
  | UnknownAuthenticator | UnknownOptionTag | InvalidUtf8 | InvalidState | UnknownReason
  | ResponseAuthenticationFailed

definition exec_error_reason_code :: "ExecutionResponseError \<Rightarrow> string" where
  "exec_error_reason_code e = (case e of
       ResponseAuthenticationFailed \<Rightarrow> ''response_authentication_failed''
     | _ \<Rightarrow> ''execution_response_malformed'')"

definition is_nonempty :: "string \<Rightarrow> bool" where
  "is_nonempty s = (s \<noteq> [])"

definition is_some_and :: "'a option \<Rightarrow> ('a \<Rightarrow> bool) \<Rightarrow> bool" where
  "is_some_and m f = (case m of None \<Rightarrow> False | Some x \<Rightarrow> f x)"

definition execution_reasons :: "string list" where
  "execution_reasons =
     [''handler_output_missing'',
      ''handler_output_unexpected'',
      ''output_too_large'',
      ''execution_response_too_large'',
      ''handler_unavailable'',
      ''handler_timeout'',
      ''handler_rejected'',
      ''payload_too_large'',
      ''permission_denied'',
      ''permission_expired'',
      ''permission_revoked'',
      ''permission_resource_mismatch'',
      ''permission_operation_mismatch'',
      ''permission_opcode_mismatch'',
      ''permission_subject_mismatch'',
      ''scoped_nullifier_storage_failed'',
      ''duplicate_nullifier'',
      ''missing_scoped_nullifier'',
      ''unsupported_nullifier_scope'',
      ''nullifier_domain_mismatch'',
      ''malformed_packet'',
      ''expired_claim'',
      ''claim_ttl_exceeds_descriptor_max'',
      ''invalid_session'',
      ''missing_prototype_proof_envelope'',
      ''bad_prototype_proof_envelope'',
      ''missing_tunnel_key'',
      ''bad_mac'',
      ''unknown_operation'',
      ''prototype_operation_not_production_authorized'',
      ''wrong_audience'',
      ''wrong_subject'',
      ''wrong_origin'',
      ''wrong_operation'',
      ''wrong_resource'',
      ''resource_lock_violation'',
      ''authority_amplification'',
      ''insufficient_evidence'',
      ''invalid_presentation'',
      ''invalid_signature'',
      ''not_yet_valid_claim'',
      ''unsupported_signature_suite'',
      ''unknown_issuer'',
      ''wrong_issuer_key'',
      ''wrong_trust_root'',
      ''wrong_registry_root'',
      ''wrong_root'',
      ''wrong_epoch'',
      ''stale'',
      ''revoked'',
      ''not_final'',
      ''equivocated'',
      ''malformed'',
      ''unsupported_suite'',
      ''wrong_binding'',
      ''missing_status'',
      ''missing_revocation_root'',
      ''wrong_revocation_root'',
      ''unsupported_revocation_verifier'',
      ''unsupported_bls_threshold_finality'',
      ''unsupported_rotated_replay_verifier'',
      ''missing_live_dregg_verifier'',
      ''missing_live_dregg_revocation_verifier'',
      ''missing_live_dregg_bls_threshold_verifier'',
      ''missing_live_dregg_rotated_replay_verifier'',
      ''evidence_tier_too_weak'',
      ''unsupported_evidence_kind'',
      ''unsupported_evidence_tier'',
      ''unsupported_authority_mode'',
      ''authority_mode_downgrade'',
      ''reserved_authority_mode'',
      ''stale_dregg_revocation_root'',
      ''invalid_dregg_revocation_proof'',
      ''invalid_dregg_finality_qc'',
      ''unsupported_dregg_finality_committee'',
      ''invalid_dregg_rotated_proof'',
      ''invalid_admission'',
      ''revoked_issuer'',
      ''revoked_credential'',
      ''stale_registry_status'',
      ''unknown_verifier_key'',
      ''revoked_verifier_key'',
      ''expired_verifier_key'',
      ''not_yet_valid_verifier_key'',
      ''untrusted_verifier_key'',
      ''bad_caller_proof'',
      ''unknown_caller_key'',
      ''revoked_caller_key'',
      ''expired_caller_key'',
      ''not_yet_valid_caller_key'',
      ''missing_caller_registry'',
      ''privacy_policy_violation'',
      ''over_disclosed_presentation'',
      ''forbidden_field_present'',
      ''internal_error'']"

definition is_execution_reason :: "string \<Rightarrow> bool" where
  "is_execution_reason v = (v \<in> set execution_reasons)"

definition validate_state :: "ExecutionResponse \<Rightarrow> ExecutionResponseError + unit" where
  "validate_state r =
     (if er_schema_version r \<noteq> EXECUTION_RESPONSE_SCHEMA_VERSION then Inl UnknownSchemaVersion
      else if er_signer_key_id r = [] then Inl InvalidState
      else let valid = (case er_status r of
            VerifierRejected \<Rightarrow>
              is_some_and (er_reason_code r) is_nonempty
                \<and> er_output_schema r = None \<and> er_output r = None
          | ExecutionRejected \<Rightarrow>
              is_some_and (er_reason_code r) is_nonempty \<and> is_some_and (er_context_id r) is_nonempty
                \<and> is_some_and (er_receipt_id r) is_nonempty
                \<and> er_output_schema r = None \<and> er_output r = None
          | Executed \<Rightarrow>
              er_reason_code r = None \<and> is_some_and (er_context_id r) is_nonempty
                \<and> is_some_and (er_receipt_id r) is_nonempty
                \<and> is_some_and (er_output_schema r) is_nonempty \<and> er_output r \<noteq> None) in
        if \<not> valid then Inl InvalidState
        else if er_status r = ExecutionRejected \<and> \<not> is_some_and (er_reason_code r) is_execution_reason
        then Inl UnknownReason
        else Inr ())"

section \<open>Encoding\<close>

definition u32_try_from :: "nat \<Rightarrow> nat option" where
  "u32_try_from n = (if n < 2 ^ 32 then Some n else None)"

definition encode_len :: "bytes \<Rightarrow> nat \<Rightarrow> ExecutionResponseError + bytes" where
  "encode_len out len =
     rbind (ok_or FrameTooLarge (u32_try_from len)) (\<lambda>l. Inr (out @ le_bytes 4 l))"

definition encode_required_text :: "bytes \<Rightarrow> string \<Rightarrow> ExecutionResponseError + bytes" where
  "encode_required_text out v = rbind (encode_len out (length v)) (\<lambda>out. Inr (out @ as_bytes v))"

definition encode_optional_text :: "bytes \<Rightarrow> string option \<Rightarrow> ExecutionResponseError + bytes" where
  "encode_optional_text out m = (case m of
       None \<Rightarrow> Inr (out @ [0])
     | Some v \<Rightarrow> encode_required_text (out @ [1]) v)"

definition encode_optional_bytes :: "bytes \<Rightarrow> bytes option \<Rightarrow> ExecutionResponseError + bytes" where
  "encode_optional_bytes out m = (case m of
       None \<Rightarrow> Inr (out @ [0])
     | Some v \<Rightarrow> rbind (encode_len (out @ [1]) (length v)) (\<lambda>out. Inr (out @ v)))"

definition status_byte :: "ExecutionStatus \<Rightarrow> u8" where
  "status_byte s = (case s of VerifierRejected \<Rightarrow> 0 | ExecutionRejected \<Rightarrow> 1 | Executed \<Rightarrow> 2)"

definition canonical_unsigned_body :: "ExecutionResponse \<Rightarrow> ExecutionResponseError + bytes" where
  "canonical_unsigned_body r =
     rbind (validate_state r) (\<lambda>_.
     rbind (encode_optional_text
              (le_bytes 2 (unat (er_schema_version r)) @ [status_byte (er_status r)])
              (er_reason_code r)) (\<lambda>body.
     rbind (encode_optional_text (body @ er_request_digest r) (er_context_id r)) (\<lambda>body.
     rbind (encode_optional_text body (er_receipt_id r)) (\<lambda>body.
     rbind (encode_optional_text body (er_output_schema r)) (\<lambda>body.
     rbind (encode_optional_bytes body (er_output r)) (\<lambda>body.
     rbind (encode_required_text (body @ [1]) (er_signer_key_id r)) (\<lambda>body.
     if length body > MAX_EXECUTION_RESPONSE_BODY_BYTES then Inl FrameTooLarge else Inr body)))))))"

definition signature_preimage :: "ExecutionResponse \<Rightarrow> ExecutionResponseError + bytes" where
  "signature_preimage r =
     rbind (canonical_unsigned_body r) (\<lambda>body. Inr (EXECUTION_RESPONSE_SIGNATURE_DOMAIN @ body))"

definition encode_frame :: "ExecutionResponse \<Rightarrow> nat \<Rightarrow> ExecutionResponseError + bytes" where
  "encode_frame r effective_bound =
     rbind (canonical_unsigned_body r) (\<lambda>body.
     rbind (ok_or FrameTooLarge (u32_try_from (length body))) (\<lambda>body_len.
     let full_len = length EXECUTION_RESPONSE_MAGIC + 4 + length body + 64 in
     if full_len > min effective_bound MAX_EXECUTION_RESPONSE_BYTES then Inl FrameTooLarge
     else Inr (EXECUTION_RESPONSE_MAGIC @ le_bytes 4 body_len @ body @ er_signature r)))"

section \<open>Decoding\<close>

definition cursor_take :: "nat \<Rightarrow> bytes \<Rightarrow> nat \<Rightarrow> ExecutionResponseError + bytes \<times> nat" where
  "cursor_take len bs off =
     rbind (ok_or MalformedFrame (checked_add off len)) (\<lambda>end'.
     rbind (ok_or MalformedFrame (slice_get bs off end')) (\<lambda>v. Inr (v, end')))"

definition cursor_u8 :: "bytes \<Rightarrow> nat \<Rightarrow> ExecutionResponseError + u8 \<times> nat" where
  "cursor_u8 bs off = rbind (cursor_take 1 bs off) (\<lambda>(v, off). Inr (v ! 0, off))"

definition cursor_u16 :: "bytes \<Rightarrow> nat \<Rightarrow> ExecutionResponseError + u16 \<times> nat" where
  "cursor_u16 bs off = rbind (cursor_take 2 bs off) (\<lambda>(v, off). Inr (word_of_nat (le_value v), off))"

definition cursor_u32 :: "bytes \<Rightarrow> nat \<Rightarrow> ExecutionResponseError + nat \<times> nat" where
  "cursor_u32 bs off = rbind (cursor_take 4 bs off) (\<lambda>(v, off). Inr (le_value v, off))"

definition cursor_required_text :: "bytes \<Rightarrow> nat \<Rightarrow> ExecutionResponseError + string \<times> nat" where
  "cursor_required_text bs off =
     rbind (cursor_u32 bs off) (\<lambda>(len, off).
     rbind (cursor_take len bs off) (\<lambda>(raw, off).
     rbind (ok_or InvalidUtf8 (from_utf8 raw)) (\<lambda>s. Inr (s, off))))"

definition cursor_counted_bytes :: "bytes \<Rightarrow> nat \<Rightarrow> ExecutionResponseError + bytes \<times> nat" where
  "cursor_counted_bytes bs off =
     rbind (cursor_u32 bs off) (\<lambda>(len, off). cursor_take len bs off)"

text \<open>The option tag of \<^verbatim>\<open>optional_text\<close> and \<^verbatim>\<open>optional_bytes\<close>.\<close>

definition cursor_optional ::
  "(bytes \<Rightarrow> nat \<Rightarrow> ExecutionResponseError + 'a \<times> nat) \<Rightarrow> bytes \<Rightarrow> nat
     \<Rightarrow> ExecutionResponseError + 'a option \<times> nat" where
  "cursor_optional dec bs off =
     rbind (cursor_u8 bs off) (\<lambda>(tag, off).
     if tag = 0 then Inr (None, off)
     else if tag = 1 then rbind (dec bs off) (\<lambda>(v, off). Inr (Some v, off))
     else Inl UnknownOptionTag)"

definition cursor_optional_text :: "bytes \<Rightarrow> nat \<Rightarrow> ExecutionResponseError + string option \<times> nat" where
  "cursor_optional_text = cursor_optional cursor_required_text"

definition cursor_optional_bytes :: "bytes \<Rightarrow> nat \<Rightarrow> ExecutionResponseError + bytes option \<times> nat" where
  "cursor_optional_bytes = cursor_optional cursor_counted_bytes"

definition cursor_version :: "bytes \<Rightarrow> nat \<Rightarrow> ExecutionResponseError + u16 \<times> nat" where
  "cursor_version bs off =
     rbind (cursor_u16 bs off) (\<lambda>(v, off).
     if v \<noteq> EXECUTION_RESPONSE_SCHEMA_VERSION then Inl UnknownSchemaVersion else Inr (v, off))"

definition cursor_status :: "bytes \<Rightarrow> nat \<Rightarrow> ExecutionResponseError + ExecutionStatus \<times> nat" where
  "cursor_status bs off =
     rbind (cursor_u8 bs off) (\<lambda>(b, off).
     if b = 0 then Inr (VerifierRejected, off)
     else if b = 1 then Inr (ExecutionRejected, off)
     else if b = 2 then Inr (Executed, off)
     else Inl UnknownStatus)"

definition cursor_authenticator ::
  "bytes \<Rightarrow> nat \<Rightarrow> ExecutionResponseError + ExecutionAuthenticatorKind \<times> nat" where
  "cursor_authenticator bs off =
     rbind (cursor_u8 bs off) (\<lambda>(b, off).
     if b = 1 then Inr (Ed25519Receiver, off) else Inl UnknownAuthenticator)"

text \<open>The body of the response, with the signature that follows it in the frame.\<close>

definition decode_body :: "bytes \<Rightarrow> bytes \<Rightarrow> ExecutionResponseError + ExecutionResponse" where
  "decode_body body signature =
     rbind (cursor_version body 0) (\<lambda>(schema_version, off).
     rbind (cursor_status body off) (\<lambda>(status, off).
     rbind (cursor_optional_text body off) (\<lambda>(reason_code, off).
     rbind (cursor_take 32 body off) (\<lambda>(request_digest, off).
     rbind (cursor_optional_text body off) (\<lambda>(context_id, off).
     rbind (cursor_optional_text body off) (\<lambda>(receipt_id, off).
     rbind (cursor_optional_text body off) (\<lambda>(output_schema, off).
     rbind (cursor_optional_bytes body off) (\<lambda>(output, off).
     rbind (cursor_authenticator body off) (\<lambda>(authenticator_kind, off).
     rbind (cursor_required_text body off) (\<lambda>(signer_key_id, off).
     if off \<noteq> length body then Inl MalformedFrame
     else let response = \<lparr>er_schema_version = schema_version, er_status = status,
              er_reason_code = reason_code, er_request_digest = request_digest,
              er_context_id = context_id, er_receipt_id = receipt_id,
              er_output_schema = output_schema, er_output = output,
              er_authenticator_kind = authenticator_kind, er_signer_key_id = signer_key_id,
              er_signature = signature\<rparr> in
          rbind (validate_state response) (\<lambda>_. Inr response)))))))))))"

definition decode_frame :: "bytes \<Rightarrow> nat \<Rightarrow> ExecutionResponseError + ExecutionResponse" where
  "decode_frame frame effective_bound =
     (if frame = [] then Inl EmptyFrame
      else if length frame > min effective_bound MAX_EXECUTION_RESPONSE_BYTES then Inl FrameTooLarge
      else if length frame < 8 + 4 + 64 \<or> take 8 frame \<noteq> EXECUTION_RESPONSE_MAGIC
      then Inl MalformedFrame
      else let declared = le_value (take 4 (drop 8 frame)) in
        if declared > MAX_EXECUTION_RESPONSE_BODY_BYTES then Inl FrameTooLarge
        else if 8 + 4 + declared + 64 \<noteq> length frame then Inl MalformedFrame
        else decode_body (take declared (drop 12 frame)) (drop (12 + declared) frame))"

definition decode_and_verify ::
  "('key \<Rightarrow> bytes \<Rightarrow> bytes \<Rightarrow> bool) \<Rightarrow> bytes \<Rightarrow> nat \<Rightarrow> nat \<Rightarrow> string \<Rightarrow> 'key \<Rightarrow> bytes \<Rightarrow> string option
     \<Rightarrow> ExecutionResponseError + ExecutionResponse" where
  "decode_and_verify ed25519_verify frame effective_frame_bound effective_output_bound
       expected_signer_key_id verifying_key expected_request_digest expected_output_schema =
     rbind (map_err (\<lambda>_. ResponseAuthenticationFailed) (decode_frame frame effective_frame_bound)) (\<lambda>r.
     if er_signer_key_id r \<noteq> expected_signer_key_id then Inl ResponseAuthenticationFailed
     else rbind (map_err (\<lambda>_. ResponseAuthenticationFailed) (signature_preimage r)) (\<lambda>preimage.
       if \<not> ed25519_verify verifying_key preimage (er_signature r) then Inl ResponseAuthenticationFailed
       else let executed_schema_mismatch =
              (er_status r = Executed \<and> er_output_schema r \<noteq> expected_output_schema) in
         if er_request_digest r \<noteq> expected_request_digest \<or> executed_schema_mismatch
           \<or> is_some_and (er_output r) (\<lambda>out. length out > effective_output_bound)
         then Inl ResponseAuthenticationFailed
         else Inr r))"

section \<open>The field codecs\<close>

definition text_enc :: "string \<Rightarrow> bytes" where
  "text_enc s = le_bytes 4 (length s) @ as_bytes s"

definition counted_enc :: "bytes \<Rightarrow> bytes" where
  "counted_enc v = le_bytes 4 (length v) @ v"

definition opt_enc :: "('a \<Rightarrow> bytes) \<Rightarrow> 'a option \<Rightarrow> bytes" where
  "opt_enc f m = (case m of None \<Rightarrow> [0] | Some v \<Rightarrow> [1] @ f v)"

definition text_ok :: "string \<Rightarrow> bool" where
  "text_ok s = (str_ok s \<and> length s < 256 ^ 4)"

definition counted_ok :: "bytes \<Rightarrow> bool" where
  "counted_ok v = (length v < 256 ^ 4)"

interpretation take_codec: cursor_codec "\<lambda>v. v" "cursor_take n" "\<lambda>v. length v = n" for n
proof
  fix x post :: bytes and off bs
  assume "length x = n" and d: "drop off bs = x @ post" and "off \<le> length bs" and "length bs \<le> u64_max"
  then show "cursor_take n bs off = Inr (x, off + length x)"
    using slice_step [OF d] by (simp add: cursor_take_def)
next
  fix bs off x off'
  assume "cursor_take n bs off = Inr (x, off')"
  then have "slice_get bs off (off + n) = Some x" and "off' = off + n"
    by (auto simp: cursor_take_def result_simps)
  then show "length x = n \<and> off' = off + length x \<and> off' \<le> length bs \<and> drop off bs = x @ drop off' bs"
    using slice_sound length_slice_get by fastforce
qed

text \<open>A codec for a converted value: decode a field and convert it, encode by converting back.\<close>

lemma cursor_codec_convert:
  assumes "cursor_codec enc dec ok"
    and "\<And>y. ok' y \<Longrightarrow> ok (unconv y) \<and> conv (unconv y) = Inr y"
    and "\<And>x y. ok x \<Longrightarrow> conv x = Inr y \<Longrightarrow> ok' y \<and> unconv y = x"
  shows "cursor_codec (\<lambda>y. enc (unconv y))
    (\<lambda>bs off. rbind (dec bs off) (\<lambda>(x, off). rbind (conv x) (\<lambda>y. Inr (y, off)))) ok'"
proof
  fix x off bs post
  assume "ok' x" and d: "drop off bs = enc (unconv x) @ post" and "off \<le> length bs" "length bs \<le> u64_max"
  then show "rbind (dec bs off) (\<lambda>(x, off). rbind (conv x) (\<lambda>y. Inr (y, off))) =
      Inr (x, off + length (enc (unconv x)))"
    using cursor_codec.dec_enc [OF assms(1) _ d] assms(2) by simp
next
  fix bs off y off'
  assume "rbind (dec bs off) (\<lambda>(x, off). rbind (conv x) (\<lambda>y. Inr (y, off))) = Inr (y, off')"
  then obtain x where x: "dec bs off = Inr (x, off')" "conv x = Inr y"
    by (auto simp: result_simps)
  then show "ok' y \<and> off' = off + length (enc (unconv y)) \<and> off' \<le> length bs \<and>
      drop off bs = enc (unconv y) @ drop off' bs"
    using cursor_codec.dec_sound [OF assms(1) x(1)] assms(3) by auto
qed

lemma u8_codec: "cursor_codec (\<lambda>b. [b]) cursor_u8 (\<lambda>_. True)"
proof -
  have "cursor_u8 = (\<lambda>bs off. rbind (cursor_take 1 bs off)
      (\<lambda>(x, off). rbind (Inr (x ! 0)) (\<lambda>y. Inr (y, off))))"
    by (simp add: cursor_u8_def fun_eq_iff)
  moreover have "length x = 1 \<Longrightarrow> [x ! 0] = x" for x :: bytes
    by (cases x) auto
  ultimately show ?thesis
    using cursor_codec_convert [OF take_codec.cursor_codec_axioms [of 1], where ok' = "\<lambda>_. True"
        and unconv = "\<lambda>b. [b]" and conv = "\<lambda>x. Inr (x ! 0)"]
    by auto
qed

lemma u32_codec: "cursor_codec (le_bytes 4) cursor_u32 (\<lambda>n. n < 256 ^ 4)"
proof -
  have "cursor_u32 = (\<lambda>bs off. rbind (cursor_take 4 bs off)
      (\<lambda>(x, off). rbind (Inr (le_value x)) (\<lambda>y. Inr (y, off))))"
    by (simp add: cursor_u32_def fun_eq_iff)
  moreover have "length x = 4 \<Longrightarrow> le_bytes 4 (le_value x) = x \<and> le_value x < 256 ^ 4" for x
    using le_bytes_le_value [of x] le_value_less [of x] by simp
  ultimately show ?thesis
    using cursor_codec_convert [OF take_codec.cursor_codec_axioms [of 4], where ok' = "\<lambda>n. n < 256 ^ 4"
        and unconv = "le_bytes 4" and conv = "\<lambda>x. Inr (le_value x)"] le_value_le_bytes_small [of _ 4]
    by auto
qed

lemma u16_codec: "cursor_codec (\<lambda>w. le_bytes 2 (unat w)) cursor_u16 (\<lambda>_. True)"
proof -
  have "cursor_u16 = (\<lambda>bs off. rbind (cursor_take 2 bs off)
      (\<lambda>(x, off). rbind (Inr (word_of_nat (le_value x))) (\<lambda>y. Inr (y, off))))"
    by (simp add: cursor_u16_def fun_eq_iff)
  moreover have "unat (w :: u16) < 256 ^ 2" for w
    using unsigned_less [of w, where 'a = nat] by simp
  then have "word_of_nat (le_value (le_bytes 2 (unat w))) = (w :: u16)" for w
    by (simp add: le_value_le_bytes_small)
  moreover have "length x = 2 \<Longrightarrow> le_bytes 2 (unat (word_of_nat (le_value x) :: u16)) = x" for x
    using le_bytes_le_value [of x] le_value_less [of x]
    by (simp add: unsigned_of_nat take_bit_nat_eq_self)
  ultimately show ?thesis
    using cursor_codec_convert [OF take_codec.cursor_codec_axioms [of 2], where ok' = "\<lambda>_. True"
        and unconv = "\<lambda>w. le_bytes 2 (unat w)" and conv = "\<lambda>x. Inr (word_of_nat (le_value x) :: u16)"]
    by auto
qed

text \<open>A length field followed by that many bytes.\<close>

interpretation counted_codec: cursor_codec counted_enc cursor_counted_bytes counted_ok
proof
  fix x off bs post
  assume "counted_ok x" and d: "drop off bs = counted_enc x @ post"
    and off: "off \<le> length bs" and len: "length bs \<le> u64_max"
  then have "length x < 256 ^ 4" and "drop off bs = le_bytes 4 (length x) @ (x @ post)"
    by (simp_all add: counted_ok_def counted_enc_def)
  note l = cursor_codec.dec_step [OF u32_codec this off len]
  note b = take_codec.dec_step [OF refl l [THEN conjunct2, THEN conjunct1]
      l [THEN conjunct2, THEN conjunct2] len]
  show "cursor_counted_bytes bs off = Inr (x, off + length (counted_enc x))"
    using l b by (simp add: cursor_counted_bytes_def counted_enc_def)
next
  fix bs off x off'
  assume "cursor_counted_bytes bs off = Inr (x, off')"
  then obtain len o1 where "cursor_u32 bs off = Inr (len, o1)" "cursor_take len bs o1 = Inr (x, off')"
    by (auto simp: cursor_counted_bytes_def result_simps)
  then show "counted_ok x \<and> off' = off + length (counted_enc x) \<and> off' \<le> length bs \<and>
      drop off bs = counted_enc x @ drop off' bs"
    using cursor_codec.dec_sound [OF u32_codec, of bs off len o1] take_codec.dec_sound [of len bs o1 x off']
    by (auto simp: counted_ok_def counted_enc_def)
qed

interpretation text_codec: cursor_codec text_enc cursor_required_text text_ok
proof -
  have "cursor_required_text = (\<lambda>bs off. rbind (cursor_counted_bytes bs off)
      (\<lambda>(x, off). rbind (ok_or InvalidUtf8 (from_utf8 x)) (\<lambda>y. Inr (y, off))))"
    by (simp add: cursor_required_text_def cursor_counted_bytes_def rbind_assoc split_def fun_eq_iff)
  moreover have "text_enc = (\<lambda>s. counted_enc (as_bytes s))"
    by (simp add: text_enc_def counted_enc_def fun_eq_iff)
  ultimately show "cursor_codec text_enc cursor_required_text text_ok"
    using cursor_codec_convert [OF counted_codec.cursor_codec_axioms, where ok' = text_ok
        and unconv = as_bytes and conv = "\<lambda>x. ok_or InvalidUtf8 (from_utf8 x)"]
    by (auto simp: text_ok_def counted_ok_def result_simps)
qed

lemma cursor_codec_optional:
  assumes "cursor_codec enc dec ok"
  shows "cursor_codec (opt_enc enc) (cursor_optional dec) (pred_option ok)"
proof
  fix x off bs post
  assume ok: "pred_option ok x" and d: "drop off bs = opt_enc enc x @ post"
    and off: "off \<le> length bs" and len: "length bs \<le> u64_max"
  show "cursor_optional dec bs off = Inr (x, off + length (opt_enc enc x))"
  proof (cases x)
    case None
    with d have "drop off bs = [0] @ post" by (simp add: opt_enc_def)
    from cursor_codec.dec_step [OF u8_codec TrueI this off len] None show ?thesis
      by (simp add: cursor_optional_def opt_enc_def)
  next
    case (Some v)
    with d have "drop off bs = [1] @ (enc v @ post)" by (simp add: opt_enc_def)
    note tag = cursor_codec.dec_step [OF u8_codec TrueI this off len]
    from Some ok have "ok v" by simp
    note v = cursor_codec.dec_step [OF assms this tag [THEN conjunct2, THEN conjunct1]
        tag [THEN conjunct2, THEN conjunct2] len]
    show ?thesis using Some tag v by (simp add: cursor_optional_def opt_enc_def)
  qed
next
  fix bs off x off'
  assume "cursor_optional dec bs off = Inr (x, off')"
  then obtain tag o1 where tag: "cursor_u8 bs off = Inr (tag, o1)"
    and rest: "tag = 0 \<and> x = None \<and> off' = o1 \<or> (\<exists>v. tag = 1 \<and> dec bs o1 = Inr (v, off') \<and> x = Some v)"
    by (auto simp: cursor_optional_def result_simps split: if_splits)
  from cursor_codec.dec_sound [OF u8_codec tag] rest
  show "pred_option ok x \<and> off' = off + length (opt_enc enc x) \<and> off' \<le> length bs \<and>
      drop off bs = opt_enc enc x @ drop off' bs"
    using cursor_codec.dec_sound [OF assms, of bs o1 _ off'] by (auto simp: opt_enc_def)
qed

interpretation opt_text_codec: cursor_codec "opt_enc text_enc" cursor_optional_text "pred_option text_ok"
  unfolding cursor_optional_text_def by (rule cursor_codec_optional) (rule text_codec.cursor_codec_axioms)

interpretation opt_bytes_codec:
  cursor_codec "opt_enc counted_enc" cursor_optional_bytes "pred_option counted_ok"
  unfolding cursor_optional_bytes_def by (rule cursor_codec_optional) (rule counted_codec.cursor_codec_axioms)

interpretation version_codec:
  cursor_codec "\<lambda>w. le_bytes 2 (unat w)" cursor_version "\<lambda>w. w = EXECUTION_RESPONSE_SCHEMA_VERSION"
proof -
  let ?conv = "\<lambda>v. if v \<noteq> EXECUTION_RESPONSE_SCHEMA_VERSION then Inl UnknownSchemaVersion else Inr v"
  have eq: "cursor_version = (\<lambda>bs off. rbind (cursor_u16 bs off)
      (\<lambda>(x, off). rbind (?conv x) (\<lambda>y. Inr (y, off))))"
    by (intro ext) (auto simp: cursor_version_def intro!: rbind_cong)
  show "cursor_codec (\<lambda>w. le_bytes 2 (unat w)) cursor_version
      (\<lambda>w. w = EXECUTION_RESPONSE_SCHEMA_VERSION)"
    unfolding eq by (rule cursor_codec_convert [OF u16_codec, where unconv = "\<lambda>w. w"])
      (auto split: if_splits)
qed

interpretation status_codec: cursor_codec "\<lambda>s. [status_byte s]" cursor_status "\<lambda>_. True"
proof -
  let ?conv = "\<lambda>b. if b = 0 then Inr VerifierRejected else if b = 1 then Inr ExecutionRejected
      else if b = 2 then Inr Executed else Inl UnknownStatus"
  have eq: "cursor_status = (\<lambda>bs off. rbind (cursor_u8 bs off)
      (\<lambda>(x, off). rbind (?conv x) (\<lambda>y. Inr (y, off))))"
    by (intro ext) (auto simp: cursor_status_def intro!: rbind_cong)
  show "cursor_codec (\<lambda>s. [status_byte s]) cursor_status (\<lambda>_. True)"
    unfolding eq by (rule cursor_codec_convert [OF u8_codec, where unconv = status_byte])
      (auto simp: status_byte_def split: ExecutionStatus.splits if_splits)
qed

interpretation authenticator_codec: cursor_codec "\<lambda>_. [1]" cursor_authenticator "\<lambda>_. True"
proof -
  let ?conv = "\<lambda>b. if b = 1 then Inr Ed25519Receiver else Inl UnknownAuthenticator"
  have eq: "cursor_authenticator = (\<lambda>bs off. rbind (cursor_u8 bs off)
      (\<lambda>(x, off). rbind (?conv x) (\<lambda>y. Inr (y, off))))"
    by (intro ext) (auto simp: cursor_authenticator_def intro!: rbind_cong)
  have single: "y = Ed25519Receiver" for y by (cases y)
  show "cursor_codec (\<lambda>_. [1]) cursor_authenticator (\<lambda>_. True)"
    unfolding eq by (rule cursor_codec_convert [OF u8_codec, where unconv = "\<lambda>_. 1"])
      (auto intro: single [symmetric] split: if_splits)
qed

section \<open>The body\<close>

text \<open>The fields of the body in wire order, as a nested pair, and the response they make up.\<close>

definition body_fields ::
  "ExecutionResponse \<Rightarrow> u16 \<times> ExecutionStatus \<times> string option \<times> bytes \<times> string option \<times>
     string option \<times> string option \<times> bytes option \<times> ExecutionAuthenticatorKind \<times> string" where
  "body_fields r = (er_schema_version r, er_status r, er_reason_code r, er_request_digest r,
     er_context_id r, er_receipt_id r, er_output_schema r, er_output r, er_authenticator_kind r,
     er_signer_key_id r)"

abbreviation "body_dec \<equiv>
  seq_dec cursor_version (seq_dec cursor_status (seq_dec cursor_optional_text
    (seq_dec (cursor_take 32) (seq_dec cursor_optional_text (seq_dec cursor_optional_text
    (seq_dec cursor_optional_text (seq_dec cursor_optional_bytes (seq_dec cursor_authenticator
    cursor_required_text))))))))"

abbreviation "body_enc \<equiv>
  seq_enc (\<lambda>w. le_bytes 2 (unat w)) (seq_enc (\<lambda>s. [status_byte s]) (seq_enc (opt_enc text_enc)
    (seq_enc (\<lambda>v. v) (seq_enc (opt_enc text_enc) (seq_enc (opt_enc text_enc)
    (seq_enc (opt_enc text_enc) (seq_enc (opt_enc counted_enc) (seq_enc (\<lambda>_. [1])
    text_enc))))))))"

abbreviation "body_ok \<equiv> (\<lambda>(v, st, rc, dg, ci, ri, os, ou, ak, sk).
  v = EXECUTION_RESPONSE_SCHEMA_VERSION \<and> True \<and> pred_option text_ok rc \<and> length dg = 32 \<and>
  pred_option text_ok ci \<and> pred_option text_ok ri \<and> pred_option text_ok os \<and>
  pred_option counted_ok ou \<and> True \<and> text_ok sk)"

interpretation body_codec: cursor_codec body_enc body_dec body_ok
proof -
  note codecs = version_codec.cursor_codec_axioms status_codec.cursor_codec_axioms
    opt_text_codec.cursor_codec_axioms take_codec.cursor_codec_axioms
    opt_bytes_codec.cursor_codec_axioms authenticator_codec.cursor_codec_axioms
    text_codec.cursor_codec_axioms
  show "cursor_codec body_enc body_dec body_ok"
    using cursor_codec_seq [OF codecs(1) cursor_codec_seq [OF codecs(2) cursor_codec_seq [OF codecs(3)
      cursor_codec_seq [OF codecs(4) cursor_codec_seq [OF codecs(3) cursor_codec_seq [OF codecs(3)
      cursor_codec_seq [OF codecs(3) cursor_codec_seq [OF codecs(5) cursor_codec_seq [OF codecs(6)
      codecs(7)]]]]]]]], of 32]
    by (simp add: case_prod_unfold)
qed

lemma decode_body_eq:
  "decode_body body signature =
     rbind (body_dec body 0) (\<lambda>((v, st, rc, dg, ci, ri, os, ou, ak, sk), off).
     if off \<noteq> length body then Inl MalformedFrame
     else let response = \<lparr>er_schema_version = v, er_status = st, er_reason_code = rc,
              er_request_digest = dg, er_context_id = ci, er_receipt_id = ri, er_output_schema = os,
              er_output = ou, er_authenticator_kind = ak, er_signer_key_id = sk,
              er_signature = signature\<rparr> in
          rbind (validate_state response) (\<lambda>_. Inr response))"
  by (simp add: decode_body_def seq_dec_def rbind_assoc split_def Let_def cong: if_cong)

text \<open>The invariant of the Rust type: array lengths and UTF-8 strings.\<close>

definition response_ok :: "ExecutionResponse \<Rightarrow> bool" where
  "response_ok r = (length (er_request_digest r) = 32 \<and> length (er_signature r) = 64 \<and>
     pred_option str_ok (er_reason_code r) \<and> pred_option str_ok (er_context_id r) \<and>
     pred_option str_ok (er_receipt_id r) \<and> pred_option str_ok (er_output_schema r) \<and>
     str_ok (er_signer_key_id r))"

definition short :: "'a list \<Rightarrow> bool" where
  "short xs = (length xs < 256 ^ 4)"

lemma encode_len_Inr_iff [result_simps]:
  "encode_len out n = Inr out' \<longleftrightarrow> n < 256 ^ 4 \<and> out' = out @ le_bytes 4 n"
  by (auto simp: encode_len_def u32_try_from_def)

lemma encode_required_text_Inr_iff [result_simps]:
  "encode_required_text out v = Inr out' \<longleftrightarrow> short v \<and> out' = out @ text_enc v"
  unfolding encode_required_text_def text_enc_def short_def by (auto simp only: result_simps sum.inject append.assoc)

lemma encode_optional_text_Inr_iff [result_simps]:
  "encode_optional_text out m = Inr out' \<longleftrightarrow> pred_option short m \<and> out' = out @ opt_enc text_enc m"
  by (cases m) (auto simp: encode_optional_text_def opt_enc_def result_simps)

lemma encode_optional_bytes_Inr_iff [result_simps]:
  "encode_optional_bytes out m = Inr out' \<longleftrightarrow> pred_option short m \<and> out' = out @ opt_enc counted_enc m"
proof (cases m)
  case (Some v)
  show ?thesis
    unfolding encode_optional_bytes_def opt_enc_def counted_enc_def short_def Some
    by (auto simp only: result_simps sum.inject append.assoc option.case option.pred_inject)
qed (auto simp: encode_optional_bytes_def opt_enc_def)

definition fields_short :: "ExecutionResponse \<Rightarrow> bool" where
  "fields_short r = (pred_option short (er_reason_code r) \<and> pred_option short (er_context_id r) \<and>
     pred_option short (er_receipt_id r) \<and> pred_option short (er_output_schema r) \<and>
     pred_option short (er_output r) \<and> short (er_signer_key_id r))"

lemma canonical_unsigned_body_Inr_iff:
  "canonical_unsigned_body r = Inr body \<longleftrightarrow> validate_state r = Inr () \<and> fields_short r \<and>
     body = body_enc (body_fields r) \<and> length body \<le> MAX_EXECUTION_RESPONSE_BODY_BYTES"
  by (auto simp: canonical_unsigned_body_def result_simps fields_short_def body_fields_def seq_enc_def
      not_less)

lemma text_ok_iff: "text_ok s \<longleftrightarrow> str_ok s \<and> short s"
  by (simp add: text_ok_def short_def)

lemma pred_option_text_ok: "pred_option text_ok m \<longleftrightarrow> pred_option str_ok m \<and> pred_option short m"
  by (cases m) (simp_all add: text_ok_iff)

lemma counted_ok_short: "counted_ok = short"
  by (simp add: fun_eq_iff counted_ok_def short_def)

lemma validate_state_version:
  "validate_state r = Inr () \<Longrightarrow> er_schema_version r = EXECUTION_RESPONSE_SCHEMA_VERSION"
  by (simp add: validate_state_def split: if_splits)

lemma body_ok_fields:
  "validate_state r = Inr () \<Longrightarrow> length (er_signature r) = 64 \<Longrightarrow>
     body_ok (body_fields r) \<longleftrightarrow> response_ok r \<and> fields_short r"
  by (auto simp: body_fields_def response_ok_def fields_short_def pred_option_text_ok text_ok_iff
      counted_ok_short validate_state_version)

lemma decode_body_Inr_iff:
  assumes "length signature = 64" and "length body \<le> MAX_EXECUTION_RESPONSE_BODY_BYTES"
  shows "decode_body body signature = Inr r \<longleftrightarrow>
    response_ok r \<and> er_signature r = signature \<and> canonical_unsigned_body r = Inr body"
proof
  assume "decode_body body signature = Inr r"
  then have "body_dec body 0 = Inr (body_fields r, length body)" and "er_signature r = signature"
    and "validate_state r = Inr ()"
    by (auto simp: decode_body_eq result_simps body_fields_def Let_def)
  then show "response_ok r \<and> er_signature r = signature \<and> canonical_unsigned_body r = Inr body"
    using body_codec.dec_sound [of body 0 "body_fields r" "length body"] body_ok_fields [of r] assms
    by (simp add: canonical_unsigned_body_Inr_iff)
next
  assume r: "response_ok r \<and> er_signature r = signature \<and> canonical_unsigned_body r = Inr body"
  then have "body_ok (body_fields r)" and valid: "validate_state r = Inr ()"
    and body: "body = body_enc (body_fields r)"
    using body_ok_fields [of r] assms by (simp_all add: canonical_unsigned_body_Inr_iff)
  moreover have "length body \<le> u64_max"
    using assms by (simp add: MAX_EXECUTION_RESPONSE_BODY_BYTES_def u64_max_def)
  ultimately have "body_dec body 0 = Inr (body_fields r, length body)"
    using body_codec.dec_enc [of "body_fields r" 0 body "[]"] by simp
  then show "decode_body body signature = Inr r"
    using r valid by (cases r) (simp add: decode_body_eq body_fields_def Let_def)
qed

section \<open>The frame\<close>

lemma length_response_magic [simp]: "length EXECUTION_RESPONSE_MAGIC = 8"
  by (simp add: EXECUTION_RESPONSE_MAGIC_def)

lemma encode_frame_Inr_iff:
  "encode_frame r bound = Inr frame \<longleftrightarrow> (\<exists>body. canonical_unsigned_body r = Inr body \<and>
     76 + length body \<le> min bound MAX_EXECUTION_RESPONSE_BYTES \<and>
     frame = EXECUTION_RESPONSE_MAGIC @ le_bytes 4 (length body) @ body @ er_signature r)"
proof -
  have "canonical_unsigned_body r = Inr body \<Longrightarrow> u32_try_from (length body) = Some (length body)" for body
    by (auto simp: canonical_unsigned_body_Inr_iff u32_try_from_def MAX_EXECUTION_RESPONSE_BODY_BYTES_def)
  then show ?thesis
    by (auto simp: encode_frame_def result_simps Let_def not_less)
qed

lemma decode_frame_Inr_iff:
  "decode_frame frame bound = Inr r \<longleftrightarrow> response_ok r \<and> encode_frame r bound = Inr frame"
proof
  assume dec: "decode_frame frame bound = Inr r"
  define declared where "declared = le_value (take 4 (drop 8 frame))"
  let ?body = "take declared (drop 12 frame)" and ?sig = "drop (12 + declared) frame"
  from dec have len: "length frame \<le> min bound MAX_EXECUTION_RESPONSE_BYTES"
    and magic: "take 8 frame = EXECUTION_RESPONSE_MAGIC"
    and size: "76 + declared = length frame" "declared \<le> MAX_EXECUTION_RESPONSE_BODY_BYTES"
    and body: "decode_body ?body ?sig = Inr r"
    by (auto simp: decode_frame_def Let_def declared_def if_guard_Inr_iff)
  have lens: "length ?sig = 64" "length ?body = declared" using size by auto
  have "le_bytes 4 declared = take 4 (drop 8 frame)"
    using le_bytes_le_value [of "take 4 (drop 8 frame)"] size by (simp add: declared_def)
  moreover have "take 4 (drop 8 frame) @ drop 12 frame = drop 8 frame"
    using append_take_drop_id [of 4 "drop 8 frame"] by simp
  moreover have "?body @ ?sig = drop 12 frame"
    using append_take_drop_id [of declared "drop 12 frame"] by (simp add: add.commute)
  ultimately have "frame = EXECUTION_RESPONSE_MAGIC @ le_bytes 4 declared @ ?body @ ?sig"
    using magic append_take_drop_id [of 8 frame] by metis
  with decode_body_Inr_iff [of ?sig ?body r] body lens size len
  show "response_ok r \<and> encode_frame r bound = Inr frame"
    by (auto simp: encode_frame_Inr_iff)
next
  assume r: "response_ok r \<and> encode_frame r bound = Inr frame"
  then obtain body where body: "canonical_unsigned_body r = Inr body"
    and len: "76 + length body \<le> min bound MAX_EXECUTION_RESPONSE_BYTES"
    and frame: "frame = EXECUTION_RESPONSE_MAGIC @ le_bytes 4 (length body) @ body @ er_signature r"
    by (auto simp: encode_frame_Inr_iff)
  have max: "length body \<le> MAX_EXECUTION_RESPONSE_BODY_BYTES"
    using body by (auto simp: canonical_unsigned_body_Inr_iff)
  have sig: "length (er_signature r) = 64" using r by (simp add: response_ok_def)
  have "le_value (take 4 (drop 8 frame)) = length body"
    using le_value_le_bytes_small [of "length body" 4] max
    by (simp add: frame MAX_EXECUTION_RESPONSE_BODY_BYTES_def)
  moreover have "take 8 frame = EXECUTION_RESPONSE_MAGIC" "take (length body) (drop 12 frame) = body"
    "drop (12 + length body) frame = er_signature r" "length frame = 76 + length body"
    by (auto simp: frame sig)
  moreover have "frame \<noteq> []" using sig by (auto simp: frame)
  moreover have "\<not> 76 + length body > min bound MAX_EXECUTION_RESPONSE_BYTES"
    "\<not> length body > MAX_EXECUTION_RESPONSE_BODY_BYTES"
    using len max by linarith+
  moreover have "decode_body body (er_signature r) = Inr r"
    using decode_body_Inr_iff [OF sig max, of r] r body by blast
  ultimately show "decode_frame frame bound = Inr r"
    by (simp add: decode_frame_def)
qed

lemma signature_preimage_Inr_iff:
  "signature_preimage r = Inr p \<longleftrightarrow>
     (\<exists>body. canonical_unsigned_body r = Inr body \<and> p = EXECUTION_RESPONSE_SIGNATURE_DOMAIN @ body)"
  by (auto simp: signature_preimage_def result_simps)

lemma signature_preimage_ignores_signature:
  "signature_preimage (r\<lparr>er_signature := sig\<rparr>) = signature_preimage r"
proof -
  have "validate_state (r\<lparr>er_signature := sig\<rparr>) = validate_state r"
    by (cases "er_status r") (simp_all add: validate_state_def)
  then show ?thesis by (simp add: signature_preimage_def canonical_unsigned_body_def)
qed

lemma encode_frame_preimage:
  "encode_frame r bound = Inr frame \<Longrightarrow> \<exists>p. signature_preimage r = Inr p"
  by (auto simp: encode_frame_Inr_iff signature_preimage_Inr_iff)

lemma decode_and_verify_Inr_iff:
  "decode_and_verify verify frame frame_bound output_bound key_id key digest schema = Inr r \<longleftrightarrow>
     response_ok r \<and> encode_frame r frame_bound = Inr frame \<and> er_signer_key_id r = key_id \<and>
     (\<exists>body. canonical_unsigned_body r = Inr body \<and>
        verify key (EXECUTION_RESPONSE_SIGNATURE_DOMAIN @ body) (er_signature r)) \<and>
     er_request_digest r = digest \<and> \<not> (er_status r = Executed \<and> er_output_schema r \<noteq> schema) \<and>
     \<not> (\<exists>out. er_output r = Some out \<and> length out > output_bound)"
  by (auto simp: decode_and_verify_def result_simps decode_frame_Inr_iff Let_def
      signature_preimage_Inr_iff is_some_and_def split: option.splits)

section \<open>Properties\<close>

definition sample_response :: ExecutionResponse where
  "sample_response = \<lparr>er_schema_version = 1, er_status = Executed, er_reason_code = None,
     er_request_digest = replicate 32 5, er_context_id = Some ''ctx'', er_receipt_id = Some ''rcpt'',
     er_output_schema = Some ''s'', er_output = Some [1, 2], er_authenticator_kind = Ed25519Receiver,
     er_signer_key_id = ''key'', er_signature = replicate 64 9\<rparr>"

lemma sample_response_ok: "response_ok sample_response"
  by (simp add: response_ok_def sample_response_def str_ok_def as_bytes_def byte_of_char_def
      valid_utf8_ascii)

lemma sample_response_encodes: "\<exists>frame. encode_frame sample_response 266240 = Inr frame"
proof -
  have "validate_state sample_response = Inr ()"
    by (simp add: sample_response_def validate_state_def EXECUTION_RESPONSE_SCHEMA_VERSION_def
        is_some_and_def is_nonempty_def)
  moreover have "fields_short sample_response"
    by (simp add: fields_short_def short_def sample_response_def)
  moreover have "length (body_enc (body_fields sample_response)) \<le> 1000"
    by (simp add: sample_response_def body_fields_def seq_enc_def opt_enc_def text_enc_def
        counted_enc_def status_byte_def)
  ultimately have "canonical_unsigned_body sample_response = Inr (body_enc (body_fields sample_response))"
    and "76 + length (body_enc (body_fields sample_response)) \<le> min 266240 MAX_EXECUTION_RESPONSE_BYTES"
    unfolding canonical_unsigned_body_Inr_iff MAX_EXECUTION_RESPONSE_BODY_BYTES_def
      MAX_EXECUTION_RESPONSE_BYTES_def by simp_all
  then show ?thesis unfolding encode_frame_Inr_iff by blast
qed

text \<open>C10. The frame decoder and the encoder are exact inverses: a frame decodes to a response exactly
  when that response is well formed and encodes, under the same bound, to that very frame. So every
  encoded response is read back unchanged, and no response has a second accepted encoding.\<close>

theorem decode_frame_exact:
  "decode_frame frame bound = Inr r \<longleftrightarrow> response_ok r \<and> encode_frame r bound = Inr frame"
  by (rule decode_frame_Inr_iff)

text \<open>The signed bytes determine everything but the signature: two well-formed responses with the
  same signature preimage differ at most in their signatures.\<close>

theorem signature_preimage_binds_response:
  assumes "response_ok r" and "response_ok r'"
    and "signature_preimage r = Inr p" and "signature_preimage r' = Inr p"
  shows "r' = r\<lparr>er_signature := er_signature r'\<rparr>"
proof -
  from assms(3,4) obtain body where "canonical_unsigned_body r = Inr body"
    "canonical_unsigned_body r' = Inr body" by (auto simp: signature_preimage_Inr_iff)
  then have valid: "validate_state r = Inr ()" "validate_state r' = Inr ()"
    and short: "fields_short r" "fields_short r'"
    and eq: "body_enc (body_fields r) = body_enc (body_fields r')"
    and "length (body_enc (body_fields r)) \<le> MAX_EXECUTION_RESPONSE_BODY_BYTES"
    by (auto simp: canonical_unsigned_body_Inr_iff)
  then have len: "length (body_enc (body_fields r)) \<le> u64_max"
    by (simp add: MAX_EXECUTION_RESPONSE_BODY_BYTES_def u64_max_def)
  have "body_ok (body_fields r)" "body_ok (body_fields r')"
    using body_ok_fields assms(1,2) valid short by (simp_all add: response_ok_def)
  from body_codec.enc_inj [OF this eq len] have "body_fields r = body_fields r'" .
  then show ?thesis by (cases r; cases r') (simp add: body_fields_def)
qed

theorem signature_preimage_binds_response_witness:
  "sample_response = (sample_response\<lparr>er_signature := replicate 64 7\<rparr>)
     \<lparr>er_signature := er_signature sample_response\<rparr> \<and>
   sample_response \<noteq> sample_response\<lparr>er_signature := replicate 64 7\<rparr>"
proof
  let ?r = "sample_response\<lparr>er_signature := replicate 64 7\<rparr>"
  have ok: "response_ok ?r" using sample_response_ok by (simp add: response_ok_def)
  have same: "signature_preimage ?r = signature_preimage sample_response"
    by (rule signature_preimage_ignores_signature)
  obtain p where p: "signature_preimage sample_response = Inr p"
    using encode_frame_preimage sample_response_encodes by blast
  show "sample_response = ?r\<lparr>er_signature := er_signature sample_response\<rparr>"
    by (rule signature_preimage_binds_response [OF ok sample_response_ok trans [OF same p] p])
  have "er_signature sample_response \<noteq> er_signature ?r" by (simp add: sample_response_def)
  then show "sample_response \<noteq> ?r" by (rule contrapos_nn) (rule arg_cong)
qed

text \<open>What the client accepts: a frame is accepted as a response exactly when it is that
  response's canonical encoding within the frame bound, names the expected signer, its domain-separated
  body verifies under the pinned key, and it carries the expected request digest, the expected output
  schema if it executed, and an output within the bound. Every other frame is refused with
  ResponseAuthenticationFailed.\<close>

theorem decode_and_verify_exact:
  fixes verify frame frame_bound output_bound key_id key digest schema
  defines "accepts r \<equiv> response_ok r \<and> encode_frame r frame_bound = Inr frame \<and>
     er_signer_key_id r = key_id \<and>
     (\<exists>body. canonical_unsigned_body r = Inr body \<and>
        verify key (EXECUTION_RESPONSE_SIGNATURE_DOMAIN @ body) (er_signature r)) \<and>
     er_request_digest r = digest \<and>
     \<not> (er_status r = Executed \<and> er_output_schema r \<noteq> schema) \<and>
     \<not> (\<exists>out. er_output r = Some out \<and> length out > output_bound)"
  shows "(decode_and_verify verify frame frame_bound output_bound key_id key digest schema = Inr r
      \<longleftrightarrow> accepts r) \<and>
    (decode_and_verify verify frame frame_bound output_bound key_id key digest schema = Inl e
      \<longleftrightarrow> e = ResponseAuthenticationFailed \<and> \<not> (\<exists>r. accepts r))"
proof -
  let ?d = "decode_and_verify verify frame frame_bound output_bound key_id key digest schema"
  have ok: "?d = Inr r \<longleftrightarrow> accepts r" for r
    unfolding accepts_def by (rule decode_and_verify_Inr_iff)
  have "?d = Inl e \<Longrightarrow> e = ResponseAuthenticationFailed" for e
    by (auto simp: decode_and_verify_def result_simps Let_def split: if_splits)
  with ok show ?thesis by (cases ?d) auto
qed

theorem decode_and_verify_exact_witness:
  "\<exists>frame. encode_frame sample_response 266240 = Inr frame \<and>
     decode_and_verify (\<lambda>_ _ _. True) frame 266240 10 ''key'' () (replicate 32 5) (Some ''s'') =
       Inr sample_response"
proof -
  obtain frame where frame: "encode_frame sample_response 266240 = Inr frame"
    using sample_response_encodes by blast
  then obtain body where "canonical_unsigned_body sample_response = Inr body"
    by (auto simp: encode_frame_Inr_iff)
  moreover have "er_signer_key_id sample_response = ''key''"
    "er_request_digest sample_response = replicate 32 5" "er_status sample_response = Executed"
    "er_output_schema sample_response = Some ''s''" "er_output sample_response = Some [1, 2]"
    by (simp_all add: sample_response_def)
  moreover note frame sample_response_ok
  ultimately show ?thesis
    using decode_and_verify_exact [of "\<lambda>_ _ _. True" frame 266240 10 "''key''" "()" "replicate 32 5"
        "Some ''s''" sample_response, THEN conjunct1]
    by (intro exI [of _ frame]) simp
qed

end
