(* ===== verification/Identity.thy ===== *)
theory Identity
  imports Receipt Caller Exec_Response
begin

text \<open>
  Verifier keys and the node's signing identity (\<^verbatim>\<open>server/src/identity.rs\<close>): key status and validity windows,
  the public key registry with its context and receipt checks, loading a secret key, and signing.
\<close>

section \<open>Public keys\<close>

record PublicVerifierKey =
  pk_key_id :: string
  pk_algorithm :: string
  pk_public_key :: bytes
  pk_status :: VerificationKeyStatus
  pk_not_before :: "u64 option"
  pk_not_after :: "u64 option"
  pk_revoked_at :: "u64 option"
  pk_replaced_by :: "string option"
  pk_production_authority :: bool

definition PublicVerifierKey_active :: "string \<Rightarrow> string \<Rightarrow> bytes \<Rightarrow> PublicVerifierKey" where
  "PublicVerifierKey_active key_id algorithm public_key =
     \<lparr>pk_key_id = key_id, pk_algorithm = algorithm, pk_public_key = public_key,
      pk_status = VerificationKeyStatus.Active, pk_not_before = None, pk_not_after = None,
      pk_revoked_at = None, pk_replaced_by = None, pk_production_authority = False\<rparr>"

definition configured_production_authority :: "string \<Rightarrow> string \<Rightarrow> bytes \<Rightarrow> PublicVerifierKey" where
  "configured_production_authority key_id algorithm public_key =
     (PublicVerifierKey_active key_id algorithm public_key)\<lparr>pk_production_authority := True\<rparr>"

definition verifier_ensure_active_at :: "PublicVerifierKey \<Rightarrow> u64 \<Rightarrow> VerificationError + unit" where
  "verifier_ensure_active_at k now =
     rbind (case pk_status k of
         VerificationKeyStatus.Active \<Rightarrow> Inr ()
       | VerificationKeyStatus.Revoked \<Rightarrow> Inl (KeyErr RevokedVerifierKey)
       | VerificationKeyStatus.Expired \<Rightarrow> Inl (KeyErr ExpiredVerifierKey)
       | VerificationKeyStatus.Unknown \<Rightarrow> Inl (KeyErr UnknownVerifierKey)
       | VerificationKeyStatus.NotYetValid \<Rightarrow> Inl (KeyErr NotYetValidVerifierKey)) (\<lambda>_.
     rbind (case pk_not_before k of
         Some t \<Rightarrow> if now < t then Inl (KeyErr NotYetValidVerifierKey) else Inr ()
       | None \<Rightarrow> Inr ()) (\<lambda>_.
     rbind (case pk_not_after k of
         Some t \<Rightarrow> if now > t then Inl (KeyErr ExpiredVerifierKey) else Inr ()
       | None \<Rightarrow> Inr ()) (\<lambda>_.
     (case pk_revoked_at k of
         Some t \<Rightarrow> if t \<le> now then Inl (KeyErr RevokedVerifierKey) else Inr ()
       | None \<Rightarrow> Inr ()))))"

section \<open>The registry\<close>

record PublicVerifierKeyRegistry =
  vr_keys :: "string \<rightharpoonup> PublicVerifierKey"
  vr_duplicate_key_ids :: "string set"

definition verifier_registry_step ::
  "PublicVerifierKeyRegistry \<Rightarrow> PublicVerifierKey \<Rightarrow> PublicVerifierKeyRegistry" where
  "verifier_registry_step r k =
     (let r = (if vr_keys r (pk_key_id k) \<noteq> None
               then r\<lparr>vr_duplicate_key_ids := insert (pk_key_id k) (vr_duplicate_key_ids r)\<rparr> else r)
      in r\<lparr>vr_keys := (vr_keys r)(pk_key_id k \<mapsto> k)\<rparr>)"

definition verifier_from_keys :: "PublicVerifierKey list \<Rightarrow> PublicVerifierKeyRegistry" where
  "verifier_from_keys ks =
     foldl verifier_registry_step \<lparr>vr_keys = Map.empty, vr_duplicate_key_ids = {}\<rparr> ks"

definition verifier_get :: "PublicVerifierKeyRegistry \<Rightarrow> string \<Rightarrow> PublicVerifierKey option" where
  "verifier_get r key_id = vr_keys r key_id"

text \<open>The first two steps of every check: the key must be known and its id not duplicated.\<close>

definition unique_key :: "PublicVerifierKeyRegistry \<Rightarrow> string \<Rightarrow> VerificationError + PublicVerifierKey" where
  "unique_key r key_id =
     rbind (ok_or (KeyErr UnknownVerifierKey) (verifier_get r key_id)) (\<lambda>key.
     if key_id \<in> vr_duplicate_key_ids r then Inl (KeyErr UnknownVerifierKey) else Inr key)"

definition verify_signed_context ::
  "crypto \<Rightarrow> 'a bincode_scheme \<Rightarrow> PublicVerifierKeyRegistry \<Rightarrow> SignedVerifiedCallContext \<Rightarrow> string \<Rightarrow> u64 \<Rightarrow>
     VerificationError + unit" where
  "verify_signed_context C B r sctx expected_audience now =
     rbind (unique_key r (sc_signer_key_id sctx)) (\<lambda>key.
     rbind (verifier_ensure_active_at key now) (\<lambda>_.
     verify_ed25519_with_key C B sctx (pk_public_key key) expected_audience now))"

definition verify_production_signed_context ::
  "crypto \<Rightarrow> 'a bincode_scheme \<Rightarrow> PublicVerifierKeyRegistry \<Rightarrow> SignedVerifiedCallContext \<Rightarrow> string \<Rightarrow> u64 \<Rightarrow>
     VerificationError + unit" where
  "verify_production_signed_context C B r sctx expected_audience now =
     rbind (unique_key r (sc_signer_key_id sctx)) (\<lambda>key.
     rbind (verifier_ensure_active_at key now) (\<lambda>_.
     if \<not> pk_production_authority key \<or> pk_algorithm key \<noteq> ''ed25519''
       \<or> sc_authenticator_kind sctx \<noteq> Ed25519NodeAndVerifier
     then Inl (KeyErr UntrustedVerifierKey)
     else verify_ed25519_with_key C B sctx (pk_public_key key) expected_audience now))"

text \<open>\<open>verify_strict\<close> stands for Ed25519's strict verification.\<close>

definition verify_devgraph_authority_v1_signature ::
  "(bytes \<Rightarrow> bytes \<Rightarrow> bytes \<Rightarrow> bool) \<Rightarrow> PublicVerifierKeyRegistry \<Rightarrow> string \<Rightarrow> bytes \<Rightarrow> bytes \<Rightarrow> u64 \<Rightarrow>
     VerificationError + unit" where
  "verify_devgraph_authority_v1_signature verify_strict r signer_key_id preimage signature now =
     rbind (unique_key r signer_key_id) (\<lambda>key.
     rbind (verifier_ensure_active_at key now) (\<lambda>_.
     if (case pk_not_after key of None \<Rightarrow> False | Some t \<Rightarrow> t \<le> now) then Inl (KeyErr ExpiredVerifierKey)
     else if \<not> pk_production_authority key \<or> pk_algorithm key \<noteq> ''ed25519''
     then Inl (KeyErr UntrustedVerifierKey)
     else if verify_strict (pk_public_key key) preimage signature then Inr () else Inl InvalidSignature))"

definition require_devgraph_authority_signer_v1 ::
  "PublicVerifierKeyRegistry \<Rightarrow> string \<Rightarrow> bytes \<Rightarrow> u64 \<Rightarrow> VerificationError + unit" where
  "require_devgraph_authority_signer_v1 r signer_key_id signer_public_key now =
     rbind (unique_key r signer_key_id) (\<lambda>key.
     rbind (verifier_ensure_active_at key now) (\<lambda>_.
     if (case pk_not_after key of None \<Rightarrow> False | Some t \<Rightarrow> t \<le> now) then Inl (KeyErr ExpiredVerifierKey)
     else if \<not> pk_production_authority key \<or> pk_algorithm key \<noteq> ''ed25519''
       \<or> pk_public_key key \<noteq> signer_public_key
     then Inl (KeyErr UntrustedVerifierKey) else Inr ()))"

text \<open>Receipts are judged at their own timestamp; \<open>now\<close> is not used.\<close>

definition verify_receipt_at ::
  "crypto \<Rightarrow> 'a receipt_bincode_scheme \<Rightarrow> PublicVerifierKeyRegistry \<Rightarrow> Receipt \<Rightarrow> u64 \<Rightarrow>
     VerificationError + unit" where
  "verify_receipt_at C B r receipt now =
     rbind (unique_key r (rc_signer_key_id receipt)) (\<lambda>key.
     rbind (verifier_ensure_active_at key (rc_timestamp receipt)) (\<lambda>_.
     receipt_verify_ed25519_with_key C B receipt (pk_public_key key)))"

definition verify_production_receipt_at ::
  "crypto \<Rightarrow> 'a receipt_bincode_scheme \<Rightarrow> PublicVerifierKeyRegistry \<Rightarrow> Receipt \<Rightarrow> u64 \<Rightarrow>
     VerificationError + unit" where
  "verify_production_receipt_at C B r receipt now =
     rbind (unique_key r (rc_signer_key_id receipt)) (\<lambda>key.
     rbind (verifier_ensure_active_at key (rc_timestamp receipt)) (\<lambda>_.
     if \<not> pk_production_authority key \<or> pk_algorithm key \<noteq> ''ed25519''
       \<or> rc_authenticator_kind receipt \<noteq> Ed25519NodeAndVerifier
     then Inl (KeyErr UntrustedVerifierKey)
     else receipt_verify_ed25519_with_key C B receipt (pk_public_key key)))"

section \<open>The node's identity\<close>

record NodeVerifierIdentity =
  ni_signer_key_id :: string
  ni_signing_key :: bytes
  ni_public_key :: bytes
  ni_authenticator_kind :: AuthenticatorKind

definition public_verifier_key :: "NodeVerifierIdentity \<Rightarrow> PublicVerifierKey" where
  "public_verifier_key n =
     (if ni_authenticator_kind n = LocalDevUntrusted
      then PublicVerifierKey_active (ni_signer_key_id n) ''ed25519'' (ni_public_key n)
      else configured_production_authority (ni_signer_key_id n) ''ed25519'' (ni_public_key n))"

definition sign_context ::
  "crypto \<Rightarrow> 'a bincode_scheme \<Rightarrow> NodeVerifierIdentity \<Rightarrow> VerifiedCallContext \<Rightarrow>
     VerificationError + SignedVerifiedCallContext" where
  "sign_context C B n context =
     context_sign_ed25519 C B context (ni_signer_key_id n) (ni_signing_key n) (ni_authenticator_kind n)"

definition sign_receipt ::
  "crypto \<Rightarrow> 'a receipt_bincode_scheme \<Rightarrow> NodeVerifierIdentity \<Rightarrow> Receipt \<Rightarrow> VerificationError + Receipt" where
  "sign_receipt C B n receipt =
     receipt_sign_ed25519 C B receipt (ni_signer_key_id n) (ni_signing_key n) (ni_authenticator_kind n)"

text \<open>The four projection signers of the source have this body; they differ in the type of the preimage.\<close>

definition sign_projection_preimage :: "crypto \<Rightarrow> NodeVerifierIdentity \<Rightarrow> bytes \<Rightarrow> VerificationError + bytes" where
  "sign_projection_preimage C n preimage =
     (if ni_authenticator_kind n \<noteq> Ed25519NodeAndVerifier then Inl (KeyErr UntrustedVerifierKey)
      else Inr (c_sign C (ni_signing_key n) preimage))"

definition sign_execution_response ::
  "crypto \<Rightarrow> NodeVerifierIdentity \<Rightarrow> ExecutionResponse \<Rightarrow> VerificationError + ExecutionResponse" where
  "sign_execution_response C n response =
     (let r = response\<lparr>er_authenticator_kind := Ed25519Receiver, er_signer_key_id := ni_signer_key_id n,
                       er_signature := replicate 64 0\<rparr> in
      rbind (map_err (\<lambda>_. InternalError) (signature_preimage r)) (\<lambda>preimage.
      Inr (r\<lparr>er_signature := c_sign C (ni_signing_key n) preimage\<rparr>)))"

section \<open>Loading\<close>

datatype IdentityConfigError =
    MissingVerifierKeyPath | KeyFileInaccessible string | MalformedVerifierKey
  | UnsafeVerifierKeyFile string | UnsafeVerifierKeyId | LocalDevRequiresExplicitFixture

record VerifierIdentityConfig =
  vi_runtime_mode :: RuntimeMode
  vi_verifier_key_path :: "string option"
  vi_verifier_key_id :: "string option"

text \<open>The file system as the loader uses it: metadata without following links, and contents.\<close>

record file_metadata =
  fm_is_file :: bool
  fm_is_symlink :: bool
  fm_mode :: u32

record file_system =
  fs_symlink_metadata :: "string \<Rightarrow> file_metadata option"
  fs_read_to_string :: "string \<Rightarrow> string option"

definition VerifierIdentityConfig_from_env :: "(string \<Rightarrow> string option) \<Rightarrow> VerifierIdentityConfig" where
  "VerifierIdentityConfig_from_env env =
     \<lparr>vi_runtime_mode = RuntimeMode_from_env env, vi_verifier_key_path = env ''SECS_VERIFIER_KEY_PATH'',
      vi_verifier_key_id = env ''SECS_VERIFIER_KEY_ID''\<rparr>"

definition validate_key_file_safety :: "file_system \<Rightarrow> string \<Rightarrow> IdentityConfigError + unit" where
  "validate_key_file_safety F path =
     rbind (ok_or (KeyFileInaccessible path) (fs_symlink_metadata F path)) (\<lambda>m.
     if \<not> fm_is_file m \<or> fm_is_symlink m then Inl (UnsafeVerifierKeyFile path)
     else if and (fm_mode m) 0x3F \<noteq> 0 then Inl (UnsafeVerifierKeyFile path)
     else Inr ())"

text \<open>Removing every Unicode white-space character of a valid UTF-8 string, byte by byte.\<close>

fun drop_whitespace :: "bytes \<Rightarrow> bytes" where
  "drop_whitespace [] = []"
| "drop_whitespace (a # rest) =
     (if ws1 a then drop_whitespace rest
      else case rest of
          b # c # r \<Rightarrow> if ws2 a b then drop_whitespace (c # r)
            else if ws3 a b c then drop_whitespace r else a # drop_whitespace rest
        | [b] \<Rightarrow> if ws2 a b then [] else a # drop_whitespace rest
        | [] \<Rightarrow> [a])"

fun hex_pairs :: "string \<Rightarrow> bytes option" where
  "hex_pairs (a # b # rest) =
     (case u8_from_hex [a, b] of None \<Rightarrow> None | Some x \<Rightarrow> map_option (Cons x) (hex_pairs rest))"
| "hex_pairs _ = Some []"

definition parse_hex_secret_key :: "string \<Rightarrow> IdentityConfigError + bytes" where
  "parse_hex_secret_key raw =
     (let value = map char_of_byte (drop_whitespace (as_bytes raw)) in
      if length value \<noteq> 64 then Inl MalformedVerifierKey
      else ok_or MalformedVerifierKey (hex_pairs value))"

definition looks_like_secret_hex :: "string \<Rightarrow> bool" where
  "looks_like_secret_hex value \<longleftrightarrow> 64 \<le> length value \<and> list_all (\<lambda>c. hex_value c \<noteq> None) value"

definition safe_configured_key_id :: "string \<Rightarrow> IdentityConfigError + string" where
  "safe_configured_key_id value =
     (let trimmed = trim value in
      if trimmed = [] \<or> CHR ''/'' \<in> set trimmed \<or> CHR 0x5C \<in> set trimmed \<or> looks_like_secret_hex trimmed
      then Inl UnsafeVerifierKeyId else Inr trimmed)"

definition derive_ed25519_key_id :: "crypto \<Rightarrow> bytes \<Rightarrow> string" where
  "derive_ed25519_key_id C public_key = ''ed25519:'' @ hex_lower (take 16 (c_sha256 C public_key))"

definition load_node_verifier_identity ::
  "crypto \<Rightarrow> file_system \<Rightarrow> VerifierIdentityConfig \<Rightarrow> IdentityConfigError + NodeVerifierIdentity" where
  "load_node_verifier_identity C F config =
     (case vi_verifier_key_path config of
        None \<Rightarrow> (case vi_runtime_mode config of
            ProductionVerified \<Rightarrow> Inl MissingVerifierKeyPath
          | _ \<Rightarrow> Inl LocalDevRequiresExplicitFixture)
      | Some path \<Rightarrow>
          rbind (validate_key_file_safety F path) (\<lambda>_.
          rbind (ok_or (KeyFileInaccessible path) (fs_read_to_string F path)) (\<lambda>raw.
          rbind (parse_hex_secret_key raw) (\<lambda>secret_key.
          rbind (case vi_verifier_key_id config of
              Some key_id \<Rightarrow> safe_configured_key_id key_id
            | None \<Rightarrow> Inr (derive_ed25519_key_id C (c_public C secret_key))) (\<lambda>signer_key_id.
          Inr \<lparr>ni_signer_key_id = signer_key_id, ni_signing_key = secret_key,
               ni_public_key = c_public C secret_key,
               ni_authenticator_kind = Ed25519NodeAndVerifier\<rparr>)))))"

definition load_devgraph_authority_identity_v1 ::
  "crypto \<Rightarrow> bytes \<Rightarrow> string \<Rightarrow> IdentityConfigError + NodeVerifierIdentity" where
  "load_devgraph_authority_identity_v1 C raw signer_key_id =
     rbind (ok_or MalformedVerifierKey (from_utf8 raw)) (\<lambda>raw.
     rbind (parse_hex_secret_key raw) (\<lambda>secret_key.
     rbind (safe_configured_key_id signer_key_id) (\<lambda>key_id.
     Inr \<lparr>ni_signer_key_id = key_id, ni_signing_key = secret_key, ni_public_key = c_public C secret_key,
          ni_authenticator_kind = Ed25519NodeAndVerifier\<rparr>)))"

definition explicit_test_fixture_identity :: "crypto \<Rightarrow> string \<Rightarrow> bytes \<Rightarrow> NodeVerifierIdentity" where
  "explicit_test_fixture_identity C signer_key_id secret_key =
     \<lparr>ni_signer_key_id = signer_key_id, ni_signing_key = secret_key, ni_public_key = c_public C secret_key,
      ni_authenticator_kind = LocalDevUntrusted\<rparr>"

section \<open>Lemmas\<close>

definition verifier_lookup :: "PublicVerifierKeyRegistry \<Rightarrow> string \<Rightarrow> PublicVerifierKey option" where
  "verifier_lookup r key_id = (if key_id \<in> vr_duplicate_key_ids r then None else vr_keys r key_id)"

interpretation verifier_registry: key_registry pk_key_id verifier_from_keys verifier_lookup
proof
  fix ks i
  show "verifier_lookup (verifier_from_keys ks) i = single (filter (\<lambda>k. pk_key_id k = i) ks)"
    unfolding verifier_lookup_def verifier_from_keys_def
    by (rule registry_fold_lookup [where keys = vr_keys and dups = vr_duplicate_key_ids])
      (auto simp: verifier_registry_step_def Let_def)
qed

lemma unique_key_Inr_iff: "unique_key r i = Inr k \<longleftrightarrow> verifier_lookup r i = Some k"
  by (auto simp: unique_key_def verifier_get_def verifier_lookup_def result_simps)

lemma unique_key_Inl: "unique_key r i = Inl e \<Longrightarrow> e = KeyErr UnknownVerifierKey"
  by (auto simp: unique_key_def verifier_get_def result_simps split: if_splits)

definition key_live_at :: "PublicVerifierKey \<Rightarrow> u64 \<Rightarrow> bool" where
  "key_live_at k now \<longleftrightarrow> pk_status k = VerificationKeyStatus.Active \<and>
     (case pk_not_before k of None \<Rightarrow> True | Some t \<Rightarrow> t \<le> now) \<and>
     (case pk_not_after k of None \<Rightarrow> True | Some t \<Rightarrow> now \<le> t) \<and>
     (case pk_revoked_at k of None \<Rightarrow> True | Some t \<Rightarrow> now < t)"

lemma ensure_active_Inr_iff: "verifier_ensure_active_at k now = Inr u \<longleftrightarrow> key_live_at k now"
  by (cases "pk_status k")
    (auto simp: verifier_ensure_active_at_def key_live_at_def result_simps not_less not_le split: option.splits)

lemma verify_signed_context_Inr_iff:
  "verify_signed_context C B r sctx aud now = Inr u \<longleftrightarrow>
     (\<exists>k. verifier_lookup r (sc_signer_key_id sctx) = Some k \<and> key_live_at k now \<and>
        verify_ed25519_with_key C B sctx (pk_public_key k) aud now = Inr ())"
  by (auto simp: verify_signed_context_def rbind_Inr_iff unique_key_Inr_iff ensure_active_Inr_iff)

lemma verify_production_signed_context_Inr_iff:
  "verify_production_signed_context C B r sctx aud now = Inr u \<longleftrightarrow>
     (\<exists>k. verifier_lookup r (sc_signer_key_id sctx) = Some k \<and> key_live_at k now \<and>
        pk_production_authority k \<and> pk_algorithm k = ''ed25519'' \<and>
        sc_authenticator_kind sctx = Ed25519NodeAndVerifier \<and>
        verify_ed25519_with_key C B sctx (pk_public_key k) aud now = Inr ())"
  by (auto simp: verify_production_signed_context_def rbind_Inr_iff if_guard_Inr_iff unique_key_Inr_iff
      ensure_active_Inr_iff)

lemma public_verifier_key_simps [simp]:
  "key_live_at (public_verifier_key n) now"
  "pk_public_key (public_verifier_key n) = ni_public_key n"
  "pk_key_id (public_verifier_key n) = ni_signer_key_id n"
  "pk_algorithm (public_verifier_key n) = ''ed25519''"
  "pk_production_authority (public_verifier_key n) \<longleftrightarrow> ni_authenticator_kind n \<noteq> LocalDevUntrusted"
  by (simp_all add: key_live_at_def public_verifier_key_def PublicVerifierKey_active_def
      configured_production_authority_def)

lemma own_key_lookup:
  "verifier_lookup (verifier_from_keys [public_verifier_key n]) (ni_signer_key_id n) = Some (public_verifier_key n)"
  using verifier_registry.lookup_distinct [of "[public_verifier_key n]" "public_verifier_key n"] by simp

section \<open>Properties\<close>

text \<open>C21. The production check of a signed context, for the registry built from any list of keys, accepts
  exactly when one and only one key of the list has the signer's id, that key is live now, is a
  production Ed25519 authority, the context is labelled node-and-verifier, is addressed to this receiver,
  has not expired by a clock that could be read, and the 64-byte signature verifies over this context.\<close>

theorem production_context_accepted_iff:
  "verify_production_signed_context C B (verifier_from_keys ks) sctx aud now = Inr () \<longleftrightarrow>
     (\<exists>k. filter (\<lambda>k. pk_key_id k = sc_signer_key_id sctx) ks = [k] \<and> key_live_at k now \<and>
        pk_production_authority k \<and> pk_algorithm k = ''ed25519'' \<and>
        sc_authenticator_kind sctx = Ed25519NodeAndVerifier \<and>
        vc_audience (sc_context sctx) = aud \<and> \<not> is_clock_read_failure now \<and>
        now \<le> vc_expires_at (sc_context sctx) \<and> length (sc_signature sctx) = 64 \<and>
        (\<exists>bs. bc_context B (sc_context sctx) = Some bs \<and>
           c_verify C (pk_public_key k) bs (sc_signature sctx)))"
  by (simp add: verify_production_signed_context_Inr_iff verifier_registry.lookup_Some_iff
      verify_with_key_Inr_iff)

text \<open>A node accepts its own signature exactly as long as it should: a context it signs is accepted by
  the registry holding its public key if and only if the context names the expected audience, the clock
  was read, and the expiry has not passed; under the production check the node must also be a
  node-and-verifier.\<close>

theorem own_context_accepted_until_expiry:
  assumes "signing_correct C" and "ni_public_key n = c_public C (ni_signing_key n)"
    and "sign_context C B n context = Inr sctx"
  shows "(verify_signed_context C B (verifier_from_keys [public_verifier_key n]) sctx aud now = Inr () \<longleftrightarrow>
       vc_audience context = aud \<and> \<not> is_clock_read_failure now \<and> now \<le> vc_expires_at context) \<and>
     (verify_production_signed_context C B (verifier_from_keys [public_verifier_key n]) sctx aud now = Inr () \<longleftrightarrow>
       ni_authenticator_kind n = Ed25519NodeAndVerifier \<and>
       vc_audience context = aud \<and> \<not> is_clock_read_failure now \<and> now \<le> vc_expires_at context)"
proof -
  have s: "context_sign_ed25519 C B context (ni_signer_key_id n) (ni_signing_key n) (ni_authenticator_kind n) = Inr sctx"
    using assms(3) by (simp add: sign_context_def)
  then have "sc_signer_key_id sctx = ni_signer_key_id n" "sc_authenticator_kind sctx = ni_authenticator_kind n"
    by (auto simp: context_sign_Inr_iff)
  then show ?thesis
    using sign_then_verify [OF assms(1) s] assms(2)
    by (auto simp: verify_signed_context_Inr_iff verify_production_signed_context_Inr_iff own_key_lookup)
qed

definition sample_identity :: NodeVerifierIdentity where
  "sample_identity = \<lparr>ni_signer_key_id = ''node'', ni_signing_key = [9], ni_public_key = [9],
     ni_authenticator_kind = Ed25519NodeAndVerifier\<rparr>"

theorem own_context_accepted_until_expiry_witness:
  "\<exists>sctx. sign_context sample_crypto sample_receipt_bincode sample_identity sample_call_context = Inr sctx \<and>
     verify_production_signed_context sample_crypto sample_receipt_bincode
       (verifier_from_keys [public_verifier_key sample_identity]) sctx ''rcv'' 200 = Inr () \<and>
     verify_production_signed_context sample_crypto sample_receipt_bincode
       (verifier_from_keys [public_verifier_key sample_identity]) sctx ''rcv'' 201 \<noteq> Inr ()"
proof -
  have "\<exists>sctx. sign_context sample_crypto sample_receipt_bincode sample_identity sample_call_context = Inr sctx"
    by (simp add: sign_context_def context_sign_Inr_iff sample_receipt_bincode_def)
  then obtain sctx where s: "sign_context sample_crypto sample_receipt_bincode sample_identity sample_call_context = Inr sctx"
    by blast
  have "ni_public_key sample_identity = c_public sample_crypto (ni_signing_key sample_identity)"
    by (simp add: sample_identity_def sample_crypto_def)
  note acc = own_context_accepted_until_expiry [OF sample_crypto_correct this s, THEN conjunct2, of "''rcv''"]
  have "\<not> is_clock_read_failure (200 :: u64)"
    by (simp add: is_clock_read_failure_def CLOCK_READ_FAILURE_SENTINEL_def)
  then show ?thesis
    using s acc [of 200] acc [of 201] by (auto simp: sample_identity_def sample_call_context_def)
qed

text \<open>Loading a production identity: without a configured path it fails with the reason of the
  runtime mode; otherwise it succeeds only for a regular file that is no link and grants nothing to group
  or others, whose content without white space is 64 characters of hexadecimal pairs, and the id it gets
  is either derived from the key or a non-blank configured name without path separators that does not look
  like a secret.\<close>

theorem loaded_identity_is_safe:
  "case load_node_verifier_identity C F config of
     Inl e \<Rightarrow> (case vi_verifier_key_path config of
         None \<Rightarrow> e = (if vi_runtime_mode config = ProductionVerified then MissingVerifierKeyPath
                     else LocalDevRequiresExplicitFixture)
       | Some _ \<Rightarrow> True)
   | Inr n \<Rightarrow> \<exists>path m raw. vi_verifier_key_path config = Some path \<and>
       fs_symlink_metadata F path = Some m \<and> fm_is_file m \<and> \<not> fm_is_symlink m \<and> and (fm_mode m) 0x3F = 0 \<and>
       fs_read_to_string F path = Some raw \<and> length (drop_whitespace (as_bytes raw)) = 64 \<and>
       hex_pairs (map char_of_byte (drop_whitespace (as_bytes raw))) = Some (ni_signing_key n) \<and>
       ni_public_key n = c_public C (ni_signing_key n) \<and> ni_authenticator_kind n = Ed25519NodeAndVerifier \<and>
       (case vi_verifier_key_id config of
          None \<Rightarrow> ni_signer_key_id n = derive_ed25519_key_id C (ni_public_key n)
        | Some v \<Rightarrow> ni_signer_key_id n = trim v \<and> trim v \<noteq> [] \<and> CHR ''/'' \<notin> set (trim v) \<and>
            CHR 0x5C \<notin> set (trim v) \<and> \<not> looks_like_secret_hex (trim v))"
proof (cases "load_node_verifier_identity C F config")
  case (Inl e)
  then show ?thesis
    by (cases "vi_runtime_mode config") (auto simp: load_node_verifier_identity_def split: option.splits)
next
  case (Inr n)
  then obtain path where p: "vi_verifier_key_path config = Some path"
    by (auto simp: load_node_verifier_identity_def split: option.splits RuntimeMode.splits)
  have id: "safe_configured_key_id v = Inr k \<longleftrightarrow> k = trim v \<and> trim v \<noteq> [] \<and> CHR ''/'' \<notin> set (trim v) \<and>
      CHR 0x5C \<notin> set (trim v) \<and> \<not> looks_like_secret_hex (trim v)" for v k
    by (auto simp: safe_configured_key_id_def Let_def)
  have "\<exists>m raw sk k. fs_symlink_metadata F path = Some m \<and> fm_is_file m \<and> \<not> fm_is_symlink m \<and>
      and (fm_mode m) 0x3F = 0 \<and> fs_read_to_string F path = Some raw \<and>
      length (drop_whitespace (as_bytes raw)) = 64 \<and>
      hex_pairs (map char_of_byte (drop_whitespace (as_bytes raw))) = Some sk \<and>
      (case vi_verifier_key_id config of Some v \<Rightarrow> safe_configured_key_id v = Inr k
         | None \<Rightarrow> k = derive_ed25519_key_id C (c_public C sk)) \<and>
      n = \<lparr>ni_signer_key_id = k, ni_signing_key = sk, ni_public_key = c_public C sk,
           ni_authenticator_kind = Ed25519NodeAndVerifier\<rparr>"
    using Inr p
    by (cases "vi_verifier_key_id config")
      (auto simp: load_node_verifier_identity_def validate_key_file_safety_def parse_hex_secret_key_def
        result_simps Let_def)
  then show ?thesis
    unfolding Inr sum.case p by (cases "vi_verifier_key_id config") (auto simp: id)
qed

end
