(* ===== verification/Verifier.thy ===== *)
theory Verifier
  imports Identity Manifest
begin

text \<open>
  The verifier (\<^verbatim>\<open>server/src/verifier.rs\<close>): from a packet, the receiver's manifest and its clock to a
  verified call context, descriptor by descriptor and runtime mode by runtime mode, and the signing entry
  points built on it. The evidence-backed entry points are outside this theory.
\<close>

section \<open>Guards\<close>

definition verify_prototype_envelope :: "ZenithPacket \<Rightarrow> VerificationError + unit" where
  "verify_prototype_envelope packet =
     (if zp_proof packet = [] then Inl MissingPrototypeProofEnvelope
      else if zp_claim_ttl packet = 0 then Inl ExpiredClaim
      else Inr ())"

definition reject_descriptor_only_runtime_evidence_gap :: "OperationDescriptor \<Rightarrow> VerificationError + unit" where
  "reject_descriptor_only_runtime_evidence_gap d =
     (if od_opcode d = 0x44 \<and> od_name d = ''membership.provision''
        \<and> ''wallet_presentation'' \<in> set (od_accepted_evidence d)
        \<and> ''membership_credential'' \<in> set (od_accepted_evidence d)
      then Inl InsufficientEvidence else Inr ())"

definition prototype_descriptor :: "OperationDescriptor \<Rightarrow> bool" where
  "prototype_descriptor d \<longleftrightarrow> od_dev_binding d \<or> starts_with ''dev/'' (od_handler_id d)
     \<or> starts_with ''candidate.dev'' (od_name d)
     \<or> (od_target_kind d = LegacyCoreExample
        \<and> ''prototype-proof-envelope'' \<in> set (od_accepted_evidence d))"

definition reject_non_production_descriptor ::
  "OperationDescriptor \<Rightarrow> RuntimeMode \<Rightarrow> VerificationError + unit" where
  "reject_non_production_descriptor d runtime_mode =
     (if runtime_mode \<noteq> ProductionVerified then Inr ()
      else if prototype_descriptor d then Inl PrototypeOperationNotProductionAuthorized
      else reject_descriptor_only_runtime_evidence_gap d)"

definition reject_over_disclosed_payload ::
  "(bytes \<Rightarrow> json option) \<Rightarrow> bytes \<Rightarrow> OperationDescriptor \<Rightarrow> VerificationError + unit" where
  "reject_over_disclosed_payload parse_json payload d =
     map_err (\<lambda>_. OverDisclosedPresentation)
       (scan_json_bytes parse_json HandlerContext payload (od_disclosure_policy d))"

definition reject_over_disclosed_packet ::
  "(bytes \<Rightarrow> json option) \<Rightarrow> ZenithPacket \<Rightarrow> OperationDescriptor \<Rightarrow> VerificationError + unit" where
  "reject_over_disclosed_packet parse_json packet d =
     reject_over_disclosed_payload parse_json (zp_encrypted_payload packet) d"

definition reject_forbidden_evidence_summary :: "string list \<Rightarrow> OperationDescriptor \<Rightarrow> VerificationError + unit" where
  "reject_forbidden_evidence_summary evidence_summary d =
     map_err (\<lambda>_. ForbiddenFieldPresent)
       (scan_string_fields VerifyReceipt evidence_summary (od_disclosure_policy d))"

definition prototype_subject :: VerifiedSubject where
  "prototype_subject = \<lparr>vs_subject_id = PROTOTYPE_LOCAL_SUBJECT, vs_key_id = PROTOTYPE_LOCAL_SUBJECT @ ''#key''\<rparr>"

definition context_resource_from_evidence_summary :: "string list \<Rightarrow> VerificationError + string option" where
  "context_resource_from_evidence_summary evidence_summary =
     (if ''resource_lock:verified'' \<notin> set evidence_summary then Inr None
      else case find_map (strip_prefix ''resource:'') evidence_summary of
          None \<Rightarrow> Inl ResourceLockViolation
        | Some value \<Rightarrow> if value = [] then Inl WrongResource else Inr (Some value))"

definition trusted_requested_resource_from_payload ::
  "(bytes \<Rightarrow> json option) \<Rightarrow> bytes \<Rightarrow> VerificationError + string option" where
  "trusted_requested_resource_from_payload parse_json payload =
     (if payload = [] then Inr None
      else case parse_json payload of
          None \<Rightarrow> Inr None
        | Some value \<Rightarrow> (case json_get ''requested_resource'' value of
              None \<Rightarrow> Inr None
            | Some resource \<Rightarrow> (case json_as_str resource of
                  None \<Rightarrow> Inl AuthorityAmplification
                | Some r \<Rightarrow> if r = [] then Inl AuthorityAmplification else Inr (Some r))))"

section \<open>Contexts\<close>

definition verifier_packet_hash ::
  "crypto \<Rightarrow> 'a bincode_scheme \<Rightarrow> ZenithPacket \<Rightarrow> VerificationError + bytes" where
  "verifier_packet_hash C B packet =
     rbind (ok_or InternalError (bc_packet B packet)) (\<lambda>bs. Inr (c_sha256 C bs))"

definition opcode_range_debug :: "OpcodeRange \<Rightarrow> string" where
  "opcode_range_debug r = (case r of
       Reserved \<Rightarrow> ''Reserved''
     | CoreStandardized \<Rightarrow> ''CoreStandardized''
     | CastaliaStandardCandidate \<Rightarrow> ''CastaliaStandardCandidate''
     | OperatorDefined \<Rightarrow> ''OperatorDefined'')"

definition descriptor_evidence_summary :: "OperationDescriptor \<Rightarrow> string list" where
  "descriptor_evidence_summary d = od_accepted_evidence d
     @ [''opcode_range:'' @ opcode_range_debug (od_range d), ''dev_binding:'' @ bool_string (od_dev_binding d)]"

definition replay_scope_name :: "ReplayScope \<Rightarrow> string" where
  "replay_scope_name s = (case s of SessionOpcodeNonce \<Rightarrow> ''session:opcode:nonce'')"

definition verified_context_for_descriptor ::
  "crypto \<Rightarrow> 'a bincode_scheme \<Rightarrow> ZenithPacket \<Rightarrow> OperationDescriptor \<Rightarrow> string \<Rightarrow> VerifiedSubject \<Rightarrow>
     string list \<Rightarrow> string option \<Rightarrow> u64 \<Rightarrow> VerificationError + VerifiedCallContext" where
  "verified_context_for_descriptor C B packet d audience subject evidence_summary resource now =
     (if od_max_ttl_seconds d < zp_claim_ttl packet then Inl ClaimTtlExceedsDescriptorMax
      else if zp_session_id packet = replicate 16 0 then Inl InvalidSession
      else if list_ex (starts_with ''required_authority_mode:'') evidence_summary
      then Inl (EvidenceErr UnsupportedAuthorityMode)
      else rbind (verifier_packet_hash C B packet) (\<lambda>packet_hash.
        let suffix = hex_lower (take 8 packet_hash);
            evidence_summary = evidence_summary @ (case od_required_authority_mode d of
                Some required \<Rightarrow> [''required_authority_mode:'' @ AuthorityMode_as_str required]
              | None \<Rightarrow> []) in
        Inr \<lparr>vc_schema_version = VERIFIED_CALL_CONTEXT_SCHEMA_VERSION,
             vc_context_id = ''ctx-v1-'' @ dec_string (unat now) @ ''-'' @ hex_byte (zp_opcode packet)
               @ ''-'' @ suffix,
             vc_packet_hash = packet_hash, vc_session_id = zp_session_id packet,
             vc_nonce = zp_nonce packet, vc_opcode = zp_opcode packet, vc_operation = od_name d,
             vc_resource = resource, vc_subject = subject, vc_audience = audience,
             vc_evidence_summary = evidence_summary, vc_proof_metadata = None,
             vc_capability_result = join '','' (od_required_capabilities d),
             vc_credential_result = join '','' (od_required_credentials d),
             vc_issued_at = now, vc_expires_at = saturating_add now (zp_claim_ttl packet),
             vc_descriptor_fingerprint = authorization_fingerprint C d,
             vc_replay_scope = replay_scope_name (od_replay_scope d),
             vc_handler_id = Some (od_handler_id d)\<rparr>))"

section \<open>Entry points\<close>

definition verify_manifest_operation ::
  "crypto \<Rightarrow> 'a bincode_scheme \<Rightarrow> (bytes \<Rightarrow> json option) \<Rightarrow> ZenithPacket \<Rightarrow> ReceiverManifest \<Rightarrow> string \<Rightarrow> u64 \<Rightarrow>
     VerificationError + VerifiedCallContext" where
  "verify_manifest_operation C B parse_json packet manifest audience now =
     (if is_clock_read_failure now then Inl ExpiredClaim
      else rbind (verify_prototype_envelope packet) (\<lambda>_.
        rbind (manifest_lookup manifest (zp_opcode packet)) (\<lambda>d.
        rbind (reject_over_disclosed_packet parse_json packet d) (\<lambda>_.
        verified_context_for_descriptor C B packet d audience prototype_subject
          (descriptor_evidence_summary d) None now))))"

definition runtime_subject ::
  "crypto \<Rightarrow> ZenithPacket \<Rightarrow> u64 \<Rightarrow> RuntimeMode \<Rightarrow> CallerKeyRegistry option \<Rightarrow> VerificationError + VerifiedSubject" where
  "runtime_subject C packet now runtime_mode caller_keys = (case (runtime_mode, caller_keys) of
       (_, Some registry) \<Rightarrow>
         rbind (verify_caller_proof C packet registry now) (\<lambda>caller.
         Inr \<lparr>vs_subject_id = ac_subject_id caller, vs_key_id = ac_key_id caller\<rparr>)
     | (ProductionVerified, None) \<Rightarrow> Inl (KeyErr MissingCallerRegistry)
     | (_, None) \<Rightarrow> Inr prototype_subject)"

definition verify_manifest_operation_for_runtime_with_caller ::
  "crypto \<Rightarrow> 'a bincode_scheme \<Rightarrow> (bytes \<Rightarrow> json option) \<Rightarrow> ZenithPacket \<Rightarrow> ReceiverManifest \<Rightarrow> string \<Rightarrow> u64 \<Rightarrow>
     RuntimeMode \<Rightarrow> CallerKeyRegistry option \<Rightarrow> VerificationError + VerifiedCallContext" where
  "verify_manifest_operation_for_runtime_with_caller C B parse_json packet manifest audience now
       runtime_mode caller_keys =
     (if is_clock_read_failure now then Inl ExpiredClaim
      else rbind (verify_prototype_envelope packet) (\<lambda>_.
        rbind (manifest_lookup manifest (zp_opcode packet)) (\<lambda>d.
        rbind (reject_over_disclosed_packet parse_json packet d) (\<lambda>_.
        rbind (reject_non_production_descriptor d runtime_mode) (\<lambda>_.
        rbind (runtime_subject C packet now runtime_mode caller_keys) (\<lambda>subject.
        verified_context_for_descriptor C B packet d audience subject
          (descriptor_evidence_summary d) None now))))))"

definition verify_manifest_operation_for_runtime ::
  "crypto \<Rightarrow> 'a bincode_scheme \<Rightarrow> (bytes \<Rightarrow> json option) \<Rightarrow> ZenithPacket \<Rightarrow> ReceiverManifest \<Rightarrow> string \<Rightarrow> u64 \<Rightarrow>
     RuntimeMode \<Rightarrow> VerificationError + VerifiedCallContext" where
  "verify_manifest_operation_for_runtime C B parse_json packet manifest audience now runtime_mode =
     verify_manifest_operation_for_runtime_with_caller C B parse_json packet manifest audience now
       runtime_mode None"

definition verify_manifest_operation_and_sign_with_kind ::
  "crypto \<Rightarrow> 'a bincode_scheme \<Rightarrow> (bytes \<Rightarrow> json option) \<Rightarrow> ZenithPacket \<Rightarrow> ReceiverManifest \<Rightarrow> string \<Rightarrow> u64 \<Rightarrow>
     string \<Rightarrow> bytes \<Rightarrow> AuthenticatorKind \<Rightarrow> VerificationError + SignedVerifiedCallContext" where
  "verify_manifest_operation_and_sign_with_kind C B parse_json packet manifest audience now
       signer_key_id secret_key authenticator_kind =
     rbind (verify_manifest_operation C B parse_json packet manifest audience now) (\<lambda>context.
     context_sign_ed25519 C B context signer_key_id secret_key authenticator_kind)"

definition verify_manifest_operation_and_sign ::
  "crypto \<Rightarrow> 'a bincode_scheme \<Rightarrow> (bytes \<Rightarrow> json option) \<Rightarrow> ZenithPacket \<Rightarrow> ReceiverManifest \<Rightarrow> string \<Rightarrow> u64 \<Rightarrow>
     string \<Rightarrow> bytes \<Rightarrow> VerificationError + SignedVerifiedCallContext" where
  "verify_manifest_operation_and_sign C B parse_json packet manifest audience now signer_key_id secret_key =
     verify_manifest_operation_and_sign_with_kind C B parse_json packet manifest audience now
       signer_key_id secret_key Ed25519Verifier"

definition verify_manifest_operation_and_sign_with_identity ::
  "crypto \<Rightarrow> 'a bincode_scheme \<Rightarrow> (bytes \<Rightarrow> json option) \<Rightarrow> ZenithPacket \<Rightarrow> ReceiverManifest \<Rightarrow> string \<Rightarrow> u64 \<Rightarrow>
     NodeVerifierIdentity \<Rightarrow> VerificationError + SignedVerifiedCallContext" where
  "verify_manifest_operation_and_sign_with_identity C B parse_json packet manifest audience now identity =
     rbind (verify_manifest_operation C B parse_json packet manifest audience now) (\<lambda>context.
     sign_context C B identity context)"

definition verify_manifest_operation_with_resource_and_sign_with_identity ::
  "crypto \<Rightarrow> 'a bincode_scheme \<Rightarrow> (bytes \<Rightarrow> json option) \<Rightarrow> ZenithPacket \<Rightarrow> ReceiverManifest \<Rightarrow> string \<Rightarrow>
     string option \<Rightarrow> u64 \<Rightarrow> NodeVerifierIdentity \<Rightarrow> VerificationError + SignedVerifiedCallContext" where
  "verify_manifest_operation_with_resource_and_sign_with_identity C B parse_json packet manifest audience
       resource now identity =
     rbind (verify_manifest_operation C B parse_json packet manifest audience now) (\<lambda>context.
     sign_context C B identity (context\<lparr>vc_resource := resource\<rparr>))"

definition verify_manifest_operation_with_resource_and_sign ::
  "crypto \<Rightarrow> 'a bincode_scheme \<Rightarrow> (bytes \<Rightarrow> json option) \<Rightarrow> ZenithPacket \<Rightarrow> ReceiverManifest \<Rightarrow> string \<Rightarrow>
     string option \<Rightarrow> u64 \<Rightarrow> string \<Rightarrow> bytes \<Rightarrow> VerificationError + SignedVerifiedCallContext" where
  "verify_manifest_operation_with_resource_and_sign C B parse_json packet manifest audience
       resource now signer_key_id secret_key =
     rbind (verify_manifest_operation C B parse_json packet manifest audience now) (\<lambda>context.
     context_sign_ed25519 C B (context\<lparr>vc_resource := resource\<rparr>) signer_key_id secret_key Ed25519Verifier)"

definition verify_manifest_operation_and_sign_for_runtime_with_identity_and_caller ::
  "crypto \<Rightarrow> 'a bincode_scheme \<Rightarrow> (bytes \<Rightarrow> json option) \<Rightarrow> ZenithPacket \<Rightarrow> ReceiverManifest \<Rightarrow> string \<Rightarrow> u64 \<Rightarrow>
     NodeVerifierIdentity \<Rightarrow> RuntimeMode \<Rightarrow> CallerKeyRegistry option \<Rightarrow>
     VerificationError + SignedVerifiedCallContext" where
  "verify_manifest_operation_and_sign_for_runtime_with_identity_and_caller C B parse_json packet manifest
       audience now identity runtime_mode caller_keys =
     rbind (verify_manifest_operation_for_runtime_with_caller C B parse_json packet manifest audience now
       runtime_mode caller_keys) (\<lambda>context. sign_context C B identity context)"

definition verify_manifest_operation_and_sign_for_runtime_with_identity ::
  "crypto \<Rightarrow> 'a bincode_scheme \<Rightarrow> (bytes \<Rightarrow> json option) \<Rightarrow> ZenithPacket \<Rightarrow> ReceiverManifest \<Rightarrow> string \<Rightarrow> u64 \<Rightarrow>
     NodeVerifierIdentity \<Rightarrow> RuntimeMode \<Rightarrow> VerificationError + SignedVerifiedCallContext" where
  "verify_manifest_operation_and_sign_for_runtime_with_identity C B parse_json packet manifest
       audience now identity runtime_mode =
     verify_manifest_operation_and_sign_for_runtime_with_identity_and_caller C B parse_json packet manifest
       audience now identity runtime_mode None"

section \<open>Lemmas\<close>

text \<open>What every context made from a descriptor satisfies.\<close>

lemma verified_context_Inr:
  assumes "verified_context_for_descriptor C B packet d audience subject ev resource now = Inr ctx"
  shows "zp_claim_ttl packet \<le> od_max_ttl_seconds d" "zp_session_id packet \<noteq> replicate 16 0"
    "\<not> list_ex (starts_with ''required_authority_mode:'') ev"
    "\<exists>bs. bc_packet B packet = Some bs \<and> vc_packet_hash ctx = c_sha256 C bs"
    "vc_session_id ctx = zp_session_id packet" "vc_nonce ctx = zp_nonce packet"
    "vc_opcode ctx = zp_opcode packet" "vc_operation ctx = od_name d" "vc_resource ctx = resource"
    "vc_subject ctx = subject" "vc_audience ctx = audience" "vc_issued_at ctx = now"
    "vc_expires_at ctx = saturating_add now (zp_claim_ttl packet)"
    "vc_descriptor_fingerprint ctx = authorization_fingerprint C d"
    "vc_handler_id ctx = Some (od_handler_id d)" "vc_replay_scope ctx = ''session:opcode:nonce''"
    "vc_proof_metadata ctx = None"
    "vc_evidence_summary ctx = ev @ (case od_required_authority_mode d of
        Some required \<Rightarrow> [''required_authority_mode:'' @ AuthorityMode_as_str required] | None \<Rightarrow> [])"
  using assms
  by (auto simp: verified_context_for_descriptor_def verifier_packet_hash_def result_simps Let_def not_less
      replay_scope_name_def split: ReplayScope.splits)

lemma reject_non_production_Inr_iff:
  "reject_non_production_descriptor d mode = Inr u \<longleftrightarrow> mode \<noteq> ProductionVerified \<or>
     \<not> prototype_descriptor d \<and> reject_descriptor_only_runtime_evidence_gap d = Inr ()"
  by (auto simp: reject_non_production_descriptor_def)

lemma for_runtime_Inr_iff:
  "verify_manifest_operation_for_runtime_with_caller C B pj packet m aud now mode callers = Inr ctx \<longleftrightarrow>
     \<not> is_clock_read_failure now \<and> verify_prototype_envelope packet = Inr () \<and>
     (\<exists>d subject. manifest_lookup m (zp_opcode packet) = Inr d \<and>
        reject_over_disclosed_packet pj packet d = Inr () \<and>
        reject_non_production_descriptor d mode = Inr () \<and>
        runtime_subject C packet now mode callers = Inr subject \<and>
        verified_context_for_descriptor C B packet d aud subject (descriptor_evidence_summary d) None now = Inr ctx)"
  by (auto simp: verify_manifest_operation_for_runtime_with_caller_def result_simps)

text \<open>A packet whose proof its caller made: the envelope's canonical bytes signed under the caller's key.\<close>

definition caller_signed_packet :: "crypto \<Rightarrow> string \<Rightarrow> bytes \<Rightarrow> ZenithPacket \<Rightarrow> ZenithPacket" where
  "caller_signed_packet C key_id secret p =
     p\<lparr>zp_proof := encode_caller_proof key_id (c_sign C secret (caller_canonical_bytes (zp_session_id p)
        (zp_nonce p) (zp_opcode p) (zp_claim_ttl p) (zp_encrypted_payload p)))\<rparr>"

lemma caller_signed_packet_simps [simp]:
  "zp_session_id (caller_signed_packet C k s p) = zp_session_id p"
  "zp_nonce (caller_signed_packet C k s p) = zp_nonce p"
  "zp_opcode (caller_signed_packet C k s p) = zp_opcode p"
  "zp_claim_ttl (caller_signed_packet C k s p) = zp_claim_ttl p"
  "zp_encrypted_payload (caller_signed_packet C k s p) = zp_encrypted_payload p"
  by (simp_all add: caller_signed_packet_def)

lemma caller_signed_packet_authenticates:
  assumes "signing_correct C" and "\<not> is_clock_read_failure now"
    and "CallerKeyRegistry_get registry kid = Some key" and "caller_ensure_active_at key now = Inr ()"
    and "ck_public_key key = c_public C sk"
    and "0 < length kid" "length kid \<le> MAX_CALLER_KEY_ID_LEN" "str_ok kid"
  shows "verify_caller_proof C (caller_signed_packet C kid sk p) registry now =
      Inr \<lparr>ac_subject_id = ck_subject_id key, ac_key_id = ck_key_id key\<rparr>"
proof -
  let ?m = "caller_canonical_bytes (zp_session_id p) (zp_nonce p) (zp_opcode p) (zp_claim_ttl p) (zp_encrypted_payload p)"
  have "zp_proof (caller_signed_packet C kid sk p) = encode_caller_proof kid (c_sign C sk ?m)"
    by (simp add: caller_signed_packet_def)
  moreover have "length (c_sign C sk ?m) = 64" "c_verify C (ck_public_key key) ?m (c_sign C sk ?m)"
    using assms(1,5) by (simp_all add: signing_correct_def)
  ultimately show ?thesis
    using assms unfolding verify_caller_proof_Inr_iff
    by (intro conjI exI [of _ kid] exI [of _ "c_sign C sk ?m"] exI [of _ key]) simp_all
qed

lemma caller_signed_packet_proof: "zp_proof (caller_signed_packet C kid sk p) \<noteq> []"
  by (simp add: caller_signed_packet_def encode_caller_proof_def CALLER_PROOF_VERSION_def as_bytes_def)

lemma production_verification_succeeds:
  assumes "signing_correct C" and now: "\<not> is_clock_read_failure now"
    and key: "CallerKeyRegistry_get registry kid = Some key" "caller_ensure_active_at key now = Inr ()"
      "ck_public_key key = c_public C sk" "0 < length kid" "length kid \<le> MAX_CALLER_KEY_ID_LEN" "str_ok kid"
    and d: "manifest_lookup m (zp_opcode p) = Inr d" "\<not> prototype_descriptor d"
      "reject_descriptor_only_runtime_evidence_gap d = Inr ()" "reject_over_disclosed_packet pj p d = Inr ()"
      "\<not> list_ex (starts_with ''required_authority_mode:'') (od_accepted_evidence d)"
    and p: "0 < zp_claim_ttl p" "zp_claim_ttl p \<le> od_max_ttl_seconds d" "zp_session_id p \<noteq> replicate 16 0"
      "bc_packet B (caller_signed_packet C kid sk p) \<noteq> None"
  shows "\<exists>ctx. verify_manifest_operation_for_runtime_with_caller C B pj (caller_signed_packet C kid sk p) m aud now
      ProductionVerified (Some registry) = Inr ctx \<and>
      vc_subject ctx = \<lparr>vs_subject_id = ck_subject_id key, vs_key_id = ck_key_id key\<rparr>"
proof -
  let ?p = "caller_signed_packet C kid sk p"
  have subject: "runtime_subject C ?p now ProductionVerified (Some registry) =
      Inr \<lparr>vs_subject_id = ck_subject_id key, vs_key_id = ck_key_id key\<rparr>"
    using caller_signed_packet_authenticates [OF assms(1) now key] by (simp add: runtime_subject_def)
  have "\<not> list_ex (starts_with ''required_authority_mode:'') (descriptor_evidence_summary d)"
    using d(5) by (simp add: descriptor_evidence_summary_def starts_with_def)
  then have "\<exists>ctx. verified_context_for_descriptor C B ?p d aud
      \<lparr>vs_subject_id = ck_subject_id key, vs_key_id = ck_key_id key\<rparr> (descriptor_evidence_summary d) None now = Inr ctx"
    using p by (auto simp: verified_context_for_descriptor_def verifier_packet_hash_def Let_def)
  then obtain ctx where ctx: "verified_context_for_descriptor C B ?p d aud
      \<lparr>vs_subject_id = ck_subject_id key, vs_key_id = ck_key_id key\<rparr> (descriptor_evidence_summary d) None now = Inr ctx"
    by blast
  moreover have "reject_over_disclosed_packet pj ?p d = Inr ()"
    using d(4) by (simp add: reject_over_disclosed_packet_def)
  moreover have "verify_prototype_envelope ?p = Inr ()"
    using p(1) caller_signed_packet_proof by (auto simp: verify_prototype_envelope_def)
  ultimately have "verify_manifest_operation_for_runtime_with_caller C B pj ?p m aud now
      ProductionVerified (Some registry) = Inr ctx"
    unfolding for_runtime_Inr_iff reject_non_production_Inr_iff using now d subject by auto
  then show ?thesis using verified_context_Inr(10) [OF ctx] by blast
qed

definition sample_node_packet :: ZenithPacket where
  "sample_node_packet = \<lparr>zp_session_id = replicate 16 1, zp_nonce = replicate 12 2, zp_opcode = 0x45,
     zp_proof = [], zp_claim_ttl = 300, zp_encrypted_payload = [], zp_mac = replicate 16 0\<rparr>"

lemma default_v0_node_registration: "manifest_lookup default_v0 0x45 = Inr node_registration_descriptor"
  by (simp add: manifest_lookup_def default_v0_def ReceiverManifest_new_def node_registration_descriptor_def
      NODE_REGISTRATION_OPCODE_def)

lemma node_registration_production:
  "\<not> prototype_descriptor node_registration_descriptor"
  "reject_descriptor_only_runtime_evidence_gap node_registration_descriptor = Inr ()"
  by (simp_all add: prototype_descriptor_def node_registration_descriptor_def starts_with_def
      NODE_REGISTRATION_HANDLER_ID_def NODE_REGISTRATION_OPERATION_def NODE_REGISTRATION_OPCODE_def
      reject_descriptor_only_runtime_evidence_gap_def)

abbreviation sample_callers :: CallerKeyRegistry where
  "sample_callers \<equiv> CallerKeyRegistry_from_keys [CallerKey_active ''k'' ''alice'' [9]]"

lemma sample_caller_key:
  "CallerKeyRegistry_get sample_callers ''k'' = Some (CallerKey_active ''k'' ''alice'' [9])"
  "caller_ensure_active_at (CallerKey_active ''k'' ''alice'' [9]) now = Inr ()"
  "ck_public_key (CallerKey_active ''k'' ''alice'' [9]) = c_public sample_crypto [9]"
  "str_ok ''k''" "length ''k'' \<le> MAX_CALLER_KEY_ID_LEN"
  by (simp_all add: caller_registry.lookup_Some_iff CallerKey_active_def caller_ensure_active_at_def
      sample_crypto_def str_ok_def as_bytes_def byte_of_char_def valid_utf8_ascii MAX_CALLER_KEY_ID_LEN_def)

lemma sample_production_hyps:
  "\<not> is_clock_read_failure (7 :: u64)"
  "manifest_lookup default_v0 (zp_opcode sample_node_packet) = Inr node_registration_descriptor"
  "reject_over_disclosed_packet pj sample_node_packet node_registration_descriptor = Inr ()"
  "\<not> list_ex (starts_with ''required_authority_mode:'') (od_accepted_evidence node_registration_descriptor)"
  "0 < zp_claim_ttl sample_node_packet"
  "zp_claim_ttl sample_node_packet \<le> od_max_ttl_seconds node_registration_descriptor"
  "zp_session_id sample_node_packet \<noteq> replicate 16 0"
  "bc_packet sample_receipt_bincode q \<noteq> None"
  by (simp_all add: is_clock_read_failure_def CLOCK_READ_FAILURE_SENTINEL_def default_v0_node_registration
      sample_node_packet_def reject_over_disclosed_packet_def reject_over_disclosed_payload_def scan_json_bytes_def
      node_registration_descriptor_def starts_with_def NODE_REGISTRATION_MAX_AGE_SECONDS_def
      sample_receipt_bincode_def)

lemma default_production_context:
  assumes "verify_manifest_operation_for_runtime_with_caller C B pj packet default_v0 aud now ProductionVerified callers
    = Inr ctx"
  shows "zp_opcode packet = 0x45 \<and> vc_operation ctx = ''node.registration.v0'' \<and> vc_resource ctx = None"
proof -
  obtain d subject where d: "manifest_lookup default_v0 (zp_opcode packet) = Inr d" "\<not> prototype_descriptor d"
      "reject_descriptor_only_runtime_evidence_gap d = Inr ()"
    and ctx: "verified_context_for_descriptor C B packet d aud subject (descriptor_evidence_summary d) None now = Inr ctx"
    using assms unfolding for_runtime_Inr_iff reject_non_production_Inr_iff by auto
  have op: "od_opcode d = zp_opcode packet"
    using d(1) manifest_lookup_opcode by (simp add: default_v0_def)
  have "d = node_registration_descriptor"
    using default_v0_descriptors [OF d(1)] d(2,3)
    by (auto simp: prototype_descriptor_def legacy_descriptor_def dev_candidate_descriptor_def
        reject_descriptor_only_runtime_evidence_gap_def membership_provision_descriptor_def)
  then show ?thesis
    using op verified_context_Inr(8,9) [OF ctx]
    by (simp add: node_registration_descriptor_def NODE_REGISTRATION_OPCODE_def NODE_REGISTRATION_OPERATION_def)
qed

section \<open>Properties\<close>



text \<open>C19. Production verification succeeds for honest callers: a packet signed by a registered, live caller
  key, for a production operation of the manifest whose evidence needs no separate channel, with a
  lifetime within the operation's bound, a non-zero session and a payload that discloses nothing
  forbidden, is verified, and the context names that caller.\<close>

theorem honest_caller_is_verified:
  assumes "signing_correct C" and "\<not> is_clock_read_failure now"
    and "CallerKeyRegistry_get registry kid = Some key" "caller_ensure_active_at key now = Inr ()"
      "ck_public_key key = c_public C sk" "0 < length kid" "length kid \<le> MAX_CALLER_KEY_ID_LEN" "str_ok kid"
    and "manifest_lookup m (zp_opcode p) = Inr d" "\<not> prototype_descriptor d"
      "reject_descriptor_only_runtime_evidence_gap d = Inr ()" "reject_over_disclosed_packet pj p d = Inr ()"
      "\<not> list_ex (starts_with ''required_authority_mode:'') (od_accepted_evidence d)"
    and "0 < zp_claim_ttl p" "zp_claim_ttl p \<le> od_max_ttl_seconds d" "zp_session_id p \<noteq> replicate 16 0"
      "bc_packet B (caller_signed_packet C kid sk p) \<noteq> None"
  shows "\<exists>ctx. verify_manifest_operation_for_runtime_with_caller C B pj (caller_signed_packet C kid sk p) m aud now
      ProductionVerified (Some registry) = Inr ctx \<and>
      vc_subject ctx = \<lparr>vs_subject_id = ck_subject_id key, vs_key_id = ck_key_id key\<rparr>"
  using assms by (rule production_verification_succeeds)

theorem honest_caller_is_verified_witness:
  "\<exists>ctx. verify_manifest_operation_for_runtime_with_caller sample_crypto sample_receipt_bincode (\<lambda>_. None)
      (caller_signed_packet sample_crypto ''k'' [9] sample_node_packet) default_v0 ''rcv'' 7 ProductionVerified
      (Some sample_callers) = Inr ctx \<and> vc_subject ctx = \<lparr>vs_subject_id = ''alice'', vs_key_id = ''k''\<rparr>"
  using honest_caller_is_verified [OF sample_crypto_correct sample_production_hyps(1) sample_caller_key(1,2,3)
      _ sample_caller_key(5,4) sample_production_hyps(2) node_registration_production sample_production_hyps(3-8)]
  by (simp add: CallerKey_active_def)

text \<open>C20. Lifetimes stay within the operation's bound, without wrap-around: a verified context expires at
  its issue time plus the packet's lifetime, capped at the largest 64-bit number, the lifetime is positive
  and at most the descriptor's maximum, and a failed clock read never yields a context.\<close>

theorem context_lifetime_bounded:
  "case verify_manifest_operation_for_runtime_with_caller C B pj packet m aud now mode callers of
     Inl e \<Rightarrow> (if is_clock_read_failure now then e = ExpiredClaim else True)
   | Inr ctx \<Rightarrow> \<not> is_clock_read_failure now \<and> (\<exists>d. manifest_lookup m (zp_opcode packet) = Inr d \<and>
       vc_issued_at ctx = now \<and> 0 < zp_claim_ttl packet \<and>
       unat (vc_expires_at ctx) = min (unat now + unat (zp_claim_ttl packet)) u64_max \<and>
       unat (vc_expires_at ctx) \<le> unat now + unat (od_max_ttl_seconds d) \<and> now \<le> vc_expires_at ctx)"
proof (cases "verify_manifest_operation_for_runtime_with_caller C B pj packet m aud now mode callers")
  case (Inl e)
  then show ?thesis by (auto simp: verify_manifest_operation_for_runtime_with_caller_def)
next
  case (Inr ctx)
  then obtain d subject where now: "\<not> is_clock_read_failure now" and d: "manifest_lookup m (zp_opcode packet) = Inr d"
    and env: "verify_prototype_envelope packet = Inr ()"
    and ctx: "verified_context_for_descriptor C B packet d aud subject (descriptor_evidence_summary d) None now = Inr ctx"
    by (auto simp: for_runtime_Inr_iff)
  note c = verified_context_Inr [OF ctx]
  have "0 < zp_claim_ttl packet"
    using env by (auto simp: verify_prototype_envelope_def word_gt_0 split: if_splits)
  moreover have "unat (zp_claim_ttl packet) \<le> unat (od_max_ttl_seconds d)" using c(1) by (simp add: word_le_nat_alt)
  moreover have "unat (vc_expires_at ctx) = min (unat now + unat (zp_claim_ttl packet)) u64_max"
    by (simp add: c(13) unat_saturating_add)
  moreover have "now \<le> vc_expires_at ctx" by (simp add: c(13) saturating_add_ge)
  ultimately show ?thesis using now d c(12) by (simp add: Inr)
qed

text \<open>With the built-in manifest, production mode verifies one operation only: every packet for any
  opcode other than the node registration's is refused, whoever sends it.\<close>

theorem default_manifest_production_surface:
  "case verify_manifest_operation_for_runtime_with_caller C B pj packet default_v0 aud now ProductionVerified callers of
     Inl _ \<Rightarrow> True
   | Inr ctx \<Rightarrow> zp_opcode packet = 0x45 \<and> vc_operation ctx = ''node.registration.v0'' \<and> vc_resource ctx = None"
  by (auto split: sum.split dest: default_production_context)

end
