(* ===== verification/Evidence.thy ===== *)
theory Evidence
  imports Dregg_Authority Verifier
begin

text \<open>
  The evidence boundary (\<^verbatim>\<open>server/src/evidence.rs\<close>): evidence kinds and their maturity, requests and
  summaries, the receiver-held issuer registry, the adapters (federated credentials, local grants, wallet
  presentations, authority grants with their live verifiers, authority snapshots, Dregg-shaped receipts and
  their composition), and the evidence-backed entry points of \<^verbatim>\<open>server/src/verifier.rs\<close>. An adapter is its
  kind and its verification function, as the trait has them; \<^verbatim>\<open>EvidenceResult\<close> is a result with the
  summary as its value.
\<close>

section \<open>Kinds, tiers and maturity\<close>

datatype EvidenceKind =
    PrototypeProofEnvelope | LocalStatic | WalletPresentation | MembershipCredential
  | ProvisioningCredential | MidnightProof | DreggReceipt | DreggAuthority | CardanoSettlement

definition EvidenceKind_as_str :: "EvidenceKind \<Rightarrow> string" where
  "EvidenceKind_as_str k = (case k of
       PrototypeProofEnvelope \<Rightarrow> ''prototype-proof-envelope''
     | LocalStatic \<Rightarrow> ''local_static''
     | WalletPresentation \<Rightarrow> ''wallet_presentation''
     | MembershipCredential \<Rightarrow> ''membership_credential''
     | ProvisioningCredential \<Rightarrow> ''provisioning_credential''
     | MidnightProof \<Rightarrow> ''midnight_proof''
     | DreggReceipt \<Rightarrow> ''dregg_receipt''
     | DreggAuthority \<Rightarrow> ''dregg_authority''
     | CardanoSettlement \<Rightarrow> ''cardano_settlement'')"

definition from_label :: "string \<Rightarrow> EvidenceKind option" where
  "from_label label =
     (if label = ''prototype-proof-envelope'' then Some PrototypeProofEnvelope
      else if label = ''local_static'' then Some LocalStatic
      else if label = ''wallet_presentation'' then Some WalletPresentation
      else if label = ''membership_credential'' then Some MembershipCredential
      else if label = ''provisioning_credential'' then Some ProvisioningCredential
      else if label = ''midnight_proof'' then Some MidnightProof
      else if label = ''dregg_receipt'' then Some DreggReceipt
      else if label = ''dregg_authority'' then Some DreggAuthority
      else if label = ''cardano_settlement'' then Some CardanoSettlement
      else None)"

datatype EvidenceTier =
    ShapeOnly | LocalVerified | SignedSourceTier | FederationCheckpointTier | SuccinctProof
  | RecursiveProofCarryingStateTier

text \<open>The derived order of the tiers is the order of their declaration.\<close>

definition tier_rank :: "EvidenceTier \<Rightarrow> nat" where
  "tier_rank t = (case t of
       ShapeOnly \<Rightarrow> 0 | LocalVerified \<Rightarrow> 1 | SignedSourceTier \<Rightarrow> 2 | FederationCheckpointTier \<Rightarrow> 3
     | SuccinctProof \<Rightarrow> 4 | RecursiveProofCarryingStateTier \<Rightarrow> 5)"

lemma tier_rank_inj: "tier_rank a = tier_rank b \<Longrightarrow> a = b"
  by (cases a; cases b) (simp_all add: tier_rank_def)

instantiation EvidenceTier :: linorder
begin

definition less_eq_EvidenceTier :: "EvidenceTier \<Rightarrow> EvidenceTier \<Rightarrow> bool" where
  "less_eq_EvidenceTier a b \<longleftrightarrow> tier_rank a \<le> tier_rank b"

definition less_EvidenceTier :: "EvidenceTier \<Rightarrow> EvidenceTier \<Rightarrow> bool" where
  "less_EvidenceTier a b \<longleftrightarrow> tier_rank a < tier_rank b"

instance
  by standard (auto simp: less_eq_EvidenceTier_def less_EvidenceTier_def intro: tier_rank_inj)

end

definition EvidenceTier_as_str :: "EvidenceTier \<Rightarrow> string" where
  "EvidenceTier_as_str t = (case t of
       ShapeOnly \<Rightarrow> ''shape_only''
     | LocalVerified \<Rightarrow> ''local_verified''
     | SignedSourceTier \<Rightarrow> ''signed_source''
     | FederationCheckpointTier \<Rightarrow> ''federation_checkpoint''
     | SuccinctProof \<Rightarrow> ''succinct_proof''
     | RecursiveProofCarryingStateTier \<Rightarrow> ''recursive_proof_carrying_state'')"

definition EvidenceTier_from_str :: "string \<Rightarrow> VerificationError + EvidenceTier" where
  "EvidenceTier_from_str value =
     (if value = ''shape_only'' then Inr ShapeOnly
      else if value = ''local_verified'' then Inr LocalVerified
      else if value = ''signed_source'' then Inr SignedSourceTier
      else if value = ''federation_checkpoint'' then Inr FederationCheckpointTier
      else if value = ''succinct_proof'' then Inr SuccinctProof
      else if value = ''recursive_proof_carrying_state'' then Inr RecursiveProofCarryingStateTier
      else Inl (EvidenceErr UnsupportedEvidenceTier))"

datatype EvidenceSupportStatus = Supported | LocalDev | Fixture | ReservedUnsupported | UnknownUnsupported

definition EvidenceSupportStatus_as_str :: "EvidenceSupportStatus \<Rightarrow> string" where
  "EvidenceSupportStatus_as_str s = (case s of
       Supported \<Rightarrow> ''supported''
     | LocalDev \<Rightarrow> ''local_dev''
     | Fixture \<Rightarrow> ''fixture''
     | ReservedUnsupported \<Rightarrow> ''reserved_unsupported''
     | UnknownUnsupported \<Rightarrow> ''unknown_unsupported'')"

definition is_supported :: "EvidenceSupportStatus \<Rightarrow> bool" where
  "is_supported s = (case s of Supported \<Rightarrow> True | LocalDev \<Rightarrow> True | Fixture \<Rightarrow> True | _ \<Rightarrow> False)"

definition EvidenceSupportStatus_from_str :: "string \<Rightarrow> VerificationError + EvidenceSupportStatus" where
  "EvidenceSupportStatus_from_str value =
     (if value = ''supported'' then Inr Supported
      else if value = ''local_dev'' then Inr LocalDev
      else if value = ''fixture'' then Inr Fixture
      else if value = ''reserved_unsupported'' then Inr ReservedUnsupported
      else if value = ''unknown_unsupported'' then Inr UnknownUnsupported
      else Inl (EvidenceErr UnsupportedEvidenceTier))"

record EvidenceMaturityProfile =
  mp_tier :: EvidenceTier
  mp_support_status :: EvidenceSupportStatus

definition maturity_profile :: "EvidenceKind \<Rightarrow> EvidenceMaturityProfile" where
  "maturity_profile k = (case k of
       PrototypeProofEnvelope \<Rightarrow> \<lparr>mp_tier = ShapeOnly, mp_support_status = LocalDev\<rparr>
     | LocalStatic \<Rightarrow> \<lparr>mp_tier = LocalVerified, mp_support_status = LocalDev\<rparr>
     | WalletPresentation \<Rightarrow> \<lparr>mp_tier = LocalVerified, mp_support_status = LocalDev\<rparr>
     | DreggReceipt \<Rightarrow> \<lparr>mp_tier = LocalVerified, mp_support_status = LocalDev\<rparr>
     | MembershipCredential \<Rightarrow> \<lparr>mp_tier = SignedSourceTier, mp_support_status = Fixture\<rparr>
     | ProvisioningCredential \<Rightarrow> \<lparr>mp_tier = SignedSourceTier, mp_support_status = Fixture\<rparr>
     | DreggAuthority \<Rightarrow> \<lparr>mp_tier = SignedSourceTier, mp_support_status = Fixture\<rparr>
     | CardanoSettlement \<Rightarrow> \<lparr>mp_tier = FederationCheckpointTier, mp_support_status = ReservedUnsupported\<rparr>
     | MidnightProof \<Rightarrow> \<lparr>mp_tier = SuccinctProof, mp_support_status = ReservedUnsupported\<rparr>)"

definition supported_for_policy :: "EvidenceMaturityProfile \<Rightarrow> EvidenceTier \<Rightarrow> VerificationError + unit" where
  "supported_for_policy p required_tier =
     (if \<not> is_supported (mp_support_status p) then Inl (EvidenceErr UnsupportedEvidenceTier)
      else if mp_tier p < required_tier then Inl (EvidenceErr EvidenceTierTooWeak)
      else Inr ())"

section \<open>Hashed references\<close>

definition redacted_reference_field :: "crypto \<Rightarrow> string \<Rightarrow> string \<Rightarrow> string" where
  "redacted_reference_field C name value = name @ ''_sha256:'' @ hex_lower (c_sha256 C (as_bytes value))"

definition stable_prefixed_hash :: "crypto \<Rightarrow> string \<Rightarrow> string \<Rightarrow> string" where
  "stable_prefixed_hash C pre value = pre @ '':sha256:'' @ hex_lower (c_sha256 C (as_bytes value))"

definition public_key_ref_for_bytes :: "crypto \<Rightarrow> bytes \<Rightarrow> string" where
  "public_key_ref_for_bytes C key = ''pubkey:sha256:'' @ hex_lower (c_sha256 C key)"

definition public_key_ref_for_hex :: "crypto \<Rightarrow> string \<Rightarrow> string" where
  "public_key_ref_for_hex C hex = ''dregg-issuer-pubkey:sha256:'' @ hex_lower (c_sha256 C (as_bytes hex))"

text \<open>The checked form of an Ed25519 verification: key and signature must have the right lengths; the
  parameter \<open>c_verify\<close> also refuses 32 bytes that are no public key.\<close>

definition verify_ed25519_signature :: "crypto \<Rightarrow> bytes \<Rightarrow> bytes \<Rightarrow> bytes \<Rightarrow> bool" where
  "verify_ed25519_signature C public_key signature_bytes message =
     (if length public_key \<noteq> 32 then False
      else case signature_from_slice signature_bytes of
          None \<Rightarrow> False
        | Some signature \<Rightarrow> c_verify C public_key message signature)"

section \<open>Requests and summaries\<close>

record EvidenceInputs =
  ei_evidence_refs :: "string list"
  ei_public_inputs :: "string list"

fun dedup :: "string list \<Rightarrow> string list \<Rightarrow> string list" where
  "dedup deduped [] = deduped"
| "dedup deduped (r # rs) = dedup (if r \<in> set deduped then deduped else deduped @ [r]) rs"

definition EvidenceInputs_new :: "string list \<Rightarrow> string list \<Rightarrow> EvidenceInputs" where
  "EvidenceInputs_new evidence_refs public_inputs =
     \<lparr>ei_evidence_refs = dedup [] evidence_refs, ei_public_inputs = public_inputs\<rparr>"

record EvidenceRequest =
  rq_accepted_evidence :: "string list"
  rq_subject :: string
  rq_audience :: string
  rq_operation :: string
  rq_resource :: "string option"
  rq_evidence_refs :: "string list"
  rq_public_inputs :: "string list"
  rq_trusted_requested_resource :: "string option"

record EvidenceSummary =
  es_kind :: EvidenceKind
  es_subject :: string
  es_audience :: string
  es_operation :: string
  es_resource :: "string option"
  es_local_dev_test_only :: bool
  es_public_proof :: bool
  es_summary_fields :: "string list"

type_synonym EvidenceResult = "VerificationError + EvidenceSummary"

record EvidenceAdapter =
  ea_kind :: EvidenceKind
  ea_verify :: "EvidenceRequest \<Rightarrow> EvidenceResult"

definition from_descriptor_with_refs ::
  "OperationDescriptor \<Rightarrow> string \<Rightarrow> string \<Rightarrow> string list \<Rightarrow> EvidenceRequest" where
  "from_descriptor_with_refs d subject audience evidence_refs =
     \<lparr>rq_accepted_evidence = od_accepted_evidence d, rq_subject = subject, rq_audience = audience,
      rq_operation = od_name d, rq_resource = od_payload_schema d, rq_evidence_refs = evidence_refs,
      rq_public_inputs = [''opcode:'' @ hex_byte (od_opcode d), ''handler_id:'' @ od_handler_id d],
      rq_trusted_requested_resource = None\<rparr>"

definition from_descriptor ::
  "OperationDescriptor \<Rightarrow> string \<Rightarrow> string \<Rightarrow> string option \<Rightarrow> EvidenceRequest" where
  "from_descriptor d subject audience evidence_ref =
     from_descriptor_with_refs d subject audience (case evidence_ref of None \<Rightarrow> [] | Some r \<Rightarrow> [r])"

definition accepts :: "EvidenceRequest \<Rightarrow> EvidenceKind \<Rightarrow> bool" where
  "accepts r k \<longleftrightarrow> EvidenceKind_as_str k \<in> set (rq_accepted_evidence r)"

fun required_profile_loop ::
  "EvidenceTier \<Rightarrow> EvidenceSupportStatus \<Rightarrow> string list \<Rightarrow> VerificationError + EvidenceMaturityProfile" where
  "required_profile_loop tier status [] = Inr \<lparr>mp_tier = tier, mp_support_status = status\<rparr>"
| "required_profile_loop tier status (required # rest) = (case from_label required of
       None \<Rightarrow> Inl (EvidenceErr UnsupportedEvidenceKind)
     | Some kind \<Rightarrow>
         (let profile = maturity_profile kind in
          if \<not> is_supported (mp_support_status profile) then Inl (EvidenceErr UnsupportedEvidenceKind)
          else if tier < mp_tier profile
          then required_profile_loop (mp_tier profile) (mp_support_status profile) rest
          else required_profile_loop tier status rest))"

definition required_maturity_profile :: "EvidenceRequest \<Rightarrow> VerificationError + EvidenceMaturityProfile" where
  "required_maturity_profile r = required_profile_loop ShapeOnly Supported (rq_accepted_evidence r)"

definition validate_satisfied_summary :: "EvidenceRequest \<Rightarrow> EvidenceSummary \<Rightarrow> VerificationError + unit" where
  "validate_satisfied_summary r summary =
     rbind (required_maturity_profile r) (\<lambda>required.
       let accepted = maturity_profile (es_kind summary) in
       if \<not> is_supported (mp_support_status accepted) then Inl (EvidenceErr UnsupportedEvidenceKind)
       else supported_for_policy accepted (mp_tier required))"

definition resource_field :: "string option \<Rightarrow> string list" where
  "resource_field r = (case r of None \<Rightarrow> [] | Some resource \<Rightarrow> [''resource:'' @ resource])"

definition to_context_fields :: "EvidenceSummary \<Rightarrow> string list" where
  "to_context_fields s =
     (let profile = maturity_profile (es_kind s) in
      [''evidence_kind:'' @ EvidenceKind_as_str (es_kind s),
       ''accepted_evidence_tier:'' @ EvidenceTier_as_str (mp_tier profile),
       ''evidence_support_status:'' @ EvidenceSupportStatus_as_str (mp_support_status profile),
       ''subject:[redacted]'', ''audience:'' @ es_audience s, ''operation:'' @ es_operation s,
       ''local_dev_test_only:'' @ bool_string (es_local_dev_test_only s),
       ''public_proof:'' @ bool_string (es_public_proof s)]
      @ resource_field (es_resource s) @ es_summary_fields s)"

definition to_context_fields_for_policy :: "EvidenceSummary \<Rightarrow> EvidenceTier \<Rightarrow> string list" where
  "to_context_fields_for_policy s required_tier =
     to_context_fields s @ [''policy_required_evidence_tier:'' @ EvidenceTier_as_str required_tier]"

definition to_policy_scan_fields :: "EvidenceSummary \<Rightarrow> EvidenceTier \<Rightarrow> string list" where
  "to_policy_scan_fields s required_tier =
     (let profile = maturity_profile (es_kind s) in
      [''evidence_kind:'' @ EvidenceKind_as_str (es_kind s),
       ''accepted_evidence_tier:'' @ EvidenceTier_as_str (mp_tier profile),
       ''evidence_support_status:'' @ EvidenceSupportStatus_as_str (mp_support_status profile),
       ''subject:'' @ es_subject s, ''audience:'' @ es_audience s, ''operation:'' @ es_operation s,
       ''local_dev_test_only:'' @ bool_string (es_local_dev_test_only s),
       ''public_proof:'' @ bool_string (es_public_proof s),
       ''policy_required_evidence_tier:'' @ EvidenceTier_as_str required_tier]
      @ resource_field (es_resource s) @ es_summary_fields s)"

definition requested_origin :: "EvidenceRequest \<Rightarrow> string option" where
  "requested_origin r = find_map (strip_prefix ''origin:'') (rq_public_inputs r)"

text \<open>The search every adapter starts with: the first evidence reference for which it holds an entry, with
  the first such entry.\<close>

definition find_by_ref :: "('a \<Rightarrow> string) \<Rightarrow> 'a list \<Rightarrow> string list \<Rightarrow> (string \<times> 'a) option" where
  "find_by_ref ref entries refs =
     find_map (\<lambda>r. map_option (\<lambda>x. (r, x)) (find (\<lambda>x. ref x = r) entries)) refs"

section \<open>Trusted issuers and federated credentials\<close>

datatype TrustedIssuerStatus = IssuerActive | IssuerRevoked

record TrustedIssuerEntry =
  ti_issuer_id :: string
  ti_issuer_key_id :: string
  ti_public_key_bytes :: bytes
  ti_trust_root_ref :: string
  ti_registry_root_ref :: string
  ti_accepted_evidence :: "EvidenceKind list"
  ti_accepted_audiences :: "string list"
  ti_accepted_operations :: "string list"
  ti_accepted_resources :: "string list"
  ti_status :: TrustedIssuerStatus
  ti_not_before :: u64
  ti_not_after :: u64
  ti_registry_status_ref :: string

record TrustedIssuerRegistry =
  tr_entries :: "TrustedIssuerEntry list"

fun check_issuers :: "string set \<Rightarrow> string set \<Rightarrow> TrustedIssuerEntry list \<Rightarrow> bool" where
  "check_issuers ids key_ids [] = True"
| "check_issuers ids key_ids (e # es) =
     (ti_issuer_id e \<noteq> [] \<and> ti_issuer_key_id e \<noteq> [] \<and> length (ti_public_key_bytes e) = 32
      \<and> ti_trust_root_ref e \<noteq> [] \<and> ti_registry_root_ref e \<noteq> []
      \<and> ti_issuer_id e \<notin> ids \<and> ti_issuer_key_id e \<notin> key_ids
      \<and> check_issuers (insert (ti_issuer_id e) ids) (insert (ti_issuer_key_id e) key_ids) es)"

definition TrustedIssuerRegistry_new :: "TrustedIssuerEntry list \<Rightarrow> VerificationError + TrustedIssuerRegistry" where
  "TrustedIssuerRegistry_new entries =
     (if check_issuers {} {} entries then Inr \<lparr>tr_entries = entries\<rparr> else Inl InvalidPresentation)"

definition trusted_issuers_from_json_str ::
  "(string \<Rightarrow> TrustedIssuerEntry list option) \<Rightarrow> string \<Rightarrow> VerificationError + TrustedIssuerRegistry" where
  "trusted_issuers_from_json_str parse text =
     (if trim text = [] then Inl InvalidPresentation
      else rbind (ok_or InvalidPresentation (parse text)) TrustedIssuerRegistry_new)"

definition lookup_active ::
  "TrustedIssuerRegistry \<Rightarrow> string \<Rightarrow> string \<Rightarrow> string \<Rightarrow> string \<Rightarrow> EvidenceKind \<Rightarrow> string \<Rightarrow> string \<Rightarrow> string \<Rightarrow> u64 \<Rightarrow>
     VerificationError + TrustedIssuerEntry" where
  "lookup_active reg issuer_id issuer_key_id trust_root_ref registry_root_ref evidence_kind audience operation
       resource validation_time =
     rbind (ok_or UnknownIssuer (find (\<lambda>e. ti_issuer_id e = issuer_id) (tr_entries reg))) (\<lambda>e.
       if ti_issuer_key_id e \<noteq> issuer_key_id then Inl WrongIssuerKey
       else if ti_trust_root_ref e \<noteq> trust_root_ref then Inl (AuthorityErr WrongTrustRoot)
       else if ti_registry_root_ref e \<noteq> registry_root_ref then Inl (AuthorityErr WrongRegistryRoot)
       else if ti_status e \<noteq> IssuerActive then Inl (EvidenceErr RevokedIssuer)
       else if validation_time < ti_not_before e then Inl (KeyErr NotYetValidVerifierKey)
       else if ti_not_after e < validation_time then Inl (KeyErr ExpiredVerifierKey)
       else if evidence_kind \<notin> set (ti_accepted_evidence e) \<or> audience \<notin> set (ti_accepted_audiences e)
         \<or> operation \<notin> set (ti_accepted_operations e) \<or> resource \<notin> set (ti_accepted_resources e)
       then Inl InsufficientEvidence
       else Inr e)"

datatype FederatedCredentialStatus = CredentialActive | CredentialRevoked

definition credential_status_name :: "FederatedCredentialStatus \<Rightarrow> string" where
  "credential_status_name s = (case s of CredentialActive \<Rightarrow> ''active'' | CredentialRevoked \<Rightarrow> ''revoked'')"

record SecsFederatedCredential =
  fc_credential_id :: string
  fc_kind :: EvidenceKind
  fc_subject :: string
  fc_audience :: string
  fc_origin :: "string option"
  fc_operation :: string
  fc_resource :: string
  fc_issuer_id :: string
  fc_issuer_key_id :: string
  fc_trust_root_ref :: string
  fc_registry_root_ref :: string
  fc_issued_at :: u64
  fc_expires_at :: u64
  fc_status :: FederatedCredentialStatus
  fc_status_ref :: string
  fc_signature_suite :: string

definition ED25519_SIGNATURE_SUITE :: string where
  "ED25519_SIGNATURE_SUITE = ''Ed25519''"

text \<open>Signed bytes: a version line, then one \<open>name:length:value\<close> line per field.\<close>

definition canonical_lines :: "string \<Rightarrow> (string \<times> string) list \<Rightarrow> bytes" where
  "canonical_lines version fs = as_bytes version @ [10] @ concat (map (\<lambda>(name, v). named_field name (as_bytes v)) fs)"

definition credential_fields :: "SecsFederatedCredential \<Rightarrow> (string \<times> string) list" where
  "credential_fields c =
     [(''credential_id'', fc_credential_id c), (''kind'', EvidenceKind_as_str (fc_kind c)),
      (''subject'', fc_subject c), (''audience'', fc_audience c),
      (''origin'', case fc_origin c of None \<Rightarrow> '''' | Some orig \<Rightarrow> orig),
      (''operation'', fc_operation c), (''resource'', fc_resource c), (''issuer_id'', fc_issuer_id c),
      (''issuer_key_id'', fc_issuer_key_id c), (''trust_root_ref'', fc_trust_root_ref c),
      (''registry_root_ref'', fc_registry_root_ref c), (''issued_at'', dec_string (unat (fc_issued_at c))),
      (''expires_at'', dec_string (unat (fc_expires_at c))), (''status'', credential_status_name (fc_status c)),
      (''status_ref'', fc_status_ref c), (''signature_suite'', fc_signature_suite c)]"

definition credential_canonical_bytes :: "SecsFederatedCredential \<Rightarrow> bytes" where
  "credential_canonical_bytes c = canonical_lines ''secs-federated-credential-v1'' (credential_fields c)"

record FederatedCredentialFixture =
  ff_evidence_ref :: string
  ff_credential :: "SecsFederatedCredential option"
  ff_embedded_issuer_public_key_bytes :: bytes
  ff_signature_bytes :: bytes

definition credential_summary :: "crypto \<Rightarrow> string \<Rightarrow> SecsFederatedCredential \<Rightarrow> EvidenceSummary" where
  "credential_summary C evidence_ref c =
     \<lparr>es_kind = fc_kind c, es_subject = ''[redacted]'', es_audience = fc_audience c,
      es_operation = fc_operation c, es_resource = Some (fc_resource c),
      es_local_dev_test_only = False, es_public_proof = True,
      es_summary_fields =
        [redacted_reference_field C ''evidence_ref'' evidence_ref,
         redacted_reference_field C ''credential_id'' (fc_credential_id c),
         ''credential_kind:'' @ EvidenceKind_as_str (fc_kind c), ''issuer_id:'' @ fc_issuer_id c,
         ''issuer_key_id:'' @ fc_issuer_key_id c, ''trust_root_ref:'' @ fc_trust_root_ref c,
         ''registry_root_ref:'' @ fc_registry_root_ref c, ''status:'' @ credential_status_name (fc_status c),
         redacted_reference_field C ''status_ref'' (fc_status_ref c),
         ''issued_at:'' @ dec_string (unat (fc_issued_at c)),
         ''expires_at:'' @ dec_string (unat (fc_expires_at c)),
         ''signature_suite:'' @ fc_signature_suite c, ''proof:redacted_ed25519_signature'']\<rparr>"

definition federated_verify ::
  "crypto \<Rightarrow> FederatedCredentialFixture list \<Rightarrow> TrustedIssuerRegistry \<Rightarrow> u64 \<Rightarrow> EvidenceRequest \<Rightarrow> EvidenceResult" where
  "federated_verify C credentials registry validation_time request =
     rbind (ok_or InsufficientEvidence (find_by_ref ff_evidence_ref credentials (rq_evidence_refs request)))
       (\<lambda>(evidence_ref, fixture).
     rbind (ok_or InvalidPresentation (ff_credential fixture)) (\<lambda>c.
       if \<not> accepts request (fc_kind c) then Inl InsufficientEvidence
       else if fc_kind c \<noteq> MembershipCredential \<and> fc_kind c \<noteq> ProvisioningCredential
       then Inl InsufficientEvidence
       else if fc_subject c \<noteq> rq_subject request then Inl WrongSubject
       else if fc_audience c \<noteq> rq_audience request then Inl WrongAudience
       else if fc_operation c \<noteq> rq_operation request then Inl WrongOperation
       else if (case rq_resource request of None \<Rightarrow> '''' | Some r \<Rightarrow> r) \<noteq> fc_resource c then Inl WrongResource
       else if (case requested_origin request of None \<Rightarrow> False | Some orig \<Rightarrow> fc_origin c \<noteq> Some orig)
       then Inl WrongOrigin
       else if fc_signature_suite c \<noteq> ED25519_SIGNATURE_SUITE then Inl UnsupportedSignatureSuite
       else if validation_time < fc_issued_at c then Inl NotYetValidClaim
       else if fc_expires_at c \<le> validation_time then Inl ExpiredClaim
       else if fc_status c \<noteq> CredentialActive then Inl (EvidenceErr RevokedCredential)
       else rbind (lookup_active registry (fc_issuer_id c) (fc_issuer_key_id c) (fc_trust_root_ref c)
           (fc_registry_root_ref c) (fc_kind c) (fc_audience c) (fc_operation c) (fc_resource c)
           validation_time) (\<lambda>entry.
         if ff_embedded_issuer_public_key_bytes fixture \<noteq> ti_public_key_bytes entry then Inl WrongIssuerKey
         else if \<not> verify_ed25519_signature C (ti_public_key_bytes entry) (ff_signature_bytes fixture)
             (credential_canonical_bytes c)
         then Inl InvalidSignature
         else Inr (credential_summary C evidence_ref c))))"

definition FederatedCredentialAdapter ::
  "crypto \<Rightarrow> FederatedCredentialFixture list \<Rightarrow> TrustedIssuerRegistry \<Rightarrow> u64 \<Rightarrow> EvidenceAdapter" where
  "FederatedCredentialAdapter C credentials registry validation_time =
     \<lparr>ea_kind = MembershipCredential, ea_verify = federated_verify C credentials registry validation_time\<rparr>"

section \<open>Composition of adapters\<close>

fun composite_summaries ::
  "(EvidenceRequest \<Rightarrow> EvidenceResult) list \<Rightarrow> EvidenceRequest \<Rightarrow> VerificationError + EvidenceSummary list" where
  "composite_summaries [] request = Inr []"
| "composite_summaries (verify # rest) request = (case verify request of
       Inr summary \<Rightarrow> rbind (composite_summaries rest request) (\<lambda>ss. Inr (summary # ss))
     | Inl e \<Rightarrow> if e = InsufficientEvidence \<or> e = InvalidPresentation
                then composite_summaries rest request else Inl e)"

definition locked_resource :: "EvidenceSummary \<Rightarrow> string option" where
  "locked_resource s =
     (if es_kind s = DreggAuthority \<and> ''resource_lock:verified'' \<in> set (es_summary_fields s)
      then es_resource s else None)"

definition composite_verify ::
  "(EvidenceRequest \<Rightarrow> EvidenceResult) list \<Rightarrow> EvidenceRequest \<Rightarrow> EvidenceResult" where
  "composite_verify verifiers request =
     rbind (composite_summaries verifiers request) (\<lambda>summaries.
       if list_ex (\<lambda>required. \<not> list_ex (\<lambda>s. EvidenceKind_as_str (es_kind s) = required) summaries)
            (rq_accepted_evidence request)
       then Inl InsufficientEvidence
       else Inr \<lparr>es_kind = (if summaries = [] then MembershipCredential else es_kind (last summaries)),
                 es_subject = ''[redacted]'', es_audience = rq_audience request,
                 es_operation = rq_operation request, es_resource = find_map locked_resource summaries,
                 es_local_dev_test_only = list_ex es_local_dev_test_only summaries,
                 es_public_proof = list_all es_public_proof summaries,
                 es_summary_fields = concat (map to_context_fields summaries)\<rparr>)"

definition CompositeEvidenceAdapter :: "EvidenceAdapter list \<Rightarrow> EvidenceAdapter" where
  "CompositeEvidenceAdapter adapters =
     \<lparr>ea_kind = MembershipCredential, ea_verify = composite_verify (map ea_verify adapters)\<rparr>"

section \<open>Local grants and wallet presentations\<close>

record LocalStaticGrant =
  lg_subject :: string
  lg_audience :: string
  lg_operation :: string
  lg_resource :: "string option"
  lg_evidence_ref :: string

definition local_static_verify :: "crypto \<Rightarrow> LocalStaticGrant list \<Rightarrow> EvidenceRequest \<Rightarrow> EvidenceResult" where
  "local_static_verify C grants request =
     (if \<not> accepts request LocalStatic then Inl InsufficientEvidence
      else case rq_evidence_refs request of
          [] \<Rightarrow> Inl InsufficientEvidence
        | evidence_ref # _ \<Rightarrow>
            rbind (ok_or InsufficientEvidence (find (\<lambda>g. lg_evidence_ref g = evidence_ref) grants)) (\<lambda>grant.
              if lg_subject grant \<noteq> rq_subject request then Inl WrongSubject
              else if lg_audience grant \<noteq> rq_audience request then Inl WrongAudience
              else if lg_operation grant \<noteq> rq_operation request then Inl InsufficientEvidence
              else if lg_resource grant \<noteq> rq_resource request then Inl InsufficientEvidence
              else Inr \<lparr>es_kind = LocalStatic, es_subject = ''[redacted]'', es_audience = rq_audience request,
                        es_operation = rq_operation request, es_resource = rq_resource request,
                        es_local_dev_test_only = True, es_public_proof = False,
                        es_summary_fields = [''authority:local_dev_test_only'',
                          redacted_reference_field C ''evidence_ref'' evidence_ref]\<rparr>))"

definition LocalStaticEvidenceAdapter :: "crypto \<Rightarrow> LocalStaticGrant list \<Rightarrow> EvidenceAdapter" where
  "LocalStaticEvidenceAdapter C grants = \<lparr>ea_kind = LocalStatic, ea_verify = local_static_verify C grants\<rparr>"

record WalletPresentationFixture =
  wp_evidence_ref :: string
  wp_subject :: string
  wp_audience :: string
  wp_origin :: string
  wp_operation :: string
  wp_resource :: string
  wp_challenge_ref :: string
  wp_signature_ref :: string
  wp_public_key_ref :: string
  wp_replay_nonce_ref :: string
  wp_issued_at :: u64
  wp_expires_at :: u64
  wp_signature_suite :: string
  wp_public_key_bytes :: bytes
  wp_signature_bytes :: bytes

definition wallet_has_required_shape :: "WalletPresentationFixture \<Rightarrow> bool" where
  "wallet_has_required_shape p \<longleftrightarrow>
     wp_evidence_ref p \<noteq> [] \<and> wp_subject p \<noteq> [] \<and> wp_audience p \<noteq> [] \<and> wp_origin p \<noteq> []
     \<and> wp_operation p \<noteq> [] \<and> wp_resource p \<noteq> [] \<and> wp_challenge_ref p \<noteq> [] \<and> wp_signature_ref p \<noteq> []
     \<and> wp_public_key_ref p \<noteq> [] \<and> wp_replay_nonce_ref p \<noteq> [] \<and> wp_issued_at p < wp_expires_at p
     \<and> wp_signature_suite p \<noteq> [] \<and> length (wp_public_key_bytes p) = 32 \<and> length (wp_signature_bytes p) = 64"

record SecsWalletChallenge =
  wc_subject :: string
  wc_audience :: string
  wc_origin :: string
  wc_operation :: string
  wc_resource :: string
  wc_nonce :: string
  wc_issued_at :: u64
  wc_expires_at :: u64
  wc_signature_suite :: string
  wc_public_key_ref :: string

definition challenge_fields :: "SecsWalletChallenge \<Rightarrow> (string \<times> string) list" where
  "challenge_fields c =
     [(''subject'', wc_subject c), (''audience'', wc_audience c), (''origin'', wc_origin c),
      (''operation'', wc_operation c), (''resource'', wc_resource c), (''nonce'', wc_nonce c),
      (''issued_at'', dec_string (unat (wc_issued_at c))), (''expires_at'', dec_string (unat (wc_expires_at c))),
      (''signature_suite'', wc_signature_suite c), (''public_key_ref'', wc_public_key_ref c)]"

definition challenge_canonical_bytes :: "SecsWalletChallenge \<Rightarrow> bytes" where
  "challenge_canonical_bytes c = canonical_lines ''secs-wallet-challenge-v1'' (challenge_fields c)"

definition wallet_challenge :: "EvidenceRequest \<Rightarrow> WalletPresentationFixture \<Rightarrow> SecsWalletChallenge" where
  "wallet_challenge request p =
     \<lparr>wc_subject = rq_subject request, wc_audience = rq_audience request, wc_origin = wp_origin p,
      wc_operation = rq_operation request, wc_resource = wp_resource p, wc_nonce = wp_replay_nonce_ref p,
      wc_issued_at = wp_issued_at p, wc_expires_at = wp_expires_at p,
      wc_signature_suite = wp_signature_suite p, wc_public_key_ref = wp_public_key_ref p\<rparr>"

definition wallet_verify ::
  "crypto \<Rightarrow> WalletPresentationFixture list \<Rightarrow> u64 option \<Rightarrow> EvidenceRequest \<Rightarrow> EvidenceResult" where
  "wallet_verify C fixtures validation_time request =
     (if \<not> accepts request WalletPresentation then Inl InsufficientEvidence
      else rbind (ok_or InvalidPresentation (find_by_ref wp_evidence_ref fixtures (rq_evidence_refs request)))
        (\<lambda>(evidence_ref, p).
        if wp_subject p \<noteq> rq_subject request then Inl WrongSubject
        else if wp_audience p \<noteq> rq_audience request then Inl WrongAudience
        else if wp_operation p \<noteq> rq_operation request then Inl WrongOperation
        else if wp_resource p \<noteq> (case rq_resource request of None \<Rightarrow> '''' | Some r \<Rightarrow> r) then Inl WrongResource
        else rbind (case requested_origin request of
              None \<Rightarrow> Inl InvalidPresentation
            | Some orig \<Rightarrow> ensure WrongOrigin (orig = wp_origin p)) (\<lambda>_.
          if \<not> wallet_has_required_shape p then Inl InvalidPresentation
          else if wp_public_key_ref p \<noteq> public_key_ref_for_bytes C (wp_public_key_bytes p)
          then Inl InvalidPresentation
          else if wp_signature_suite p \<noteq> ED25519_SIGNATURE_SUITE then Inl UnsupportedSignatureSuite
          else rbind (case validation_time of
                None \<Rightarrow> Inr ()
              | Some now \<Rightarrow> if now < wp_issued_at p then Inl NotYetValidClaim
                  else if wp_expires_at p \<le> now then Inl ExpiredClaim else Inr ()) (\<lambda>_.
            if \<not> verify_ed25519_signature C (wp_public_key_bytes p) (wp_signature_bytes p)
                (challenge_canonical_bytes (wallet_challenge request p))
            then Inl InvalidSignature
            else Inr \<lparr>es_kind = WalletPresentation, es_subject = ''[redacted]'',
                es_audience = rq_audience request, es_operation = rq_operation request,
                es_resource = rq_resource request, es_local_dev_test_only = False, es_public_proof = True,
                es_summary_fields =
                  [redacted_reference_field C ''evidence_ref'' evidence_ref, ''origin:'' @ wp_origin p,
                   ''challenge_ref:'' @ wp_challenge_ref p, ''signature_ref:'' @ wp_signature_ref p,
                   ''public_key_ref:'' @ wp_public_key_ref p, ''replay_nonce_ref:'' @ wp_replay_nonce_ref p,
                   ''issued_at:'' @ dec_string (unat (wp_issued_at p)),
                   ''expires_at:'' @ dec_string (unat (wp_expires_at p)),
                   ''signature_suite:'' @ wp_signature_suite p]\<rparr>))))"

definition WalletPresentationAdapter ::
  "crypto \<Rightarrow> WalletPresentationFixture list \<Rightarrow> u64 \<Rightarrow> EvidenceAdapter" where
  "WalletPresentationAdapter C fixtures validation_time =
     \<lparr>ea_kind = WalletPresentation, ea_verify = wallet_verify C fixtures (Some validation_time)\<rparr>"

section \<open>The contract of an adapter\<close>

text \<open>What the verifier relies on. The summary names the request's audience and operation and no subject;
  the marker of a verified resource lock appears only with the resource that was requested, as read from the
  packet's payload by the verifier itself.\<close>

abbreviation (input) lock_marker :: string where
  "lock_marker \<equiv> ''resource_lock:verified''"

locale evidence_adapter =
  fixes verify :: "EvidenceRequest \<Rightarrow> EvidenceResult"
  assumes binds: "verify r = Inr s \<Longrightarrow>
      es_subject s = ''[redacted]'' \<and> es_audience s = rq_audience r \<and> es_operation s = rq_operation r"
    and locks: "verify r = Inr s \<Longrightarrow> lock_marker \<in> set (es_summary_fields s) \<Longrightarrow>
      \<exists>res. es_resource s = Some res \<and> rq_trusted_requested_resource r = Some res"
begin

lemma no_lock_no_resource_claim:
  "verify r = Inr s \<Longrightarrow> rq_trusted_requested_resource r = None \<Longrightarrow> lock_marker \<notin> set (es_summary_fields s)"
  using locks by fastforce

lemma lock_marker_context_fields:
  "lock_marker \<in> set (to_context_fields_for_policy s tier) \<longleftrightarrow> lock_marker \<in> set (es_summary_fields s)"
  by (auto simp: to_context_fields_for_policy_def to_context_fields_def resource_field_def Let_def
      split: option.splits)

text \<open>So the resource the verifier reads back from the context fields is the requested one, or none.\<close>

lemma context_resource:
  assumes "verify r = Inr s"
  shows "context_resource_from_evidence_summary (to_context_fields_for_policy s tier)
    = (if lock_marker \<notin> set (es_summary_fields s) then Inr None
       else case rq_trusted_requested_resource r of
           None \<Rightarrow> Inl ResourceLockViolation
         | Some res \<Rightarrow> if res = [] then Inl WrongResource else Inr (Some res))"
proof (cases "lock_marker \<in> set (es_summary_fields s)")
  case True
  then obtain res where res: "es_resource s = Some res" "rq_trusted_requested_resource r = Some res"
    using locks [OF assms] by blast
  then have "find_map (strip_prefix ''resource:'') (to_context_fields_for_policy s tier) = Some res"
    by (simp add: to_context_fields_for_policy_def to_context_fields_def resource_field_def Let_def)
  then show ?thesis
    using True res by (simp add: context_resource_from_evidence_summary_def lock_marker_context_fields)
qed (simp add: context_resource_from_evidence_summary_def lock_marker_context_fields)

end

text \<open>A leaf adapter also accounts for its own kind: it is one the request accepts, and only authority
  evidence locks a resource.\<close>

locale leaf_adapter = evidence_adapter +
  assumes accepted: "verify r = Inr s \<Longrightarrow> accepts r (es_kind s)"
    and lock_kind: "verify r = Inr s \<Longrightarrow> lock_marker \<in> set (es_summary_fields s) \<Longrightarrow> es_kind s = DreggAuthority"
begin

lemma locked_resource_iff:
  "verify r = Inr s \<Longrightarrow> lock_marker \<in> set (es_summary_fields s) \<Longrightarrow>
     \<exists>res. locked_resource s = Some res \<and> rq_trusted_requested_resource r = Some res"
  using locks lock_kind by (simp add: locked_resource_def)

end

text \<open>Composition keeps the contract.\<close>

lemma composite_summaries_from:
  "composite_summaries vs r = Inr ss \<Longrightarrow> s \<in> set ss \<Longrightarrow> \<exists>v \<in> set vs. v r = Inr s"
  by (induction vs arbitrary: ss) (auto simp: result_simps split: sum.splits if_splits)

lemma find_map_all_same:
  "(\<And>x y. x \<in> set xs \<Longrightarrow> f x = Some y \<Longrightarrow> y = v) \<Longrightarrow> x \<in> set xs \<Longrightarrow> f x \<noteq> None \<Longrightarrow> find_map f xs = Some v"
  by (induction xs) (auto split: option.splits)

lemma composite_adapter:
  assumes leaves: "\<And>v. v \<in> set vs \<Longrightarrow> leaf_adapter v"
  shows "evidence_adapter (composite_verify vs)"
proof
  fix r s assume s: "composite_verify vs r = Inr s"
  then obtain ss where ss: "composite_summaries vs r = Inr ss"
    and fields: "es_summary_fields s = concat (map to_context_fields ss)"
    and resource: "es_resource s = find_map locked_resource ss"
    by (auto simp: composite_verify_def result_simps)
  show "es_subject s = ''[redacted]'' \<and> es_audience s = rq_audience r \<and> es_operation s = rq_operation r"
    using s by (auto simp: composite_verify_def result_simps)
  assume "lock_marker \<in> set (es_summary_fields s)"
  then obtain x where x: "x \<in> set ss" "lock_marker \<in> set (to_context_fields x)" by (auto simp: fields)
  then have lock: "lock_marker \<in> set (es_summary_fields x)"
    by (auto simp: to_context_fields_def resource_field_def Let_def split: option.splits)
  have each: "\<exists>res. locked_resource y = Some res \<and> rq_trusted_requested_resource r = Some res"
    if "y \<in> set ss" "lock_marker \<in> set (es_summary_fields y)" for y
    using composite_summaries_from [OF ss that(1)] leaf_adapter.locked_resource_iff [OF leaves _ that(2)] by blast
  obtain res where res: "rq_trusted_requested_resource r = Some res" "locked_resource x \<noteq> None"
    using each [OF x(1) lock] by (metis option.distinct(1))
  have "find_map locked_resource ss = Some res"
  proof (rule find_map_all_same [where x = x])
    fix y z assume y: "y \<in> set ss" "locked_resource y = Some z"
    then have "lock_marker \<in> set (es_summary_fields y)" by (auto simp: locked_resource_def split: if_splits)
    from each [OF y(1) this] show "z = res" using y(2) res(1) by auto
  qed (fact x(1), fact res(2))
  then show "\<exists>res. es_resource s = Some res \<and> rq_trusted_requested_resource r = Some res"
    by (simp add: resource res(1))
qed

interpretation federated_adapter: leaf_adapter "federated_verify C credentials registry t"
  for C credentials registry t
  by unfold_locales
    (auto simp: federated_verify_def result_simps credential_summary_def redacted_reference_field_def)

interpretation local_static_adapter: leaf_adapter "local_static_verify C grants" for C grants
  by unfold_locales
    (auto simp: local_static_verify_def result_simps redacted_reference_field_def split: list.splits)

interpretation wallet_adapter: leaf_adapter "wallet_verify C fixtures t" for C fixtures t
  by unfold_locales (auto simp: wallet_verify_def result_simps redacted_reference_field_def)

section \<open>Lemmas\<close>

lemma find_map_Some_in: "find_map f xs = Some y \<Longrightarrow> \<exists>x \<in> set xs. f x = Some y"
  by (induction xs) (auto split: option.splits)

lemma find_by_ref_Some:
  "find_by_ref ref es refs = Some (r, x) \<Longrightarrow> r \<in> set refs \<and> x \<in> set es \<and> ref x = r"
  by (auto simp: find_by_ref_def dest!: find_map_Some_in find_Some_in)

lemma verify_ed25519_signature_iff:
  "verify_ed25519_signature C pk sig m \<longleftrightarrow> length pk = 32 \<and> length sig = 64 \<and> c_verify C pk m sig"
  by (simp add: verify_ed25519_signature_def signature_from_slice_def)

lemma lookup_active_Inr:
  assumes "lookup_active reg iid kid troot rroot kind aud opn res now = Inr e"
  shows "e \<in> set (tr_entries reg) \<and> ti_issuer_id e = iid \<and> ti_issuer_key_id e = kid \<and>
    ti_trust_root_ref e = troot \<and> ti_registry_root_ref e = rroot \<and> ti_status e = IssuerActive \<and>
    now \<in> {ti_not_before e .. ti_not_after e} \<and> kind \<in> set (ti_accepted_evidence e) \<and>
    aud \<in> set (ti_accepted_audiences e) \<and> opn \<in> set (ti_accepted_operations e) \<and>
    res \<in> set (ti_accepted_resources e)"
  using assms by (auto simp: lookup_active_def result_simps not_less dest!: find_Some_in)

text \<open>Signed lines determine every field, and forms with different version lines never coincide.\<close>

lemma canonical_lines_eq_iff:
  assumes "list_all (\<lambda>(n, v). CHR '':'' \<notin> set n) fs" and "list_all (\<lambda>(n, v). CHR '':'' \<notin> set n) gs"
  shows "canonical_lines w fs = canonical_lines w gs \<longleftrightarrow> fs = gs"
proof
  let ?b = "map (\<lambda>(n, v :: string). (n, as_bytes v))"
  have lines: "canonical_lines w hs = as_bytes w @ [10] @ concat (map (\<lambda>(n, v). named_field n v) (?b hs))" for hs
    by (simp add: canonical_lines_def comp_def split_def)
  have colon: "list_all (\<lambda>(n, v). CHR '':'' \<notin> set n) (?b hs) \<longleftrightarrow> list_all (\<lambda>(n, v). CHR '':'' \<notin> set n) hs" for hs
    by (induction hs) auto
  assume "canonical_lines w fs = canonical_lines w gs"
  then have "?b fs = ?b gs"
    using named_fields_inj [of "?b fs" "?b gs"] assms by (simp add: lines colon)
  moreover have "inj (\<lambda>(n :: string, v :: string). (n, as_bytes v))" by (auto simp: inj_on_def)
  ultimately show "fs = gs" using inj_map_eq_map by blast
qed simp

lemma EvidenceKind_as_str_inj [simp]: "EvidenceKind_as_str a = EvidenceKind_as_str b \<longleftrightarrow> a = b"
  by (cases a; cases b) (simp_all add: EvidenceKind_as_str_def)

lemma credential_status_name_inj [simp]: "credential_status_name a = credential_status_name b \<longleftrightarrow> a = b"
  by (cases a; cases b) (simp_all add: credential_status_name_def)

lemma from_label_as_str [simp]: "from_label (EvidenceKind_as_str k) = Some k"
  by (cases k) (simp_all add: from_label_def EvidenceKind_as_str_def)

lemma from_label_Some_iff: "from_label label = Some k \<longleftrightarrow> label = EvidenceKind_as_str k"
proof
  assume "from_label label = Some k"
  then show "label = EvidenceKind_as_str k"
    by (simp add: from_label_def EvidenceKind_as_str_def split: if_splits)
qed simp

lemma credential_canonical_bytes_inj:
  assumes "credential_canonical_bytes a = credential_canonical_bytes b" and "fc_origin a = fc_origin b"
  shows "a = b"
proof -
  have "credential_fields a = credential_fields b"
    using assms(1) unfolding credential_canonical_bytes_def
    by (subst (asm) canonical_lines_eq_iff) (simp_all add: credential_fields_def)
  then show ?thesis
    using assms(2) by (intro SecsFederatedCredential.equality) (simp_all add: credential_fields_def unat_eq_word)
qed

lemma challenge_canonical_bytes_inj: "challenge_canonical_bytes a = challenge_canonical_bytes b \<longleftrightarrow> a = b"
proof
  assume "challenge_canonical_bytes a = challenge_canonical_bytes b"
  then have "challenge_fields a = challenge_fields b"
    unfolding challenge_canonical_bytes_def
    by (subst (asm) canonical_lines_eq_iff) (simp_all add: challenge_fields_def)
  then show "a = b"
    by (intro SecsWalletChallenge.equality) (simp_all add: challenge_fields_def unat_eq_word)
qed simp

text \<open>The required tier is the greatest tier of the accepted kinds, all of which are supported.\<close>

lemma required_profile_loop_Inr:
  assumes "required_profile_loop tier status labels = Inr p"
  shows "tier \<le> mp_tier p" and "l \<in> set labels \<Longrightarrow> \<exists>k. l = EvidenceKind_as_str k \<and>
      is_supported (mp_support_status (maturity_profile k)) \<and> mp_tier (maturity_profile k) \<le> mp_tier p"
  using assms
proof (induction labels arbitrary: tier status)
  case (Cons l' ls)
  case 1
  then show ?case
    by (auto simp: Let_def split: option.splits if_splits dest!: Cons.IH(1))
next
  case (Cons l' ls)
  case 2
  then obtain k where k: "l' = EvidenceKind_as_str k" "is_supported (mp_support_status (maturity_profile k))"
    by (auto simp: Let_def from_label_Some_iff split: option.splits if_splits)
  show ?case
  proof (cases "tier < mp_tier (maturity_profile k)")
    case True
    then have loop: "required_profile_loop (mp_tier (maturity_profile k)) (mp_support_status (maturity_profile k)) ls = Inr p"
      using 2(2) k by (simp add: Let_def)
    show ?thesis using Cons.IH(2) [OF _ loop] Cons.IH(1) [OF loop] 2(1) k by (cases "l = l'") auto
  next
    case False
    then have loop: "required_profile_loop tier status ls = Inr p" using 2(2) k by (simp add: Let_def)
    show ?thesis
      using Cons.IH(2) [OF _ loop] Cons.IH(1) [OF loop] 2(1) k False by (cases "l = l'") (auto simp: not_less)
  qed
qed auto

section \<open>Properties\<close>

text \<open>C29. A federated credential satisfies a request only under a trusted issuer: the credential is one the
  receiver holds under a reference the caller named, is of an accepted credential kind, names exactly the
  request's subject, audience, operation and resource, is active and inside its window, its issuer is an
  active entry of the registry that accepts kind, audience, operation and resource at this time, and the
  registered issuer key, not the embedded one, verifies the signature over the whole credential.\<close>

theorem federated_credential_needs_trusted_issuer:
  "case federated_verify C credentials registry now r of Inl _ \<Rightarrow> True | Inr s \<Rightarrow>
     \<exists>f c e. f \<in> set credentials \<and> ff_evidence_ref f \<in> set (rq_evidence_refs r) \<and> ff_credential f = Some c \<and>
       fc_kind c \<in> {MembershipCredential, ProvisioningCredential} \<and> accepts r (fc_kind c) \<and> es_kind s = fc_kind c \<and>
       fc_subject c = rq_subject r \<and> fc_audience c = rq_audience r \<and> fc_operation c = rq_operation r \<and>
       fc_resource c = (case rq_resource r of None \<Rightarrow> '''' | Some x \<Rightarrow> x) \<and>
       fc_issued_at c \<le> now \<and> now < fc_expires_at c \<and> fc_status c = CredentialActive \<and>
       e \<in> set (tr_entries registry) \<and> ti_issuer_id e = fc_issuer_id c \<and> ti_issuer_key_id e = fc_issuer_key_id c \<and>
       ti_status e = IssuerActive \<and> now \<in> {ti_not_before e .. ti_not_after e} \<and>
       fc_kind c \<in> set (ti_accepted_evidence e) \<and> fc_audience c \<in> set (ti_accepted_audiences e) \<and>
       fc_operation c \<in> set (ti_accepted_operations e) \<and> fc_resource c \<in> set (ti_accepted_resources e) \<and>
       c_verify C (ti_public_key_bytes e) (credential_canonical_bytes c) (ff_signature_bytes f)"
proof (cases "federated_verify C credentials registry now r")
  case (Inr s)
  obtain er f where f: "find_by_ref ff_evidence_ref credentials (rq_evidence_refs r) = Some (er, f)"
    using Inr by (cases "find_by_ref ff_evidence_ref credentials (rq_evidence_refs r)") (auto simp: federated_verify_def)
  obtain c where c: "ff_credential f = Some c"
    using Inr by (cases "ff_credential f") (simp_all add: federated_verify_def f)
  note run = Inr [unfolded federated_verify_def f, simplified, unfolded c, simplified]
  obtain e where e: "lookup_active registry (fc_issuer_id c) (fc_issuer_key_id c) (fc_trust_root_ref c)
      (fc_registry_root_ref c) (fc_kind c) (fc_audience c) (fc_operation c) (fc_resource c) now = Inr e"
    and v: "verify_ed25519_signature C (ti_public_key_bytes e) (ff_signature_bytes f) (credential_canonical_bytes c)"
    and s: "s = credential_summary C er c"
    using run by (auto simp: result_simps split: if_splits)
  have "fc_kind c \<in> {MembershipCredential, ProvisioningCredential}" "accepts r (fc_kind c)"
      "fc_subject c = rq_subject r" "fc_audience c = rq_audience r" "fc_operation c = rq_operation r"
      "fc_resource c = (case rq_resource r of None \<Rightarrow> '''' | Some x \<Rightarrow> x)"
      "fc_issued_at c \<le> now" "now < fc_expires_at c" "fc_status c = CredentialActive"
    using run by (simp_all add: not_less not_le split: if_splits)
  moreover have "ff_evidence_ref f \<in> set (rq_evidence_refs r)" "f \<in> set credentials"
    using find_by_ref_Some [OF f] by simp_all
  moreover have "es_kind s = fc_kind c" by (simp add: s credential_summary_def)
  moreover note lookup_active_Inr [OF e] v [unfolded verify_ed25519_signature_iff]
  ultimately show ?thesis
    unfolding Inr sum.case using c
    by (intro exI [of _ f] exI [of _ c] exI [of _ e] conjI) (simp_all only:)
qed simp

text \<open>C30. A wallet presentation satisfies a request only when the wallet signed this very request: the
  signature verifies, under the presented key, over a challenge that carries the request's subject,
  audience, operation and origin, and that challenge's bytes determine all of its fields, so the signature
  fits no other subject, audience, origin, operation, resource, nonce or window.\<close>

theorem wallet_presentation_is_for_this_request:
  "case wallet_verify C fixtures (Some now) r of Inl _ \<Rightarrow> True | Inr s \<Rightarrow>
     \<exists>p. p \<in> set fixtures \<and> wp_evidence_ref p \<in> set (rq_evidence_refs r) \<and>
       requested_origin r = Some (wp_origin p) \<and> wp_issued_at p \<le> now \<and> now < wp_expires_at p \<and>
       wp_public_key_ref p = public_key_ref_for_bytes C (wp_public_key_bytes p) \<and>
       (\<exists>m. c_verify C (wp_public_key_bytes p) m (wp_signature_bytes p) \<and>
          {c. challenge_canonical_bytes c = m} = {wallet_challenge r p} \<and>
          wc_subject (wallet_challenge r p) = rq_subject r \<and> wc_audience (wallet_challenge r p) = rq_audience r \<and>
          wc_operation (wallet_challenge r p) = rq_operation r)"
proof (cases "wallet_verify C fixtures (Some now) r")
  case (Inr s)
  then have acc: "accepts r WalletPresentation" by (auto simp: wallet_verify_def split: if_splits)
  obtain er p where p: "find_by_ref wp_evidence_ref fixtures (rq_evidence_refs r) = Some (er, p)"
    using Inr acc
    by (cases "find_by_ref wp_evidence_ref fixtures (rq_evidence_refs r)") (auto simp: wallet_verify_def)
  note run = Inr [unfolded wallet_verify_def p, simplified acc, simplified]
  have origin: "requested_origin r = Some (wp_origin p)"
    using run by (cases "requested_origin r") (auto simp: result_simps split: if_splits)
  have win: "wp_issued_at p \<le> now" "now < wp_expires_at p"
    and key: "wp_public_key_ref p = public_key_ref_for_bytes C (wp_public_key_bytes p)"
    and v: "verify_ed25519_signature C (wp_public_key_bytes p) (wp_signature_bytes p)
        (challenge_canonical_bytes (wallet_challenge r p))"
    using run origin by (auto simp: not_less not_le split: if_splits)
  have "{c. challenge_canonical_bytes c = challenge_canonical_bytes (wallet_challenge r p)} = {wallet_challenge r p}"
    by (auto simp: challenge_canonical_bytes_inj)
  moreover have "wc_subject (wallet_challenge r p) = rq_subject r" "wc_audience (wallet_challenge r p) = rq_audience r"
    "wc_operation (wallet_challenge r p) = rq_operation r" by (simp_all add: wallet_challenge_def)
  ultimately show ?thesis
    unfolding Inr sum.case using find_by_ref_Some [OF p] origin win key v [unfolded verify_ed25519_signature_iff]
    by (intro exI [of _ p] exI [of _ "challenge_canonical_bytes (wallet_challenge r p)"] conjI) simp_all
qed simp

end
