(* ===== verification/Authority_Evidence.thy ===== *)
theory Authority_Evidence
  imports Evidence
begin

text \<open>
  Authority evidence (second half of \<^verbatim>\<open>server/src/evidence.rs\<close>): the live verifiers for revocation, threshold
  finality and rotated replay and their composition, the grant tokens and their parser, the adapter that
  admits a grant against the receiver-held registry, the snapshot adapter and the Dregg-shaped receipt
  adapter. A live verifier is the record of its three functions, as the trait has them.
\<close>

section \<open>Live verifiers\<close>

datatype LiveDreggProofKind = RevocationProof | BlsThresholdFinalityProof | RotatedReplayProof

definition LiveDreggProofKind_as_str :: "LiveDreggProofKind \<Rightarrow> string" where
  "LiveDreggProofKind_as_str k = (case k of
       RevocationProof \<Rightarrow> ''revocation''
     | BlsThresholdFinalityProof \<Rightarrow> ''bls_threshold_finality''
     | RotatedReplayProof \<Rightarrow> ''rotated_replay'')"

record LiveDreggEvidenceEnvelope =
  le_version :: string
  le_proof_kind :: LiveDreggProofKind
  le_evidence_ref :: string
  le_federation_id :: string
  le_issuer_id :: string
  le_root_ref :: string
  le_root_fingerprint :: string
  le_epoch_id :: string
  le_proof_ref :: string
  le_verifier_mode :: string
  le_resource_hash :: "string option"
  le_turn_hash :: "string option"

definition LIVE_ENVELOPE_VERSION :: string where
  "LIVE_ENVELOPE_VERSION = ''secs-dregg-live-evidence-v1''"

definition envelope_summary_fields :: "crypto \<Rightarrow> LiveDreggEvidenceEnvelope \<Rightarrow> string list" where
  "envelope_summary_fields C env =
     [''live_dregg_contract:'' @ le_version env,
      ''live_dregg_proof_kind:'' @ LiveDreggProofKind_as_str (le_proof_kind env),
      redacted_reference_field C ''evidence_ref'' (le_evidence_ref env),
      redacted_reference_field C ''federation_id'' (le_federation_id env),
      redacted_reference_field C ''issuer_id'' (le_issuer_id env),
      redacted_reference_field C ''root_ref'' (le_root_ref env),
      ''root_fingerprint:'' @ le_root_fingerprint env,
      redacted_reference_field C ''epoch_id'' (le_epoch_id env),
      redacted_reference_field C ''proof_ref'' (le_proof_ref env),
      ''verifier_mode:'' @ le_verifier_mode env,
      (case le_resource_hash env of Some h \<Rightarrow> redacted_reference_field C ''resource_hash'' h
       | None \<Rightarrow> ''resource_hash:not_bound''),
      (case le_turn_hash env of Some h \<Rightarrow> redacted_reference_field C ''turn_hash'' h
       | None \<Rightarrow> ''turn_hash:not_bound'')]"

definition envelope_to_evidence_summary ::
  "crypto \<Rightarrow> LiveDreggEvidenceEnvelope \<Rightarrow> string \<Rightarrow> string \<Rightarrow> string \<Rightarrow> string option \<Rightarrow> EvidenceSummary" where
  "envelope_to_evidence_summary C env subject audience operation resource =
     \<lparr>es_kind = DreggAuthority, es_subject = subject, es_audience = audience, es_operation = operation,
      es_resource = resource, es_local_dev_test_only = False, es_public_proof = True,
      es_summary_fields = envelope_summary_fields C env\<rparr>"

type_synonym live_check = "LiveDreggEvidenceEnvelope \<Rightarrow> VerificationError + string list"

record LiveDreggVerifier =
  lv_verify_revocation :: live_check
  lv_verify_bls_threshold_finality :: live_check
  lv_verify_rotated_replay :: live_check

definition missing_revocation :: live_check where
  "missing_revocation env = Inl (AuthorityErr MissingLiveDreggRevocationVerifier)"

definition missing_bls :: live_check where
  "missing_bls env = Inl (AuthorityErr MissingLiveDreggBlsThresholdVerifier)"

definition missing_rotated :: live_check where
  "missing_rotated env = Inl (AuthorityErr MissingLiveDreggRotatedReplayVerifier)"

definition MissingLiveVerifier :: LiveDreggVerifier where
  "MissingLiveVerifier = \<lparr>lv_verify_revocation = missing_revocation,
     lv_verify_bls_threshold_finality = missing_bls, lv_verify_rotated_replay = missing_rotated\<rparr>"

record TrustedDreggRevocationRoot =
  rr_federation_id :: string
  rr_issuer_id :: string
  rr_root_ref :: string
  rr_root_fingerprint :: string
  rr_epoch_id :: string
  rr_not_before :: u64
  rr_not_after :: u64

definition revocation_root_ok :: "TrustedDreggRevocationRoot \<Rightarrow> bool" where
  "revocation_root_ok r \<longleftrightarrow> trim (rr_federation_id r) \<noteq> [] \<and> trim (rr_issuer_id r) \<noteq> []
     \<and> trim (rr_root_ref r) \<noteq> [] \<and> trim (rr_root_fingerprint r) \<noteq> [] \<and> trim (rr_epoch_id r) \<noteq> []
     \<and> rr_not_before r < rr_not_after r"

definition revocation_config_from_json_str ::
  "(string \<Rightarrow> string + TrustedDreggRevocationRoot list) \<Rightarrow> string \<Rightarrow> string + TrustedDreggRevocationRoot list" where
  "revocation_config_from_json_str parse text =
     rbind (parse text) (\<lambda>roots.
       if roots = [] then Inl ''live Dregg revocation verifier config has no trusted roots''
       else if \<not> list_all revocation_root_ok roots then Inl ''invalid live Dregg revocation trusted root''
       else Inr roots)"

record LiveDreggRevocationVerifier =
  rv_trusted_roots :: "TrustedDreggRevocationRoot list"
  rv_validation_time :: u64
  rv_non_membership_proof_refs :: "string set"

definition trusts_root ::
  "LiveDreggRevocationVerifier \<Rightarrow> string \<Rightarrow> string \<Rightarrow> string \<Rightarrow> string \<Rightarrow> string \<Rightarrow> bool" where
  "trusts_root v federation_id issuer_id root_ref root_fingerprint epoch_id \<longleftrightarrow>
     list_ex (\<lambda>r. rr_federation_id r = federation_id \<and> rr_issuer_id r = issuer_id \<and> rr_root_ref r = root_ref
       \<and> rr_root_fingerprint r = root_fingerprint \<and> rr_epoch_id r = epoch_id
       \<and> rr_not_before r \<le> rv_validation_time v \<and> rv_validation_time v \<le> rr_not_after r) (rv_trusted_roots v)"

definition revocation_verify_revocation :: "crypto \<Rightarrow> LiveDreggRevocationVerifier \<Rightarrow> live_check" where
  "revocation_verify_revocation C v env =
     (if le_proof_kind env \<noteq> RevocationProof then Inl (EvidenceErr InvalidDreggRevocationProof)
      else if \<not> trusts_root v (le_federation_id env) (le_issuer_id env) (le_root_ref env)
          (le_root_fingerprint env) (le_epoch_id env)
      then Inl (EvidenceErr StaleDreggRevocationRoot)
      else if le_proof_ref env \<notin> rv_non_membership_proof_refs v
      then Inl (EvidenceErr InvalidDreggRevocationProof)
      else Inr [''live_dregg_proof_kind:revocation'', ''live_revocation_status:non_member'',
                redacted_reference_field C ''live_revocation_proof_ref'' (le_proof_ref env)])"

definition revocation_live_verifier :: "crypto \<Rightarrow> LiveDreggRevocationVerifier \<Rightarrow> LiveDreggVerifier" where
  "revocation_live_verifier C v = \<lparr>lv_verify_revocation = revocation_verify_revocation C v,
     lv_verify_bls_threshold_finality = missing_bls, lv_verify_rotated_replay = missing_rotated\<rparr>"

record TrustedDreggBlsCommittee =
  bc_federation_id :: string
  bc_committee_id :: string
  bc_epoch_id :: string
  bc_root_fingerprint :: string
  bc_quorum_threshold :: u16
  bc_member_count :: u16
  bc_not_before :: u64
  bc_not_after :: u64

definition committee_ok :: "TrustedDreggBlsCommittee \<Rightarrow> bool" where
  "committee_ok c \<longleftrightarrow> trim (bc_federation_id c) \<noteq> [] \<and> trim (bc_committee_id c) \<noteq> []
     \<and> trim (bc_epoch_id c) \<noteq> [] \<and> trim (bc_root_fingerprint c) \<noteq> [] \<and> bc_quorum_threshold c \<noteq> 0
     \<and> bc_member_count c \<noteq> 0 \<and> bc_quorum_threshold c \<le> bc_member_count c \<and> bc_not_before c < bc_not_after c"

definition bls_config_from_json_str ::
  "(string \<Rightarrow> string + TrustedDreggBlsCommittee list) \<Rightarrow> string \<Rightarrow> string + TrustedDreggBlsCommittee list" where
  "bls_config_from_json_str parse text =
     rbind (parse text) (\<lambda>committees.
       if committees = [] then Inl ''live Dregg BLS finality verifier config has no committees''
       else if \<not> list_all committee_ok committees then Inl ''invalid live Dregg BLS finality committee''
       else Inr committees)"

record LiveDreggBlsFinalityVerifier =
  bv_committees :: "TrustedDreggBlsCommittee list"
  bv_validation_time :: u64
  bv_threshold_qc_refs :: "string set"

definition trusts_committee :: "LiveDreggBlsFinalityVerifier \<Rightarrow> string \<Rightarrow> string \<Rightarrow> string \<Rightarrow> string \<Rightarrow> bool" where
  "trusts_committee v federation_id committee_id epoch_id root_fingerprint \<longleftrightarrow>
     list_ex (\<lambda>c. bc_federation_id c = federation_id \<and> bc_committee_id c = committee_id
       \<and> bc_epoch_id c = epoch_id \<and> bc_root_fingerprint c = root_fingerprint
       \<and> bc_not_before c \<le> bv_validation_time v \<and> bv_validation_time v \<le> bc_not_after c) (bv_committees v)"

definition matching_committee ::
  "LiveDreggBlsFinalityVerifier \<Rightarrow> LiveDreggEvidenceEnvelope \<Rightarrow> TrustedDreggBlsCommittee option" where
  "matching_committee v env =
     find (\<lambda>c. bc_federation_id c = le_federation_id env \<and> bc_epoch_id c = le_epoch_id env
       \<and> bc_root_fingerprint c = le_root_fingerprint env
       \<and> bc_not_before c \<le> bv_validation_time v \<and> bv_validation_time v \<le> bc_not_after c) (bv_committees v)"

definition bls_verify_threshold_finality :: "crypto \<Rightarrow> LiveDreggBlsFinalityVerifier \<Rightarrow> live_check" where
  "bls_verify_threshold_finality C v env =
     (if le_proof_kind env \<noteq> BlsThresholdFinalityProof then Inl (EvidenceErr InvalidDreggFinalityQc)
      else rbind (ok_or (EvidenceErr InvalidDreggFinalityQc) (matching_committee v env)) (\<lambda>c.
        if le_proof_ref env \<notin> bv_threshold_qc_refs v then Inl (EvidenceErr InvalidDreggFinalityQc)
        else Inr [''live_dregg_proof_kind:bls_threshold_finality'',
          ''bls_finality_status:threshold_qc_verified'',
          redacted_reference_field C ''committee_id'' (bc_committee_id c),
          ''quorum_threshold:'' @ dec_string (unat (bc_quorum_threshold c)),
          ''committee_members:'' @ dec_string (unat (bc_member_count c)),
          redacted_reference_field C ''threshold_qc_ref'' (le_proof_ref env)]))"

definition bls_live_verifier :: "crypto \<Rightarrow> LiveDreggBlsFinalityVerifier \<Rightarrow> LiveDreggVerifier" where
  "bls_live_verifier C v = \<lparr>lv_verify_revocation = missing_revocation,
     lv_verify_bls_threshold_finality = bls_verify_threshold_finality C v,
     lv_verify_rotated_replay = missing_rotated\<rparr>"

record TrustedDreggRotatedReplayProof =
  rp_federation_id :: string
  rp_epoch_id :: string
  rp_root_fingerprint :: string
  rp_verifier_version :: string
  rp_proof_ref :: string
  rp_old_commitment :: string
  rp_new_commitment :: string
  rp_nullifiers :: "string list"
  rp_resource_hash :: string
  rp_turn_hash :: string
  rp_proof_digest :: string
  rp_not_before :: u64
  rp_not_after :: u64

definition rotated_proof_ok :: "TrustedDreggRotatedReplayProof \<Rightarrow> bool" where
  "rotated_proof_ok p \<longleftrightarrow> trim (rp_federation_id p) \<noteq> [] \<and> trim (rp_epoch_id p) \<noteq> []
     \<and> trim (rp_root_fingerprint p) \<noteq> [] \<and> rp_verifier_version p = ''rotated-replay-fixture-v1''
     \<and> trim (rp_proof_ref p) \<noteq> [] \<and> trim (rp_old_commitment p) \<noteq> [] \<and> trim (rp_new_commitment p) \<noteq> []
     \<and> rp_old_commitment p \<noteq> rp_new_commitment p \<and> rp_nullifiers p \<noteq> [] \<and> trim (rp_resource_hash p) \<noteq> []
     \<and> trim (rp_turn_hash p) \<noteq> [] \<and> trim (rp_proof_digest p) \<noteq> [] \<and> rp_not_before p < rp_not_after p"

fun check_nullifiers :: "string set \<Rightarrow> string set \<Rightarrow> string list \<Rightarrow> string + string set" where
  "check_nullifiers local_seen global_seen [] = Inr global_seen"
| "check_nullifiers local_seen global_seen (n # ns) =
     (if trim n = [] \<or> n \<in> local_seen \<or> n \<in> global_seen
      then Inl ''duplicate or invalid live Dregg rotated replay nullifier''
      else check_nullifiers (insert n local_seen) (insert n global_seen) ns)"

fun check_rotated_proofs :: "string set \<Rightarrow> TrustedDreggRotatedReplayProof list \<Rightarrow> string + unit" where
  "check_rotated_proofs seen [] = Inr ()"
| "check_rotated_proofs seen (p # ps) =
     (if \<not> rotated_proof_ok p then Inl ''invalid live Dregg rotated replay proof''
      else rbind (check_nullifiers {} seen (rp_nullifiers p)) (\<lambda>seen'. check_rotated_proofs seen' ps))"

definition rotated_config_from_json_str ::
  "(string \<Rightarrow> string + TrustedDreggRotatedReplayProof list) \<Rightarrow> string \<Rightarrow>
     string + TrustedDreggRotatedReplayProof list" where
  "rotated_config_from_json_str parse text =
     rbind (parse text) (\<lambda>proofs.
       if proofs = [] then Inl ''live Dregg rotated replay verifier config has no proofs''
       else rbind (check_rotated_proofs {} proofs) (\<lambda>_. Inr proofs))"

record LiveDreggRotatedReplayVerifier =
  rov_proofs :: "TrustedDreggRotatedReplayProof list"
  rov_validation_time :: u64

definition rotated_resource_hash :: "crypto \<Rightarrow> string \<Rightarrow> string" where
  "rotated_resource_hash C resource = stable_prefixed_hash C ''resource'' resource"

definition rotated_turn_hash :: "crypto \<Rightarrow> string \<Rightarrow> string \<Rightarrow> string \<Rightarrow> string" where
  "rotated_turn_hash C subject operation resource = stable_prefixed_hash C ''turn''
     (''subject='' @ subject @ ''|operation='' @ operation @ ''|resource='' @ resource)"

definition matching_proof_parts ::
  "LiveDreggRotatedReplayVerifier \<Rightarrow> string \<Rightarrow> string \<Rightarrow> string \<Rightarrow> string \<Rightarrow> string \<Rightarrow> string \<Rightarrow>
     TrustedDreggRotatedReplayProof option" where
  "matching_proof_parts v federation_id epoch_id root_fingerprint proof_ref resource_hash turn_hash =
     find (\<lambda>p. rp_federation_id p = federation_id \<and> rp_epoch_id p = epoch_id
       \<and> rp_root_fingerprint p = root_fingerprint \<and> rp_proof_ref p = proof_ref
       \<and> rp_resource_hash p = resource_hash \<and> rp_turn_hash p = turn_hash
       \<and> rp_not_before p \<le> rov_validation_time v \<and> rov_validation_time v \<le> rp_not_after p) (rov_proofs v)"

definition trusts_rotated_proof ::
  "LiveDreggRotatedReplayVerifier \<Rightarrow> string \<Rightarrow> string \<Rightarrow> string \<Rightarrow> string \<Rightarrow> string \<Rightarrow> string \<Rightarrow> bool" where
  "trusts_rotated_proof v federation_id epoch_id root_fingerprint proof_ref resource_hash turn_hash \<longleftrightarrow>
     matching_proof_parts v federation_id epoch_id root_fingerprint proof_ref resource_hash turn_hash \<noteq> None"

definition matching_proof ::
  "LiveDreggRotatedReplayVerifier \<Rightarrow> LiveDreggEvidenceEnvelope \<Rightarrow> TrustedDreggRotatedReplayProof option" where
  "matching_proof v env = (case (le_resource_hash env, le_turn_hash env) of
       (Some resource_hash, Some turn_hash) \<Rightarrow>
         matching_proof_parts v (le_federation_id env) (le_epoch_id env) (le_root_fingerprint env)
           (le_proof_ref env) resource_hash turn_hash
     | _ \<Rightarrow> None)"

definition rotated_verify_replay :: "crypto \<Rightarrow> LiveDreggRotatedReplayVerifier \<Rightarrow> live_check" where
  "rotated_verify_replay C v env =
     (if le_proof_kind env \<noteq> RotatedReplayProof then Inl (EvidenceErr InvalidDreggRotatedProof)
      else rbind (ok_or (EvidenceErr InvalidDreggRotatedProof) (matching_proof v env)) (\<lambda>p.
        Inr ([''live_dregg_proof_kind:rotated_replay'', ''rotated_replay_status:proof_verified'',
          ''rotated_verifier_version:'' @ rp_verifier_version p,
          redacted_reference_field C ''old_commitment'' (rp_old_commitment p),
          redacted_reference_field C ''new_commitment'' (rp_new_commitment p),
          redacted_reference_field C ''proof_digest'' (rp_proof_digest p),
          redacted_reference_field C ''resource_hash'' (rp_resource_hash p),
          redacted_reference_field C ''turn_hash'' (rp_turn_hash p)]
          @ map (redacted_reference_field C ''nullifier'') (rp_nullifiers p))))"

definition rotated_live_verifier :: "crypto \<Rightarrow> LiveDreggRotatedReplayVerifier \<Rightarrow> LiveDreggVerifier" where
  "rotated_live_verifier C v = \<lparr>lv_verify_revocation = missing_revocation,
     lv_verify_bls_threshold_finality = missing_bls, lv_verify_rotated_replay = rotated_verify_replay C v\<rparr>"

definition LiveDreggCompositeVerifier ::
  "crypto \<Rightarrow> LiveDreggRevocationVerifier option \<Rightarrow> LiveDreggBlsFinalityVerifier option \<Rightarrow>
     LiveDreggRotatedReplayVerifier option \<Rightarrow> LiveDreggVerifier" where
  "LiveDreggCompositeVerifier C revocation bls_finality rotated_replay =
     \<lparr>lv_verify_revocation = (case revocation of None \<Rightarrow> missing_revocation
        | Some v \<Rightarrow> revocation_verify_revocation C v),
      lv_verify_bls_threshold_finality = (case bls_finality of None \<Rightarrow> missing_bls
        | Some v \<Rightarrow> bls_verify_threshold_finality C v),
      lv_verify_rotated_replay = (case rotated_replay of None \<Rightarrow> missing_rotated
        | Some v \<Rightarrow> rotated_verify_replay C v)\<rparr>"

section \<open>Grant tokens\<close>

definition TOKEN_PREFIX :: string where
  "TOKEN_PREFIX = ''dga1_''"

definition fixture_token :: "string \<Rightarrow> string \<Rightarrow> u64 \<Rightarrow> string" where
  "fixture_token subject tool until = TOKEN_PREFIX @ subject @ ''|'' @ tool @ ''|'' @ dec_string (unat until)"

definition fixture_token_with_resource_prefix :: "string \<Rightarrow> string \<Rightarrow> string \<Rightarrow> u64 \<Rightarrow> string" where
  "fixture_token_with_resource_prefix subject tool delegated_resource_prefix until =
     TOKEN_PREFIX @ subject @ ''|'' @ tool @ ''|resource_prefix:'' @ delegated_resource_prefix @ ''|''
       @ dec_string (unat until)"

definition fixture_token_with_resource_lock :: "string \<Rightarrow> string \<Rightarrow> string \<Rightarrow> u64 \<Rightarrow> string" where
  "fixture_token_with_resource_lock subject tool locked until =
     TOKEN_PREFIX @ subject @ ''|'' @ tool @ ''|resource_lock:'' @ locked @ ''|'' @ dec_string (unat until)"

record ParsedDreggAuthorityToken =
  pt_subject :: string
  pt_tool :: string
  pt_delegated_resource_prefix :: "string option"
  pt_resource_lock :: "string option"
  pt_until :: u64

text \<open>The standard library's \<^verbatim>\<open>str::parse::<u64>\<close>: an optional plus sign, at least one decimal digit, no
  overflow.\<close>

definition ascii_digit :: "char \<Rightarrow> bool" where
  "ascii_digit c \<longleftrightarrow> 48 \<le> (of_char c :: nat) \<and> (of_char c :: nat) \<le> 57"

definition parse_u64 :: "string \<Rightarrow> u64 option" where
  "parse_u64 s =
     (let ds = (case s of [] \<Rightarrow> [] | c # rest \<Rightarrow> if c = CHR ''+'' then rest else s) in
      if ds = [] \<or> \<not> list_all ascii_digit ds \<or> u64_max < dec_value ds then None
      else Some (word_of_nat (dec_value ds)))"

definition parse_dregg_authority_token :: "string \<Rightarrow> VerificationError + ParsedDreggAuthorityToken" where
  "parse_dregg_authority_token token =
     (let malformed = AuthorityErr MalformedDreggAuthority in
      rbind (ok_or malformed (strip_prefix TOKEN_PREFIX token)) (\<lambda>rest.
      case split_on CHR ''|'' rest of
        subject # tool # third # parts \<Rightarrow>
          if subject = [] \<or> tool = [] then Inl malformed
          else (case strip_prefix ''resource_prefix:'' third of
              Some pre \<Rightarrow> (case parts of
                  [] \<Rightarrow> Inl malformed
                | u # parts \<Rightarrow> rbind (ok_or malformed (parse_u64 u)) (\<lambda>until.
                    if pre = [] \<or> parts \<noteq> [] then Inl malformed
                    else Inr \<lparr>pt_subject = subject, pt_tool = tool, pt_delegated_resource_prefix = Some pre,
                              pt_resource_lock = None, pt_until = until\<rparr>))
            | None \<Rightarrow> (case strip_prefix ''resource_lock:'' third of
                Some lock \<Rightarrow> (case parts of
                    [] \<Rightarrow> Inl malformed
                  | u # parts \<Rightarrow> rbind (ok_or malformed (parse_u64 u)) (\<lambda>until.
                      if lock = [] \<or> parts \<noteq> [] then Inl malformed
                      else Inr \<lparr>pt_subject = subject, pt_tool = tool, pt_delegated_resource_prefix = None,
                                pt_resource_lock = Some lock, pt_until = until\<rparr>))
              | None \<Rightarrow> rbind (ok_or malformed (parse_u64 third)) (\<lambda>until.
                  if parts \<noteq> [] then Inl malformed
                  else Inr \<lparr>pt_subject = subject, pt_tool = tool, pt_delegated_resource_prefix = None,
                            pt_resource_lock = None, pt_until = until\<rparr>)))
      | _ \<Rightarrow> Inl malformed))"

section \<open>The authority adapter\<close>

record DreggAuthorityGrantFixture =
  ag_evidence_ref :: string
  ag_token :: string
  ag_issuer_id :: string
  ag_issuer_key_id :: string
  ag_root_ref :: string
  ag_root_fingerprint :: string
  ag_epoch_id :: string
  ag_suite :: string
  ag_status_checked_at :: "u64 option"
  ag_revocation_status :: "DreggAuthorityRevocationStatus option"
  ag_finality_status :: "DreggAuthorityFinalityStatus option"
  ag_attested_revocation_root_ref :: "string option"

definition revocation_verifier_mode_name :: "DreggAuthorityRevocationVerifierMode \<Rightarrow> string" where
  "revocation_verifier_mode_name m = (case m of
       RevocationFixtureStatusOnly \<Rightarrow> ''fixture_status_only''
     | ExpectedRootBinding \<Rightarrow> ''expected_root_binding''
     | LiveRevocationVerifierRequired \<Rightarrow> ''live_revocation_verifier_required'')"

definition finality_mode_name :: "DreggAuthorityFinalityMode \<Rightarrow> string" where
  "finality_mode_name m = (case m of
       FinalityNotRequired \<Rightarrow> ''not_required''
     | FinalityFixtureStatusOnly \<Rightarrow> ''fixture_status_only''
     | BlsThresholdRequired \<Rightarrow> ''bls_threshold_required''
     | RotatedReplayRequired \<Rightarrow> ''rotated_replay_required'')"

definition authority_mode_for_finality :: "DreggAuthorityFinalityMode \<Rightarrow> AuthorityMode" where
  "authority_mode_for_finality m = (case m of
       FinalityNotRequired \<Rightarrow> SignedSource
     | FinalityFixtureStatusOnly \<Rightarrow> SignedSource
     | BlsThresholdRequired \<Rightarrow> FederationCheckpoint
     | RotatedReplayRequired \<Rightarrow> FederationCheckpoint)"

definition revocation_status_name :: "DreggAuthorityRevocationStatus \<Rightarrow> string" where
  "revocation_status_name s = (case s of RevocationActive \<Rightarrow> ''active'' | RevocationRevoked \<Rightarrow> ''revoked'')"

definition finality_status_name :: "DreggAuthorityFinalityStatus \<Rightarrow> string" where
  "finality_status_name s = (case s of
       FinalityFinal \<Rightarrow> ''final'' | FinalityNotFinal \<Rightarrow> ''not_final'' | FinalityEquivocated \<Rightarrow> ''equivocated'')"

definition authority_lookup :: "DreggAuthorityGrantFixture \<Rightarrow> EvidenceRequest \<Rightarrow> u64 \<Rightarrow> DreggAuthorityLookup" where
  "authority_lookup g request validation_time =
     \<lparr>al_issuer_id = ag_issuer_id g, al_issuer_key_id = ag_issuer_key_id g, al_root_ref = ag_root_ref g,
      al_root_fingerprint = ag_root_fingerprint g, al_epoch_id = ag_epoch_id g,
      al_audience = rq_audience request, al_operation = rq_operation request,
      al_resource = (case rq_resource request of None \<Rightarrow> '''' | Some r \<Rightarrow> r), al_suite = ag_suite g,
      al_validation_time = validation_time, al_status_checked_at = ag_status_checked_at g,
      al_revocation_status = ag_revocation_status g, al_finality_status = ag_finality_status g,
      al_attested_revocation_root_ref = ag_attested_revocation_root_ref g\<rparr>"

definition live_envelope ::
  "LiveDreggProofKind \<Rightarrow> string \<Rightarrow> DreggAuthorityGrantFixture \<Rightarrow> DreggAuthorityEntry \<Rightarrow> string \<Rightarrow> string \<Rightarrow>
     string option \<Rightarrow> string option \<Rightarrow> LiveDreggEvidenceEnvelope" where
  "live_envelope kind evidence_ref g entry proof_ref mode resource_hash turn_hash =
     \<lparr>le_version = LIVE_ENVELOPE_VERSION, le_proof_kind = kind, le_evidence_ref = evidence_ref,
      le_federation_id = ae_federation_id entry, le_issuer_id = ag_issuer_id g, le_root_ref = ag_root_ref g,
      le_root_fingerprint = ag_root_fingerprint g, le_epoch_id = ag_epoch_id g, le_proof_ref = proof_ref,
      le_verifier_mode = mode, le_resource_hash = resource_hash, le_turn_hash = turn_hash\<rparr>"

definition live_revocation ::
  "LiveDreggVerifier \<Rightarrow> string \<Rightarrow> DreggAuthorityGrantFixture \<Rightarrow> DreggAuthorityEntry \<Rightarrow> VerificationError + string list" where
  "live_revocation live evidence_ref g entry =
     (let mode = sp_revocation_verifier_mode (ae_status_policy entry) in
      if mode = LiveRevocationVerifierRequired
      then lv_verify_revocation live (live_envelope RevocationProof evidence_ref g entry
        (case ag_attested_revocation_root_ref g of Some r \<Rightarrow> r | None \<Rightarrow> evidence_ref)
        (revocation_verifier_mode_name mode) None None)
      else Inr [])"

definition live_bls ::
  "LiveDreggVerifier \<Rightarrow> string \<Rightarrow> DreggAuthorityGrantFixture \<Rightarrow> DreggAuthorityEntry \<Rightarrow> VerificationError + string list" where
  "live_bls live evidence_ref g entry =
     (if sp_finality_mode (ae_status_policy entry) = BlsThresholdRequired
      then lv_verify_bls_threshold_finality live (live_envelope BlsThresholdFinalityProof evidence_ref g entry
        evidence_ref (finality_mode_name BlsThresholdRequired) None None)
      else Inr [])"

definition live_rotated ::
  "crypto \<Rightarrow> LiveDreggVerifier \<Rightarrow> string \<Rightarrow> DreggAuthorityGrantFixture \<Rightarrow> DreggAuthorityEntry \<Rightarrow> EvidenceRequest \<Rightarrow>
     VerificationError + string list" where
  "live_rotated C live evidence_ref g entry request =
     (if sp_finality_mode (ae_status_policy entry) = RotatedReplayRequired
      then (let resource = (case rq_resource request of None \<Rightarrow> '''' | Some r \<Rightarrow> r) in
        rbind (lv_verify_rotated_replay live (live_envelope RotatedReplayProof evidence_ref g entry evidence_ref
          (finality_mode_name RotatedReplayRequired) (Some (rotated_resource_hash C resource))
          (Some (rotated_turn_hash C (rq_subject request) (rq_operation request) resource)))) (\<lambda>rotated.
        rbind (lv_verify_bls_threshold_finality live (live_envelope BlsThresholdFinalityProof evidence_ref g
          entry evidence_ref (finality_mode_name BlsThresholdRequired) None None)) (\<lambda>bls.
        Inr (rotated @ bls))))
      else Inr [])"

definition check_delegation :: "ParsedDreggAuthorityToken \<Rightarrow> string option \<Rightarrow> VerificationError + unit" where
  "check_delegation parsed requested_resource = (case pt_delegated_resource_prefix parsed of
       None \<Rightarrow> Inr ()
     | Some pre \<Rightarrow> (case requested_resource of
           None \<Rightarrow> Inl AuthorityAmplification
         | Some r \<Rightarrow> ensure AuthorityAmplification (starts_with pre r)))"

definition check_lock :: "ParsedDreggAuthorityToken \<Rightarrow> string option \<Rightarrow> VerificationError + string option" where
  "check_lock parsed requested_resource = (case pt_resource_lock parsed of
       None \<Rightarrow> Inr None
     | Some lock \<Rightarrow> (case requested_resource of
           None \<Rightarrow> Inl ResourceLockViolation
         | Some r \<Rightarrow> if r \<noteq> lock then Inl ResourceLockViolation else Inr (Some r)))"

definition authority_base_fields ::
  "crypto \<Rightarrow> string \<Rightarrow> DreggAuthorityGrantFixture \<Rightarrow> DreggAuthorityEntry \<Rightarrow> string list" where
  "authority_base_fields C evidence_ref g entry =
     (let p = ae_status_policy entry in
      [''admission:admitted'', ''authority_class:dregg_authority'', ''tier:m15_production_shaped'',
       ''authority_mode:'' @ AuthorityMode_as_str (authority_mode_for_finality (sp_finality_mode p)),
       ''finality_source:'' @ finality_mode_name (sp_finality_mode p),
       redacted_reference_field C ''evidence_ref'' evidence_ref, ''token:dga1_[redacted]'',
       ''issuer_id:'' @ ag_issuer_id g, redacted_reference_field C ''issuer_key_id'' (ag_issuer_key_id g),
       redacted_reference_field C ''root_ref'' (ag_root_ref g), ''root_fingerprint:'' @ ag_root_fingerprint g,
       redacted_reference_field C ''epoch_id'' (ag_epoch_id g), ''suite:'' @ ag_suite g,
       ''revocation_verifier_mode:'' @ revocation_verifier_mode_name (sp_revocation_verifier_mode p),
       (case sp_expected_revocation_root_ref p of
          Some root \<Rightarrow> redacted_reference_field C ''revocation_root_ref'' root
        | None \<Rightarrow> ''revocation_root_ref:not_required''),
       (case ag_revocation_status g of
          Some s \<Rightarrow> ''revocation_status:'' @ revocation_status_name s
        | None \<Rightarrow> ''revocation_status:named_blocker_missing''),
       ''finality_mode:'' @ finality_mode_name (sp_finality_mode p),
       (case ag_finality_status g of
          Some s \<Rightarrow> ''finality_status:'' @ finality_status_name s
        | None \<Rightarrow> ''finality_status:not_required''),
       redacted_reference_field C ''federation_id'' (ae_federation_id entry),
       ''issuer_public_key_ref:'' @ public_key_ref_for_hex C (ae_issuer_public_key_hex entry)])"

definition delegation_fields :: "crypto \<Rightarrow> ParsedDreggAuthorityToken \<Rightarrow> string option \<Rightarrow> string list" where
  "delegation_fields C parsed requested_resource = (case pt_delegated_resource_prefix parsed of
       None \<Rightarrow> []
     | Some pre \<Rightarrow> [''attenuation:non_amplifying'', redacted_reference_field C ''delegated_resource_prefix'' pre]
         @ (case requested_resource of None \<Rightarrow> []
            | Some r \<Rightarrow> [redacted_reference_field C ''requested_resource'' r]))"

definition lock_fields :: "crypto \<Rightarrow> ParsedDreggAuthorityToken \<Rightarrow> string option \<Rightarrow> string list" where
  "lock_fields C parsed requested_resource = (case pt_resource_lock parsed of
       None \<Rightarrow> []
     | Some lock \<Rightarrow> [''resource_lock:verified'', redacted_reference_field C ''resource_lock'' lock]
         @ (case requested_resource of None \<Rightarrow> []
            | Some r \<Rightarrow> [redacted_reference_field C ''locked_resource'' r]))"

definition authority_verify ::
  "crypto \<Rightarrow> DreggAuthorityGrantFixture list \<Rightarrow> DreggAuthorityRegistry \<Rightarrow> u64 \<Rightarrow> LiveDreggVerifier \<Rightarrow>
     EvidenceRequest \<Rightarrow> EvidenceResult" where
  "authority_verify C grants registry validation_time live request =
     (if \<not> accepts request DreggAuthority then Inl InsufficientEvidence
      else rbind (ok_or InsufficientEvidence (find_by_ref ag_evidence_ref grants (rq_evidence_refs request)))
        (\<lambda>(evidence_ref, g).
        rbind (lookup_active_policy registry (authority_lookup g request validation_time)) (\<lambda>entry.
        rbind (live_revocation live evidence_ref g entry) (\<lambda>revocation_fields.
        rbind (live_bls live evidence_ref g entry) (\<lambda>bls_fields.
        rbind (live_rotated C live evidence_ref g entry request) (\<lambda>rotated_fields.
        rbind (parse_dregg_authority_token (ag_token g)) (\<lambda>parsed.
          if pt_subject parsed \<noteq> rq_subject request then Inl WrongSubject
          else if pt_tool parsed \<noteq> rq_operation request then Inl WrongOperation
          else if pt_until parsed \<le> validation_time then Inl (EvidenceErr InvalidAdmission)
          else rbind (check_delegation parsed (rq_trusted_requested_resource request)) (\<lambda>_.
            rbind (check_lock parsed (rq_trusted_requested_resource request)) (\<lambda>verified_resource_lock.
            Inr \<lparr>es_kind = DreggAuthority, es_subject = ''[redacted]'', es_audience = rq_audience request,
              es_operation = rq_operation request, es_resource = verified_resource_lock,
              es_local_dev_test_only = False,
              es_public_proof =
                (sp_revocation_verifier_mode (ae_status_policy entry) = LiveRevocationVerifierRequired
                 \<or> sp_finality_mode (ae_status_policy entry) \<in> {BlsThresholdRequired, RotatedReplayRequired}),
              es_summary_fields = authority_base_fields C evidence_ref g entry
                @ revocation_fields @ bls_fields @ rotated_fields
                @ delegation_fields C parsed (rq_trusted_requested_resource request)
                @ lock_fields C parsed (rq_trusted_requested_resource request)\<rparr>)))))))))"

definition DreggAuthorityEvidenceAdapter ::
  "crypto \<Rightarrow> DreggAuthorityGrantFixture list \<Rightarrow> DreggAuthorityRegistry \<Rightarrow> u64 \<Rightarrow> LiveDreggVerifier \<Rightarrow> EvidenceAdapter" where
  "DreggAuthorityEvidenceAdapter C grants registry validation_time live =
     \<lparr>ea_kind = DreggAuthority, ea_verify = authority_verify C grants registry validation_time live\<rparr>"

section \<open>Snapshots and Dregg-shaped receipts\<close>

record DreggAuthoritySnapshotEvidenceFixture =
  sf_evidence_ref :: string
  sf_entity_id :: string
  sf_namespace_id :: string
  sf_issuer_id :: string
  sf_trust_root_ref :: string
  sf_authority_root_ref :: string

definition snapshot_verify ::
  "crypto \<Rightarrow> DreggAuthoritySnapshot \<Rightarrow> DreggAuthoritySnapshotEvidenceFixture list \<Rightarrow> u64 \<Rightarrow> EvidenceRequest \<Rightarrow>
     EvidenceResult" where
  "snapshot_verify C snapshot fixtures validation_time request =
     (if \<not> accepts request DreggAuthority then Inl InsufficientEvidence
      else rbind (ok_or InsufficientEvidence (find_by_ref sf_evidence_ref fixtures (rq_evidence_refs request)))
        (\<lambda>(evidence_ref, f).
        if rq_subject request \<noteq> sf_entity_id f then Inl WrongSubject
        else rbind (ok_or AuthorityAmplification (rq_trusted_requested_resource request)) (\<lambda>resource.
          rbind (lookup_entity_resource_authority snapshot
            \<lparr>sl_entity_id = sf_entity_id f, sl_namespace_id = sf_namespace_id f, sl_issuer_id = sf_issuer_id f,
             sl_trust_root_ref = sf_trust_root_ref f, sl_authority_root_ref = sf_authority_root_ref f,
             sl_audience = rq_audience request, sl_operation = rq_operation request, sl_resource = resource,
             sl_evidence_kind = EvidenceKind_as_str DreggAuthority,
             sl_validation_time = validation_time\<rparr>) (\<lambda>decision.
          Inr \<lparr>es_kind = DreggAuthority, es_subject = ''[redacted]'', es_audience = rq_audience request,
            es_operation = rq_operation request, es_resource = Some resource,
            es_local_dev_test_only = False, es_public_proof = False,
            es_summary_fields =
              [''admission:admitted'', ''authority_class:dregg_authority_snapshot'',
               ''snapshot_schema:'' @ SNAPSHOT_SCHEMA_VERSION,
               ''authority_mode:'' @ AuthorityMode_as_str LocalFixture,
               ''finality_source:not_applicable'', ''finality_status:not_required'',
               redacted_reference_field C ''evidence_ref'' evidence_ref,
               ''entity_id:'' @ sd_entity_id decision, ''namespace_id:'' @ sd_namespace_id decision,
               ''legacy_snapshot_authority_mode:'' @ sd_authority_mode decision,
               ''matched_resource_scope:'' @ sd_matched_resource_scope decision,
               redacted_reference_field C ''issuer_id'' (sf_issuer_id f),
               redacted_reference_field C ''trust_root_ref'' (sf_trust_root_ref f),
               redacted_reference_field C ''authority_root_ref'' (sf_authority_root_ref f),
               redacted_reference_field C ''requested_resource'' resource,
               ''resource_lock:verified'']\<rparr>))))"

definition DreggAuthoritySnapshotEvidenceAdapter ::
  "crypto \<Rightarrow> DreggAuthoritySnapshot \<Rightarrow> DreggAuthoritySnapshotEvidenceFixture list \<Rightarrow> u64 \<Rightarrow> EvidenceAdapter" where
  "DreggAuthoritySnapshotEvidenceAdapter C snapshot fixtures validation_time =
     \<lparr>ea_kind = DreggAuthority, ea_verify = snapshot_verify C snapshot fixtures validation_time\<rparr>"

record DreggReceiptFixture =
  dx_evidence_ref :: string
  dx_subject :: string
  dx_audience :: string
  dx_origin :: string
  dx_operation :: string
  dx_resource :: string
  dx_receipt_kind :: string
  dx_strand_ref :: string
  dx_sequence :: u64
  dx_issued_at :: u64
  dx_expires_at :: u64
  dx_signature_suite :: string
  dx_public_key_ref :: string
  dx_author_public_key_bytes :: bytes
  dx_signature_bytes :: bytes

definition receipt_shape_fields :: "DreggReceiptFixture \<Rightarrow> (string \<times> string) list" where
  "receipt_shape_fields r =
     [(''subject'', dx_subject r), (''audience'', dx_audience r), (''origin'', dx_origin r),
      (''operation'', dx_operation r), (''resource'', dx_resource r), (''receipt_kind'', dx_receipt_kind r),
      (''strand_ref'', dx_strand_ref r), (''sequence'', dec_string (unat (dx_sequence r))),
      (''issued_at'', dec_string (unat (dx_issued_at r))), (''expires_at'', dec_string (unat (dx_expires_at r))),
      (''signature_suite'', dx_signature_suite r), (''public_key_ref'', dx_public_key_ref r)]"

definition receipt_shape_canonical_bytes :: "DreggReceiptFixture \<Rightarrow> bytes" where
  "receipt_shape_canonical_bytes r = canonical_lines ''secs-dregg-receipt-shape-v1'' (receipt_shape_fields r)"

definition receipt_has_required_shape :: "DreggReceiptFixture \<Rightarrow> bool" where
  "receipt_has_required_shape r \<longleftrightarrow>
     dx_evidence_ref r \<noteq> [] \<and> dx_subject r \<noteq> [] \<and> dx_audience r \<noteq> [] \<and> dx_origin r \<noteq> []
     \<and> dx_operation r \<noteq> [] \<and> dx_resource r \<noteq> [] \<and> dx_receipt_kind r \<in> {''receipt'', ''capability_ref''}
     \<and> dx_strand_ref r \<noteq> [] \<and> dx_issued_at r < dx_expires_at r \<and> dx_signature_suite r \<noteq> []
     \<and> dx_public_key_ref r \<noteq> [] \<and> length (dx_author_public_key_bytes r) = 32 \<and> length (dx_signature_bytes r) = 64"

definition shaped_verify ::
  "crypto \<Rightarrow> DreggReceiptFixture list \<Rightarrow> u64 option \<Rightarrow> EvidenceRequest \<Rightarrow> EvidenceResult" where
  "shaped_verify C fixtures validation_time request =
     (if \<not> accepts request DreggReceipt then Inl InsufficientEvidence
      else rbind (ok_or InvalidPresentation (find_by_ref dx_evidence_ref fixtures (rq_evidence_refs request)))
        (\<lambda>(evidence_ref, r).
        if dx_subject r \<noteq> rq_subject request then Inl WrongSubject
        else if dx_audience r \<noteq> rq_audience request then Inl WrongAudience
        else if dx_operation r \<noteq> rq_operation request then Inl WrongOperation
        else if dx_resource r \<noteq> (case rq_resource request of None \<Rightarrow> '''' | Some x \<Rightarrow> x) then Inl WrongResource
        else rbind (case requested_origin request of
              None \<Rightarrow> Inl InvalidPresentation
            | Some orig \<Rightarrow> ensure WrongOrigin (orig = dx_origin r)) (\<lambda>_.
          if \<not> receipt_has_required_shape r then Inl InvalidPresentation
          else if dx_public_key_ref r \<noteq> public_key_ref_for_bytes C (dx_author_public_key_bytes r)
          then Inl InvalidPresentation
          else if dx_signature_suite r \<noteq> ED25519_SIGNATURE_SUITE then Inl UnsupportedSignatureSuite
          else rbind (case validation_time of
                None \<Rightarrow> Inr ()
              | Some now \<Rightarrow> if now < dx_issued_at r then Inl NotYetValidClaim
                  else if dx_expires_at r \<le> now then Inl ExpiredClaim else Inr ()) (\<lambda>_.
            if \<not> verify_ed25519_signature C (dx_author_public_key_bytes r) (dx_signature_bytes r)
                (receipt_shape_canonical_bytes r)
            then Inl InvalidSignature
            else Inr \<lparr>es_kind = DreggReceipt, es_subject = ''[redacted]'', es_audience = rq_audience request,
                es_operation = rq_operation request, es_resource = rq_resource request,
                es_local_dev_test_only = False, es_public_proof = False,
                es_summary_fields =
                  [''shape_contract:secs-dregg-receipt-shape-v1'',
                   redacted_reference_field C ''evidence_ref'' evidence_ref,
                   redacted_reference_field C ''strand_ref'' (dx_strand_ref r), ''origin:'' @ dx_origin r,
                   ''receipt_kind:'' @ dx_receipt_kind r, ''sequence:'' @ dec_string (unat (dx_sequence r)),
                   ''public_key_ref:'' @ dx_public_key_ref r,
                   ''issued_at:'' @ dec_string (unat (dx_issued_at r)),
                   ''expires_at:'' @ dec_string (unat (dx_expires_at r)),
                   ''signature_suite:'' @ dx_signature_suite r]\<rparr>))))"

definition DreggShapedEvidenceAdapter :: "crypto \<Rightarrow> DreggReceiptFixture list \<Rightarrow> u64 \<Rightarrow> EvidenceAdapter" where
  "DreggShapedEvidenceAdapter C fixtures validation_time =
     \<lparr>ea_kind = DreggReceipt, ea_verify = shaped_verify C fixtures (Some validation_time)\<rparr>"

section \<open>Lemmas\<close>

text \<open>The live verifiers of the receiver only report proof kinds, statuses and hashed references.\<close>

lemma live_fields_no_lock:
  "revocation_verify_revocation C v env = Inr fs \<Longrightarrow> lock_marker \<notin> set fs"
  "bls_verify_threshold_finality C b env = Inr fs \<Longrightarrow> lock_marker \<notin> set fs"
  "rotated_verify_replay C w env = Inr fs \<Longrightarrow> lock_marker \<notin> set fs"
  by (auto simp: revocation_verify_revocation_def bls_verify_threshold_finality_def rotated_verify_replay_def
      result_simps redacted_reference_field_def)

abbreviation (input) no_lock_live :: "LiveDreggVerifier \<Rightarrow> bool" where
  "no_lock_live live \<equiv> (\<forall>env fs.
     (lv_verify_revocation live env = Inr fs \<longrightarrow> lock_marker \<notin> set fs) \<and>
     (lv_verify_bls_threshold_finality live env = Inr fs \<longrightarrow> lock_marker \<notin> set fs) \<and>
     (lv_verify_rotated_replay live env = Inr fs \<longrightarrow> lock_marker \<notin> set fs))"

lemma composite_live_no_lock: "no_lock_live (LiveDreggCompositeVerifier C a b c)"
  using live_fields_no_lock
  by (auto simp: LiveDreggCompositeVerifier_def missing_revocation_def missing_bls_def missing_rotated_def
      split: option.splits)

lemma missing_live_composite: "MissingLiveVerifier = LiveDreggCompositeVerifier C None None None"
  by (simp add: MissingLiveVerifier_def LiveDreggCompositeVerifier_def)

lemma live_steps_no_lock:
  assumes "no_lock_live live"
  shows "live_revocation live er g e = Inr fs \<Longrightarrow> lock_marker \<notin> set fs"
    and "live_bls live er g e = Inr fs \<Longrightarrow> lock_marker \<notin> set fs"
    and "live_rotated C live er g e r = Inr fs \<Longrightarrow> lock_marker \<notin> set fs"
  using assms by (auto simp: live_revocation_def live_bls_def live_rotated_def Let_def result_simps split: if_splits)

lemma base_fields_no_lock: "lock_marker \<notin> set (authority_base_fields C er g e)"
  by (auto simp: authority_base_fields_def Let_def redacted_reference_field_def split: option.splits)

lemma delegation_fields_no_lock: "lock_marker \<notin> set (delegation_fields C tok res)"
  by (auto simp: delegation_fields_def redacted_reference_field_def split: option.splits)

lemma lock_fields_iff: "lock_marker \<in> set (lock_fields C tok res) \<longleftrightarrow> pt_resource_lock tok \<noteq> None"
  by (cases "pt_resource_lock tok") (simp_all add: lock_fields_def)

lemma check_lock_Inr: "check_lock tok res = Inr v \<longleftrightarrow>
    (case pt_resource_lock tok of None \<Rightarrow> v = None | Some lock \<Rightarrow> res = Some lock \<and> v = Some lock)"
  by (auto simp: check_lock_def split: option.splits)

lemma check_delegation_Inr: "check_delegation tok res = Inr u \<longleftrightarrow>
    (case pt_delegated_resource_prefix tok of None \<Rightarrow> True | Some pre \<Rightarrow> \<exists>rest. res = Some (pre @ rest))"
  by (auto simp: check_delegation_def result_simps starts_with_iff prefix_def split: option.splits)

lemma authority_verify_InrE:
  assumes "authority_verify C grants registry now live r = Inr s"
  obtains er g e f1 f2 f3 tok where "accepts r DreggAuthority"
    "find_by_ref ag_evidence_ref grants (rq_evidence_refs r) = Some (er, g)"
    "lookup_active_policy registry (authority_lookup g r now) = Inr e"
    "live_revocation live er g e = Inr f1" "live_bls live er g e = Inr f2" "live_rotated C live er g e r = Inr f3"
    "parse_dregg_authority_token (ag_token g) = Inr tok" "pt_subject tok = rq_subject r"
    "pt_tool tok = rq_operation r" "now < pt_until tok"
    "check_delegation tok (rq_trusted_requested_resource r) = Inr ()"
    "check_lock tok (rq_trusted_requested_resource r) = Inr (es_resource s)"
    "es_kind s = DreggAuthority" "es_subject s = ''[redacted]''" "es_audience s = rq_audience r"
    "es_operation s = rq_operation r"
    "es_summary_fields s = authority_base_fields C er g e @ f1 @ f2 @ f3
       @ delegation_fields C tok (rq_trusted_requested_resource r) @ lock_fields C tok (rq_trusted_requested_resource r)"
proof -
  have acc: "accepts r DreggAuthority" using assms by (auto simp: authority_verify_def split: if_splits)
  obtain er g where g: "find_by_ref ag_evidence_ref grants (rq_evidence_refs r) = Some (er, g)"
    using assms acc by (cases "find_by_ref ag_evidence_ref grants (rq_evidence_refs r)") (auto simp: authority_verify_def)
  obtain e f1 f2 f3 tok where e: "lookup_active_policy registry (authority_lookup g r now) = Inr e"
    "live_revocation live er g e = Inr f1" "live_bls live er g e = Inr f2" "live_rotated C live er g e r = Inr f3"
    "parse_dregg_authority_token (ag_token g) = Inr tok"
    using assms acc g by (simp add: authority_verify_def rbind_Inr_iff) blast
  show thesis
    using assms acc g e
    by (intro that [OF acc g e])
      (auto simp: authority_verify_def not_le result_simps split: if_splits)
qed

interpretation authority_adapter: leaf_adapter
  "authority_verify C grants registry t (LiveDreggCompositeVerifier C' rev bls rot)"
  for C grants registry t C' rev bls rot
proof unfold_locales
  fix r s
  assume "authority_verify C grants registry t (LiveDreggCompositeVerifier C' rev bls rot) r = Inr s"
  from authority_verify_InrE [OF this] obtain er g e f1 f2 f3 tok where a: "accepts r DreggAuthority"
    "live_revocation (LiveDreggCompositeVerifier C' rev bls rot) er g e = Inr f1"
    "live_bls (LiveDreggCompositeVerifier C' rev bls rot) er g e = Inr f2"
    "live_rotated C (LiveDreggCompositeVerifier C' rev bls rot) er g e r = Inr f3"
    and lock: "check_lock tok (rq_trusted_requested_resource r) = Inr (es_resource s)"
    and s: "es_kind s = DreggAuthority" "es_subject s = ''[redacted]''" "es_audience s = rq_audience r"
      "es_operation s = rq_operation r"
      "es_summary_fields s = authority_base_fields C er g e @ f1 @ f2 @ f3
        @ delegation_fields C tok (rq_trusted_requested_resource r) @ lock_fields C tok (rq_trusted_requested_resource r)"
    by metis
  show "es_subject s = ''[redacted]'' \<and> es_audience s = rq_audience r \<and> es_operation s = rq_operation r"
    by (simp add: s)
  show "accepts r (es_kind s)" by (simp add: s a(1))
  show "es_kind s = DreggAuthority" by (rule s(1))
  assume "lock_marker \<in> set (es_summary_fields s)"
  then have "pt_resource_lock tok \<noteq> None"
    using live_steps_no_lock [OF composite_live_no_lock] a(2-4)
    by (auto simp: s(5) base_fields_no_lock delegation_fields_no_lock lock_fields_iff)
  then show "\<exists>res. es_resource s = Some res \<and> rq_trusted_requested_resource r = Some res"
    using lock by (auto simp: check_lock_Inr)
qed

interpretation snapshot_adapter: leaf_adapter "snapshot_verify C snapshot fixtures t" for C snapshot fixtures t
  by unfold_locales (auto simp: snapshot_verify_def result_simps)

interpretation shaped_adapter: leaf_adapter "shaped_verify C fixtures t" for C fixtures t
  by unfold_locales (auto simp: shaped_verify_def result_simps redacted_reference_field_def)

lemma dec_string_ascii_digits: "list_all ascii_digit (dec_string n)"
  using dec_string_digits by (auto simp: list_all_iff ascii_digit_def)

lemma parse_u64_dec_string: "parse_u64 (dec_string (unat u)) = Some u"
proof -
  obtain c cs where s: "dec_string (unat u) = c # cs" using dec_string_not_Nil by (cases "dec_string (unat u)") auto
  have "c \<noteq> CHR ''+''" using dec_string_ascii_digits [of "unat u"] by (auto simp: s ascii_digit_def)
  moreover have "unat u \<le> u64_max" using unsigned_less [of u, where 'a = nat] by (simp add: u64_max_def)
  moreover have "dec_value (c # cs) = unat u" using dec_value_dec_string [of "unat u"] by (simp only: s)
  ultimately show ?thesis
    using dec_string_ascii_digits [of "unat u"] by (simp add: parse_u64_def s not_less)
qed

lemma bar_free_dec_string: "CHR ''|'' \<notin> set (dec_string n)"
  using dec_string_digits [of "CHR ''|''" n] by auto

lemma digit_text_no_marker:
  "strip_prefix (CHR ''r'' # p) (dec_string n) = None"
  using dec_string_ascii_digits [of n] by (cases "dec_string n") (auto simp: ascii_digit_def)

section \<open>Properties\<close>

text \<open>Grant tokens round-trip: what the three token formats write, the parser reads back exactly, as long
  as subject, tool and resource are non-empty and free of the separator; the expiry survives at its full
  64-bit range.\<close>

theorem authority_token_round_trip:
  assumes "subject \<noteq> []" "tool \<noteq> []" "res \<noteq> []"
    and "CHR ''|'' \<notin> set subject" "CHR ''|'' \<notin> set tool" "CHR ''|'' \<notin> set res"
  shows "parse_dregg_authority_token (fixture_token subject tool until) =
      Inr \<lparr>pt_subject = subject, pt_tool = tool, pt_delegated_resource_prefix = None, pt_resource_lock = None,
           pt_until = until\<rparr> \<and>
    parse_dregg_authority_token (fixture_token_with_resource_prefix subject tool res until) =
      Inr \<lparr>pt_subject = subject, pt_tool = tool, pt_delegated_resource_prefix = Some res, pt_resource_lock = None,
           pt_until = until\<rparr> \<and>
    parse_dregg_authority_token (fixture_token_with_resource_lock subject tool res until) =
      Inr \<lparr>pt_subject = subject, pt_tool = tool, pt_delegated_resource_prefix = None, pt_resource_lock = Some res,
           pt_until = until\<rparr>"
proof -
  let ?u = "dec_string (unat until)"
  have plain: "split_on CHR ''|'' (subject @ CHR ''|'' # tool @ CHR ''|'' # ?u) = [subject, tool, ?u]"
    by (simp add: split_on_append split_on_delim_free_id bar_free_dec_string assms)
  have bound: "split_on CHR ''|'' (subject @ CHR ''|'' # tool @ CHR ''|'' # p @ res @ CHR ''|'' # ?u)
      = [subject, tool, p @ res, ?u]" if "CHR ''|'' \<notin> set p" for p
    using split_on_append [of "CHR ''|''" "p @ res" ?u] that
    by (simp add: split_on_append split_on_delim_free_id bar_free_dec_string assms)
  have 1: "split_on CHR ''|'' (subject @ ''|'' @ tool @ ''|resource_prefix:'' @ res @ ''|'' @ ?u)
      = [subject, tool, ''resource_prefix:'' @ res, ?u]"
    using bound [of "''resource_prefix:''"] by simp
  have 2: "split_on CHR ''|'' (subject @ ''|'' @ tool @ ''|resource_lock:'' @ res @ ''|'' @ ?u)
      = [subject, tool, ''resource_lock:'' @ res, ?u]"
    using bound [of "''resource_lock:''"] by simp
  have "parse_dregg_authority_token (fixture_token subject tool until) =
      Inr \<lparr>pt_subject = subject, pt_tool = tool, pt_delegated_resource_prefix = None, pt_resource_lock = None,
           pt_until = until\<rparr>"
    using plain assms
    by (simp add: parse_dregg_authority_token_def fixture_token_def parse_u64_dec_string digit_text_no_marker)
  moreover have "parse_dregg_authority_token (fixture_token_with_resource_prefix subject tool res until) =
      Inr \<lparr>pt_subject = subject, pt_tool = tool, pt_delegated_resource_prefix = Some res, pt_resource_lock = None,
           pt_until = until\<rparr>"
    unfolding parse_dregg_authority_token_def fixture_token_with_resource_prefix_def strip_prefix_append
      ok_or_simps rbind_simps Let_def 1
    using assms by (simp add: parse_u64_dec_string)
  moreover have "parse_dregg_authority_token (fixture_token_with_resource_lock subject tool res until) =
      Inr \<lparr>pt_subject = subject, pt_tool = tool, pt_delegated_resource_prefix = None, pt_resource_lock = Some res,
           pt_until = until\<rparr>"
    unfolding parse_dregg_authority_token_def fixture_token_with_resource_lock_def strip_prefix_append
      ok_or_simps rbind_simps Let_def 2
    using assms by (simp add: parse_u64_dec_string)
  ultimately show ?thesis by blast
qed

theorem authority_token_round_trip_witness:
  "parse_dregg_authority_token (fixture_token ''agent'' ''demo.file.write'' 900) =
     Inr \<lparr>pt_subject = ''agent'', pt_tool = ''demo.file.write'', pt_delegated_resource_prefix = None,
          pt_resource_lock = None, pt_until = 900\<rparr>"
  using authority_token_round_trip [of "''agent''" "''demo.file.write''" "''file:///a''" 900] by simp

text \<open>C31. An admitted grant never amplifies: the grant is one the receiver holds under a reference the caller
  named, the registry's lookup accepted it for this audience, operation and resource, its token names the
  request's subject and operation and has not run out, a delegated prefix covers the resource requested in
  the payload, a resource lock equals it and is the only resource the summary reports, and every live
  verifier the registry entry asks for answered positively.\<close>

theorem authority_grant_never_amplifies:
  "case authority_verify C grants registry now live r of Inl _ \<Rightarrow> True | Inr s \<Rightarrow>
     \<exists>g e tok. g \<in> set grants \<and> ag_evidence_ref g \<in> set (rq_evidence_refs r) \<and>
       lookup_active_policy registry (authority_lookup g r now) = Inr e \<and>
       parse_dregg_authority_token (ag_token g) = Inr tok \<and>
       pt_subject tok = rq_subject r \<and> pt_tool tok = rq_operation r \<and> now < pt_until tok \<and>
       (case pt_delegated_resource_prefix tok of None \<Rightarrow> True
        | Some pre \<Rightarrow> \<exists>rest. rq_trusted_requested_resource r = Some (pre @ rest)) \<and>
       (case pt_resource_lock tok of None \<Rightarrow> es_resource s = None
        | Some lock \<Rightarrow> rq_trusted_requested_resource r = Some lock \<and> es_resource s = Some lock) \<and>
       (if sp_revocation_verifier_mode (ae_status_policy e) = LiveRevocationVerifierRequired
        then \<exists>env fs. lv_verify_revocation live env = Inr fs \<and> le_issuer_id env = ag_issuer_id g else True) \<and>
       (if sp_finality_mode (ae_status_policy e) \<in> {BlsThresholdRequired, RotatedReplayRequired}
        then \<exists>env fs. lv_verify_bls_threshold_finality live env = Inr fs \<and> le_issuer_id env = ag_issuer_id g
        else True)"
proof (cases "authority_verify C grants registry now live r")
  case (Inr s)
  from authority_verify_InrE [OF this] obtain er g e f1 f2 f3 tok where
    g: "find_by_ref ag_evidence_ref grants (rq_evidence_refs r) = Some (er, g)"
    and a: "lookup_active_policy registry (authority_lookup g r now) = Inr e"
      "parse_dregg_authority_token (ag_token g) = Inr tok"
      "pt_subject tok = rq_subject r" "pt_tool tok = rq_operation r" "now < pt_until tok"
    and live: "live_revocation live er g e = Inr f1" "live_bls live er g e = Inr f2"
      "live_rotated C live er g e r = Inr f3"
    and res: "check_delegation tok (rq_trusted_requested_resource r) = Inr ()"
      "check_lock tok (rq_trusted_requested_resource r) = Inr (es_resource s)"
    by metis
  have rev: "if sp_revocation_verifier_mode (ae_status_policy e) = LiveRevocationVerifierRequired
      then \<exists>env fs. lv_verify_revocation live env = Inr fs \<and> le_issuer_id env = ag_issuer_id g else True"
    using live(1) by (fastforce simp: live_revocation_def Let_def live_envelope_def)
  have bls: "if sp_finality_mode (ae_status_policy e) \<in> {BlsThresholdRequired, RotatedReplayRequired}
      then \<exists>env fs. lv_verify_bls_threshold_finality live env = Inr fs \<and> le_issuer_id env = ag_issuer_id g else True"
    using live(2,3)
    by (fastforce simp: live_bls_def live_rotated_def Let_def live_envelope_def result_simps split: if_splits)
  show ?thesis
    unfolding Inr sum.case
    using find_by_ref_Some [OF g] a res [unfolded check_delegation_Inr check_lock_Inr] rev bls
    by (intro exI [of _ g] exI [of _ e] exI [of _ tok] conjI) (simp_all only:)
qed simp

text \<open>Signatures cannot be moved between the three kinds of signed evidence or between different
  statements of one kind: wallet challenges, credentials and receipts have pairwise different signed bytes,
  and within each kind the bytes determine every field that is signed.\<close>

theorem signed_evidence_bytes_are_unambiguous:
  "challenge_canonical_bytes ch \<noteq> credential_canonical_bytes cr \<and>
   challenge_canonical_bytes ch \<noteq> receipt_shape_canonical_bytes rc \<and>
   credential_canonical_bytes cr \<noteq> receipt_shape_canonical_bytes rc \<and>
   {c. challenge_canonical_bytes c = challenge_canonical_bytes ch} = {ch} \<and>
   {c. credential_canonical_bytes c = credential_canonical_bytes cr \<and> fc_origin c = fc_origin cr} = {cr} \<and>
   {x. receipt_shape_canonical_bytes x = receipt_shape_canonical_bytes rc}
     = {x. receipt_shape_fields x = receipt_shape_fields rc}"
proof -
  have "receipt_shape_canonical_bytes a = receipt_shape_canonical_bytes b
      \<longleftrightarrow> receipt_shape_fields a = receipt_shape_fields b" for a b
    unfolding receipt_shape_canonical_bytes_def
    by (rule canonical_lines_eq_iff) (simp_all add: receipt_shape_fields_def)
  moreover have "canonical_lines ''secs-wallet-challenge-v1'' fs \<noteq> canonical_lines ''secs-federated-credential-v1'' gs"
    "canonical_lines ''secs-wallet-challenge-v1'' fs \<noteq> canonical_lines ''secs-dregg-receipt-shape-v1'' gs"
    "canonical_lines ''secs-federated-credential-v1'' fs \<noteq> canonical_lines ''secs-dregg-receipt-shape-v1'' gs" for fs gs
    by (simp_all add: canonical_lines_def as_bytes_def byte_of_char_def)
  then have "challenge_canonical_bytes ch \<noteq> credential_canonical_bytes cr"
    "challenge_canonical_bytes ch \<noteq> receipt_shape_canonical_bytes rc"
    "credential_canonical_bytes cr \<noteq> receipt_shape_canonical_bytes rc"
    by (simp_all add: challenge_canonical_bytes_def credential_canonical_bytes_def receipt_shape_canonical_bytes_def)
  ultimately show ?thesis
    using credential_canonical_bytes_inj [of _ cr] by (auto simp: challenge_canonical_bytes_inj)
qed

end
