(* ===== verification/Evidence_Verifier.thy ===== *)
theory Evidence_Verifier
  imports Authority_Evidence
begin

text \<open>
  The evidence-backed entry points of the verifier (\<^verbatim>\<open>server/src/verifier.rs\<close>, lines 454 to 661): the live path
  that ingress uses when an adapter is configured, and the explicit-subject path with its wrappers. Both
  build the same request, apply the same maturity policy and disclosure scans, and turn the adapter's summary
  into a signed context; \<open>evidence_context\<close> is that shared part.
\<close>

section \<open>Definitions\<close>

definition reject_adapter_below_policy ::
  "EvidenceRequest \<Rightarrow> EvidenceKind \<Rightarrow> EvidenceTier \<Rightarrow> VerificationError + unit" where
  "reject_adapter_below_policy request adapter_kind required_tier =
     (if accepts request adapter_kind then Inr ()
      else if \<not> is_supported (mp_support_status (maturity_profile adapter_kind))
      then Inl (EvidenceErr UnsupportedEvidenceKind)
      else if mp_tier (maturity_profile adapter_kind) < required_tier
      then Inl (EvidenceErr EvidenceTierTooWeak)
      else Inr ())"

definition evidence_request ::
  "OperationDescriptor \<Rightarrow> string \<Rightarrow> string \<Rightarrow> EvidenceInputs \<Rightarrow> string option \<Rightarrow> EvidenceRequest" where
  "evidence_request d subject audience inputs trusted =
     (let request = from_descriptor_with_refs d subject audience (ei_evidence_refs inputs) in
      request\<lparr>rq_public_inputs := rq_public_inputs request @ ei_public_inputs inputs,
              rq_trusted_requested_resource := trusted\<rparr>)"

definition evidence_context ::
  "crypto \<Rightarrow> 'a bincode_scheme \<Rightarrow> (bytes \<Rightarrow> json option) \<Rightarrow> ZenithPacket \<Rightarrow> OperationDescriptor \<Rightarrow> string \<Rightarrow>
     VerifiedSubject \<Rightarrow> EvidenceInputs \<Rightarrow> bytes \<Rightarrow> EvidenceAdapter \<Rightarrow> u64 \<Rightarrow> VerificationError + VerifiedCallContext" where
  "evidence_context C B parse_json packet d audience subject inputs trusted_payload adapter now =
     rbind (trusted_requested_resource_from_payload parse_json trusted_payload) (\<lambda>trusted.
       let request = evidence_request d (vs_subject_id subject) audience inputs trusted in
       rbind (required_maturity_profile request) (\<lambda>required_maturity.
       rbind (reject_adapter_below_policy request (ea_kind adapter) (mp_tier required_maturity)) (\<lambda>_.
       rbind (ea_verify adapter request) (\<lambda>summary.
       rbind (validate_satisfied_summary request summary) (\<lambda>_.
       rbind (reject_forbidden_evidence_summary (to_policy_scan_fields summary (mp_tier required_maturity)) d) (\<lambda>_.
       let evidence_summary = to_context_fields_for_policy summary (mp_tier required_maturity) in
       rbind (reject_forbidden_evidence_summary evidence_summary d) (\<lambda>_.
       rbind (context_resource_from_evidence_summary evidence_summary) (\<lambda>context_resource.
       verified_context_for_descriptor C B packet d audience subject evidence_summary context_resource now))))))))"

definition verify_manifest_operation_with_live_evidence ::
  "crypto \<Rightarrow> 'a bincode_scheme \<Rightarrow> (bytes \<Rightarrow> json option) \<Rightarrow> ZenithPacket \<Rightarrow> ReceiverManifest \<Rightarrow> string \<Rightarrow>
     EvidenceInputs \<Rightarrow> bytes \<Rightarrow> EvidenceAdapter \<Rightarrow> u64 \<Rightarrow> RuntimeMode \<Rightarrow> CallerKeyRegistry option \<Rightarrow>
     VerificationError + VerifiedCallContext" where
  "verify_manifest_operation_with_live_evidence C B parse_json packet manifest audience inputs trusted_payload
       adapter now runtime_mode caller_keys =
     (if is_clock_read_failure now then Inl ExpiredClaim
      else rbind (verify_prototype_envelope packet) (\<lambda>_.
        rbind (manifest_lookup manifest (zp_opcode packet)) (\<lambda>d.
        rbind (reject_over_disclosed_packet parse_json packet d) (\<lambda>_.
        rbind (reject_non_production_descriptor d runtime_mode) (\<lambda>_.
        rbind (runtime_subject C packet now runtime_mode caller_keys) (\<lambda>subject.
        evidence_context C B parse_json packet d audience subject inputs trusted_payload adapter now))))))"

definition verify_manifest_operation_with_live_evidence_and_sign_for_runtime_with_identity_and_caller ::
  "crypto \<Rightarrow> 'a bincode_scheme \<Rightarrow> (bytes \<Rightarrow> json option) \<Rightarrow> ZenithPacket \<Rightarrow> ReceiverManifest \<Rightarrow> string \<Rightarrow>
     EvidenceInputs \<Rightarrow> bytes \<Rightarrow> EvidenceAdapter \<Rightarrow> u64 \<Rightarrow> NodeVerifierIdentity \<Rightarrow> RuntimeMode \<Rightarrow>
     CallerKeyRegistry option \<Rightarrow> VerificationError + SignedVerifiedCallContext" where
  "verify_manifest_operation_with_live_evidence_and_sign_for_runtime_with_identity_and_caller C B parse_json
       packet manifest audience inputs trusted_payload adapter now identity runtime_mode caller_keys =
     rbind (verify_manifest_operation_with_live_evidence C B parse_json packet manifest audience inputs
       trusted_payload adapter now runtime_mode caller_keys) (\<lambda>context. sign_context C B identity context)"

definition verify_manifest_operation_with_evidence_refs_and_inputs_and_sign ::
  "crypto \<Rightarrow> 'a bincode_scheme \<Rightarrow> (bytes \<Rightarrow> json option) \<Rightarrow> ZenithPacket \<Rightarrow> ReceiverManifest \<Rightarrow> string \<Rightarrow> string \<Rightarrow>
     EvidenceInputs \<Rightarrow> EvidenceAdapter \<Rightarrow> u64 \<Rightarrow> string \<Rightarrow> bytes \<Rightarrow> VerificationError + SignedVerifiedCallContext" where
  "verify_manifest_operation_with_evidence_refs_and_inputs_and_sign C B parse_json packet manifest audience
       subject inputs adapter now signer_key_id secret_key =
     (if is_clock_read_failure now then Inl ExpiredClaim
      else rbind (verify_prototype_envelope packet) (\<lambda>_.
        rbind (manifest_lookup manifest (zp_opcode packet)) (\<lambda>d.
        rbind (evidence_context C B parse_json packet d audience
          \<lparr>vs_subject_id = subject, vs_key_id = subject @ ''#key''\<rparr> inputs (zp_encrypted_payload packet)
          adapter now) (\<lambda>context.
        context_sign_ed25519 C B context signer_key_id secret_key Ed25519Verifier))))"

definition verify_manifest_operation_with_evidence_inputs_and_sign ::
  "crypto \<Rightarrow> 'a bincode_scheme \<Rightarrow> (bytes \<Rightarrow> json option) \<Rightarrow> ZenithPacket \<Rightarrow> ReceiverManifest \<Rightarrow> string \<Rightarrow> string \<Rightarrow>
     string option \<Rightarrow> string list \<Rightarrow> EvidenceAdapter \<Rightarrow> u64 \<Rightarrow> string \<Rightarrow> bytes \<Rightarrow>
     VerificationError + SignedVerifiedCallContext" where
  "verify_manifest_operation_with_evidence_inputs_and_sign C B parse_json packet manifest audience subject
       evidence_ref public_inputs adapter now signer_key_id secret_key =
     verify_manifest_operation_with_evidence_refs_and_inputs_and_sign C B parse_json packet manifest audience
       subject (EvidenceInputs_new (case evidence_ref of None \<Rightarrow> [] | Some r \<Rightarrow> [r]) public_inputs) adapter now
       signer_key_id secret_key"

definition verify_manifest_operation_with_evidence_and_sign ::
  "crypto \<Rightarrow> 'a bincode_scheme \<Rightarrow> (bytes \<Rightarrow> json option) \<Rightarrow> ZenithPacket \<Rightarrow> ReceiverManifest \<Rightarrow> string \<Rightarrow> string \<Rightarrow>
     string option \<Rightarrow> EvidenceAdapter \<Rightarrow> u64 \<Rightarrow> string \<Rightarrow> bytes \<Rightarrow> VerificationError + SignedVerifiedCallContext" where
  "verify_manifest_operation_with_evidence_and_sign C B parse_json packet manifest audience subject evidence_ref
       adapter now signer_key_id secret_key =
     verify_manifest_operation_with_evidence_inputs_and_sign C B parse_json packet manifest audience subject
       evidence_ref [] adapter now signer_key_id secret_key"

section \<open>Lemmas\<close>

lemma evidence_request_fields [simp]:
  "rq_subject (evidence_request d s a i t) = s" "rq_audience (evidence_request d s a i t) = a"
  "rq_operation (evidence_request d s a i t) = od_name d"
  "rq_accepted_evidence (evidence_request d s a i t) = od_accepted_evidence d"
  "rq_evidence_refs (evidence_request d s a i t) = ei_evidence_refs i"
  "rq_trusted_requested_resource (evidence_request d s a i t) = t"
  by (simp_all add: evidence_request_def from_descriptor_with_refs_def Let_def)

lemma evidence_context_InrE:
  assumes "evidence_context C B pj packet d aud subject inputs payload adapter now = Inr ctx"
  obtains trusted required summary res where
    "trusted_requested_resource_from_payload pj payload = Inr trusted"
    "required_maturity_profile (evidence_request d (vs_subject_id subject) aud inputs trusted) = Inr required"
    "reject_adapter_below_policy (evidence_request d (vs_subject_id subject) aud inputs trusted)
       (ea_kind adapter) (mp_tier required) = Inr ()"
    "ea_verify adapter (evidence_request d (vs_subject_id subject) aud inputs trusted) = Inr summary"
    "validate_satisfied_summary (evidence_request d (vs_subject_id subject) aud inputs trusted) summary = Inr ()"
    "reject_forbidden_evidence_summary (to_context_fields_for_policy summary (mp_tier required)) d = Inr ()"
    "context_resource_from_evidence_summary (to_context_fields_for_policy summary (mp_tier required)) = Inr res"
    "verified_context_for_descriptor C B packet d aud subject
       (to_context_fields_for_policy summary (mp_tier required)) res now = Inr ctx"
  using assms unfolding evidence_context_def Let_def rbind_Inr_iff by (elim exE conjE) (simp add: that)

lemma live_evidence_InrE:
  assumes "verify_manifest_operation_with_live_evidence C B pj packet m aud inputs payload adapter now mode callers = Inr ctx"
  obtains d subject where "\<not> is_clock_read_failure now" "verify_prototype_envelope packet = Inr ()"
    "manifest_lookup m (zp_opcode packet) = Inr d" "reject_over_disclosed_packet pj packet d = Inr ()"
    "reject_non_production_descriptor d mode = Inr ()" "runtime_subject C packet now mode callers = Inr subject"
    "evidence_context C B pj packet d aud subject inputs payload adapter now = Inr ctx"
  using assms
  by (auto simp: verify_manifest_operation_with_live_evidence_def result_simps)

text \<open>What an accepted summary's maturity means: every kind the descriptor accepts is supported, and the
  summary's tier is at least as high as each of theirs.\<close>

lemma satisfied_summary_tier:
  assumes "validate_satisfied_summary r s = Inr u" and "l \<in> set (rq_accepted_evidence r)"
  shows "\<exists>k. l = EvidenceKind_as_str k \<and> is_supported (mp_support_status (maturity_profile k)) \<and>
    mp_tier (maturity_profile k) \<le> mp_tier (maturity_profile (es_kind s))"
proof -
  obtain p where p: "required_profile_loop ShapeOnly Supported (rq_accepted_evidence r) = Inr p"
    and le: "mp_tier p \<le> mp_tier (maturity_profile (es_kind s))"
    using assms(1)
    by (auto simp: validate_satisfied_summary_def required_maturity_profile_def supported_for_policy_def Let_def
        result_simps not_less split: if_splits)
  show ?thesis using required_profile_loop_Inr(2) [OF p assms(2)] le by (auto intro: order.trans)
qed

context evidence_adapter
begin

lemma evidence_context_resource:
  assumes "ea_verify adapter = verify"
    and "evidence_context C B pj packet d aud subject inputs payload adapter now = Inr ctx"
  shows "\<exists>trusted. trusted_requested_resource_from_payload pj payload = Inr trusted \<and> vc_resource ctx \<in> {None, trusted}"
proof -
  obtain trusted tier summary res where
    t: "trusted_requested_resource_from_payload pj payload = Inr trusted"
    and v: "ea_verify adapter (evidence_request d (vs_subject_id subject) aud inputs trusted) = Inr summary"
    and r: "context_resource_from_evidence_summary (to_context_fields_for_policy summary tier) = Inr res"
    and c: "verified_context_for_descriptor C B packet d aud subject
       (to_context_fields_for_policy summary tier) res now = Inr ctx"
    by (rule evidence_context_InrE [OF assms(2)]) (rule that; assumption)
  have "res \<in> {None, trusted}"
    using r context_resource [OF v [unfolded assms(1)], of tier]
    by (auto split: if_splits option.splits)
  then show ?thesis using t verified_context_Inr(9) [OF c] by simp
qed

lemma evidence_context_fields:
  assumes "ea_verify adapter = verify"
    and "evidence_context C B pj packet d aud subject inputs payload adapter now = Inr ctx"
  shows "{''subject:[redacted]'', ''audience:'' @ aud, ''operation:'' @ od_name d} \<subseteq> set (vc_evidence_summary ctx)"
proof -
  obtain trusted tier summary res where
    v: "ea_verify adapter (evidence_request d (vs_subject_id subject) aud inputs trusted) = Inr summary"
    and c: "verified_context_for_descriptor C B packet d aud subject
       (to_context_fields_for_policy summary tier) res now = Inr ctx"
    by (rule evidence_context_InrE [OF assms(2)]) (rule that; assumption)
  show ?thesis
    using binds [OF v [unfolded assms(1)]] verified_context_Inr(18) [OF c]
    by (auto simp: to_context_fields_for_policy_def to_context_fields_def Let_def)
qed

end

text \<open>The composition of all adapters of the receiver, each with whatever fixtures, registries and times it is
  configured with; an adapter that holds nothing is skipped by the composition.\<close>

definition receiver_evidence_adapter ::
  "crypto \<Rightarrow> FederatedCredentialFixture list \<Rightarrow> TrustedIssuerRegistry \<Rightarrow> WalletPresentationFixture list \<Rightarrow>
     DreggAuthorityGrantFixture list \<Rightarrow> DreggAuthorityRegistry \<Rightarrow> LiveDreggRevocationVerifier option \<Rightarrow>
     LiveDreggBlsFinalityVerifier option \<Rightarrow> LiveDreggRotatedReplayVerifier option \<Rightarrow> DreggAuthoritySnapshot \<Rightarrow>
     DreggAuthoritySnapshotEvidenceFixture list \<Rightarrow> DreggReceiptFixture list \<Rightarrow> LocalStaticGrant list \<Rightarrow> u64 \<Rightarrow>
     EvidenceAdapter" where
  "receiver_evidence_adapter C credentials issuers wallets grants authorities rvk bls rot snapshot snapshots
       receipts local t =
     CompositeEvidenceAdapter
       [FederatedCredentialAdapter C credentials issuers t, WalletPresentationAdapter C wallets t,
        DreggAuthorityEvidenceAdapter C grants authorities t (LiveDreggCompositeVerifier C rvk bls rot),
        DreggAuthoritySnapshotEvidenceAdapter C snapshot snapshots t, DreggShapedEvidenceAdapter C receipts t,
        LocalStaticEvidenceAdapter C local]"

interpretation receiver_adapter: evidence_adapter
  "ea_verify (receiver_evidence_adapter C credentials issuers wallets grants authorities rvk bls rot snapshot
     snapshots receipts local t)"
  for C credentials issuers wallets grants authorities rvk bls rot snapshot snapshots receipts local t
proof -
  have "evidence_adapter (composite_verify
     [federated_verify C credentials issuers t, wallet_verify C wallets (Some t),
      authority_verify C grants authorities t (LiveDreggCompositeVerifier C rvk bls rot),
      snapshot_verify C snapshot snapshots t, shaped_verify C receipts (Some t), local_static_verify C local])"
    by (rule composite_adapter)
      (auto intro: federated_adapter.leaf_adapter_axioms wallet_adapter.leaf_adapter_axioms
        authority_adapter.leaf_adapter_axioms snapshot_adapter.leaf_adapter_axioms
        shaped_adapter.leaf_adapter_axioms local_static_adapter.leaf_adapter_axioms)
  then show "evidence_adapter (ea_verify (receiver_evidence_adapter C credentials issuers wallets grants
      authorities rvk bls rot snapshot snapshots receipts local t))"
    by (simp add: receiver_evidence_adapter_def CompositeEvidenceAdapter_def FederatedCredentialAdapter_def
        WalletPresentationAdapter_def DreggAuthorityEvidenceAdapter_def DreggAuthoritySnapshotEvidenceAdapter_def
        DreggShapedEvidenceAdapter_def LocalStaticEvidenceAdapter_def)
qed

text \<open>C26. In production mode the live evidence path yields a context only when the clock could be read, the
  packet's proof verifies against the caller registry for exactly this packet and the context carries that
  caller's identity, the operation is a production operation of the manifest, every evidence kind the operation
  accepts is a supported one, and the adapter vouched for this caller, audience and operation with evidence
  whose tier is at least that of every accepted kind.\<close>

theorem live_evidence_meets_policy:
  "case verify_manifest_operation_with_live_evidence C B pj packet m aud inputs payload adapter now
      ProductionVerified callers of
     Inl _ \<Rightarrow> True
   | Inr ctx \<Rightarrow> \<exists>d registry caller request summary.
       \<not> is_clock_read_failure now \<and> manifest_lookup m (zp_opcode packet) = Inr d \<and> \<not> prototype_descriptor d \<and>
       callers = Some registry \<and> verify_caller_proof C packet registry now = Inr caller \<and>
       vc_subject ctx = \<lparr>vs_subject_id = ac_subject_id caller, vs_key_id = ac_key_id caller\<rparr> \<and>
       vc_operation ctx = od_name d \<and> vc_audience ctx = aud \<and>
       rq_subject request = ac_subject_id caller \<and> rq_audience request = aud \<and>
       rq_operation request = od_name d \<and> ea_verify adapter request = Inr summary \<and>
       list_all (\<lambda>l. \<exists>k. l = EvidenceKind_as_str k \<and> is_supported (mp_support_status (maturity_profile k)) \<and>
         mp_tier (maturity_profile k) \<le> mp_tier (maturity_profile (es_kind summary))) (od_accepted_evidence d)"
proof (cases "verify_manifest_operation_with_live_evidence C B pj packet m aud inputs payload adapter now
      ProductionVerified callers")
  case (Inr ctx)
  obtain d subject where t: "\<not> is_clock_read_failure now" and d: "manifest_lookup m (zp_opcode packet) = Inr d"
    and prod: "reject_non_production_descriptor d ProductionVerified = Inr ()"
    and s: "runtime_subject C packet now ProductionVerified callers = Inr subject"
    and e: "evidence_context C B pj packet d aud subject inputs payload adapter now = Inr ctx"
    by (rule live_evidence_InrE [OF Inr]) (rule that; assumption)
  obtain trusted summary ev res where
    v: "ea_verify adapter (evidence_request d (vs_subject_id subject) aud inputs trusted) = Inr summary"
    and w: "validate_satisfied_summary (evidence_request d (vs_subject_id subject) aud inputs trusted) summary = Inr ()"
    and c: "verified_context_for_descriptor C B packet d aud subject ev res now = Inr ctx"
    by (rule evidence_context_InrE [OF e]) (rule that; assumption)
  obtain registry caller where r: "callers = Some registry" "verify_caller_proof C packet registry now = Inr caller"
      "subject = \<lparr>vs_subject_id = ac_subject_id caller, vs_key_id = ac_key_id caller\<rparr>"
    using s by (auto simp: runtime_subject_def result_simps split: option.splits)
  have "\<not> prototype_descriptor d" using prod by (simp add: reject_non_production_Inr_iff)
  moreover have "list_all (\<lambda>l. \<exists>k. l = EvidenceKind_as_str k \<and> is_supported (mp_support_status (maturity_profile k)) \<and>
       mp_tier (maturity_profile k) \<le> mp_tier (maturity_profile (es_kind summary))) (od_accepted_evidence d)"
    using satisfied_summary_tier [OF w] by (simp add: list_all_iff)
  ultimately show ?thesis
    unfolding Inr sum.case using t d r v verified_context_Inr(8,10,11) [OF c]
    by (intro exI [of _ d] exI [of _ registry] exI [of _ caller] exI [of _ summary]
        exI [of _ "evidence_request d (vs_subject_id subject) aud inputs trusted"]) simp
qed simp

text \<open>C27. Whatever fixtures, registries and live verifiers the receiver's own evidence adapters are configured
  with, a context from the live evidence path names no resource or exactly the resource the trusted payload
  asked for, and its evidence names the operation and the audience it was checked for.\<close>

theorem receiver_evidence_binds_resource:
  "case verify_manifest_operation_with_live_evidence C B pj packet m aud inputs payload
      (receiver_evidence_adapter C credentials issuers wallets grants authorities rvk bls rot snapshot snapshots
         receipts local t) now mode callers of
     Inl _ \<Rightarrow> True
   | Inr ctx \<Rightarrow> \<exists>trusted. trusted_requested_resource_from_payload pj payload = Inr trusted \<and>
       vc_resource ctx \<in> {None, trusted} \<and>
       {''subject:[redacted]'', ''audience:'' @ aud, ''operation:'' @ vc_operation ctx}
         \<subseteq> set (vc_evidence_summary ctx)"
  (is "case ?run of Inl _ \<Rightarrow> True | Inr ctx \<Rightarrow> ?bound ctx")
proof (cases ?run)
  case (Inr ctx)
  obtain d subject where e: "evidence_context C B pj packet d aud subject inputs payload
      (receiver_evidence_adapter C credentials issuers wallets grants authorities rvk bls rot snapshot snapshots
         receipts local t) now = Inr ctx"
    by (rule live_evidence_InrE [OF Inr]) (rule that; assumption)
  have "vc_operation ctx = od_name d"
    by (rule evidence_context_InrE [OF e]) (rule verified_context_Inr(8))
  then show ?thesis
    unfolding Inr sum.case
    using receiver_adapter.evidence_context_resource [OF refl e] receiver_adapter.evidence_context_fields [OF refl e]
    by auto
qed simp

end
