(* ===== verification/Ledger.thy ===== *)
theory Ledger
  imports Verifier "HOL-Library.State_Monad"
begin

text \<open>
  The SQLite ledger (\<^verbatim>\<open>server/src/ledger.rs\<close>, tables of \<^verbatim>\<open>server/src/schema.rs\<close>): replay reservations, scoped
  nullifier uses, events and receipts, as operations of a state monad over the tables. A table is the list
  of its rows in insertion order. Any query may fail: the parameter \<^term>\<open>F\<close> tells, for the n-th query the
  database runs, whether it does.
\<close>

section \<open>Rows\<close>

record ReplayRow =
  rr_reserved_at :: int
  rr_expires_at :: int
  rr_replay_scope :: string
  rr_session_id :: bytes
  rr_opcode :: u8
  rr_nonce :: bytes
  rr_packet_hash :: bytes
  rr_context_id :: string
  rr_signer_key_id :: string

record DevgraphAuthorityReplayBindingV1 =
  db_actor_id :: string
  db_audience :: string
  db_expires_at :: u64
  db_idempotency_key_digest_sha256 :: string
  db_issued_at :: u64
  db_nonce :: bytes
  db_operation :: string
  db_replay_scope :: string
  db_receiver_policy_id :: string
  db_receiver_policy_version :: u64
  db_receiver_policy_digest_sha256 :: string
  db_request_digest_sha256 :: string
  db_resource :: string
  db_secs_context_id :: string
  db_secs_verifier_key_id :: string
  db_session_id :: bytes
  db_wallet_presentation_digest_sha256 :: string

text \<open>The stored row: the binding with its numbers read as non-negative SQLite integers.\<close>

record DevgraphReplayRow =
  dr_reserved_at :: nat
  dr_binding :: DevgraphAuthorityReplayBindingV1

record NullifierRow =
  nr_recorded_at :: int
  nr_domain_fingerprint :: string
  nr_commitment_fingerprint :: string
  nr_commitment_storage_hash :: string
  nr_context_id :: string
  nr_operation :: string
  nr_resource_kind :: string
  nr_domain_version :: string

record EventRow =
  ev_timestamp :: int
  ev_event_kind :: string
  ev_packet_hash :: "bytes option"
  ev_opcode :: "u8 option"
  ev_operation :: "string option"
  ev_handler_id :: "string option"
  ev_reason :: "string option"

record ReceiptRow =
  tr_receipt_id :: string
  tr_schema_version :: u16
  tr_context_id :: "string option"
  tr_timestamp :: int
  tr_kind :: string
  tr_packet_hash :: bytes
  tr_session_id :: bytes
  tr_nonce :: bytes
  tr_opcode :: u8
  tr_operation :: "string option"
  tr_decision :: string
  tr_reason :: "string option"
  tr_handler_id :: "string option"
  tr_authenticator_kind :: string
  tr_signer_key_id :: string
  tr_evidence_summary :: "string list"
  tr_output_schema_id :: "string option"
  tr_output_byte_count :: "nat option"
  tr_output_digest_sha256 :: "bytes option"
  tr_signature :: bytes

record TelemetryRow =
  te_opcode :: u8
  te_payload_size :: nat
  te_operation :: string

record Db =
  db_queries :: nat
  db_replay_reservations :: "ReplayRow list"
  db_devgraph_reservations :: "DevgraphReplayRow list"
  db_scoped_nullifier_uses :: "NullifierRow list"
  db_events :: "EventRow list"
  db_receipts :: "ReceiptRow list"
  db_node_telemetry :: "TelemetryRow list"

datatype sqlx_error = QueryFailed | ConstraintViolated | RowNotFound | ProtocolError

section \<open>Queries\<close>

text \<open>One query: it fails without effect, or has the given effect.\<close>

definition run_query ::
  "(nat \<Rightarrow> bool) \<Rightarrow> ('a Db_scheme \<Rightarrow> (sqlx_error + 'b) \<times> 'a Db_scheme) \<Rightarrow> ('a Db_scheme, sqlx_error + 'b) state" where
  "run_query F q = State (\<lambda>db.
     let db' = db\<lparr>db_queries := Suc (db_queries db)\<rparr> in
     if F (db_queries db) then (Inl QueryFailed, db') else q db')"

text \<open>\<^verbatim>\<open>INSERT OR IGNORE\<close> into a table with a uniqueness constraint: whether a row was added.\<close>

definition insert_or_ignore :: "('r \<Rightarrow> 'k) \<Rightarrow> 'r list \<Rightarrow> 'r \<Rightarrow> bool \<times> 'r list" where
  "insert_or_ignore key rows row =
     (if key row \<in> set (map key rows) then (False, rows) else (True, rows @ [row]))"

definition replay_key :: "ReplayRow \<Rightarrow> bytes \<times> u8 \<times> bytes \<times> string" where
  "replay_key r = (rr_session_id r, rr_opcode r, rr_nonce r, rr_replay_scope r)"

definition nullifier_key :: "NullifierRow \<Rightarrow> string \<times> string" where
  "nullifier_key r = (nr_domain_fingerprint r, nr_commitment_storage_hash r)"

definition devgraph_key :: "DevgraphReplayRow \<Rightarrow> bytes \<times> string \<times> bytes" where
  "devgraph_key r = (db_session_id (dr_binding r), db_operation (dr_binding r), db_nonce (dr_binding r))"

definition checked_sqlite_integer :: "u64 \<Rightarrow> sqlx_error + nat" where
  "checked_sqlite_integer value = (if unat value < i64_limit then Inr (unat value) else Inl ProtocolError)"

section \<open>Replay reservations\<close>

datatype ReplayReservationOutcome = Reserved | Duplicate

datatype DevgraphReplayReservationOutcome = DevgraphReserved | ExactDuplicate | ScopeConflict

datatype ScopedNullifierUseOutcome = Recorded | DuplicateUse

definition prune_expired_replay_reservations ::
  "(nat \<Rightarrow> bool) \<Rightarrow> u64 \<Rightarrow> ('a Db_scheme, sqlx_error + nat) state" where
  "prune_expired_replay_reservations F now =
     (if is_clock_read_failure now then State_Monad.return (Inr 0)
      else run_query F (\<lambda>db.
        let kept = filter (\<lambda>r. \<not> rr_expires_at r < as_i64 now) (db_replay_reservations db) in
        (Inr (length (db_replay_reservations db) - length kept), db\<lparr>db_replay_reservations := kept\<rparr>)))"

definition replay_row :: "VerifiedCallContext \<Rightarrow> string \<Rightarrow> u64 \<Rightarrow> ReplayRow" where
  "replay_row context signer_key_id reserved_at =
     \<lparr>rr_reserved_at = as_i64 reserved_at, rr_expires_at = as_i64 (vc_expires_at context),
      rr_replay_scope = vc_replay_scope context, rr_session_id = vc_session_id context,
      rr_opcode = vc_opcode context, rr_nonce = vc_nonce context,
      rr_packet_hash = vc_packet_hash context, rr_context_id = vc_context_id context,
      rr_signer_key_id = signer_key_id\<rparr>"

definition reserve_replay ::
  "(nat \<Rightarrow> bool) \<Rightarrow> VerifiedCallContext \<Rightarrow> string \<Rightarrow> u64 \<Rightarrow>
     ('a Db_scheme, sqlx_error + ReplayReservationOutcome) state" where
  "reserve_replay F context signer_key_id reserved_at = do {
     _ \<leftarrow> prune_expired_replay_reservations F reserved_at;
     run_query F (\<lambda>db.
       let (added, rows) = insert_or_ignore replay_key (db_replay_reservations db)
             (replay_row context signer_key_id reserved_at) in
       (Inr (if added then Reserved else Duplicate), db\<lparr>db_replay_reservations := rows\<rparr>))
   }"

definition prune_expired_devgraph_authority_replay_reservations ::
  "(nat \<Rightarrow> bool) \<Rightarrow> u64 \<Rightarrow> ('a Db_scheme, sqlx_error + nat) state" where
  "prune_expired_devgraph_authority_replay_reservations F now =
     (if is_clock_read_failure now then State_Monad.return (Inr 0)
      else case checked_sqlite_integer now of
          Inl e \<Rightarrow> State_Monad.return (Inl e)
        | Inr n \<Rightarrow> run_query F (\<lambda>db.
            let kept = filter (\<lambda>r. \<not> unat (db_expires_at (dr_binding r)) \<le> n) (db_devgraph_reservations db) in
            (Inr (length (db_devgraph_reservations db) - length kept), db\<lparr>db_devgraph_reservations := kept\<rparr>)))"

text \<open>The table's check constraint admits one replay scope; \<^verbatim>\<open>OR IGNORE\<close> skips a row that violates it.\<close>

definition reserve_devgraph_authority_replay ::
  "(nat \<Rightarrow> bool) \<Rightarrow> DevgraphAuthorityReplayBindingV1 \<Rightarrow> u64 \<Rightarrow>
     ('a Db_scheme, sqlx_error + DevgraphReplayReservationOutcome) state" where
  "reserve_devgraph_authority_replay F binding reserved_at = do {
     pruned \<leftarrow> prune_expired_devgraph_authority_replay_reservations F reserved_at;
     case rbind pruned (\<lambda>_.
         rbind (checked_sqlite_integer reserved_at) (\<lambda>reserved_at.
         rbind (checked_sqlite_integer (db_expires_at binding)) (\<lambda>_.
         rbind (checked_sqlite_integer (db_issued_at binding)) (\<lambda>_.
         rbind (checked_sqlite_integer (db_receiver_policy_version binding)) (\<lambda>_. Inr reserved_at))))) of
       Inl e \<Rightarrow> State_Monad.return (Inl e)
     | Inr reserved_at \<Rightarrow> do {
         inserted \<leftarrow> run_query F (\<lambda>db.
           if db_replay_scope binding \<noteq> ''session:operation:nonce'' then (Inr False, db)
           else let (added, rows) = insert_or_ignore devgraph_key (db_devgraph_reservations db)
                  \<lparr>dr_reserved_at = reserved_at, dr_binding = binding\<rparr> in
             (Inr added, db\<lparr>db_devgraph_reservations := rows\<rparr>));
         case inserted of
           Inl e \<Rightarrow> State_Monad.return (Inl e)
         | Inr True \<Rightarrow> State_Monad.return (Inr DevgraphReserved)
         | Inr False \<Rightarrow> run_query F (\<lambda>db.
             (case find (\<lambda>r. devgraph_key r = (db_session_id binding, db_operation binding, db_nonce binding))
                 (db_devgraph_reservations db) of
               None \<Rightarrow> Inl RowNotFound
             | Some r \<Rightarrow> Inr (if dr_binding r = binding then ExactDuplicate else ScopeConflict), db))
       }
   }"

section \<open>Scoped nullifier uses\<close>

definition nullifier_row ::
  "crypto \<Rightarrow> NullifierDomainV1 \<Rightarrow> string \<Rightarrow> VerifiedCallContext \<Rightarrow> u64 \<Rightarrow> NullifierRow" where
  "nullifier_row C domain commitment context recorded_at =
     \<lparr>nr_recorded_at = as_i64 recorded_at, nr_domain_fingerprint = domain_fingerprint C domain,
      nr_commitment_fingerprint = commitment_fingerprint C commitment,
      nr_commitment_storage_hash = commitment_storage_hash C commitment,
      nr_context_id = vc_context_id context, nr_operation = vc_operation context,
      nr_resource_kind = ResourceKind_as_str (nd_resource_kind domain),
      nr_domain_version = nd_domain_version domain\<rparr>"

definition record_scoped_nullifier_use ::
  "crypto \<Rightarrow> (nat \<Rightarrow> bool) \<Rightarrow> NullifierDomainV1 \<Rightarrow> string \<Rightarrow> VerifiedCallContext \<Rightarrow> u64 \<Rightarrow>
     ('a Db_scheme, sqlx_error + ScopedNullifierUseOutcome) state" where
  "record_scoped_nullifier_use C F domain commitment context recorded_at =
     run_query F (\<lambda>db.
       let (added, rows) = insert_or_ignore nullifier_key (db_scoped_nullifier_uses db)
             (nullifier_row C domain commitment context recorded_at) in
       (Inr (if added then Recorded else DuplicateUse), db\<lparr>db_scoped_nullifier_uses := rows\<rparr>))"

definition scoped_nullifier_use_count ::
  "crypto \<Rightarrow> (nat \<Rightarrow> bool) \<Rightarrow> NullifierDomainV1 \<Rightarrow> string \<Rightarrow> ('a Db_scheme, sqlx_error + nat) state" where
  "scoped_nullifier_use_count C F domain commitment =
     run_query F (\<lambda>db.
       (Inr (length (filter (\<lambda>r. nr_domain_fingerprint r = domain_fingerprint C domain \<and>
            nr_commitment_storage_hash r = commitment_storage_hash C commitment)
          (db_scoped_nullifier_uses db))), db))"

definition duplicate_nullifier_reason :: string where
  "duplicate_nullifier_reason = NullifierReason_as_str DuplicateNullifier"

section \<open>Events and receipts\<close>

definition event_row ::
  "ReceiptEventKind \<Rightarrow> bytes option \<Rightarrow> u8 option \<Rightarrow> string option \<Rightarrow> string option \<Rightarrow> string option \<Rightarrow> u64 \<Rightarrow>
     EventRow" where
  "event_row event_kind packet_hash opcode operation handler_id reason timestamp =
     \<lparr>ev_timestamp = as_i64 timestamp, ev_event_kind = ReceiptEventKind_as_str event_kind,
      ev_packet_hash = packet_hash, ev_opcode = opcode, ev_operation = operation,
      ev_handler_id = handler_id, ev_reason = reason\<rparr>"

definition record_event ::
  "(nat \<Rightarrow> bool) \<Rightarrow> ReceiptEventKind \<Rightarrow> bytes option \<Rightarrow> u8 option \<Rightarrow> string option \<Rightarrow> string option \<Rightarrow>
     string option \<Rightarrow> u64 \<Rightarrow> ('a Db_scheme, sqlx_error + unit) state" where
  "record_event F event_kind packet_hash opcode operation handler_id reason timestamp =
     run_query F (\<lambda>db. (Inr (), db\<lparr>db_events := db_events db
       @ [event_row event_kind packet_hash opcode operation handler_id reason timestamp]\<rparr>))"

text \<open>The evidence summary is stored as a JSON array and read back; the model stores the list.\<close>

definition receipt_row :: "Receipt \<Rightarrow> ReceiptRow" where
  "receipt_row r =
     \<lparr>tr_receipt_id = rc_receipt_id r, tr_schema_version = rc_schema_version r,
      tr_context_id = rc_context_id r, tr_timestamp = as_i64 (rc_timestamp r),
      tr_kind = ReceiptKind_as_str (rc_kind r), tr_packet_hash = rc_packet_hash r,
      tr_session_id = rc_session_id r, tr_nonce = rc_nonce r, tr_opcode = rc_opcode r,
      tr_operation = rc_operation r, tr_decision = Decision_as_str (rc_decision r),
      tr_reason = rc_reason r, tr_handler_id = rc_handler_id r,
      tr_authenticator_kind = AuthenticatorKind_as_str (rc_authenticator_kind r),
      tr_signer_key_id = rc_signer_key_id r, tr_evidence_summary = rc_evidence_summary r,
      tr_output_schema_id = map_option ro_schema_id (rc_output_projection r),
      tr_output_byte_count = Option.bind (rc_output_projection r)
        (\<lambda>p. if unat (ro_byte_count p) < i64_limit then Some (unat (ro_byte_count p)) else None),
      tr_output_digest_sha256 = map_option ro_digest_sha256 (rc_output_projection r),
      tr_signature = rc_signature r\<rparr>"

text \<open>A plain insert under the primary key fails on a duplicate.\<close>

definition insert_receipt_row :: "ReceiptRow list \<Rightarrow> ReceiptRow \<Rightarrow> sqlx_error + ReceiptRow list" where
  "insert_receipt_row rows row =
     (if tr_receipt_id row \<in> set (map tr_receipt_id rows) then Inl ConstraintViolated
      else Inr (rows @ [row]))"

definition record_receipt :: "(nat \<Rightarrow> bool) \<Rightarrow> Receipt \<Rightarrow> ('a Db_scheme, sqlx_error + unit) state" where
  "record_receipt F receipt = run_query F (\<lambda>db.
     case insert_receipt_row (db_receipts db) (receipt_row receipt) of
       Inl e \<Rightarrow> (Inl e, db)
     | Inr rows \<Rightarrow> (Inr (), db\<lparr>db_receipts := rows\<rparr>))"

text \<open>Statements inside a transaction: begin, the two inserts, commit. On an error the transaction is
  dropped and rolled back, that is, the tables are those before it.\<close>

definition record_receipt_with_emitted_event ::
  "(nat \<Rightarrow> bool) \<Rightarrow> Receipt \<Rightarrow> ReceiptEventKind \<Rightarrow> bytes option \<Rightarrow> u8 option \<Rightarrow> string option \<Rightarrow> string option \<Rightarrow>
     string option \<Rightarrow> u64 \<Rightarrow> ('a Db_scheme, sqlx_error + unit) state" where
  "record_receipt_with_emitted_event F receipt event_kind packet_hash opcode operation handler_id reason
       timestamp = State (\<lambda>db.
     let (result, db') = run_state (do {
         began \<leftarrow> run_query F (\<lambda>db. (Inr (), db));
         case began of Inl e \<Rightarrow> State_Monad.return (Inl e) | Inr _ \<Rightarrow> do {
           stored \<leftarrow> record_receipt F receipt;
           case stored of Inl e \<Rightarrow> State_Monad.return (Inl e) | Inr _ \<Rightarrow> do {
             logged \<leftarrow> record_event F event_kind packet_hash opcode operation handler_id reason timestamp;
             case logged of Inl e \<Rightarrow> State_Monad.return (Inl e)
             | Inr _ \<Rightarrow> run_query F (\<lambda>db. (Inr (), db)) } } }) db in
     case result of
       Inl e \<Rightarrow> (Inl e, db\<lparr>db_queries := db_queries db'\<rparr>)
     | Inr _ \<Rightarrow> (Inr (), db'))"

section \<open>Schema initialisation\<close>

text \<open>Creating missing tables does not touch existing rows; both prunes run, their results ignored.\<close>

definition init_schema :: "(nat \<Rightarrow> bool) \<Rightarrow> u64 \<Rightarrow> ('a Db_scheme, sqlx_error + unit) state" where
  "init_schema F now = do {
     applied \<leftarrow> run_query F (\<lambda>db. (Inr (), db));
     case applied of Inl e \<Rightarrow> State_Monad.return (Inl e) | Inr _ \<Rightarrow> do {
       _ \<leftarrow> prune_expired_replay_reservations F now;
       _ \<leftarrow> prune_expired_devgraph_authority_replay_reservations F now;
       State_Monad.return (Inr ()) } }"

section \<open>The interface of a single-use store\<close>

text \<open>What the replay table, the nullifier table and the authority replay table promise: an attempt
  succeeds exactly when its key was never used, and uses it. Clients get at most one success per key over
  any sequence of attempts.\<close>

locale single_use_store =
  fixes try_use :: "'s \<Rightarrow> 'r \<Rightarrow> bool \<times> 's"
    and used :: "'s \<Rightarrow> 'k set"
    and key :: "'r \<Rightarrow> 'k"
  assumes try_use_fresh: "fst (try_use s r) \<longleftrightarrow> key r \<notin> used s"
    and used_try_use: "used (snd (try_use s r)) = insert (key r) (used s)"
begin

primrec attempts :: "'s \<Rightarrow> 'r list \<Rightarrow> ('k \<times> bool) list" where
  "attempts s [] = []"
| "attempts s (r # rs) = (key r, fst (try_use s r)) # attempts (snd (try_use s r)) rs"

lemma used_once_refused: "k \<in> used s \<Longrightarrow> (k, True) \<notin> set (attempts s rs)"
  by (induction rs arbitrary: s) (auto simp: try_use_fresh used_try_use)

lemma at_most_once: "count_list (attempts s rs) (k, True) \<le> 1"
proof (induction rs arbitrary: s)
  case (Cons r rs)
  show ?case
  proof (cases "key r = k \<and> fst (try_use s r)")
    case True
    then have "(k, True) \<notin> set (attempts (snd (try_use s r)) rs)"
      by (intro used_once_refused) (auto simp: used_try_use)
    then show ?thesis using True by (simp add: count_list_0_iff)
  next
    case False
    then show ?thesis using Cons.IH [of "snd (try_use s r)"] by auto
  qed
qed simp

text \<open>The first attempt with a fresh key succeeds, so a fresh key that is tried is used exactly once.\<close>

lemma exactly_once:
  "k \<notin> used s \<Longrightarrow> k \<in> key ` set rs \<Longrightarrow> count_list (attempts s rs) (k, True) = 1"
proof (induction rs arbitrary: s)
  case (Cons r rs)
  show ?case
  proof (cases "key r = k")
    case True
    then have "(k, True) \<notin> set (attempts (snd (try_use s r)) rs)"
      by (intro used_once_refused) (auto simp: used_try_use)
    then show ?thesis using True Cons.prems by (simp add: try_use_fresh count_list_0_iff)
  next
    case False
    then show ?thesis using Cons.IH [of "snd (try_use s r)"] Cons.prems by (auto simp: used_try_use)
  qed
qed simp

end

lemma insert_or_ignore_single_use:
  "single_use_store (insert_or_ignore key) (\<lambda>rows. key ` set rows) key"
  by unfold_locales (auto simp: insert_or_ignore_def)

interpretation replay_store: single_use_store "insert_or_ignore replay_key" "\<lambda>rows. replay_key ` set rows" replay_key
  by (rule insert_or_ignore_single_use)

interpretation nullifier_store:
  single_use_store "insert_or_ignore nullifier_key" "\<lambda>rows. nullifier_key ` set rows" nullifier_key
  by (rule insert_or_ignore_single_use)

interpretation devgraph_store:
  single_use_store "insert_or_ignore devgraph_key" "\<lambda>rows. devgraph_key ` set rows" devgraph_key
  by (rule insert_or_ignore_single_use)

lemma insert_or_ignore_distinct:
  "distinct (map key rows) \<Longrightarrow> distinct (map key (snd (insert_or_ignore key rows row)))"
  by (simp add: insert_or_ignore_def)

lemma insert_or_ignore_mono: "set rows \<subseteq> set (snd (insert_or_ignore key rows row))"
  by (auto simp: insert_or_ignore_def)

lemma distinct_map_filter_key: "distinct (map f xs) \<Longrightarrow> distinct (map f (filter P xs))"
  by (induction xs) auto

section \<open>Effects of the operations\<close>

text \<open>The tables after an operation; the query counter moves in every case.\<close>

lemma run_query_eq:
  "run_state (run_query F q) db =
     (if F (db_queries db) then (Inl QueryFailed, db\<lparr>db_queries := Suc (db_queries db)\<rparr>)
      else q (db\<lparr>db_queries := Suc (db_queries db)\<rparr>))"
  by (simp add: run_query_def Let_def)

named_theorems ledger_defs

lemmas [ledger_defs] = prune_expired_replay_reservations_def reserve_replay_def
  prune_expired_devgraph_authority_replay_reservations_def reserve_devgraph_authority_replay_def
  record_scoped_nullifier_use_def scoped_nullifier_use_count_def record_event_def record_receipt_def
  init_schema_def run_query_eq Let_def

text \<open>What one operation may do to the tables, when all clock readings it uses are in \<^term>\<open>T\<close>.\<close>

definition expired_by :: "(u64 \<Rightarrow> bool) \<Rightarrow> ReplayRow \<Rightarrow> bool" where
  "expired_by T r \<longleftrightarrow> (\<exists>now. T now \<and> \<not> is_clock_read_failure now \<and> rr_expires_at r < as_i64 now)"

definition ledger_ok :: "'a Db_scheme \<Rightarrow> bool" where
  "ledger_ok db \<longleftrightarrow> distinct (map replay_key (db_replay_reservations db)) \<and>
     distinct (map devgraph_key (db_devgraph_reservations db)) \<and>
     distinct (map nullifier_key (db_scoped_nullifier_uses db)) \<and>
     distinct (map tr_receipt_id (db_receipts db))"

definition ledger_le :: "(u64 \<Rightarrow> bool) \<Rightarrow> 'a Db_scheme \<Rightarrow> 'a Db_scheme \<Rightarrow> bool" where
  "ledger_le T db db' \<longleftrightarrow>
     (\<forall>r \<in> set (db_replay_reservations db). r \<in> set (db_replay_reservations db') \<or> expired_by T r) \<and>
     set (db_scoped_nullifier_uses db) \<subseteq> set (db_scoped_nullifier_uses db') \<and>
     (\<exists>es. db_events db' = db_events db @ es) \<and> (\<exists>rs. db_receipts db' = db_receipts db @ rs)"

lemma ledger_le_refl [simp]: "ledger_le T db db"
  by (simp add: ledger_le_def)

lemma ledger_le_queries [simp]:
  "ledger_le T (db\<lparr>db_queries := n\<rparr>) db' \<longleftrightarrow> ledger_le T db db'"
  "ledger_le T db (db'\<lparr>db_queries := n\<rparr>) \<longleftrightarrow> ledger_le T db db'"
  "ledger_ok (db\<lparr>db_queries := n\<rparr>) \<longleftrightarrow> ledger_ok db"
  by (simp_all add: ledger_le_def ledger_ok_def)

lemma ledger_le_trans: "ledger_le T a b \<Longrightarrow> ledger_le T b c \<Longrightarrow> ledger_le T a c"
proof -
  assume ab: "ledger_le T a b" and bc: "ledger_le T b c"
  have "\<forall>r \<in> set (db_replay_reservations a). r \<in> set (db_replay_reservations c) \<or> expired_by T r"
    using ab bc unfolding ledger_le_def by blast
  moreover have "\<exists>es. db_events c = db_events a @ es" "\<exists>rs. db_receipts c = db_receipts a @ rs"
    using ab bc unfolding ledger_le_def by auto
  moreover have "set (db_scoped_nullifier_uses a) \<subseteq> set (db_scoped_nullifier_uses c)"
    using ab bc unfolding ledger_le_def by blast
  ultimately show ?thesis by (simp add: ledger_le_def)
qed

text \<open>An operation is well behaved when it preserves the uniqueness constraints and only grows the tables
  up to expired reservations.\<close>

definition keeps_ledger :: "(u64 \<Rightarrow> bool) \<Rightarrow> ('a Db_scheme, 'b) state \<Rightarrow> bool" where
  "keeps_ledger T m \<longleftrightarrow> (\<forall>db. ledger_ok db \<longrightarrow>
     ledger_ok (snd (run_state m db)) \<and> ledger_le T db (snd (run_state m db)))"

named_theorems keeps_intros

lemma keeps_return [keeps_intros]: "keeps_ledger T (State_Monad.return x)"
  by (simp add: keeps_ledger_def)

lemma keeps_bind [keeps_intros]:
  assumes "keeps_ledger T m" and "\<And>x. keeps_ledger T (f x)"
  shows "keeps_ledger T (m \<bind> f)"
  unfolding keeps_ledger_def
proof (intro allI impI)
  fix db :: "'a Db_scheme" assume ok: "ledger_ok db"
  obtain x db1 where r: "run_state m db = (x, db1)" by fastforce
  have 1: "ledger_ok db1" "ledger_le T db db1" using assms(1) ok r unfolding keeps_ledger_def by fastforce+
  have 2: "ledger_ok (snd (run_state (f x) db1))" "ledger_le T db1 (snd (run_state (f x) db1))"
    using assms(2) 1(1) unfolding keeps_ledger_def by blast+
  show "ledger_ok (snd (run_state (m \<bind> f) db)) \<and> ledger_le T db (snd (run_state (m \<bind> f) db))"
    using 2(1) ledger_le_trans [OF 1(2) 2(2)] by (simp add: r)
qed

lemma keeps_run_query:
  assumes "\<And>db. ledger_ok db \<Longrightarrow> ledger_ok (snd (q db)) \<and> ledger_le T db (snd (q db))"
  shows "keeps_ledger T (run_query F q)"
  unfolding keeps_ledger_def run_query_eq
proof (intro allI impI)
  fix db :: "'a Db_scheme" assume ok: "ledger_ok db"
  then show "ledger_ok (snd (if F (db_queries db) then (Inl QueryFailed, db\<lparr>db_queries := Suc (db_queries db)\<rparr>)
      else q (db\<lparr>db_queries := Suc (db_queries db)\<rparr>))) \<and>
    ledger_le T db (snd (if F (db_queries db) then (Inl QueryFailed, db\<lparr>db_queries := Suc (db_queries db)\<rparr>)
      else q (db\<lparr>db_queries := Suc (db_queries db)\<rparr>)))"
    using assms [of "db\<lparr>db_queries := Suc (db_queries db)\<rparr>"] by simp
qed

lemma keeps_prune [keeps_intros]:
  assumes "T now"
  shows "keeps_ledger T (prune_expired_replay_reservations F now)"
proof (cases "is_clock_read_failure now")
  case False
  have "keeps_ledger T (run_query F (\<lambda>db.
        let kept = filter (\<lambda>r. \<not> rr_expires_at r < as_i64 now) (db_replay_reservations db) in
        (Inr (length (db_replay_reservations db) - length kept) :: sqlx_error + nat,
         db\<lparr>db_replay_reservations := kept\<rparr>)))"
    using assms False
    by (intro keeps_run_query)
      (auto simp: Let_def ledger_ok_def ledger_le_def expired_by_def intro: distinct_map_filter_key)
  then show ?thesis using False by (simp add: prune_expired_replay_reservations_def)
qed (simp add: prune_expired_replay_reservations_def keeps_return)

lemma keeps_reserve [keeps_intros]:
  assumes "T now"
  shows "keeps_ledger T (reserve_replay F context kid now)"
  unfolding reserve_replay_def
  by (intro keeps_bind keeps_prune assms keeps_run_query)
    (auto simp: Let_def split_def ledger_ok_def ledger_le_def intro: insert_or_ignore_distinct
      dest: insert_or_ignore_mono [THEN subsetD])

lemma keeps_prune_devgraph [keeps_intros]:
  "keeps_ledger T (prune_expired_devgraph_authority_replay_reservations F now)"
  unfolding prune_expired_devgraph_authority_replay_reservations_def
  by (auto intro!: keeps_return keeps_run_query distinct_map_filter_key
      simp: Let_def ledger_ok_def ledger_le_def split: sum.split)

lemma keeps_reserve_devgraph [keeps_intros]:
  "keeps_ledger T (reserve_devgraph_authority_replay F binding now)"
  unfolding reserve_devgraph_authority_replay_def
  by (auto intro!: keeps_bind keeps_prune_devgraph keeps_return keeps_run_query insert_or_ignore_distinct
      simp: Let_def split_def ledger_ok_def ledger_le_def split: sum.split bool.split)

lemma keeps_nullifier [keeps_intros]:
  "keeps_ledger T (record_scoped_nullifier_use C F domain commitment context now)"
  unfolding record_scoped_nullifier_use_def
  by (intro keeps_run_query)
    (auto simp: Let_def split_def ledger_ok_def ledger_le_def intro: insert_or_ignore_distinct
      dest: insert_or_ignore_mono [THEN subsetD])

lemma keeps_nullifier_count [keeps_intros]:
  "keeps_ledger T (scoped_nullifier_use_count C F domain commitment)"
  unfolding scoped_nullifier_use_count_def by (intro keeps_run_query) simp

lemma keeps_event [keeps_intros]:
  "keeps_ledger T (record_event F k ph oc opn h reason now)"
  unfolding record_event_def by (intro keeps_run_query) (simp add: ledger_ok_def ledger_le_def)

lemma keeps_receipt [keeps_intros]: "keeps_ledger T (record_receipt F receipt)"
  unfolding record_receipt_def
  by (intro keeps_run_query) (auto simp: insert_receipt_row_def ledger_ok_def ledger_le_def)

text \<open>The transaction: on success exactly one receipt row and one event row are added, on failure none.\<close>

lemma receipt_transaction:
  "case run_state (record_receipt_with_emitted_event F receipt k ph oc opn h reason now) db of
     (Inl e, db') \<Rightarrow> \<exists>n. db' = db\<lparr>db_queries := n\<rparr>
   | (Inr u, db') \<Rightarrow> \<exists>n. rc_receipt_id receipt \<notin> set (map tr_receipt_id (db_receipts db)) \<and>
       db' = db\<lparr>db_receipts := db_receipts db @ [receipt_row receipt],
                db_events := db_events db @ [event_row k ph oc opn h reason now], db_queries := n\<rparr>"
proof -
  have "tr_receipt_id (receipt_row receipt) = rc_receipt_id receipt" by (simp add: receipt_row_def)
  then show ?thesis
    by (auto simp: record_receipt_with_emitted_event_def record_receipt_def record_event_def run_query_eq
        insert_receipt_row_def Let_def split: sum.splits prod.splits if_splits intro: exI [of _ "Suc n" for n])
qed

lemma keeps_receipt_transaction [keeps_intros]:
  "keeps_ledger T (record_receipt_with_emitted_event F receipt k ph oc opn h reason now)"
  unfolding keeps_ledger_def
proof (intro allI impI)
  fix db :: "'a Db_scheme" assume ok: "ledger_ok db"
  let ?m = "record_receipt_with_emitted_event F receipt k ph oc opn h reason now"
  obtain res db' where r: "run_state ?m db = (res, db')" by fastforce
  have "tr_receipt_id (receipt_row receipt) = rc_receipt_id receipt" by (simp add: receipt_row_def)
  then show "ledger_ok (snd (run_state ?m db)) \<and> ledger_le T db (snd (run_state ?m db))"
    using receipt_transaction [where F = F and receipt = receipt and k = k and ph = ph and oc = oc and opn = opn
        and h = h and reason = reason and now = now and db = db] ok
    by (cases res) (auto simp: r ledger_ok_def ledger_le_def)
qed

lemma keeps_init [keeps_intros]: "T now \<Longrightarrow> keeps_ledger T (init_schema F now)"
  unfolding init_schema_def
  by (auto intro!: keeps_bind keeps_return keeps_prune keeps_prune_devgraph keeps_run_query split: sum.split)

section \<open>The ledger as a state machine\<close>

text \<open>One step runs any operation of the ledger with a clock reading from \<^term>\<open>T\<close>, with any queries
  failing.\<close>

inductive ledger_step :: "(u64 \<Rightarrow> bool) \<Rightarrow> Db \<Rightarrow> Db \<Rightarrow> bool" for T where
  step_prune: "T now \<Longrightarrow> ledger_step T db (snd (run_state (prune_expired_replay_reservations F now) db))"
| step_reserve: "T now \<Longrightarrow> ledger_step T db (snd (run_state (reserve_replay F context kid now) db))"
| step_prune_devgraph: "T now \<Longrightarrow>
    ledger_step T db (snd (run_state (prune_expired_devgraph_authority_replay_reservations F now) db))"
| step_reserve_devgraph: "T now \<Longrightarrow>
    ledger_step T db (snd (run_state (reserve_devgraph_authority_replay F binding now) db))"
| step_nullifier: "T now \<Longrightarrow>
    ledger_step T db (snd (run_state (record_scoped_nullifier_use C F domain commitment context now) db))"
| step_count: "ledger_step T db (snd (run_state (scoped_nullifier_use_count C F domain commitment) db))"
| step_event: "T now \<Longrightarrow>
    ledger_step T db (snd (run_state (record_event F kind ph oc opn h reason now) db))"
| step_receipt: "ledger_step T db (snd (run_state (record_receipt F receipt) db))"
| step_receipt_event: "T now \<Longrightarrow> ledger_step T db
    (snd (run_state (record_receipt_with_emitted_event F receipt kind ph oc opn h reason now) db))"
| step_init: "T now \<Longrightarrow> ledger_step T db (snd (run_state (init_schema F now) db))"

lemma keeps_ledgerD:
  "keeps_ledger T m \<Longrightarrow> ledger_ok db \<Longrightarrow> ledger_ok (snd (run_state m db)) \<and> ledger_le T db (snd (run_state m db))"
  by (simp add: keeps_ledger_def)

lemma ledger_step_keeps: "ledger_step T db db' \<Longrightarrow> ledger_ok db \<Longrightarrow> ledger_ok db' \<and> ledger_le T db db'"
  by (erule ledger_step.cases) (auto intro!: keeps_ledgerD keeps_intros)

lemma ledger_run_keeps: "(ledger_step T)\<^sup>*\<^sup>* db db' \<Longrightarrow> ledger_ok db \<Longrightarrow> ledger_ok db' \<and> ledger_le T db db'"
proof (induction rule: rtranclp_induct)
  case (step y z)
  then show ?case using ledger_step_keeps ledger_le_trans by blast
qed simp

definition empty_db :: Db where
  "empty_db = \<lparr>db_queries = 0, db_replay_reservations = [], db_devgraph_reservations = [],
     db_scoped_nullifier_uses = [], db_events = [], db_receipts = [], db_node_telemetry = []\<rparr>"

lemma ledger_ok_empty: "ledger_ok empty_db"
  by (simp add: ledger_ok_def empty_db_def)

text \<open>The replay key a context reserves.\<close>

definition context_replay_key :: "VerifiedCallContext \<Rightarrow> bytes \<times> u8 \<times> bytes \<times> string" where
  "context_replay_key c = (vc_session_id c, vc_opcode c, vc_nonce c, vc_replay_scope c)"

lemma replay_key_row [simp]: "replay_key (replay_row c kid t) = context_replay_key c"
  by (simp add: replay_key_def replay_row_def context_replay_key_def)

lemma rr_expires_row [simp]: "rr_expires_at (replay_row c kid t) = as_i64 (vc_expires_at c)"
  by (simp add: replay_row_def)

lemma prune_outcome:
  "\<exists>rows n r. (rows = db_replay_reservations db \<or> \<not> is_clock_read_failure t \<and>
        rows = filter (\<lambda>r. \<not> rr_expires_at r < as_i64 t) (db_replay_reservations db)) \<and>
     run_state (prune_expired_replay_reservations F t) db =
       (r, db\<lparr>db_replay_reservations := rows, db_queries := n\<rparr>)"
proof -
  consider "is_clock_read_failure t" | "\<not> is_clock_read_failure t" "F (db_queries db)"
    | "\<not> is_clock_read_failure t" "\<not> F (db_queries db)" by blast
  then show ?thesis
  proof cases
    case 1
    then show ?thesis
      by (intro exI [of _ "db_replay_reservations db"] exI [of _ "db_queries db"] exI)
        (simp add: prune_expired_replay_reservations_def)
  next
    case 2
    then show ?thesis
      by (intro exI [of _ "db_replay_reservations db"] exI [of _ "Suc (db_queries db)"] exI)
        (simp add: prune_expired_replay_reservations_def run_query_eq)
  next
    case 3
    then show ?thesis
      by (intro exI [of _ "filter (\<lambda>r. \<not> rr_expires_at r < as_i64 t) (db_replay_reservations db)"]
          exI [of _ "Suc (db_queries db)"] exI)
        (simp add: prune_expired_replay_reservations_def run_query_eq Let_def)
  qed
qed

lemma reserve_replay_outcome:
  "\<exists>rows n. (rows = db_replay_reservations db \<or> \<not> is_clock_read_failure t \<and>
        rows = filter (\<lambda>r. \<not> rr_expires_at r < as_i64 t) (db_replay_reservations db)) \<and>
     run_state (reserve_replay F c kid t) db =
       (if F n then (Inl QueryFailed, db\<lparr>db_replay_reservations := rows, db_queries := Suc n\<rparr>)
        else if context_replay_key c \<in> replay_key ` set rows
        then (Inr Duplicate, db\<lparr>db_replay_reservations := rows, db_queries := Suc n\<rparr>)
        else (Inr Reserved, db\<lparr>db_replay_reservations := rows @ [replay_row c kid t], db_queries := Suc n\<rparr>))"
proof -
  obtain rows n r where rows: "rows = db_replay_reservations db \<or> \<not> is_clock_read_failure t \<and>
        rows = filter (\<lambda>r. \<not> rr_expires_at r < as_i64 t) (db_replay_reservations db)"
    and p: "run_state (prune_expired_replay_reservations F t) db =
       (r, db\<lparr>db_replay_reservations := rows, db_queries := n\<rparr>)"
    using prune_outcome by blast
  show ?thesis
    by (intro exI [of _ rows] exI [of _ n] conjI rows)
      (simp add: reserve_replay_def p run_query_eq insert_or_ignore_def)
qed

lemma for_runtime_replay_key:
  assumes "verify_manifest_operation_for_runtime_with_caller C B pj packet m aud t mode callers = Inr c"
  shows "context_replay_key c = (zp_session_id packet, zp_opcode packet, zp_nonce packet, ''session:opcode:nonce'')"
    and "vc_expires_at c = saturating_add t (zp_claim_ttl packet)"
proof -
  obtain d subject ev where "verified_context_for_descriptor C B packet d aud subject ev None t = Inr c"
    using assms by (auto simp: for_runtime_Inr_iff)
  note c = verified_context_Inr [OF this]
  show "context_replay_key c = (zp_session_id packet, zp_opcode packet, zp_nonce packet, ''session:opcode:nonce'')"
    by (simp add: context_replay_key_def c(5,6,7,16))
  show "vc_expires_at c = saturating_add t (zp_claim_ttl packet)" by (rule c(13))
qed

lemma reserved_row_present:
  assumes "run_state (reserve_replay F c kid t) db = (Inr Reserved, db1)"
  shows "replay_row c kid t \<in> set (db_replay_reservations db1)"
  using reserve_replay_outcome [of db t F c kid] assms by (auto split: if_splits)

lemma live_row_refuses:
  assumes "r \<in> set (db_replay_reservations db)" and "replay_key r = context_replay_key c"
    and "is_clock_read_failure t \<or> as_i64 t \<le> rr_expires_at r"
  shows "fst (run_state (reserve_replay F c kid t) db) \<in> {Inr Duplicate, Inl QueryFailed}"
proof -
  obtain rows n where rows: "rows = db_replay_reservations db \<or> \<not> is_clock_read_failure t \<and>
        rows = filter (\<lambda>r. \<not> rr_expires_at r < as_i64 t) (db_replay_reservations db)"
    and run: "run_state (reserve_replay F c kid t) db =
       (if F n then (Inl QueryFailed, db\<lparr>db_replay_reservations := rows, db_queries := Suc n\<rparr>)
        else if context_replay_key c \<in> replay_key ` set rows
        then (Inr Duplicate, db\<lparr>db_replay_reservations := rows, db_queries := Suc n\<rparr>)
        else (Inr Reserved, db\<lparr>db_replay_reservations := rows @ [replay_row c kid t], db_queries := Suc n\<rparr>))"
    using reserve_replay_outcome [of db t F c kid] by (elim exE conjE) (rule that)
  have "r \<in> set rows" using rows assms(1,3) by auto
  then have "context_replay_key c \<in> replay_key ` set rows" using assms(2) by force
  then show ?thesis by (simp add: run)
qed

lemma reserve_stays_refused:
  assumes "run_state (reserve_replay F c kid t) db = (Inr Reserved, db1)" and "ledger_ok db"
    and "(ledger_step T)\<^sup>*\<^sup>* db1 db2"
    and live: "\<And>now. T now \<Longrightarrow> is_clock_read_failure now \<or> as_i64 now \<le> as_i64 (vc_expires_at c)"
    and "T t" "T t'" and "context_replay_key c' = context_replay_key c"
  shows "fst (run_state (reserve_replay F' c' kid' t') db2) \<in> {Inr Duplicate, Inl QueryFailed}"
proof -
  have "ledger_ok db1" using keeps_ledgerD [OF keeps_reserve [of T t F c kid] assms(2)] assms(1,5) by simp
  then have "ledger_le T db1 db2" using ledger_run_keeps [OF assms(3)] by blast
  moreover have "\<not> expired_by T (replay_row c kid t)"
    using live by (fastforce simp: expired_by_def)
  ultimately have "replay_row c kid t \<in> set (db_replay_reservations db2)"
    using reserved_row_present [OF assms(1)] by (auto simp: ledger_le_def)
  then show ?thesis
    using live [OF assms(6)] assms(7) by (intro live_row_refuses [of "replay_row c kid t"]) simp_all
qed

lemma expired_reservation_pruned:
  assumes "run_state (reserve_replay (\<lambda>_. False) c kid t) empty_db = (Inr Reserved, db1)"
    and "\<not> is_clock_read_failure t'" and "as_i64 (vc_expires_at c) < as_i64 t'"
  shows "fst (run_state (reserve_replay (\<lambda>_. False) c' kid' t') db1) = Inr Reserved"
proof -
  have "db_replay_reservations db1 = [replay_row c kid t]"
    using reserve_replay_outcome [of empty_db t "\<lambda>_. False" c kid] assms(1)
    by (auto simp: empty_db_def split: if_splits)
  then show ?thesis
    using assms(2,3)
    by (simp add: reserve_replay_def prune_expired_replay_reservations_def run_query_eq Let_def insert_or_ignore_def)
qed

lemma nullifier_stays_refused:
  assumes "run_state (record_scoped_nullifier_use C F domain commitment c t) db = (Inr Recorded, db1)"
    and "ledger_ok db" and "(ledger_step T)\<^sup>*\<^sup>* db1 db2"
    and "domain_fingerprint C domain' = domain_fingerprint C domain"
    and "commitment_storage_hash C commitment' = commitment_storage_hash C commitment"
  shows "fst (run_state (record_scoped_nullifier_use C F' domain' commitment' c' t') db2) \<in> {Inr DuplicateUse, Inl QueryFailed}"
proof -
  let ?row = "nullifier_row C domain commitment c t"
  have "ledger_ok db1"
    using keeps_ledgerD [OF keeps_nullifier [of T C F domain commitment c t] assms(2)] assms(1) by simp
  then have "ledger_le T db1 db2" using ledger_run_keeps [OF assms(3)] by blast
  moreover have "?row \<in> set (db_scoped_nullifier_uses db1)"
    using assms(1) by (auto simp: record_scoped_nullifier_use_def run_query_eq insert_or_ignore_def split: if_splits)
  ultimately have "?row \<in> set (db_scoped_nullifier_uses db2)" by (auto simp: ledger_le_def)
  then have "nullifier_key (nullifier_row C domain' commitment' c' t') \<in> nullifier_key ` set (db_scoped_nullifier_uses db2)"
    using assms(4,5) by (force simp: nullifier_key_def nullifier_row_def)
  then show ?thesis
    by (simp add: record_scoped_nullifier_use_def run_query_eq insert_or_ignore_def)
qed

section \<open>Properties\<close>

text \<open>C14. Invariant of the ledger: in every state reachable from the empty database by any operations,
  clock readings and query failures, no two replay reservations share session, opcode, nonce and scope,
  no two nullifier uses share domain and commitment, no two authority reservations share their key and no
  two receipts share an id; and every reachable state extends any earlier one's events, receipts and
  nullifier uses.\<close>

theorem ledger_invariant:
  "{db. (ledger_step T)\<^sup>*\<^sup>* empty_db db} \<subseteq> {db. ledger_ok db} \<and>
   {(db, db'). (ledger_step T)\<^sup>*\<^sup>* empty_db db \<and> (ledger_step T)\<^sup>*\<^sup>* db db'} \<subseteq> {(db, db'). ledger_le T db db'}"
  using ledger_run_keeps ledger_ok_empty by blast

text \<open>C15. Replay protection: once a context has reserved its session, opcode, nonce and scope, no later
  reservation with the same four succeeds, whatever the ledger does in between and whichever queries
  fail, as long as every clock reading used is within the context's lifetime or a failed reading.\<close>

theorem replay_refused_until_expiry:
  assumes "run_state (reserve_replay F c kid t) db = (Inr Reserved, db1)" and "ledger_ok db"
    and "(ledger_step T)\<^sup>*\<^sup>* db1 db2"
    and "\<And>now. T now \<Longrightarrow> is_clock_read_failure now \<or> as_i64 now \<le> as_i64 (vc_expires_at c)"
    and "T t" "T t'" and "context_replay_key c' = context_replay_key c"
  shows "fst (run_state (reserve_replay F' c' kid' t') db2) \<in> {Inr Duplicate, Inl QueryFailed}"
  using assms by (rule reserve_stays_refused)

lemma sample_reserved:
  "run_state (reserve_replay (\<lambda>_. False) sample_call_context ''k'' 100) empty_db =
     (Inr Reserved, empty_db\<lparr>db_queries := 2, db_replay_reservations := [replay_row sample_call_context ''k'' 100]\<rparr>)"
  by (simp add: reserve_replay_def prune_expired_replay_reservations_def run_query_eq Let_def insert_or_ignore_def
      is_clock_read_failure_def CLOCK_READ_FAILURE_SENTINEL_def empty_db_def)

lemma as_i64_mono_small:
  assumes "unat b < i64_limit"
  shows "a \<le> b \<Longrightarrow> as_i64 a \<le> as_i64 b" and "a < b \<Longrightarrow> as_i64 a < as_i64 b"
proof -
  have "as_i64 a = int (unat a)" if "a \<le> b"
    using that assms by (intro as_i64_small) (simp add: word_le_nat_alt)
  moreover have "as_i64 b = int (unat b)" by (rule as_i64_small [OF assms])
  ultimately show "a \<le> b \<Longrightarrow> as_i64 a \<le> as_i64 b" "a < b \<Longrightarrow> as_i64 a < as_i64 b"
    by (simp_all only: word_le_nat_alt word_less_nat_alt of_nat_le_iff of_nat_less_iff less_imp_le)
qed

theorem replay_refused_until_expiry_witness:
  "fst (run_state (reserve_replay (\<lambda>_. False) sample_call_context ''other'' 150)
      (empty_db\<lparr>db_queries := 2, db_replay_reservations := [replay_row sample_call_context ''k'' 100]\<rparr>))
     \<in> {Inr Duplicate, Inl QueryFailed}"
proof (rule replay_refused_until_expiry [OF sample_reserved ledger_ok_empty rtranclp.rtrancl_refl [of "ledger_step (\<lambda>t. t \<le> 200)"]])
  fix now :: u64 assume "now \<le> 200"
  then show "is_clock_read_failure now \<or> as_i64 now \<le> as_i64 (vc_expires_at sample_call_context)"
    using as_i64_mono_small(1) [of 200 now] by (simp add: sample_call_context_def i64_limit_def)
qed simp_all

text \<open>C16. The protection ends with the lifetime, and the lifetime starts anew with every receipt: the same
  packet, verified again after its first context expired, gets a fresh context with the same replay key,
  its old reservation is pruned, and it is reserved for execution a second time.\<close>

theorem packet_reusable_after_lifetime:
  assumes "verify_manifest_operation_for_runtime_with_caller C B pj packet m aud t mode callers = Inr c"
    and "verify_manifest_operation_for_runtime_with_caller C B pj packet m aud t' mode callers = Inr c'"
    and "vc_expires_at c < t'" and "unat t' < i64_limit"
  shows "context_replay_key c' = context_replay_key c \<and>
    (\<exists>db1. run_state (reserve_replay (\<lambda>_. False) c kid t) empty_db = (Inr Reserved, db1) \<and>
       fst (run_state (reserve_replay (\<lambda>_. False) c' kid t') db1) = Inr Reserved)"
proof
  show "context_replay_key c' = context_replay_key c"
    using for_runtime_replay_key [OF assms(1)] for_runtime_replay_key [OF assms(2)] by simp
  have t': "\<not> is_clock_read_failure t'" using assms(2) by (simp add: for_runtime_Inr_iff)
  have "as_i64 (vc_expires_at c) < as_i64 t'" using as_i64_mono_small(2) [OF assms(4) assms(3)] .
  moreover obtain db1 where "run_state (reserve_replay (\<lambda>_. False) c kid t) empty_db = (Inr Reserved, db1)"
    using reserve_replay_outcome [of empty_db t "\<lambda>_. False" c kid] by (auto simp: empty_db_def)
  ultimately show "\<exists>db1. run_state (reserve_replay (\<lambda>_. False) c kid t) empty_db = (Inr Reserved, db1) \<and>
       fst (run_state (reserve_replay (\<lambda>_. False) c' kid t') db1) = Inr Reserved"
    using expired_reservation_pruned t' by blast
qed

theorem packet_reusable_after_lifetime_witness:
  "\<exists>c c'. let packet = caller_signed_packet sample_crypto ''k'' [9] sample_node_packet;
        verify = (\<lambda>t. verify_manifest_operation_for_runtime_with_caller sample_crypto sample_receipt_bincode (\<lambda>_. None)
          packet default_v0 ''rcv'' t ProductionVerified (Some sample_callers)) in
     verify 7 = Inr c \<and> verify 400 = Inr c' \<and>
     (\<exists>db1. run_state (reserve_replay (\<lambda>_. False) c ''node'' 7) empty_db = (Inr Reserved, db1) \<and>
        fst (run_state (reserve_replay (\<lambda>_. False) c' ''node'' 400) db1) = Inr Reserved)"
proof -
  let ?verify = "\<lambda>t. verify_manifest_operation_for_runtime_with_caller sample_crypto sample_receipt_bincode (\<lambda>_. None)
      (caller_signed_packet sample_crypto ''k'' [9] sample_node_packet) default_v0 ''rcv'' t ProductionVerified
      (Some sample_callers)"
  have ok: "\<not> is_clock_read_failure (400 :: u64)"
    by (simp add: is_clock_read_failure_def CLOCK_READ_FAILURE_SENTINEL_def)
  have ex: "\<exists>ctx. ?verify t = Inr ctx" if "\<not> is_clock_read_failure t" for t
    using production_verification_succeeds [OF sample_crypto_correct that sample_caller_key(1,2,3)
        _ sample_caller_key(5,4) sample_production_hyps(2) node_registration_production sample_production_hyps(3-8)]
    by fastforce
  obtain c c' where c: "?verify 7 = Inr c" and c': "?verify 400 = Inr c'"
    using ex [OF sample_production_hyps(1)] ex [OF ok] by blast
  have "vc_expires_at c = saturating_add 7 300"
    using for_runtime_replay_key(2) [OF c] by (simp add: sample_node_packet_def)
  then have "unat (vc_expires_at c) = 307" by (simp add: unat_saturating_add u64_max_def)
  then have "vc_expires_at c < 400" by (simp add: word_less_nat_alt)
  from packet_reusable_after_lifetime [OF c c' this, of "''node''"] c c' show ?thesis
    unfolding Let_def by (intro exI [of _ c] exI [of _ c']) (simp add: i64_limit_def)
qed

text \<open>C17. A scoped nullifier is used once for ever: after a use was recorded, recording the same domain
  fingerprint and commitment again is refused in every later state of the ledger; no pruning and no
  failing query brings it back.\<close>

theorem nullifier_used_once:
  assumes "run_state (record_scoped_nullifier_use C F domain commitment c t) db = (Inr Recorded, db1)"
    and "ledger_ok db" and "(ledger_step T)\<^sup>*\<^sup>* db1 db2"
    and "domain_fingerprint C domain' = domain_fingerprint C domain"
    and "commitment_storage_hash C commitment' = commitment_storage_hash C commitment"
  shows "fst (run_state (record_scoped_nullifier_use C F' domain' commitment' c' t') db2) \<in> {Inr DuplicateUse, Inl QueryFailed}"
  using assms by (rule nullifier_stays_refused)

theorem nullifier_used_once_witness:
  "\<forall>d. \<exists>db1. run_state (record_scoped_nullifier_use sample_crypto (\<lambda>_. False) d ''n'' sample_call_context 100) empty_db
       = (Inr Recorded, db1) \<and>
     fst (run_state (record_scoped_nullifier_use sample_crypto (\<lambda>_. False) d ''n'' sample_call_context 900) db1)
       \<in> {Inr DuplicateUse, Inl QueryFailed}"
proof
  fix d
  have "fst (run_state (record_scoped_nullifier_use sample_crypto (\<lambda>_. False) d ''n'' sample_call_context 100) empty_db)
      = Inr Recorded"
    by (simp add: record_scoped_nullifier_use_def run_query_eq insert_or_ignore_def empty_db_def)
  then obtain db1 where r: "run_state (record_scoped_nullifier_use sample_crypto (\<lambda>_. False) d ''n'' sample_call_context 100) empty_db
      = (Inr Recorded, db1)"
    by (metis prod.collapse)
  from nullifier_used_once [OF this ledger_ok_empty rtranclp.rtrancl_refl [of "ledger_step (\<lambda>_. True)"] refl refl] r
  show "\<exists>db1. run_state (record_scoped_nullifier_use sample_crypto (\<lambda>_. False) d ''n'' sample_call_context 100) empty_db
       = (Inr Recorded, db1) \<and>
     fst (run_state (record_scoped_nullifier_use sample_crypto (\<lambda>_. False) d ''n'' sample_call_context 900) db1)
       \<in> {Inr DuplicateUse, Inl QueryFailed}"
    by (intro exI [of _ db1] conjI)
qed

text \<open>Receipts and their emitted events are atomic: recording both either adds exactly one receipt row,
  under an id that was free, and exactly one event row, or, whichever statement fails, changes no table.\<close>

theorem receipt_and_event_atomic:
  "case run_state (record_receipt_with_emitted_event F receipt k ph oc opn h reason now) db of
     (Inl e, db') \<Rightarrow> \<exists>n. db' = db\<lparr>db_queries := n\<rparr>
   | (Inr u, db') \<Rightarrow> \<exists>n. rc_receipt_id receipt \<notin> set (map tr_receipt_id (db_receipts db)) \<and>
       db' = db\<lparr>db_receipts := db_receipts db @ [receipt_row receipt],
                db_events := db_events db @ [event_row k ph oc opn h reason now], db_queries := n\<rparr>"
  by (rule receipt_transaction)

end
