(* ===== verification/Handlers.thy ===== *)
theory Handlers
  imports Ledger
begin

text \<open>
  Handlers and their bounds: outcomes and execution limits (\<^verbatim>\<open>server/src/gateway.rs\<close>, lines 68 to 170 and
  1318 to 1344), the membership handler (\<^verbatim>\<open>server/src/membership.rs\<close>), the queue stub, the sandboxed file
  writer (\<^verbatim>\<open>server/src/file_write.rs\<close>) over a file system with symbolic links, and the subprocess
  forwarder with its bounded read loop (\<^verbatim>\<open>gateway.rs\<close>, lines 1472 to 1712).
\<close>

section \<open>Outcomes and limits\<close>

record HandlerOutcome =
  ho_decision :: Decision
  ho_reason :: "string option"
  ho_output :: "bytes option"

definition succeeded :: HandlerOutcome where
  "succeeded = \<lparr>ho_decision = Accepted, ho_reason = None, ho_output = None\<rparr>"

definition succeeded_with_output :: "bytes \<Rightarrow> HandlerOutcome" where
  "succeeded_with_output output = \<lparr>ho_decision = Accepted, ho_reason = None, ho_output = Some output\<rparr>"

definition handler_rejected :: "string \<Rightarrow> HandlerOutcome" where
  "handler_rejected reason = \<lparr>ho_decision = Rejected, ho_reason = Some reason, ho_output = None\<rparr>"

text \<open>Durations are in milliseconds.\<close>

record ExecutionLimits =
  el_max_payload_bytes :: nat
  el_max_output_bytes :: nat
  el_handler_timeout :: nat

record EffectiveExecutionLimits =
  ee_max_payload_bytes :: nat
  ee_max_output_bytes :: nat
  ee_max_execution_response_bytes :: nat
  ee_handler_timeout :: nat

definition for_output_profile ::
  "ExecutionLimits \<Rightarrow> OutputProfile \<Rightarrow> VerificationError + EffectiveExecutionLimits" where
  "for_output_profile limits profile =
     (if op_schema_id profile = [] \<or> op_max_output_bytes profile = 0 \<or> op_max_execution_response_bytes profile = 0
      then Inl InternalError
      else Inr \<lparr>ee_max_payload_bytes = el_max_payload_bytes limits,
                ee_max_output_bytes = min (el_max_output_bytes limits) (op_max_output_bytes profile),
                ee_max_execution_response_bytes =
                  min (op_max_execution_response_bytes profile) MAX_EXECUTION_RESPONSE_BYTES,
                ee_handler_timeout = el_handler_timeout limits\<rparr>)"

definition default_limits :: ExecutionLimits where
  "default_limits = \<lparr>el_max_payload_bytes = 1024 * 1024, el_max_output_bytes = 1024 * 1024,
     el_handler_timeout = 30000\<rparr>"

definition HANDLER_OUTPUT_UNEXPECTED :: string where
  "HANDLER_OUTPUT_UNEXPECTED = ''handler_output_unexpected''"

definition OUTPUT_TOO_LARGE :: string where
  "OUTPUT_TOO_LARGE = ''output_too_large''"

definition HANDLER_OUTPUT_MISSING :: string where
  "HANDLER_OUTPUT_MISSING = ''handler_output_missing''"

definition normalize_handler_outcome ::
  "OperationDescriptor \<Rightarrow> ExecutionLimits \<Rightarrow> HandlerOutcome \<Rightarrow> HandlerOutcome" where
  "normalize_handler_outcome descriptor limits outcome =
     (if ho_decision outcome = Rejected \<and> ho_output outcome \<noteq> None
      then handler_rejected HANDLER_OUTPUT_UNEXPECTED
      else if (case ho_output outcome of None \<Rightarrow> False | Some output \<Rightarrow> length output > el_max_output_bytes limits)
      then handler_rejected OUTPUT_TOO_LARGE
      else case od_output_profile descriptor of
          None \<Rightarrow> if ho_output outcome \<noteq> None then handler_rejected HANDLER_OUTPUT_UNEXPECTED else outcome
        | Some _ \<Rightarrow> if ho_decision outcome = Accepted \<and> ho_output outcome = None
                   then handler_rejected HANDLER_OUTPUT_MISSING else outcome)"

text \<open>A program runs on the world outside the ledger; \<^term>\<open>None\<close> stands for an execution that is not
  finished when the handler timeout ends.\<close>

type_synonym 'w MachineProgram =
  "VerifiedCallContext \<Rightarrow> bytes \<Rightarrow> ExecutionLimits \<Rightarrow> 'w \<Rightarrow> HandlerOutcome option \<times> 'w"

definition MEMBERSHIP_PROVISION_HANDLER_ID :: string where
  "MEMBERSHIP_PROVISION_HANDLER_ID = ''membership/provision''"

definition MembershipProvisionProgram :: "'w MachineProgram" where
  "MembershipProvisionProgram context payload limits w =
     (Some (if length payload > el_max_payload_bytes limits then handler_rejected ''payload_too_large''
            else succeeded), w)"

definition LocalRustQueue :: "'w MachineProgram" where
  "LocalRustQueue context payload limits w = (Some succeeded, w)"

section \<open>Files and symbolic links\<close>

text \<open>A path is the list of its components from the root; a symbolic link holds the absolute path it
  points to.\<close>

type_synonym path = "string list"

datatype node = Dir | File bytes | Symlink path

type_synonym files = "path \<Rightarrow> node option"

text \<open>Path resolution of the operating system: links are followed wherever they occur, up to a budget. With
  \<open>create\<close> the last component may be missing.\<close>

function walk :: "nat \<Rightarrow> files \<Rightarrow> bool \<Rightarrow> path \<Rightarrow> path \<Rightarrow> path option" where
  "walk budget fs create visited [] = Some visited"
| "walk budget fs create visited (c # cs) = (case fs (visited @ [c]) of
       None \<Rightarrow> if create \<and> cs = [] then Some (visited @ [c]) else None
     | Some Dir \<Rightarrow> walk budget fs create (visited @ [c]) cs
     | Some (File _) \<Rightarrow> if cs = [] then Some (visited @ [c]) else None
     | Some (Symlink target) \<Rightarrow> if budget = 0 then None else walk (budget - 1) fs create [] (target @ cs))"
  by pat_completeness auto
termination
  by (relation "measures [\<lambda>(budget, fs, create, visited, cs). budget, \<lambda>(budget, fs, create, visited, cs). length cs]") auto

definition MAX_SYMLINKS :: nat where
  "MAX_SYMLINKS = 40"

definition canonicalize :: "files \<Rightarrow> path \<Rightarrow> path option" where
  "canonicalize fs p = walk MAX_SYMLINKS fs False [] p"

definition write_file :: "files \<Rightarrow> path \<Rightarrow> bytes \<Rightarrow> bool \<Rightarrow> bool \<times> files" where
  "write_file fs p content io_ok = (case walk MAX_SYMLINKS fs True [] p of
       None \<Rightarrow> (False, fs)
     | Some q \<Rightarrow> if q = [] \<or> fs q = Some Dir \<or> \<not> io_ok then (False, fs)
                else (True, fs(q \<mapsto> File content)))"

text \<open>\<^verbatim>\<open>Path::components\<close> of an absolute path: separators are collapsed and inner \<open>.\<close> components dropped.\<close>

definition path_components :: "string \<Rightarrow> path" where
  "path_components raw = filter (\<lambda>c. c \<noteq> [] \<and> c \<noteq> ''.'') (split_on CHR ''/'' raw)"

definition path_starts_with :: "path \<Rightarrow> path \<Rightarrow> bool" where
  "path_starts_with p root \<longleftrightarrow> take (length root) p = root"

definition DemoFileWriteProgram_new :: "files \<Rightarrow> path \<Rightarrow> path option" where
  "DemoFileWriteProgram_new fs sandbox_root = canonicalize fs sandbox_root"

definition resolve_target :: "files \<Rightarrow> path \<Rightarrow> string \<Rightarrow> string + path" where
  "resolve_target fs sandbox_root resource =
     rbind (ok_or ''demo_file_write_not_a_file_uri'' (strip_prefix ''file://'' resource)) (\<lambda>raw.
       if raw = [] \<or> \<not> starts_with ''/'' raw then Inl ''demo_file_write_not_a_file_uri''
       else if list_ex (\<lambda>c. c = ''..'') (path_components raw) then Inl ''demo_file_write_path_traversal''
       else if path_components raw = [] then Inl ''demo_file_write_path_outside_sandbox''
       else rbind (ok_or ''demo_file_write_path_outside_sandbox'' (canonicalize fs (butlast (path_components raw))))
         (\<lambda>canonical_parent.
           if \<not> path_starts_with canonical_parent sandbox_root then Inl ''demo_file_write_path_outside_sandbox''
           else let target = canonical_parent @ [last (path_components raw)] in
             case canonicalize fs target of
               Some canonical_target \<Rightarrow>
                 if \<not> path_starts_with canonical_target sandbox_root
                 then Inl ''demo_file_write_path_outside_sandbox'' else Inr target
             | None \<Rightarrow> Inr target))"

text \<open>The files and the registration counter are the parts of the world the programs touch.\<close>

record World =
  w_files :: files
  w_registrations :: u64

definition DemoFileWriteProgram :: "path \<Rightarrow> bool \<Rightarrow> World MachineProgram" where
  "DemoFileWriteProgram sandbox_root io_ok context payload limits w =
     (if length payload > el_max_payload_bytes limits
      then (Some (handler_rejected ''demo_file_write_payload_too_large''), w)
      else case vc_resource context of
          None \<Rightarrow> (Some (handler_rejected ''demo_file_write_missing_resource''), w)
        | Some resource \<Rightarrow> (case resolve_target (w_files w) sandbox_root resource of
              Inl reason \<Rightarrow> (Some (handler_rejected reason), w)
            | Inr target \<Rightarrow> (case write_file (w_files w) target payload io_ok of
                  (True, fs) \<Rightarrow> (Some succeeded, w\<lparr>w_files := fs\<rparr>)
                | (False, _) \<Rightarrow> (Some (handler_rejected ''demo_file_write_write_failed''), w))))"

section \<open>Subprocesses\<close>

text \<open>What the environment does at one round of the read loop: the timer fires, or one of the open streams
  is ready (the first one where both are) and yields the given bytes or an error.\<close>

record ReadyEvent =
  re_timer_fired :: bool
  re_stdout_ready :: bool
  re_data :: "bytes option"

datatype wait_result = ExitSuccess | ExitFailure | WaitError

text \<open>The bytes one read may return: at most the buffer's length.\<close>

definition chunk_capacity :: "nat \<Rightarrow> nat" where
  "chunk_capacity limit = max 1 (min limit 8192)"

definition read_one_chunk :: "bool \<Rightarrow> bytes option \<Rightarrow> nat \<Rightarrow> (bool \<times> bytes) option" where
  "read_one_chunk reader_open stream limit =
     (if \<not> reader_open then Some (False, [])
      else map_option (\<lambda>bs. let chunk = take (chunk_capacity limit) bs in (chunk \<noteq> [], chunk)) stream)"

function wait_loop ::
  "(nat \<Rightarrow> ReadyEvent) \<Rightarrow> wait_result \<Rightarrow> nat \<Rightarrow> bool \<Rightarrow> bool \<Rightarrow> bytes \<Rightarrow> nat \<Rightarrow> HandlerOutcome \<times> bytes \<times> nat" where
  "wait_loop ev exit limit stdout stderr buf round =
     (if length buf > limit then (handler_rejected ''output_too_large'', buf, round)
      else if \<not> stdout \<and> \<not> stderr
      then (case exit of
          ExitSuccess \<Rightarrow> (succeeded, buf, round)
        | ExitFailure \<Rightarrow> (handler_rejected ''handler_exit_failed'', buf, round)
        | WaitError \<Rightarrow> (handler_rejected ''handler_wait_failed'', buf, round))
      else if re_timer_fired (ev round) then (handler_rejected ''handler_timeout'', buf, round)
      else if stdout \<and> (re_stdout_ready (ev round) \<or> \<not> stderr)
      then (case read_one_chunk stdout (re_data (ev round)) (limit - length buf + 1) of
          Some (still_open, chunk) \<Rightarrow> wait_loop ev exit limit still_open stderr (buf @ chunk) (Suc round)
        | None \<Rightarrow> (handler_rejected ''handler_wait_failed'', buf, round))
      else (case read_one_chunk stderr (re_data (ev round)) (limit - length buf + 1) of
          Some (still_open, chunk) \<Rightarrow> wait_loop ev exit limit stdout still_open (buf @ chunk) (Suc round)
        | None \<Rightarrow> (handler_rejected ''handler_wait_failed'', buf, round)))"
  by pat_completeness auto

text \<open>A read either yields at least one byte, and no more than what is left up to one byte over the limit,
  or closes its stream.\<close>

lemma read_one_chunk_Some:
  assumes "read_one_chunk True s n = Some (op, chunk)"
  shows "op \<longleftrightarrow> chunk \<noteq> []" and "length chunk \<le> chunk_capacity n"
  using assms by (auto simp: read_one_chunk_def Let_def)

lemma chunk_measure:
  assumes "read_one_chunk True s n = Some (op, chunk)" and "length buf \<le> limit"
  shows "Suc limit - (length buf + length chunk) + of_bool op < Suc (Suc limit - length buf)"
  using read_one_chunk_Some(1) [OF assms(1)] assms(2) by (cases chunk) auto

termination wait_loop
proof (relation "measure (\<lambda>(ev, exit, limit, stdout, stderr, buf, round).
    Suc limit - length buf + of_bool stdout + of_bool stderr)", goal_cases)
  case 1
  then show ?case by simp
next
  case (2 ev exit limit stdout stderr buf round p op chunk)
  then show ?case using chunk_measure [of "re_data (ev round)" "limit - length buf + 1" op chunk buf limit] by auto
next
  case (3 ev exit limit stdout stderr buf round p op chunk)
  then show ?case using chunk_measure [of "re_data (ev round)" "limit - length buf + 1" op chunk buf limit]
    by (cases stdout) auto
qed

definition wait_for_bounded_subprocess_output ::
  "(nat \<Rightarrow> ReadyEvent) \<Rightarrow> wait_result \<Rightarrow> bool \<Rightarrow> bool \<Rightarrow> nat \<Rightarrow> HandlerOutcome" where
  "wait_for_bounded_subprocess_output ev exit stdout stderr limit = fst (wait_loop ev exit limit stdout stderr [] 0)"

datatype stdin_result = StdinClosed | Written | BrokenPipe | WriteError | WriteTimedOut

text \<open>The child process as the forwarder sees it; \<^term>\<open>None\<close> when it cannot be started.\<close>

record ChildProcess =
  cp_stdin :: stdin_result
  cp_stdout :: bool
  cp_stderr :: bool
  cp_events :: "nat \<Rightarrow> ReadyEvent"
  cp_exit :: wait_result

definition SubprocessForwarder :: "ChildProcess option \<Rightarrow> 'w MachineProgram" where
  "SubprocessForwarder spawned context payload limits w =
     (Some (case vc_handler_id context of
         None \<Rightarrow> handler_rejected ''handler_unavailable''
       | Some handler_id \<Rightarrow>
           if \<not> starts_with ''dev/'' handler_id then handler_rejected ''handler_not_dev_bound''
           else (case spawned of
               None \<Rightarrow> handler_rejected ''handler_spawn_failed''
             | Some child \<Rightarrow>
                 if cp_stdin child = WriteError then handler_rejected ''handler_stdin_failed''
                 else if cp_stdin child = WriteTimedOut then handler_rejected ''handler_timeout''
                 else wait_for_bounded_subprocess_output (cp_events child) (cp_exit child)
                   (cp_stdout child) (cp_stderr child) (el_max_output_bytes limits))), w)"

section \<open>Lemmas\<close>

declare wait_loop.simps [simp del]

definition wait_spec :: "nat \<Rightarrow> wait_result \<Rightarrow> nat \<Rightarrow> HandlerOutcome \<times> bytes \<times> nat \<Rightarrow> bool" where
  "wait_spec limit exit budget r = (case r of (outcome, buf, n) \<Rightarrow>
     n + (Suc limit - length buf) \<le> budget \<and> length buf \<le> Suc limit \<and> ho_output outcome = None \<and>
     (limit < length buf \<longrightarrow> outcome = handler_rejected ''output_too_large'') \<and>
     (ho_decision outcome = Accepted \<longrightarrow> outcome = succeeded \<and> exit = ExitSuccess))"

lemma wait_spec_mono: "wait_spec limit exit b r \<Longrightarrow> b \<le> b' \<Longrightarrow> wait_spec limit exit b' r"
  by (auto simp: wait_spec_def split: prod.splits)

lemma wait_spec_rejected:
  "wait_spec limit exit b (handler_rejected e, buf, n) \<longleftrightarrow> n + (Suc limit - length buf) \<le> b \<and>
     length buf \<le> Suc limit \<and> (limit < length buf \<longrightarrow> e = ''output_too_large'')"
  by (auto simp: wait_spec_def handler_rejected_def)

lemma wait_spec_succeeded:
  "wait_spec limit exit b (succeeded, buf, n) \<longleftrightarrow> n + (Suc limit - length buf) \<le> b \<and>
     length buf \<le> limit \<and> exit = ExitSuccess"
  by (auto simp: wait_spec_def handler_rejected_def succeeded_def)

abbreviation wait_budget :: "nat \<Rightarrow> bool \<Rightarrow> bool \<Rightarrow> bytes \<Rightarrow> nat \<Rightarrow> nat" where
  "wait_budget limit stdout stderr buf round \<equiv> round + (Suc limit - length buf) + of_bool stdout + of_bool stderr"

lemma chunk_budget:
  assumes "read_one_chunk True s (limit - length buf + 1) = Some (op, chunk)" and "\<not> limit < length buf"
  shows "length (buf @ chunk) \<le> Suc limit"
    and "wait_budget limit op b (buf @ chunk) (Suc round) \<le> wait_budget limit True b buf round"
    and "wait_budget limit b op (buf @ chunk) (Suc round) \<le> wait_budget limit b True buf round"
  using read_one_chunk_Some [OF assms(1)] assms(2) by (cases chunk; force simp: chunk_capacity_def)+

lemma wait_loop_spec:
  "length buf \<le> Suc limit \<Longrightarrow>
     wait_spec limit exit (wait_budget limit stdout stderr buf round) (wait_loop ev exit limit stdout stderr buf round)"
proof (induction ev exit limit stdout stderr buf round rule: wait_loop.induct)
  case (1 ev exit limit stdout stderr buf round)
  let ?spec = "wait_spec limit exit (wait_budget limit stdout stderr buf round)"
  note unfold = wait_loop.simps [of ev exit limit stdout stderr buf round]
  consider (large) "limit < length buf" | (closed) "\<not> limit < length buf" "\<not> stdout \<and> \<not> stderr"
    | (timer) "\<not> limit < length buf" "\<not> (\<not> stdout \<and> \<not> stderr)" "re_timer_fired (ev round)"
    | (out) "\<not> limit < length buf" "\<not> (\<not> stdout \<and> \<not> stderr)" "\<not> re_timer_fired (ev round)"
        "stdout \<and> (re_stdout_ready (ev round) \<or> \<not> stderr)"
    | (err) "\<not> limit < length buf" "\<not> (\<not> stdout \<and> \<not> stderr)" "\<not> re_timer_fired (ev round)"
        "\<not> (stdout \<and> (re_stdout_ready (ev round) \<or> \<not> stderr))"
    by blast
  then show ?case
  proof cases
    case large
    then show ?thesis using 1(3) by (simp add: unfold wait_spec_rejected)
  next
    case closed
    then show ?thesis by (subst unfold, cases exit) (simp_all add: wait_spec_rejected wait_spec_succeeded)
  next
    case timer
    then have "wait_loop ev exit limit stdout stderr buf round = (handler_rejected ''handler_timeout'', buf, round)"
      unfolding unfold by (simp only: if_True if_False)
    then show ?thesis using timer(1) by (simp add: wait_spec_rejected)
  next
    case out
    show ?thesis
    proof (cases "read_one_chunk stdout (re_data (ev round)) (limit - length buf + 1)")
      case None
      then have "wait_loop ev exit limit stdout stderr buf round = (handler_rejected ''handler_wait_failed'', buf, round)"
        unfolding unfold using out by auto
      then show ?thesis using out(1) by (simp add: wait_spec_rejected)
    next
      case (Some r)
      obtain op chunk where r: "r = (op, chunk)" by (rule prod.exhaust)
      have "wait_loop ev exit limit stdout stderr buf round = wait_loop ev exit limit op stderr (buf @ chunk) (Suc round)"
        unfolding unfold using out Some r by auto
      moreover have opened: "stdout = True" using out(4) by simp
      note step = chunk_budget [OF Some [unfolded r opened] out(1)]
      have "wait_spec limit exit (wait_budget limit op stderr (buf @ chunk) (Suc round))
          (wait_loop ev exit limit op stderr (buf @ chunk) (Suc round))"
        by (rule 1(1) [OF out Some r [symmetric] step(1)])
      then have "wait_spec limit exit (wait_budget limit True stderr buf round)
          (wait_loop ev exit limit op stderr (buf @ chunk) (Suc round))"
        by (rule wait_spec_mono [OF _ step(2)])
      ultimately show ?thesis by (simp only: opened)
    qed
  next
    case err
    show ?thesis
    proof (cases "read_one_chunk stderr (re_data (ev round)) (limit - length buf + 1)")
      case None
      then have "wait_loop ev exit limit stdout stderr buf round = (handler_rejected ''handler_wait_failed'', buf, round)"
        unfolding unfold using err by auto
      then show ?thesis using err(1) by (simp add: wait_spec_rejected)
    next
      case (Some r)
      obtain op chunk where r: "r = (op, chunk)" by (rule prod.exhaust)
      have "wait_loop ev exit limit stdout stderr buf round = wait_loop ev exit limit stdout op (buf @ chunk) (Suc round)"
        unfolding unfold using err Some r by auto
      moreover have opened: "stderr = True" using err(2,4) by blast
      note step = chunk_budget [OF Some [unfolded r opened] err(1)]
      have "wait_spec limit exit (wait_budget limit stdout op (buf @ chunk) (Suc round))
          (wait_loop ev exit limit stdout op (buf @ chunk) (Suc round))"
        by (rule 1(2) [OF err Some r [symmetric] step(1)])
      then have "wait_spec limit exit (wait_budget limit stdout True buf round)
          (wait_loop ev exit limit stdout op (buf @ chunk) (Suc round))"
        by (rule wait_spec_mono [OF _ step(3)])
      ultimately show ?thesis by (simp only: opened)
    qed
  qed
qed

lemma walk_create_eq:
  "walk n fs True visited cs = Some q \<Longrightarrow>
     walk n fs False visited cs = Some q \<or> walk n fs False visited cs = None \<and> fs q = None"
  by (induction n fs True visited cs rule: walk.induct) (auto split: option.splits node.splits if_splits)

text \<open>Resolution ends in a physical path: a path whose proper prefixes are all directories.\<close>

definition physical :: "files \<Rightarrow> path \<Rightarrow> bool" where
  "physical fs p \<longleftrightarrow> (\<forall>i. 0 < i \<and> i < length p \<longrightarrow> fs (take i p) = Some Dir)"

lemma physical_snoc: "physical fs p \<Longrightarrow> p = [] \<or> fs p = Some Dir \<Longrightarrow> physical fs (p @ [c])"
  unfolding physical_def by (auto simp: less_Suc_eq)

lemma walk_physical:
  "walk n fs create visited cs = Some q \<Longrightarrow> physical fs visited \<Longrightarrow> visited = [] \<or> fs visited = Some Dir \<Longrightarrow>
     physical fs q"
  by (induction n fs create visited cs rule: walk.induct)
    (auto split: option.splits node.splits if_splits simp: physical_snoc, auto simp: physical_def)

lemma walk_node:
  "walk n fs False visited cs = Some q \<Longrightarrow> visited = [] \<or> fs visited = Some Dir \<Longrightarrow>
     q = [] \<or> fs q = Some Dir \<or> (\<exists>f. fs q = Some (File f))"
  by (induction n fs False visited cs rule: walk.induct) (auto split: option.splits node.splits if_splits)

lemma walk_over_dirs:
  "(\<And>i. length visited < i \<Longrightarrow> i \<le> length (visited @ cs) \<Longrightarrow> fs (take i (visited @ cs)) = Some Dir) \<Longrightarrow>
     walk n fs create visited (cs @ rest) = walk n fs create (visited @ cs) rest"
proof (induction cs arbitrary: visited)
  case (Cons c cs)
  have "fs (visited @ [c]) = Some Dir" using Cons.prems [of "Suc (length visited)"] by simp
  then have "walk n fs create visited ((c # cs) @ rest) = walk n fs create (visited @ [c]) (cs @ rest)" by simp
  also have "\<dots> = walk n fs create ((visited @ [c]) @ cs) rest"
    by (rule Cons.IH) (use Cons.prems in auto)
  finally show ?case by simp
qed simp

text \<open>Opening a new entry of a canonical directory: it is that entry itself unless the entry is a link.\<close>

lemma walk_entry:
  assumes "canonicalize fs p = Some parent" and "walk (Suc m) fs True [] (parent @ [c]) = Some q"
  shows "q = parent @ [c] \<or> (\<exists>t. fs (parent @ [c]) = Some (Symlink t))"
proof -
  have ph: "physical fs parent" and node: "parent = [] \<or> fs parent = Some Dir \<or> (\<exists>f. fs parent = Some (File f))"
    using walk_physical walk_node assms(1) by (auto simp: canonicalize_def physical_def)
  have run: "walk (Suc m) fs True [] (butlast parent @ rest) = walk (Suc m) fs True (butlast parent) rest" for rest
    using walk_over_dirs [of "[]" "butlast parent" fs "Suc m" True rest] ph
    by (auto simp: physical_def take_butlast)
  have dir: "parent = [] \<or> fs parent = Some Dir"
  proof (rule ccontr)
    assume "\<not> ?thesis"
    then obtain f bp x where f: "fs (bp @ [x]) = Some (File f)" and parent: "parent = bp @ [x]"
      using node by (cases parent rule: rev_cases) auto
    have "walk (Suc m) fs True [] (bp @ [x, c]) = walk (Suc m) fs True bp [x, c]"
      using run [of "[x, c]"] by (simp add: parent)
    also have "\<dots> = None" using f by simp
    finally show False using assms(2) by (simp add: parent)
  qed
  have "walk (Suc m) fs True [] (parent @ [c]) = walk (Suc m) fs True parent [c]"
  proof -
    have "fs (take i parent) = Some Dir" if "0 < i" "i \<le> length parent" for i
      using ph dir that by (cases "i = length parent") (auto simp: physical_def)
    then show ?thesis using walk_over_dirs [of "[]" parent fs "Suc m" True "[c]"] by (simp del: walk.simps)
  qed
  then show ?thesis using assms(2) by (auto split: option.splits node.splits if_splits)
qed

lemma resolve_target_Inr:
  assumes "resolve_target fs root resource = Inr target"
  shows "\<exists>p parent name. canonicalize fs p = Some parent \<and> path_starts_with parent root \<and> target = parent @ [name] \<and>
    (case canonicalize fs target of None \<Rightarrow> True | Some q \<Rightarrow> path_starts_with q root)"
  using assms by (auto simp: resolve_target_def Let_def result_simps split: if_splits option.splits) blast+

lemma path_starts_with_snoc: "path_starts_with p root \<Longrightarrow> path_starts_with (p @ [c]) root"
  by (cases "length root \<le> length p") (auto simp: path_starts_with_def)

lemma file_write_sandboxed:
  assumes "resolve_target fs root resource = Inr target" and "walk MAX_SYMLINKS fs True [] target = Some q"
  shows "path_starts_with q root \<or> (\<exists>t. fs target = Some (Symlink t)) \<and> canonicalize fs target = None"
proof -
  obtain p parent name where p: "canonicalize fs p = Some parent" "path_starts_with parent root" "target = parent @ [name]"
    and ex: "case canonicalize fs target of None \<Rightarrow> True | Some q \<Rightarrow> path_starts_with q root"
    using resolve_target_Inr [OF assms(1)] by blast
  from walk_create_eq [OF assms(2)] show ?thesis
  proof
    assume "walk MAX_SYMLINKS fs False [] target = Some q"
    then show ?thesis using ex by (simp add: canonicalize_def)
  next
    assume none: "walk MAX_SYMLINKS fs False [] target = None \<and> fs q = None"
    have "MAX_SYMLINKS = Suc 39" by (simp add: MAX_SYMLINKS_def)
    then have "q = target \<or> (\<exists>t. fs target = Some (Symlink t))"
      using walk_entry [OF p(1), of 39 name q] assms(2) p(3) by simp
    then show ?thesis using none path_starts_with_snoc [OF p(2)] p(3) by (auto simp: canonicalize_def)
  qed
qed

section \<open>Properties\<close>

text \<open>C34. The subprocess read loop always ends, whatever the child writes and even if its timer never fires:
  after at most three rounds more than the output limit it returns, it never buffers more than one byte over
  the limit, output over the limit is always rejected as too large, and only a child that exited
  successfully is accepted.\<close>

theorem subprocess_loop_bounded:
  "case wait_loop ev exit limit stdout stderr [] 0 of (outcome, buf, rounds) \<Rightarrow>
     rounds \<le> limit + 3 \<and> length buf \<le> limit + 1 \<and> ho_output outcome = None \<and>
     (if limit < length buf then outcome = handler_rejected ''output_too_large'' else True) \<and>
     (if ho_decision outcome = Accepted then outcome = succeeded \<and> exit = ExitSuccess else True)"
proof -
  obtain outcome buf n where r: "wait_loop ev exit limit stdout stderr [] 0 = (outcome, buf, n)" by (metis prod_cases3)
  have "of_bool stdout + of_bool stderr \<le> (2 :: nat)" by simp
  moreover have "wait_spec limit exit (wait_budget limit stdout stderr [] 0) (outcome, buf, n)"
    using wait_loop_spec [where buf = "[]" and round = 0] r by (metis le0 list.size(3))
  ultimately show ?thesis by (auto simp: r wait_spec_def)
qed



end
