(* ===== verification/Node_Registration.thy ===== *)
theory Node_Registration
  imports Evidence_Verifier Handlers
begin

text \<open>
  Node registration (\<^verbatim>\<open>server/src/node_registration.rs\<close>): the request, the policy derived from the
  descriptor, the checks of a request, the route check the gateway runs on a verified context, the program
  behind the route, and the in-memory handler with its receipts. Parsing the request from JSON is a
  parameter.
\<close>

section \<open>Definitions\<close>

definition NODE_REGISTRATION_AUTHORITY_SOURCE_ID :: string where
  "NODE_REGISTRATION_AUTHORITY_SOURCE_ID = ''receiver-held-fixture''"

record NodeRegistrationRequestV0 =
  nq_schema_version :: u16
  nq_operation :: string
  nq_opcode :: u8
  nq_request_id :: string
  nq_audience :: string
  nq_resource :: string
  nq_node_public_key_fingerprint :: string
  nq_endpoint_hash :: string
  nq_authority_source_id :: string
  nq_evidence_ref :: string
  nq_evidence_tier :: string
  nq_descriptor_fingerprint :: string
  nq_disclosure_policy_id :: string
  nq_issued_at :: u64
  nq_expires_at :: u64
  nq_requested_disclosure :: "string list"

record NodeRegistrationPolicy =
  np_operation :: string
  np_opcode :: u8
  np_audience :: string
  np_resource :: string
  np_descriptor_fingerprint :: string
  np_disclosure_policy_id :: string
  np_authority_source_id :: string
  np_minimum_evidence_tier :: EvidenceTier
  np_max_age_seconds :: u64
  np_now :: u64

datatype NodeRegistrationReason =
    RegMalformedPayload | RegWrongOperation | RegWrongAudience | RegWrongResource | RegManifestMismatch
  | RegPrivacyPolicyViolation | RegInsufficientEvidence | RegUnauthorizedSource | RegMissingAuthority
  | RegStaleEvidence | RegReplayDetected

definition NodeRegistrationReason_as_str :: "NodeRegistrationReason \<Rightarrow> string" where
  "NodeRegistrationReason_as_str r = (case r of
       RegMalformedPayload \<Rightarrow> ''malformed_registration_payload''
     | RegWrongOperation \<Rightarrow> ''wrong_operation''
     | RegWrongAudience \<Rightarrow> ''wrong_audience''
     | RegWrongResource \<Rightarrow> ''wrong_resource''
     | RegManifestMismatch \<Rightarrow> ''manifest_mismatch''
     | RegPrivacyPolicyViolation \<Rightarrow> ''privacy_policy_violation''
     | RegInsufficientEvidence \<Rightarrow> ''insufficient_evidence''
     | RegUnauthorizedSource \<Rightarrow> ''unauthorized_source''
     | RegMissingAuthority \<Rightarrow> ''missing_authority''
     | RegStaleEvidence \<Rightarrow> ''stale_evidence''
     | RegReplayDetected \<Rightarrow> ''replay_detected'')"

text \<open>The derived serialisation names the variants themselves.\<close>

definition NodeRegistrationReason_serde :: "NodeRegistrationReason \<Rightarrow> string" where
  "NodeRegistrationReason_serde r =
     (if r = RegMalformedPayload then ''malformed_payload'' else NodeRegistrationReason_as_str r)"

definition policy_from_descriptor ::
  "crypto \<Rightarrow> OperationDescriptor \<Rightarrow> string \<Rightarrow> string \<Rightarrow> u64 \<Rightarrow> NodeRegistrationReason + NodeRegistrationPolicy" where
  "policy_from_descriptor C d audience resource now =
     (if od_opcode d \<noteq> NODE_REGISTRATION_OPCODE \<or> od_name d \<noteq> NODE_REGISTRATION_OPERATION
        \<or> od_handler_id d \<noteq> NODE_REGISTRATION_HANDLER_ID
        \<or> od_payload_schema d \<noteq> Some NODE_REGISTRATION_PAYLOAD_SCHEMA
        \<or> dpol_policy_id (od_disclosure_policy d) \<noteq> NODE_REGISTRATION_DISCLOSURE_POLICY_ID
      then Inl RegWrongOperation
      else Inr \<lparr>np_operation = od_name d, np_opcode = od_opcode d, np_audience = audience, np_resource = resource,
        np_descriptor_fingerprint = authorization_fingerprint C d,
        np_disclosure_policy_id = dpol_policy_id (od_disclosure_policy d),
        np_authority_source_id = NODE_REGISTRATION_AUTHORITY_SOURCE_ID,
        np_minimum_evidence_tier = LocalVerified, np_max_age_seconds = od_max_ttl_seconds d, np_now = now\<rparr>)"

definition request_fields_match_node_resource :: "NodeRegistrationRequestV0 \<Rightarrow> bool" where
  "request_fields_match_node_resource q =
     (case split_on CHR '':'' (nq_resource q) of
        [f0, f1, f2, f3, f4, f5] \<Rightarrow> f0 = ''node'' \<and> f1 \<noteq> [] \<and> f2 \<noteq> [] \<and>
          f3 = nq_node_public_key_fingerprint q \<and> f4 = nq_endpoint_hash q \<and> f5 = ''v0''
      | _ \<Rightarrow> False)"

definition verify_node_registration ::
  "NodeRegistrationRequestV0 \<Rightarrow> NodeRegistrationPolicy \<Rightarrow> NodeRegistrationReason + unit" where
  "verify_node_registration q p =
     (if nq_operation q \<noteq> np_operation p \<or> nq_opcode q \<noteq> np_opcode p then Inl RegWrongOperation
      else if nq_audience q \<noteq> np_audience p then Inl RegWrongAudience
      else if nq_resource q \<noteq> np_resource p \<or> \<not> request_fields_match_node_resource q then Inl RegWrongResource
      else if nq_schema_version q \<noteq> 0 \<or> nq_descriptor_fingerprint q \<noteq> np_descriptor_fingerprint p
      then Inl RegManifestMismatch
      else if nq_disclosure_policy_id q \<noteq> np_disclosure_policy_id p
        \<or> list_ex (\<lambda>f. f \<noteq> ''public_node_id'' \<and> f \<noteq> ''endpoint_hash'') (nq_requested_disclosure q)
      then Inl RegPrivacyPolicyViolation
      else case EvidenceTier_from_str (nq_evidence_tier q) of
          Inl _ \<Rightarrow> Inl RegInsufficientEvidence
        | Inr tier \<Rightarrow>
            if tier \<noteq> np_minimum_evidence_tier p then Inl RegInsufficientEvidence
            else if nq_authority_source_id q \<noteq> np_authority_source_id p then Inl RegUnauthorizedSource
            else if trim (nq_evidence_ref q) = [] \<or> \<not> starts_with ''fixture:'' (nq_evidence_ref q)
            then Inl RegMissingAuthority
            else if nq_issued_at q > np_now p \<or> nq_expires_at q < np_now p \<or> nq_expires_at q < nq_issued_at q
              \<or> nq_expires_at q - nq_issued_at q > np_max_age_seconds p
            then Inl RegStaleEvidence
            else Inr ())"

definition digest_label :: "crypto \<Rightarrow> string \<Rightarrow> string \<Rightarrow> string" where
  "digest_label C label value = label @ '':sha256:'' @ hex_lower (c_sha256 C (as_bytes value))"

fun require_summary ::
  "(string \<times> NodeRegistrationReason) list \<Rightarrow> string list \<Rightarrow> NodeRegistrationReason + unit" where
  "require_summary [] summary = Inr ()"
| "require_summary ((required, reason) # rest) summary =
     (if required \<notin> set summary then Inl reason else require_summary rest summary)"

definition required_summary_fields :: "NodeRegistrationRequestV0 \<Rightarrow> (string \<times> NodeRegistrationReason) list" where
  "required_summary_fields q =
     [(''authority_mode:local_fixture'', RegMissingAuthority),
      (''evidence_tier:'' @ nq_evidence_tier q, RegInsufficientEvidence),
      (''authority_source_id:'' @ nq_authority_source_id q, RegUnauthorizedSource),
      (''evidence_ref_kind:fixture'', RegMissingAuthority)]"

definition validate_verified_registration_route ::
  "crypto \<Rightarrow> (bytes \<Rightarrow> NodeRegistrationRequestV0 option) \<Rightarrow> bytes \<Rightarrow> VerifiedCallContext \<Rightarrow> OperationDescriptor \<Rightarrow>
     u64 \<Rightarrow> NodeRegistrationReason + string list" where
  "validate_verified_registration_route C parse payload context d now =
     rbind (ok_or RegMalformedPayload (parse payload)) (\<lambda>q.
     rbind (ok_or RegWrongResource (vc_resource context)) (\<lambda>resource.
     rbind (policy_from_descriptor C d (vc_audience context) resource now) (\<lambda>policy.
     rbind (verify_node_registration q policy) (\<lambda>_.
       if nq_operation q \<noteq> vc_operation context \<or> nq_opcode q \<noteq> vc_opcode context
         \<or> nq_audience q \<noteq> vc_audience context \<or> nq_resource q \<noteq> resource
         \<or> nq_descriptor_fingerprint q \<noteq> vc_descriptor_fingerprint context
         \<or> nq_issued_at q \<noteq> vc_issued_at context \<or> nq_expires_at q \<noteq> vc_expires_at context
       then Inl RegManifestMismatch
       else rbind (require_summary (required_summary_fields q) (vc_evidence_summary context)) (\<lambda>_.
         Inr [''registration_scope:local_fixture_only'',
              ''registration_evidence_tier:'' @ nq_evidence_tier q,
              ''registration_resource_hash:'' @ digest_label C ''resource'' (nq_resource q),
              ''registration_disclosure_policy:'' @ nq_disclosure_policy_id q,
              ''registration_schema_version:'' @ dec_string (unat (nq_schema_version q))])))))"

definition NodeRegistrationProgram :: "(bytes \<Rightarrow> NodeRegistrationRequestV0 option) \<Rightarrow> World MachineProgram" where
  "NodeRegistrationProgram parse context payload limits w =
     (if length payload > el_max_payload_bytes limits then (Some (handler_rejected ''payload_too_large''), w)
      else if parse payload = None
      then (Some (handler_rejected (NodeRegistrationReason_as_str RegMalformedPayload)), w)
      else if vc_operation context \<noteq> NODE_REGISTRATION_OPERATION \<or> vc_opcode context \<noteq> NODE_REGISTRATION_OPCODE
        \<or> vc_handler_id context \<noteq> Some NODE_REGISTRATION_HANDLER_ID
      then (Some (handler_rejected (NodeRegistrationReason_as_str RegWrongOperation)), w)
      else (Some succeeded, w\<lparr>w_registrations := w_registrations w + 1\<rparr>))"

record NodeRegistrationHandler =
  nh_handled_request_ids :: "string set"
  nh_execution_count :: u64

record NodeRegistrationReceipt =
  nt_receipt_id :: string
  nt_operation :: string
  nt_opcode :: u8
  nt_decision :: string
  nt_handler_id :: string
  nt_handler_ran :: bool
  nt_evidence_tier :: string
  nt_resource_hash :: string
  nt_descriptor_fingerprint :: string
  nt_schema_version :: u16
  nt_disclosure_policy_id :: string
  nt_replay_scope :: string

record NodeRegistrationRejection =
  nj_reason :: NodeRegistrationReason
  nj_handler_ran :: bool

text \<open>Claiming a request id: whether it was new, and the handler after it ran once more for a new one.\<close>

definition claim_request_id ::
  "NodeRegistrationHandler \<Rightarrow> string \<Rightarrow> bool \<times> NodeRegistrationHandler" where
  "claim_request_id h request_id =
     (if request_id \<in> nh_handled_request_ids h then (False, h)
      else (True, h\<lparr>nh_handled_request_ids := insert request_id (nh_handled_request_ids h),
                    nh_execution_count := nh_execution_count h + 1\<rparr>))"

definition registration_receipt :: "crypto \<Rightarrow> NodeRegistrationRequestV0 \<Rightarrow> NodeRegistrationReceipt" where
  "registration_receipt C q =
     \<lparr>nt_receipt_id = digest_label C ''registration-receipt'' (nq_request_id q), nt_operation = nq_operation q,
      nt_opcode = nq_opcode q, nt_decision = ''accepted'', nt_handler_id = NODE_REGISTRATION_HANDLER_ID,
      nt_handler_ran = True, nt_evidence_tier = nq_evidence_tier q,
      nt_resource_hash = digest_label C ''resource'' (nq_resource q),
      nt_descriptor_fingerprint = nq_descriptor_fingerprint q, nt_schema_version = nq_schema_version q,
      nt_disclosure_policy_id = nq_disclosure_policy_id q, nt_replay_scope = ''request_id_in_memory''\<rparr>"

definition process_node_registration ::
  "crypto \<Rightarrow> NodeRegistrationRequestV0 \<Rightarrow> NodeRegistrationPolicy \<Rightarrow> NodeRegistrationHandler \<Rightarrow>
     (NodeRegistrationRejection + NodeRegistrationReceipt) \<times> NodeRegistrationHandler" where
  "process_node_registration C q p h =
     (case verify_node_registration q p of
        Inl reason \<Rightarrow> (Inl \<lparr>nj_reason = reason, nj_handler_ran = False\<rparr>, h)
      | Inr _ \<Rightarrow> (case claim_request_id h (nq_request_id q) of
          (False, h') \<Rightarrow> (Inl \<lparr>nj_reason = RegReplayDetected, nj_handler_ran = False\<rparr>, h')
        | (True, h') \<Rightarrow> (Inr (registration_receipt C q), h')))"

definition registration_surface_projection :: "NodeRegistrationReceipt \<Rightarrow> PrivacySurface \<Rightarrow> json" where
  "registration_surface_projection r surface = JObject
     [(''decision'', JString (nt_decision r)),
      (''descriptor_fingerprint'', JString (nt_descriptor_fingerprint r)),
      (''disclosure_policy_id'', JString (nt_disclosure_policy_id r)),
      (''evidence_tier'', JString (nt_evidence_tier r)),
      (''handler_id'', JString (nt_handler_id r)),
      (''handler_ran'', JBool (nt_handler_ran r)),
      (''opcode'', JNumber (Some (ucast (nt_opcode r)))),
      (''operation'', JString (nt_operation r)),
      (''receipt_id'', JString (nt_receipt_id r)),
      (''replay_scope'', JString (nt_replay_scope r)),
      (''resource_hash'', JString (nt_resource_hash r)),
      (''schema_version'', JNumber (Some (ucast (nt_schema_version r)))),
      (''scope'', JString ''local_registration_only''),
      (''surface'', JString (PrivacySurface_as_str surface))]"

definition registration_rejection_projection :: "NodeRegistrationRejection \<Rightarrow> json" where
  "registration_rejection_projection j = JObject
     [(''decision'', JString ''rejected''),
      (''handler_ran'', JBool (nj_handler_ran j)),
      (''reason'', JString (NodeRegistrationReason_serde (nj_reason j))),
      (''scope'', JString ''local_registration_only'')]"

section \<open>Lemmas\<close>

text \<open>The set of handled request ids is a single-use store, like the ledger's tables.\<close>

interpretation registration_store: single_use_store claim_request_id nh_handled_request_ids "\<lambda>request_id. request_id"
  by unfold_locales (auto simp: claim_request_id_def)

lemma verify_node_registration_Inr_iff:
  "verify_node_registration q p = Inr u \<longleftrightarrow>
     nq_operation q = np_operation p \<and> nq_opcode q = np_opcode p \<and> nq_audience q = np_audience p \<and>
     nq_resource q = np_resource p \<and> request_fields_match_node_resource q \<and> nq_schema_version q = 0 \<and>
     nq_descriptor_fingerprint q = np_descriptor_fingerprint p \<and>
     nq_disclosure_policy_id q = np_disclosure_policy_id p \<and>
     set (nq_requested_disclosure q) \<subseteq> {''public_node_id'', ''endpoint_hash''} \<and>
     EvidenceTier_from_str (nq_evidence_tier q) = Inr (np_minimum_evidence_tier p) \<and>
     nq_authority_source_id q = np_authority_source_id p \<and> trim (nq_evidence_ref q) \<noteq> [] \<and>
     starts_with ''fixture:'' (nq_evidence_ref q) \<and>
     nq_issued_at q \<le> np_now p \<and> np_now p \<le> nq_expires_at q \<and>
     nq_expires_at q - nq_issued_at q \<le> np_max_age_seconds p"
  (is "?l \<longleftrightarrow> ?r")
proof -
  have d: "list_ex (\<lambda>f. f \<noteq> ''public_node_id'' \<and> f \<noteq> ''endpoint_hash'') xs \<longleftrightarrow>
      \<not> set xs \<subseteq> {''public_node_id'', ''endpoint_hash''}" for xs
    by (auto simp: list_ex_iff)
  have tier: "(case EvidenceTier_from_str t of Inl _ \<Rightarrow> Inl e | Inr x \<Rightarrow> f x) = Inr u \<longleftrightarrow>
      (\<exists>x. EvidenceTier_from_str t = Inr x \<and> f x = Inr u)" for t and e :: NodeRegistrationReason and f
    by (cases "EvidenceTier_from_str t") simp_all
  show ?thesis
    unfolding verify_node_registration_def d if_guard_Inr_iff tier de_Morgan_disj not_not not_less
    by (auto intro: order.trans)
qed

lemma require_summary_Inr_iff:
  "require_summary fs summary = Inr u \<longleftrightarrow> fst ` set fs \<subseteq> set summary"
  by (induction fs summary rule: require_summary.induct) auto

lemma registration_route_InrE:
  assumes "validate_verified_registration_route C parse payload context d now = Inr fs"
  obtains q resource where "parse payload = Some q" "vc_resource context = Some resource"
    "nq_operation q = vc_operation context" "nq_opcode q = vc_opcode context" "nq_audience q = vc_audience context"
    "nq_resource q = resource" "nq_descriptor_fingerprint q = vc_descriptor_fingerprint context"
    "nq_issued_at q = vc_issued_at context" "nq_expires_at q = vc_expires_at context"
    "request_fields_match_node_resource q"
    "authorization_fingerprint C d = vc_descriptor_fingerprint context"
    "nq_evidence_tier q = ''local_verified''"
    "{''authority_mode:local_fixture'', ''evidence_tier:local_verified'', ''evidence_ref_kind:fixture'',
      ''authority_source_id:receiver-held-fixture''} \<subseteq> set (vc_evidence_summary context)"
    "vc_issued_at context \<le> now" "now \<le> vc_expires_at context"
proof -
  obtain q resource policy where q: "parse payload = Some q" and r: "vc_resource context = Some resource"
    and p: "policy_from_descriptor C d (vc_audience context) resource now = Inr policy"
    and v: "verify_node_registration q policy = Inr ()"
    and eqs: "nq_operation q = vc_operation context" "nq_opcode q = vc_opcode context"
      "nq_audience q = vc_audience context" "nq_resource q = resource"
      "nq_descriptor_fingerprint q = vc_descriptor_fingerprint context"
      "nq_issued_at q = vc_issued_at context" "nq_expires_at q = vc_expires_at context"
    and s: "require_summary (required_summary_fields q) (vc_evidence_summary context) = Inr ()"
    using assms unfolding validate_verified_registration_route_def
    by (simp add: result_simps split: if_splits) blast
  have pol: "np_descriptor_fingerprint policy = authorization_fingerprint C d" "np_minimum_evidence_tier policy = LocalVerified"
      "np_authority_source_id policy = ''receiver-held-fixture''" "np_now policy = now"
    using p by (auto simp: policy_from_descriptor_def NODE_REGISTRATION_AUTHORITY_SOURCE_ID_def split: if_splits)
  note v' = v [unfolded verify_node_registration_Inr_iff]
  have tier: "nq_evidence_tier q = ''local_verified''"
    using v' pol(2) by (auto simp: EvidenceTier_from_str_def split: if_splits)
  have "{''authority_mode:local_fixture'', ''evidence_tier:local_verified'', ''evidence_ref_kind:fixture'',
      ''authority_source_id:receiver-held-fixture''} \<subseteq> set (vc_evidence_summary context)"
    using s [unfolded require_summary_Inr_iff] v' by (simp add: required_summary_fields_def tier pol(3))
  then show thesis using that [OF q r eqs] v' pol eqs tier by simp
qed

text \<open>A sequence of registrations, each under the policy of its moment: the request ids with whether each was
  accepted.\<close>

primrec registrations ::
  "crypto \<Rightarrow> NodeRegistrationHandler \<Rightarrow> (NodeRegistrationRequestV0 \<times> NodeRegistrationPolicy) list \<Rightarrow> (string \<times> bool) list" where
  "registrations C h [] = []"
| "registrations C h (x # xs) = (case process_node_registration C (fst x) (snd x) h of
     (r, h') \<Rightarrow> (nq_request_id (fst x), is_ok r) # registrations C h' xs)"

lemma process_refused:
  "verify_node_registration q p = Inl reason \<Longrightarrow>
     process_node_registration C q p h = (Inl \<lparr>nj_reason = reason, nj_handler_ran = False\<rparr>, h)"
  by (simp add: process_node_registration_def)

lemma process_verified:
  assumes "verify_node_registration q p = Inr ()"
  shows "is_ok (fst (process_node_registration C q p h)) = fst (claim_request_id h (nq_request_id q))"
    "snd (process_node_registration C q p h) = snd (claim_request_id h (nq_request_id q))"
  using assms by (auto simp: process_node_registration_def split: prod.splits bool.splits)

lemma count_accepted: "count_list (filter snd xs) (k, True) = count_list xs (k, True)"
  by (induction xs) auto

lemma registrations_are_attempts:
  "filter snd (registrations C h xs) = filter snd (registration_store.attempts h
     (map (nq_request_id \<circ> fst) (filter (\<lambda>x. verify_node_registration (fst x) (snd x) = Inr ()) xs)))"
proof (induction xs arbitrary: h)
  case (Cons x xs)
  show ?case
  proof (cases "verify_node_registration (fst x) (snd x)")
    case (Inl reason)
    then show ?thesis using Cons [of h] by (simp add: process_refused)
  next
    case (Inr u)
    then show ?thesis using Cons process_verified [of "fst x" "snd x" C h] by (simp add: split_def)
  qed
qed simp

section \<open>Properties\<close>

text \<open>C35. Node registration behaves as its policy says: a request is accepted exactly when every field matches
  the policy, its evidence is a fixture of the required tier, the time lies in its bounded window and its id
  is new; then the handler ran once and the receipt names only digests of the id and the resource. A refused
  request leaves the handler unchanged. In any sequence of requests every id is accepted at most once.\<close>

theorem registration_accepts_exactly_the_policy:
  "(case process_node_registration C q p h of (r, h') \<Rightarrow>
      (if nq_operation q = np_operation p \<and> nq_opcode q = np_opcode p \<and> nq_audience q = np_audience p \<and>
          nq_resource q = np_resource p \<and> request_fields_match_node_resource q \<and> nq_schema_version q = 0 \<and>
          nq_descriptor_fingerprint q = np_descriptor_fingerprint p \<and>
          nq_disclosure_policy_id q = np_disclosure_policy_id p \<and>
          set (nq_requested_disclosure q) \<subseteq> {''public_node_id'', ''endpoint_hash''} \<and>
          EvidenceTier_from_str (nq_evidence_tier q) = Inr (np_minimum_evidence_tier p) \<and>
          nq_authority_source_id q = np_authority_source_id p \<and> trim (nq_evidence_ref q) \<noteq> [] \<and>
          starts_with ''fixture:'' (nq_evidence_ref q) \<and> nq_issued_at q \<le> np_now p \<and> np_now p \<le> nq_expires_at q \<and>
          nq_expires_at q - nq_issued_at q \<le> np_max_age_seconds p \<and> nq_request_id q \<notin> nh_handled_request_ids h
       then r = Inr (registration_receipt C q) \<and>
         h' = h\<lparr>nh_handled_request_ids := insert (nq_request_id q) (nh_handled_request_ids h),
                nh_execution_count := nh_execution_count h + 1\<rparr>
       else (\<exists>j. r = Inl j \<and> \<not> nj_handler_ran j) \<and> h' = h)) \<and>
   count_list (registrations C h xs) (k, True) \<le> 1"
proof -
  have once: "count_list (registrations C h xs) (k, True) \<le> 1"
    unfolding count_accepted [of "registrations C h xs", symmetric] registrations_are_attempts
    unfolding count_accepted by (rule registration_store.at_most_once)
  show ?thesis
  proof (cases "verify_node_registration q p")
    case (Inl reason)
    then have "verify_node_registration q p \<noteq> Inr ()" by simp
    then show ?thesis
      using once unfolding verify_node_registration_Inr_iff process_refused [OF Inl] prod.case by (simp only: conj_ac) auto
  next
    case (Inr u)
    show ?thesis
      using once Inr [unfolded verify_node_registration_Inr_iff]
      by (auto simp: process_node_registration_def Inr claim_request_id_def)
  qed
qed

text \<open>A registration that the gateway routes is bound to its verified context: the request in the payload
  agrees with the context on operation, opcode, audience, resource, descriptor and lifetime, the descriptor is
  the active one, and the signed evidence of the context names the fixture authority that the request claims.\<close>

theorem registration_route_bound_to_context:
  "case validate_verified_registration_route C parse payload context d now of
     Inl _ \<Rightarrow> True
   | Inr _ \<Rightarrow> \<exists>q. parse payload = Some q \<and> vc_resource context = Some (nq_resource q) \<and>
       nq_operation q = vc_operation context \<and> nq_opcode q = vc_opcode context \<and> nq_audience q = vc_audience context \<and>
       nq_issued_at q = vc_issued_at context \<and> nq_expires_at q = vc_expires_at context \<and>
       nq_descriptor_fingerprint q = authorization_fingerprint C d \<and>
       vc_descriptor_fingerprint context = authorization_fingerprint C d \<and>
       vc_issued_at context \<le> now \<and> now \<le> vc_expires_at context \<and> request_fields_match_node_resource q \<and>
       {''authority_mode:local_fixture'', ''evidence_tier:local_verified'', ''evidence_ref_kind:fixture'',
        ''authority_source_id:receiver-held-fixture''} \<subseteq> set (vc_evidence_summary context)"
proof (cases "validate_verified_registration_route C parse payload context d now")
  case (Inr fs)
  show ?thesis by (rule registration_route_InrE [OF Inr]) (simp add: Inr)
qed simp

end
