(* ===== verification/Permissions.thy ===== *)
theory Permissions
  imports Prelude
begin

text \<open>
  Receiver-local permission policies: \<^verbatim>\<open>permissions/src/lib.rs\<close> (records, validation and the
  fail-closed, deny-wins evaluator), \<^verbatim>\<open>server/src/permctl.rs\<close> (the operator's authoring
  functions) and the authoring functions of \<^verbatim>\<open>panel/src/lib.rs\<close>. JSON parsing and file access
  are parameters.
\<close>

section \<open>Data\<close>

datatype AuthoritySource = ReceiverLocal | DreggBacked | DreggAuthority

datatype PermissionStatus = Active | Revoked

datatype PermissionEffect = Allow | Deny

datatype ResourceScope = Exact string | Prefix string

definition scope_matches :: "ResourceScope \<Rightarrow> string \<Rightarrow> bool" where
  "scope_matches s resource =
     (case s of Exact v \<Rightarrow> v = resource | Prefix p \<Rightarrow> starts_with p resource)"

definition declared_value :: "ResourceScope \<Rightarrow> string" where
  "declared_value s = (case s of Exact v \<Rightarrow> v | Prefix p \<Rightarrow> p)"

record PermissionRecord =
  pr_caller_id :: string
  pr_opcode :: u8
  pr_operation :: string
  pr_resource :: ResourceScope
  pr_effect :: PermissionEffect
  pr_not_before :: u64
  pr_not_after :: u64
  pr_status :: PermissionStatus
  pr_authority_source :: AuthoritySource

definition matches_request ::
  "PermissionRecord \<Rightarrow> string \<Rightarrow> u8 \<Rightarrow> string \<Rightarrow> string \<Rightarrow> bool" where
  "matches_request r caller_id opcode operation resource =
     (pr_caller_id r = caller_id \<and> pr_opcode r = opcode \<and> pr_operation r = operation
        \<and> scope_matches (pr_resource r) resource)"

definition is_applicable :: "PermissionRecord \<Rightarrow> u64 \<Rightarrow> bool" where
  "is_applicable r now =
     (pr_status r = PermissionStatus.Active \<and> pr_authority_source r = ReceiverLocal
        \<and> pr_not_before r \<le> now \<and> now < pr_not_after r)"

datatype PermissionDecision = DecisionAllow

datatype DenyReason =
    NoMatchingGrant | ExplicitDeny | DenyRevoked | DenyExpired | DenyNotYetValid
  | AuthoritySourceUnsupported

definition deny_code :: "DenyReason \<Rightarrow> string" where
  "deny_code d = (case d of
       NoMatchingGrant \<Rightarrow> ''permission_no_matching_grant''
     | ExplicitDeny \<Rightarrow> ''permission_explicit_deny''
     | DenyRevoked \<Rightarrow> ''permission_revoked''
     | DenyExpired \<Rightarrow> ''permission_expired''
     | DenyNotYetValid \<Rightarrow> ''permission_not_yet_valid''
     | AuthoritySourceUnsupported \<Rightarrow> ''permission_authority_source_unsupported'')"

record PermissionPolicy =
  pp_records :: "PermissionRecord list"

datatype PolicyError = PolicyEmpty | PolicyMalformed | PolicyInvalidRecord | PolicyUnreadable

section \<open>Building a policy\<close>

definition invalid_record :: "PermissionRecord \<Rightarrow> bool" where
  "invalid_record r =
     (pr_caller_id r = [] \<or> pr_operation r = [] \<or> declared_value (pr_resource r) = []
        \<or> pr_not_after r \<le> pr_not_before r)"

definition policy_new :: "PermissionRecord list \<Rightarrow> PolicyError + PermissionPolicy" where
  "policy_new rs =
     (if list_ex invalid_record rs then Inl PolicyInvalidRecord else Inr \<lparr>pp_records = rs\<rparr>)"

definition policy_from_json_str ::
  "(string \<Rightarrow> PermissionRecord list option) \<Rightarrow> string \<Rightarrow> PolicyError + PermissionPolicy" where
  "policy_from_json_str parse json =
     (if ws_only json then Inl PolicyEmpty
      else rbind (ok_or PolicyMalformed (parse json)) policy_new)"

definition policy_from_json_file ::
  "(string \<Rightarrow> PermissionRecord list option) \<Rightarrow> ('p \<Rightarrow> string option) \<Rightarrow> 'p
     \<Rightarrow> PolicyError + PermissionPolicy" where
  "policy_from_json_file parse read_to_string path =
     rbind (ok_or PolicyUnreadable (read_to_string path)) (policy_from_json_str parse)"

section \<open>Evaluation\<close>

definition inapplicable_candidate :: "PermissionRecord \<Rightarrow> u64 \<Rightarrow> DenyReason" where
  "inapplicable_candidate r now =
     (if pr_status r = PermissionStatus.Revoked then DenyRevoked
      else if pr_authority_source r \<noteq> ReceiverLocal then AuthoritySourceUnsupported
      else if pr_not_after r \<le> now then DenyExpired
      else if now < pr_not_before r then DenyNotYetValid
      else NoMatchingGrant)"

fun inapplicable_loop :: "u64 \<Rightarrow> DenyReason \<Rightarrow> PermissionRecord list \<Rightarrow> DenyReason" where
  "inapplicable_loop now reason [] = reason"
| "inapplicable_loop now reason (r # rs) =
     (let candidate = inapplicable_candidate r now in
      if candidate = DenyRevoked then DenyRevoked
      else inapplicable_loop now (if reason = NoMatchingGrant then candidate else reason) rs)"

definition most_informative_inapplicable_reason :: "PermissionRecord list \<Rightarrow> u64 \<Rightarrow> DenyReason" where
  "most_informative_inapplicable_reason matching now =
     inapplicable_loop now NoMatchingGrant (filter (\<lambda>r. pr_effect r = Allow) matching)"

definition evaluate ::
  "PermissionPolicy \<Rightarrow> string \<Rightarrow> u8 \<Rightarrow> string \<Rightarrow> string \<Rightarrow> u64 \<Rightarrow> DenyReason + PermissionDecision" where
  "evaluate policy caller_id opcode operation resource now =
     (let matching = filter (\<lambda>r. matches_request r caller_id opcode operation resource)
                       (pp_records policy) in
      if matching = [] then Inl NoMatchingGrant
      else if list_ex (\<lambda>r. pr_effect r = Deny \<and> is_applicable r now) matching then Inl ExplicitDeny
      else if list_ex (\<lambda>r. pr_effect r = Allow \<and> is_applicable r now) matching then Inr DecisionAllow
      else Inl (most_informative_inapplicable_reason matching now))"

section \<open>Authoring: permctl and the browser panel\<close>

datatype PermctlError = PermctlUnreadable | PermctlMalformed | PermctlUnwritable

datatype 'a file_read = ReadOk 'a | ReadNotFound | ReadFailed

definition load_records ::
  "(string \<Rightarrow> PermissionRecord list option) \<Rightarrow> string file_read
     \<Rightarrow> PermctlError + PermissionRecord list" where
  "load_records parse contents = (case contents of
       ReadOk json \<Rightarrow> if ws_only json then Inr [] else ok_or PermctlMalformed (parse json)
     | ReadNotFound \<Rightarrow> Inr []
     | ReadFailed \<Rightarrow> Inl PermctlUnreadable)"

definition build_record ::
  "string \<Rightarrow> u8 \<Rightarrow> string \<Rightarrow> string \<Rightarrow> bool \<Rightarrow> bool \<Rightarrow> u64 \<Rightarrow> u64 \<Rightarrow> PermissionRecord" where
  "build_record caller_id opcode operation resource is_prefix deny not_before not_after =
     \<lparr>pr_caller_id = caller_id, pr_opcode = opcode, pr_operation = operation,
      pr_resource = (if is_prefix then Prefix resource else Exact resource),
      pr_effect = (if deny then Deny else Allow),
      pr_not_before = not_before, pr_not_after = not_after,
      pr_status = PermissionStatus.Active, pr_authority_source = ReceiverLocal\<rparr>"

definition grant :: "PermissionRecord list \<Rightarrow> PermissionRecord \<Rightarrow> PermissionRecord list" where
  "grant rs r = rs @ [r]"

definition revoke_target :: "string \<Rightarrow> u8 \<Rightarrow> string \<Rightarrow> string \<Rightarrow> PermissionRecord \<Rightarrow> bool" where
  "revoke_target caller_id opcode operation value r =
     (pr_caller_id r = caller_id \<and> pr_opcode r = opcode \<and> pr_operation r = operation
        \<and> declared_value (pr_resource r) = value)"

fun revoke ::
  "PermissionRecord list \<Rightarrow> string \<Rightarrow> u8 \<Rightarrow> string \<Rightarrow> string \<Rightarrow> PermissionRecord list \<times> nat" where
  "revoke [] caller_id opcode operation value = ([], 0)"
| "revoke (r # rs) caller_id opcode operation value =
     (let (rs', n) = revoke rs caller_id opcode operation value in
      if revoke_target caller_id opcode operation value r \<and> pr_status r \<noteq> PermissionStatus.Revoked
      then (r\<lparr>pr_status := PermissionStatus.Revoked\<rparr> # rs', Suc n)
      else (r # rs', n))"

definition permctl_evaluate ::
  "PermissionRecord list \<Rightarrow> string \<Rightarrow> u8 \<Rightarrow> string \<Rightarrow> string \<Rightarrow> u64 \<Rightarrow> DenyReason + unit" where
  "permctl_evaluate rs caller_id opcode operation resource now =
     rbind (map_err (\<lambda>_. NoMatchingGrant) (policy_new rs))
       (\<lambda>policy. rbind (evaluate policy caller_id opcode operation resource now) (\<lambda>_. Inr ()))"

definition hex_opcode :: "u8 \<Rightarrow> string" where
  "hex_opcode b = ''0x'' @ hex_byte b"

definition list_line :: "nat \<Rightarrow> PermissionRecord \<Rightarrow> string" where
  "list_line index r =
     dec_string index @ '': '' @
     (case pr_effect r of Allow \<Rightarrow> ''allow'' | Deny \<Rightarrow> ''deny'') @ '' '' @
     (case pr_status r of PermissionStatus.Active \<Rightarrow> ''active'' | PermissionStatus.Revoked \<Rightarrow> ''revoked'') @
     '' caller='' @ pr_caller_id r @ '' opcode='' @ hex_opcode (pr_opcode r) @
     '' op='' @ pr_operation r @ '' '' @
     (case pr_resource r of Exact v \<Rightarrow> ''exact='' @ v | Prefix p \<Rightarrow> ''prefix='' @ p) @
     '' valid=['' @ dec_string (unat (pr_not_before r)) @ ''..'' @ dec_string (unat (pr_not_after r)) @
     '') source=receiver_local''"

definition list_lines :: "PermissionRecord list \<Rightarrow> string list" where
  "list_lines rs = map (\<lambda>(i, r). list_line i r) (zip [0..<length rs] rs)"

text \<open>The panel works on the policy's JSON text; its JSON reader and writer are parameters.\<close>

definition panel_parse ::
  "(string \<Rightarrow> PermissionRecord list option) \<Rightarrow> string \<Rightarrow> string + PermissionRecord list" where
  "panel_parse parse policy_json =
     (if ws_only policy_json then Inr []
      else ok_or ''policy is not a valid JSON array of permission records'' (parse policy_json))"

definition panel_dump ::
  "(PermissionRecord list \<Rightarrow> string option) \<Rightarrow> PermissionRecord list \<Rightarrow> string + string" where
  "panel_dump dump rs = ok_or ''failed to serialize policy'' (dump rs)"

definition panel_grant ::
  "(string \<Rightarrow> PermissionRecord list option) \<Rightarrow> (PermissionRecord list \<Rightarrow> string option) \<Rightarrow> string
     \<Rightarrow> string \<Rightarrow> u8 \<Rightarrow> string \<Rightarrow> string \<Rightarrow> bool \<Rightarrow> bool \<Rightarrow> u64 \<Rightarrow> u64 \<Rightarrow> string + string" where
  "panel_grant parse dump policy_json caller opcode operation resource is_prefix deny not_before not_after =
     rbind (panel_parse parse policy_json) (\<lambda>rs.
       panel_dump dump (rs @ [\<lparr>pr_caller_id = caller, pr_opcode = opcode, pr_operation = operation,
         pr_resource = (if is_prefix then Prefix resource else Exact resource),
         pr_effect = (if deny then Deny else Allow),
         pr_not_before = not_before, pr_not_after = not_after,
         pr_status = PermissionStatus.Active, pr_authority_source = ReceiverLocal\<rparr>]))"

definition panel_revoke_records ::
  "PermissionRecord list \<Rightarrow> string \<Rightarrow> u8 \<Rightarrow> string \<Rightarrow> string \<Rightarrow> PermissionRecord list" where
  "panel_revoke_records rs caller opcode operation resource =
     map (\<lambda>r. if revoke_target caller opcode operation resource r
               then r\<lparr>pr_status := PermissionStatus.Revoked\<rparr> else r) rs"

definition panel_revoke ::
  "(string \<Rightarrow> PermissionRecord list option) \<Rightarrow> (PermissionRecord list \<Rightarrow> string option) \<Rightarrow> string
     \<Rightarrow> string \<Rightarrow> u8 \<Rightarrow> string \<Rightarrow> string \<Rightarrow> string + string" where
  "panel_revoke parse dump policy_json caller opcode operation resource =
     rbind (panel_parse parse policy_json) (\<lambda>rs.
       panel_dump dump (panel_revoke_records rs caller opcode operation resource))"

definition panel_evaluate ::
  "(string \<Rightarrow> PermissionRecord list option) \<Rightarrow> string
     \<Rightarrow> string \<Rightarrow> u8 \<Rightarrow> string \<Rightarrow> string \<Rightarrow> u64 \<Rightarrow> string + string" where
  "panel_evaluate parse policy_json caller opcode operation resource now =
     rbind (panel_parse parse policy_json) (\<lambda>rs.
     rbind (map_err (\<lambda>_. ''policy contains an invalid record'') (policy_new rs)) (\<lambda>policy.
       Inr (case evaluate policy caller opcode operation resource now of
              Inr _ \<Rightarrow> ''ALLOW'' | Inl reason \<Rightarrow> ''DENY:'' @ deny_code reason)))"

definition save_records ::
  "(PermissionRecord list \<Rightarrow> string option) \<Rightarrow> (string \<Rightarrow> 'f option) \<Rightarrow> PermissionRecord list
     \<Rightarrow> PermctlError + 'f" where
  "save_records dump write rs =
     rbind (ok_or PermctlUnwritable (dump rs)) (\<lambda>json. ok_or PermctlUnwritable (write json))"

definition panel_list_line :: "nat \<Rightarrow> PermissionRecord \<Rightarrow> string" where
  "panel_list_line index r =
     dec_string index @ '': '' @
     (case pr_effect r of Allow \<Rightarrow> ''allow'' | Deny \<Rightarrow> ''deny'') @ '' '' @
     (case pr_status r of PermissionStatus.Active \<Rightarrow> ''active'' | PermissionStatus.Revoked \<Rightarrow> ''revoked'') @
     '' '' @ pr_caller_id r @ '' '' @ hex_opcode (pr_opcode r) @ '' '' @ pr_operation r @ '' '' @
     (case pr_resource r of Exact v \<Rightarrow> ''exact='' @ v | Prefix p \<Rightarrow> ''prefix='' @ p)"

definition panel_list ::
  "(string \<Rightarrow> PermissionRecord list option) \<Rightarrow> string \<Rightarrow> string + string" where
  "panel_list parse policy_json =
     rbind (panel_parse parse policy_json) (\<lambda>rs.
       Inr (join [CHR 0x0A] (map (\<lambda>(i, r). panel_list_line i r) (zip [0..<length rs] rs))))"

section \<open>The evaluator\<close>

lemma scope_matches_simps [simp]:
  "scope_matches (Exact v) resource \<longleftrightarrow> v = resource"
  "scope_matches (Prefix p) resource \<longleftrightarrow> prefix p resource"
  by (simp_all add: scope_matches_def starts_with_iff)

lemma declared_value_simps [simp]:
  "declared_value (Exact v) = v"
  "declared_value (Prefix p) = p"
  by (simp_all add: declared_value_def)

text \<open>A scope only ever covers resources that extend its declared value.\<close>

lemma scope_matches_prefix: "scope_matches s resource \<Longrightarrow> prefix (declared_value s) resource"
  by (cases s) auto

lemma is_applicable_iff_candidate:
  "is_applicable r now \<longleftrightarrow> inapplicable_candidate r now = NoMatchingGrant"
  by (cases "pr_status r"; cases "pr_authority_source r")
     (auto simp: is_applicable_def inapplicable_candidate_def not_less)

lemma candidate_Revoked_iff:
  "inapplicable_candidate r now = DenyRevoked \<longleftrightarrow> pr_status r = PermissionStatus.Revoked"
  by (simp add: inapplicable_candidate_def)

lemma inapplicable_loop_Revoked:
  "\<exists>r\<in>set rs. pr_status r = PermissionStatus.Revoked \<Longrightarrow> inapplicable_loop now reason rs = DenyRevoked"
  by (induction rs arbitrary: reason) (auto simp: Let_def candidate_Revoked_iff)

lemma inapplicable_loop_specific:
  "\<not> (\<exists>r\<in>set rs. pr_status r = PermissionStatus.Revoked) \<Longrightarrow> reason \<noteq> NoMatchingGrant
     \<Longrightarrow> inapplicable_loop now reason rs = reason"
  by (induction rs) (auto simp: Let_def candidate_Revoked_iff)

lemma inapplicable_loop_first:
  assumes "\<not> (\<exists>r\<in>set rs. pr_status r = PermissionStatus.Revoked)"
    and "\<not> (\<exists>r\<in>set rs. is_applicable r now)"
  shows "inapplicable_loop now NoMatchingGrant rs =
           (case rs of [] \<Rightarrow> NoMatchingGrant | r # _ \<Rightarrow> inapplicable_candidate r now)"
  using assms
  by (cases rs) (auto simp: Let_def candidate_Revoked_iff is_applicable_iff_candidate
      intro: inapplicable_loop_specific)

text \<open>The records of a policy that bear on a request.\<close>

definition relevant ::
  "PermissionPolicy \<Rightarrow> string \<Rightarrow> u8 \<Rightarrow> string \<Rightarrow> string \<Rightarrow> PermissionEffect \<Rightarrow> PermissionRecord list" where
  "relevant policy caller_id opcode operation resource eff =
     filter (\<lambda>r. matches_request r caller_id opcode operation resource \<and> pr_effect r = eff)
       (pp_records policy)"

lemma set_relevant:
  "r \<in> set (relevant policy c oc oper res eff) \<longleftrightarrow>
     r \<in> set (pp_records policy) \<and> matches_request r c oc oper res \<and> pr_effect r = eff"
  by (auto simp: relevant_def)

lemma evaluate_relevant:
  "evaluate policy c oc oper res now =
     (if \<exists>r\<in>set (relevant policy c oc oper res Deny). is_applicable r now then Inl ExplicitDeny
      else if \<exists>r\<in>set (relevant policy c oc oper res Allow). is_applicable r now then Inr DecisionAllow
      else Inl (inapplicable_loop now NoMatchingGrant (relevant policy c oc oper res Allow)))"
proof -
  let ?m = "filter (\<lambda>r. matches_request r c oc oper res) (pp_records policy)"
  have "filter (\<lambda>r. pr_effect r = Allow) ?m = relevant policy c oc oper res Allow"
    by (simp add: relevant_def conj_commute)
  moreover have "?m = [] \<Longrightarrow> relevant policy c oc oper res eff = []" for eff
    by (auto simp: relevant_def filter_empty_conv)
  ultimately show ?thesis
    by (auto simp: evaluate_def Let_def most_informative_inapplicable_reason_def list_ex_iff
        set_relevant)
qed

lemma evaluate_Allow_iff:
  "evaluate policy c oc oper res now = Inr d \<longleftrightarrow>
     (\<exists>r\<in>set (relevant policy c oc oper res Allow). is_applicable r now) \<and>
     \<not> (\<exists>r\<in>set (relevant policy c oc oper res Deny). is_applicable r now)"
  by (cases d) (simp add: evaluate_relevant)

section \<open>Authoring\<close>

lemma fst_revoke: "fst (revoke rs c oc oper v) = panel_revoke_records rs c oc oper v"
  by (induction rs) (auto simp: panel_revoke_records_def split_beta Let_def)

lemma snd_revoke:
  "snd (revoke rs c oc oper v) =
     length (filter (\<lambda>r. revoke_target c oc oper v r \<and> pr_status r = PermissionStatus.Active) rs)"
  by (induction rs) (auto simp: split_beta Let_def intro: PermissionStatus.exhaust)

lemma revoke_keeps_valid:
  "list_ex invalid_record (fst (revoke rs c oc oper v)) = list_ex invalid_record rs"
  unfolding fst_revoke by (induction rs) (auto simp: panel_revoke_records_def invalid_record_def)

lemma revoke_applicable:
  "r \<in> set (fst (revoke rs c oc oper v)) \<and> is_applicable r now \<longleftrightarrow>
     r \<in> set rs \<and> is_applicable r now \<and> \<not> revoke_target c oc oper v r"
  by (auto simp: fst_revoke panel_revoke_records_def is_applicable_def)

lemma policy_new_Inr_iff:
  "policy_new rs = Inr policy \<longleftrightarrow> \<not> list_ex invalid_record rs \<and> policy = \<lparr>pp_records = rs\<rparr>"
  by (auto simp: policy_new_def)

lemma permctl_evaluate_iff:
  "permctl_evaluate rs c oc oper res now = Inr u \<longleftrightarrow>
     \<not> list_ex invalid_record rs \<and>
     (\<exists>r\<in>set rs. matches_request r c oc oper res \<and> pr_effect r = Allow \<and> is_applicable r now) \<and>
     \<not> (\<exists>r\<in>set rs. matches_request r c oc oper res \<and> pr_effect r = Deny \<and> is_applicable r now)"
  by (auto simp: permctl_evaluate_def result_simps policy_new_Inr_iff evaluate_Allow_iff set_relevant)

section \<open>Properties\<close>

text \<open>C7. The evaluator is fail-closed and deny-wins: a request is allowed exactly when some
  record for its caller, opcode, operation and resource is an active, receiver-local Allow whose
  window contains the time, and no such record is a Deny.\<close>

theorem evaluate_allows_iff:
  "evaluate policy c oc oper res now = Inr DecisionAllow \<longleftrightarrow>
     (\<exists>r\<in>set (pp_records policy). matches_request r c oc oper res
        \<and> pr_effect r = Allow \<and> is_applicable r now) \<and>
     \<not> (\<exists>r\<in>set (pp_records policy). matches_request r c oc oper res
        \<and> pr_effect r = Deny \<and> is_applicable r now)"
  by (auto simp: evaluate_Allow_iff set_relevant)

text \<open>The denial reason is determined by the matching records: an applicable Deny gives
  ExplicitDeny; otherwise, when no Allow applies, a revoked Allow anywhere gives Revoked, no Allow at
  all gives NoMatchingGrant (even where expired Deny records match), and in every other case the
  reason is that of the first matching Allow.\<close>

theorem evaluate_denial_reason:
  fixes policy c oc oper res now
  defines "allows \<equiv> filter (\<lambda>r. matches_request r c oc oper res \<and> pr_effect r = Allow)
                       (pp_records policy)"
  shows "evaluate policy c oc oper res now = Inl reason \<longleftrightarrow>
    reason = (if \<exists>r\<in>set (pp_records policy). matches_request r c oc oper res \<and> pr_effect r = Deny
                    \<and> is_applicable r now then ExplicitDeny
              else if \<exists>r\<in>set allows. pr_status r = PermissionStatus.Revoked then DenyRevoked
              else case allows of [] \<Rightarrow> NoMatchingGrant | r # _ \<Rightarrow> inapplicable_candidate r now)
    \<and> ((\<exists>r\<in>set (pp_records policy). matches_request r c oc oper res \<and> pr_effect r = Deny
                    \<and> is_applicable r now) \<or> \<not> (\<exists>r\<in>set allows. is_applicable r now))"
proof -
  have allows: "allows = relevant policy c oc oper res Allow"
    by (simp add: allows_def relevant_def)
  have deny: "(\<exists>r\<in>set (pp_records policy). matches_request r c oc oper res \<and> pr_effect r = Deny
      \<and> is_applicable r now) \<longleftrightarrow> (\<exists>r\<in>set (relevant policy c oc oper res Deny). is_applicable r now)"
    by (auto simp: set_relevant)
  show ?thesis
    unfolding allows deny evaluate_relevant
    by (auto simp: inapplicable_loop_Revoked inapplicable_loop_first)
qed

theorem evaluate_denial_reason_witness:
  "evaluate \<lparr>pp_records = [build_record ''alice'' 1 ''read'' ''/a'' True False 0 5]\<rparr>
     ''alice'' 1 ''read'' ''/a/b'' 7 = Inl DenyExpired"
  unfolding evaluate_denial_reason
  by (simp add: build_record_def matches_request_def inapplicable_candidate_def is_applicable_def)

text \<open>C8. Revocation through permctl leaves the other records untouched, agrees with the panel's
  revocation and counts the records it turned; afterwards a request is allowed exactly when an
  applicable Allow that was not targeted matches it and no untargeted applicable Deny does.\<close>

theorem revoke_then_evaluate:
  "fst (revoke rs c oc oper v) = panel_revoke_records rs c oc oper v \<and>
   snd (revoke rs c oc oper v) =
     length (filter (\<lambda>r. revoke_target c oc oper v r \<and> pr_status r = PermissionStatus.Active) rs) \<and>
   (permctl_evaluate (fst (revoke rs c oc oper v)) c' oc' oper' res now = Inr () \<longleftrightarrow>
     \<not> list_ex invalid_record rs \<and>
     (\<exists>r\<in>set rs. matches_request r c' oc' oper' res \<and> pr_effect r = Allow
        \<and> is_applicable r now \<and> \<not> revoke_target c oc oper v r) \<and>
     \<not> (\<exists>r\<in>set rs. matches_request r c' oc' oper' res \<and> pr_effect r = Deny
        \<and> is_applicable r now \<and> \<not> revoke_target c oc oper v r))"
  using revoke_applicable [of _ rs c oc oper v now]
  by (simp add: snd_revoke permctl_evaluate_iff revoke_keeps_valid [unfolded fst_revoke] fst_revoke) blast

text \<open>Revoking can widen access: permctl targets Deny records too, so revoking the exact
  resource of a Deny inside a granted prefix turns a refused request into an allowed one.\<close>

theorem revoke_can_widen:
  "\<exists>rs. permctl_evaluate rs ''alice'' 1 ''read'' ''/a/secret'' 5 = Inl ExplicitDeny \<and>
     permctl_evaluate (fst (revoke rs ''alice'' 1 ''read'' ''/a/secret''))
       ''alice'' 1 ''read'' ''/a/secret'' 5 = Inr ()"
proof (intro exI conjI)
  let ?rs = "[build_record ''alice'' 1 ''read'' ''/a'' True False 0 10,
              build_record ''alice'' 1 ''read'' ''/a/secret'' False True 0 10]"
  show "permctl_evaluate ?rs ''alice'' 1 ''read'' ''/a/secret'' 5 = Inl ExplicitDeny"
    by (simp add: permctl_evaluate_def policy_new_def invalid_record_def build_record_def
        evaluate_def matches_request_def is_applicable_def Let_def result_simps)
  show "permctl_evaluate (fst (revoke ?rs ''alice'' 1 ''read'' ''/a/secret''))
      ''alice'' 1 ''read'' ''/a/secret'' 5 = Inr ()"
    by (simp add: permctl_evaluate_def policy_new_def invalid_record_def build_record_def
        evaluate_def matches_request_def is_applicable_def revoke_target_def Let_def result_simps)
qed

end
