(* ===== verification/Gateway.thy ===== *)
theory Gateway
  imports Node_Registration Permissions
begin

text \<open>
  The gateway router (\<^verbatim>\<open>server/src/gateway.rs\<close>) and its decision response (\<^verbatim>\<open>core/src/response.rs\<close>): from a
  signed context and a payload through every check, the reservations of the ledger and the permission policy
  to the handler, and the receipts and events on every branch. The state is the ledger extended with the
  world the handlers act on, the two task-local slots of an execution request, and the list of handler
  invocations, which the code does not store. The current time is a parameter of each call. A result
  \<^term>\<open>None\<close> stands for a panic.
\<close>

section \<open>Decision responses\<close>

definition DECISION_RESPONSE_SCHEMA_VERSION :: u16 where
  "DECISION_RESPONSE_SCHEMA_VERSION = 1"

definition MAX_DECISION_RESPONSE_BYTES :: nat where
  "MAX_DECISION_RESPONSE_BYTES = 1024"

datatype ResponseDecision = ResponseAccepted | ResponseRejected

record DecisionResponse =
  de_schema_version :: u16
  de_decision :: ResponseDecision
  de_reason_code :: "string option"
  de_context_id :: "string option"
  de_receipt_id :: "string option"

definition response_accepted :: "string option \<Rightarrow> string option \<Rightarrow> DecisionResponse" where
  "response_accepted context_id receipt_id =
     \<lparr>de_schema_version = DECISION_RESPONSE_SCHEMA_VERSION, de_decision = ResponseAccepted, de_reason_code = None,
      de_context_id = context_id, de_receipt_id = receipt_id\<rparr>"

definition response_rejected :: "string \<Rightarrow> string option \<Rightarrow> string option \<Rightarrow> DecisionResponse" where
  "response_rejected reason context_id receipt_id =
     \<lparr>de_schema_version = DECISION_RESPONSE_SCHEMA_VERSION, de_decision = ResponseRejected,
      de_reason_code = Some reason, de_context_id = context_id, de_receipt_id = receipt_id\<rparr>"

text \<open>Encoding is bincode's; decoding refuses empty and oversized frames first.\<close>

definition decision_response_decode :: "(bytes \<Rightarrow> DecisionResponse option) \<Rightarrow> bytes \<Rightarrow> DecisionResponse option" where
  "decision_response_decode deserialize bs =
     (if bs = [] \<or> length bs > MAX_DECISION_RESPONSE_BYTES then None else deserialize bs)"

section \<open>The router and its state\<close>

definition DEFAULT_RECEIVER_AUDIENCE :: string where
  "DEFAULT_RECEIVER_AUDIENCE = ''secS://receiver-a''"

definition LOCAL_PROTOTYPE_SIGNER_ID :: string where
  "LOCAL_PROTOTYPE_SIGNER_ID = ''verifier:local-prototype''"

definition DESCRIPTOR_CONTEXT_MISMATCH_REASON :: string where
  "DESCRIPTOR_CONTEXT_MISMATCH_REASON = ''descriptor_context_mismatch''"

definition LOCAL_DEV_RECEIPT_SIGNING_KEY :: bytes where
  "LOCAL_DEV_RECEIPT_SIGNING_KEY = replicate 32 7"

record ExecutionRouteProjection =
  ep_status :: ExecutionStatus
  ep_reason_code :: "string option"
  ep_context_id :: "string option"
  ep_receipt_id :: "string option"
  ep_output_schema :: "string option"
  ep_output :: "bytes option"

record 'w ConfigurableRouter =
  cr_programs :: "string \<Rightarrow> 'w MachineProgram option"
  cr_limits :: ExecutionLimits
  cr_identity :: NodeVerifierIdentity
  cr_verifier_keys :: PublicVerifierKeyRegistry
  cr_caller_keys :: "CallerKeyRegistry option"
  cr_expected_audience :: string
  cr_manifest :: ReceiverManifest
  cr_permission_policy :: "PermissionPolicy option"
  cr_evidence_adapter :: "EvidenceAdapter option"
  cr_proof_key_registry :: "ProofKeyRegistry option"
  cr_proof_metadata_policies :: "u8 \<Rightarrow> ProofMetadataRoutePolicy option"

record Invocation =
  iv_handler_id :: string
  iv_context :: VerifiedCallContext
  iv_payload :: bytes

record 'w GatewayState = Db +
  gs_world :: 'w
  gs_started :: "bool option"
  gs_projection :: "ExecutionRouteProjection option option"
  gs_invocations :: "Invocation list"

text \<open>What the router takes from third-party code and the database: cryptography, bincode, the JSON parser of
  registration requests, and the queries that fail.\<close>

record platform =
  pf_crypto :: crypto
  pf_bincode :: receipt_bincode
  pf_parse_registration :: "bytes \<Rightarrow> NodeRegistrationRequestV0 option"
  pf_failing :: "nat \<Rightarrow> bool"

definition with_limits_identity_and_audience ::
  "ExecutionLimits \<Rightarrow> NodeVerifierIdentity \<Rightarrow> string \<Rightarrow> 'w ConfigurableRouter" where
  "with_limits_identity_and_audience limits identity expected_audience =
     \<lparr>cr_programs = (\<lambda>_. None), cr_limits = limits, cr_identity = identity,
      cr_verifier_keys = verifier_from_keys [public_verifier_key identity], cr_caller_keys = None,
      cr_expected_audience = expected_audience, cr_manifest = default_v0, cr_permission_policy = None,
      cr_evidence_adapter = None, cr_proof_key_registry = None, cr_proof_metadata_policies = (\<lambda>_. None)\<rparr>"

definition with_limits_and_identity ::
  "ExecutionLimits \<Rightarrow> NodeVerifierIdentity \<Rightarrow> 'w ConfigurableRouter" where
  "with_limits_and_identity limits identity =
     with_limits_identity_and_audience limits identity DEFAULT_RECEIVER_AUDIENCE"

definition with_identity :: "NodeVerifierIdentity \<Rightarrow> 'w ConfigurableRouter" where
  "with_identity identity = with_limits_and_identity default_limits identity"

definition with_limits :: "crypto \<Rightarrow> ExecutionLimits \<Rightarrow> 'w ConfigurableRouter" where
  "with_limits C limits = with_limits_and_identity limits
     (explicit_test_fixture_identity C LOCAL_PROTOTYPE_SIGNER_ID LOCAL_DEV_RECEIPT_SIGNING_KEY)"

definition router_new :: "crypto \<Rightarrow> 'w ConfigurableRouter" where
  "router_new C = with_limits C default_limits"

definition with_verifier_registry :: "crypto \<Rightarrow> PublicVerifierKeyRegistry \<Rightarrow> 'w ConfigurableRouter" where
  "with_verifier_registry C verifier_keys = (router_new C)\<lparr>cr_verifier_keys := verifier_keys\<rparr>"

definition set_proof_metadata_policy ::
  "'w ConfigurableRouter \<Rightarrow> ProofKeyRegistry \<Rightarrow> (u8 \<times> ProofMetadataRoutePolicy) list \<Rightarrow> 'w ConfigurableRouter" where
  "set_proof_metadata_policy R registry policies =
     R\<lparr>cr_proof_key_registry := Some registry, cr_proof_metadata_policies := map_of (rev policies)\<rparr>"

definition register_handler ::
  "'w ConfigurableRouter \<Rightarrow> string \<Rightarrow> 'w MachineProgram \<Rightarrow> 'w ConfigurableRouter" where
  "register_handler R handler_id program = R\<lparr>cr_programs := (cr_programs R)(handler_id \<mapsto> program)\<rparr>"

definition register :: "'w ConfigurableRouter \<Rightarrow> u8 \<Rightarrow> 'w MachineProgram \<Rightarrow> 'w ConfigurableRouter" where
  "register R opcode program =
     register_handler R (case manifest_lookup (cr_manifest R) opcode of
         Inr d \<Rightarrow> od_handler_id d | Inl _ \<Rightarrow> ''opcode/'' @ hex_byte opcode) program"

text \<open>The subprocess programs take the child the operating system starts for them.\<close>

definition register_dev_subprocess_bindings ::
  "ChildProcess option \<Rightarrow> ChildProcess option \<Rightarrow> 'w ConfigurableRouter \<Rightarrow> 'w ConfigurableRouter" where
  "register_dev_subprocess_bindings bash jq R =
     register_handler (register_handler R ''dev/bash-echo'' (SubprocessForwarder bash))
       ''dev/jq-identity'' (SubprocessForwarder jq)"

definition register_runtime_bindings ::
  "(bytes \<Rightarrow> NodeRegistrationRequestV0 option) \<Rightarrow> ChildProcess option \<Rightarrow> ChildProcess option \<Rightarrow>
     World ConfigurableRouter \<Rightarrow> RuntimeMode \<Rightarrow> World ConfigurableRouter" where
  "register_runtime_bindings parse bash jq R runtime_mode =
     (let R = register_handler R MEMBERSHIP_PROVISION_HANDLER_ID MembershipProvisionProgram;
          R = register_handler R NODE_REGISTRATION_HANDLER_ID (NodeRegistrationProgram parse) in
      if runtime_mode = LocalDevPlaintext \<or> runtime_mode = LocalDevTunnel
      then register_dev_subprocess_bindings bash jq (register_handler R ''dev/json-validate'' LocalRustQueue)
      else R)"

section \<open>Receipts and events\<close>

definition context_receipt_suffix :: "VerifiedCallContext \<Rightarrow> string" where
  "context_receipt_suffix context = vc_context_id context @ ''-'' @ hex_lower (take 8 (vc_packet_hash context))"

definition packet_receipt_suffix :: "platform \<Rightarrow> ZenithPacket \<Rightarrow> string" where
  "packet_receipt_suffix P packet =
     hex_lower (drop 4 (zp_nonce packet)) @ ''-'' @
     hex_lower (take 8 (c_sha256 (pf_crypto P) (case bc_packet (pf_bincode P) packet of None \<Rightarrow> [] | Some bs \<Rightarrow> bs)))"

definition receipt_id_for :: "string \<Rightarrow> VerifiedCallContext \<Rightarrow> u64 \<Rightarrow> string" where
  "receipt_id_for kind context timestamp = ''receipt-'' @ kind @ ''-'' @ dec_string (unat timestamp) @ ''-''
     @ hex_byte (vc_opcode context) @ ''-'' @ context_receipt_suffix context"

text \<open>Storing a signed receipt together with its emitted event; a failure is only logged.\<close>

definition persist_receipt ::
  "platform \<Rightarrow> 'w ConfigurableRouter \<Rightarrow> Receipt \<Rightarrow> ('w GatewayState, bool) state" where
  "persist_receipt P R receipt =
     (case sign_receipt (pf_crypto P) (pf_bincode P) (cr_identity R) receipt of
        Inl _ \<Rightarrow> State_Monad.return False
      | Inr r \<Rightarrow> do {
          stored \<leftarrow> record_receipt_with_emitted_event (pf_failing P) r ReceiptEmitted (Some (rc_packet_hash r))
            (Some (rc_opcode r)) (rc_operation r) (rc_handler_id r) (Some (ReceiptKind_as_str (rc_kind r)))
            (rc_timestamp r);
          State_Monad.return (is_ok stored) })"

definition record_signed_receipt ::
  "platform \<Rightarrow> 'w ConfigurableRouter \<Rightarrow> Receipt \<Rightarrow> ('w GatewayState, unit) state" where
  "record_signed_receipt P R receipt = do { _ \<leftarrow> persist_receipt P R receipt; State_Monad.return () }"

definition record_operation_event ::
  "platform \<Rightarrow> ReceiptEventKind \<Rightarrow> VerifiedCallContext \<Rightarrow> u64 \<Rightarrow> string option \<Rightarrow> ('w GatewayState, unit) state" where
  "record_operation_event P event_kind context timestamp reason = do {
     _ \<leftarrow> record_event (pf_failing P) event_kind (Some (vc_packet_hash context)) (Some (vc_opcode context))
       (Some (vc_operation context)) (vc_handler_id context) reason timestamp;
     State_Monad.return () }"

definition record_verified_reject_receipt ::
  "platform \<Rightarrow> 'w ConfigurableRouter \<Rightarrow> VerifiedCallContext \<Rightarrow> string \<Rightarrow> u64 \<Rightarrow> ('w GatewayState, string) state" where
  "record_verified_reject_receipt P R context reason timestamp = do {
     let receipt_id = receipt_id_for ''reject'' context timestamp;
     record_signed_receipt P R (reject_from_verified_context receipt_id context reason timestamp);
     State_Monad.return receipt_id }"

definition record_authority_mode_reject_receipt ::
  "platform \<Rightarrow> 'w ConfigurableRouter \<Rightarrow> VerifiedCallContext \<Rightarrow> string \<Rightarrow> string list \<Rightarrow> u64 \<Rightarrow>
     ('w GatewayState, string) state" where
  "record_authority_mode_reject_receipt P R context reason evidence_summary timestamp = do {
     let receipt_id = receipt_id_for ''reject'' context timestamp;
     record_signed_receipt P R
       ((reject_from_verified_context receipt_id context reason timestamp)\<lparr>rc_evidence_summary := evidence_summary\<rparr>);
     State_Monad.return receipt_id }"

definition record_verify_receipt ::
  "platform \<Rightarrow> 'w ConfigurableRouter \<Rightarrow> SignedVerifiedCallContext \<Rightarrow> u64 \<Rightarrow> ('w GatewayState, string) state" where
  "record_verify_receipt P R sctx timestamp = do {
     let receipt_id = receipt_id_for ''verify'' (sc_context sctx) timestamp;
     record_signed_receipt P R (verify_from_signed_context (pf_crypto P) receipt_id sctx timestamp);
     record_operation_event P PacketVerified (sc_context sctx) timestamp None;
     State_Monad.return receipt_id }"

definition record_execution_receipt ::
  "platform \<Rightarrow> 'w ConfigurableRouter \<Rightarrow> VerifiedCallContext \<Rightarrow> Decision \<Rightarrow> string option \<Rightarrow> u64 \<Rightarrow>
     ('w GatewayState, string) state" where
  "record_execution_receipt P R context decision reason timestamp = do {
     let receipt_id = receipt_id_for ''execute'' context timestamp;
     record_signed_receipt P R (execution_receipt (pf_crypto P) receipt_id context decision reason timestamp);
     State_Monad.return receipt_id }"

text \<open>\<^term>\<open>None\<close> is the transport failure.\<close>

definition record_execution_receipt_required ::
  "platform \<Rightarrow> 'w ConfigurableRouter \<Rightarrow> VerifiedCallContext \<Rightarrow> Decision \<Rightarrow> string option \<Rightarrow> u64 \<Rightarrow> string option \<Rightarrow>
     bytes option \<Rightarrow> ('w GatewayState, string option) state" where
  "record_execution_receipt_required P R context decision reason timestamp output_schema handler_output =
     (let receipt_id = receipt_id_for ''execute'' context timestamp in
      case execution_with_output (pf_crypto P) receipt_id context decision reason timestamp output_schema
          handler_output of
        Inl _ \<Rightarrow> State_Monad.return None
      | Inr receipt \<Rightarrow> do {
          stored \<leftarrow> persist_receipt P R receipt;
          State_Monad.return (if stored then Some receipt_id else None) })"

definition post_start_execution_rejection ::
  "platform \<Rightarrow> 'w ConfigurableRouter \<Rightarrow> OperationDescriptor \<Rightarrow> VerifiedCallContext \<Rightarrow> string \<Rightarrow> u64 \<Rightarrow>
     ('w GatewayState, DecisionResponse) state" where
  "post_start_execution_rejection P R d context reason timestamp = do {
     receipt \<leftarrow> (if od_output_profile d \<noteq> None
       then record_execution_receipt_required P R context Rejected (Some reason) timestamp None None
       else do { receipt_id \<leftarrow> record_execution_receipt P R context Rejected (Some reason) timestamp;
                 State_Monad.return (Some receipt_id) });
     case receipt of
       None \<Rightarrow> State_Monad.return
         (response_rejected ''execution_transport_failure'' (Some (vc_context_id context)) None)
     | Some receipt_id \<Rightarrow> do {
         record_operation_event P HandlerFailed context timestamp (Some reason);
         State_Monad.return (response_rejected reason (Some (vc_context_id context)) (Some receipt_id)) } }"

section \<open>Routing\<close>

definition record_telemetry ::
  "platform \<Rightarrow> u8 \<Rightarrow> bytes \<Rightarrow> string \<Rightarrow> ('w GatewayState, sqlx_error + unit) state" where
  "record_telemetry P opcode payload operation = run_query (pf_failing P) (\<lambda>db.
     (Inr (), db\<lparr>db_node_telemetry := db_node_telemetry db
       @ [\<lparr>te_opcode = opcode, te_payload_size = length payload, te_operation = operation\<rparr>]\<rparr>))"

text \<open>The unverified route records and never dispatches.\<close>

definition route :: "platform \<Rightarrow> u8 \<Rightarrow> bytes \<Rightarrow> u64 \<Rightarrow> ('w GatewayState, unit) state" where
  "route P opcode payload timestamp = do {
     _ \<leftarrow> record_telemetry P opcode payload UNVERIFIED_PROTOTYPE_OPERATION;
     _ \<leftarrow> record_event (pf_failing P) PacketReceived None (Some opcode) (Some UNVERIFIED_PROTOTYPE_OPERATION) None
       (Some (''payload_size:'' @ dec_string (length payload))) timestamp;
     State_Monad.return () }"

definition record_reject ::
  "platform \<Rightarrow> 'w ConfigurableRouter \<Rightarrow> ZenithPacket \<Rightarrow> VerificationError \<Rightarrow> u64 \<Rightarrow> ('w GatewayState, string) state" where
  "record_reject P R packet error timestamp = do {
     let receipt_id = ''receipt-reject-'' @ dec_string (unat timestamp) @ ''-'' @ hex_byte (zp_opcode packet) @ ''-''
       @ packet_receipt_suffix P packet;
     let receipt = reject_from_packet (pf_crypto P) (pf_bincode P) receipt_id packet error timestamp;
     record_signed_receipt P R receipt;
     _ \<leftarrow> record_event (pf_failing P) PacketRejected (Some (rc_packet_hash receipt)) (Some (zp_opcode packet)) None
       None (rc_reason receipt) timestamp;
     State_Monad.return receipt_id }"

definition should_emit_signed_context_reject :: "VerificationError \<Rightarrow> bool" where
  "should_emit_signed_context_reject e \<longleftrightarrow>
     e \<in> {ExpiredClaim, WrongAudience, InvalidSignature, KeyErr UnknownVerifierKey, KeyErr RevokedVerifierKey,
          KeyErr ExpiredVerifierKey, KeyErr NotYetValidVerifierKey}"

definition signed_context_matches_active_manifest ::
  "crypto \<Rightarrow> VerifiedCallContext \<Rightarrow> ReceiverManifest \<Rightarrow> bool" where
  "signed_context_matches_active_manifest C context manifest =
     (case manifest_lookup manifest (vc_opcode context) of
        Inl _ \<Rightarrow> False
      | Inr d \<Rightarrow>
          vc_descriptor_fingerprint context \<noteq> [] \<and> vc_descriptor_fingerprint context = authorization_fingerprint C d \<and>
          \<not> saturating_sub (vc_expires_at context) (vc_issued_at context) > od_max_ttl_seconds d \<and>
          vc_operation context = od_name d \<and>
          (case vc_handler_id context of
             Some handler_id \<Rightarrow> handler_id = od_handler_id d
           | None \<Rightarrow> od_output_profile d \<noteq> None))"

definition production_context_uses_dev_descriptor ::
  "SignedVerifiedCallContext \<Rightarrow> AuthenticatorKind \<Rightarrow> ReceiverManifest \<Rightarrow> bool" where
  "production_context_uses_dev_descriptor sctx router_authenticator_kind manifest =
     (if router_authenticator_kind = LocalDevUntrusted then False
      else case manifest_lookup manifest (vc_opcode (sc_context sctx)) of
          Inl _ \<Rightarrow> True
        | Inr d \<Rightarrow> prototype_descriptor d)"

definition verify_routed_context ::
  "platform \<Rightarrow> 'w ConfigurableRouter \<Rightarrow> SignedVerifiedCallContext \<Rightarrow> u64 \<Rightarrow> VerificationError + unit" where
  "verify_routed_context P R sctx timestamp =
     (if ni_authenticator_kind (cr_identity R) = LocalDevUntrusted
      then verify_signed_context (pf_crypto P) (pf_bincode P) (cr_verifier_keys R) sctx (cr_expected_audience R) timestamp
      else if sc_authenticator_kind sctx = LocalDevUntrusted \<or> sc_signer_key_id sctx = LOCAL_PROTOTYPE_SIGNER_ID
      then Inl (KeyErr UntrustedVerifierKey)
      else verify_production_signed_context (pf_crypto P) (pf_bincode P) (cr_verifier_keys R) sctx
        (cr_expected_audience R) timestamp)"

text \<open>The refusals before and after the reservation: receipt, event, response.\<close>

definition reject_packet ::
  "platform \<Rightarrow> 'w ConfigurableRouter \<Rightarrow> VerifiedCallContext \<Rightarrow> string \<Rightarrow> u64 \<Rightarrow> ('w GatewayState, DecisionResponse) state" where
  "reject_packet P R context reason timestamp = do {
     receipt_id \<leftarrow> record_verified_reject_receipt P R context reason timestamp;
     record_operation_event P PacketRejected context timestamp (Some reason);
     State_Monad.return (response_rejected reason (Some (vc_context_id context)) (Some receipt_id)) }"

definition reject_authority_mode ::
  "platform \<Rightarrow> 'w ConfigurableRouter \<Rightarrow> VerifiedCallContext \<Rightarrow> string \<Rightarrow> string list \<Rightarrow> u64 \<Rightarrow>
     ('w GatewayState, DecisionResponse) state" where
  "reject_authority_mode P R context reason summary timestamp = do {
     receipt_id \<leftarrow> record_authority_mode_reject_receipt P R context reason summary timestamp;
     record_operation_event P PacketRejected context timestamp (Some reason);
     State_Monad.return (response_rejected reason (Some (vc_context_id context)) (Some receipt_id)) }"

definition reject_execution ::
  "platform \<Rightarrow> 'w ConfigurableRouter \<Rightarrow> VerifiedCallContext \<Rightarrow> string \<Rightarrow> u64 \<Rightarrow> ('w GatewayState, DecisionResponse) state" where
  "reject_execution P R context reason timestamp = do {
     receipt_id \<leftarrow> record_execution_receipt P R context Rejected (Some reason) timestamp;
     record_operation_event P HandlerFailed context timestamp (Some reason);
     State_Monad.return (response_rejected reason (Some (vc_context_id context)) (Some receipt_id)) }"

definition reject_unverified ::
  "platform \<Rightarrow> 'w ConfigurableRouter \<Rightarrow> VerifiedCallContext \<Rightarrow> VerificationError \<Rightarrow> u64 \<Rightarrow>
     ('w GatewayState, DecisionResponse) state" where
  "reject_unverified P R context error timestamp =
     (if should_emit_signed_context_reject error then reject_packet P R context (reason_code error) timestamp
      else State_Monad.return (response_rejected (reason_code error) (Some (vc_context_id context)) None))"

definition append_evidence :: "SignedVerifiedCallContext \<Rightarrow> string list \<Rightarrow> SignedVerifiedCallContext" where
  "append_evidence sctx fs =
     sctx\<lparr>sc_context := (sc_context sctx)\<lparr>vc_evidence_summary := vc_evidence_summary (sc_context sctx) @ fs\<rparr>\<rparr>"

definition authority_mode_rejection ::
  "OperationDescriptor \<Rightarrow> VerifiedCallContext \<Rightarrow> (string \<times> string list) option" where
  "authority_mode_rejection d context = (case od_required_authority_mode d of
       None \<Rightarrow> None
     | Some required \<Rightarrow> (case from_verified_summary (vc_evidence_summary context) of
           Inr observed \<Rightarrow>
             let decision = AuthorityModePolicyDecision_evaluate observed required in
             if amd_is_satisfied decision then None
             else Some (case amd_reason decision of Some r \<Rightarrow> r | None \<Rightarrow> ''authority_mode_downgrade'',
                        redacted_summary_fields decision)
         | Inl error \<Rightarrow> Some (reason_code error,
             [''required_authority_mode:'' @ AuthorityMode_as_str required, ''authority_mode_satisfied:false'',
              ''reason:'' @ reason_code error])))"

text \<open>The proof metadata gate: the extra summary fields, or the reason.\<close>

definition proof_gate ::
  "'w ConfigurableRouter \<Rightarrow> VerifiedCallContext \<Rightarrow> u64 \<Rightarrow> ProofGateReason + string list" where
  "proof_gate R context timestamp = (case cr_proof_metadata_policies R (vc_opcode context) of
       None \<Rightarrow> Inr []
     | Some policy \<Rightarrow>
         rbind (ok_or MissingProofKeyRegistryEntry (cr_proof_key_registry R)) (\<lambda>registry.
         rbind (evaluate_metadata registry timestamp (vc_proof_metadata context) (pmp_required_tier policy)
           (pmp_require_active policy)) (\<lambda>binding. Inr (redaction_safe_summary_fields binding))))"

definition execution_projection ::
  "VerifiedCallContext \<Rightarrow> OutputProfile \<Rightarrow> string \<Rightarrow> HandlerOutcome \<Rightarrow> ExecutionRouteProjection" where
  "execution_projection context profile receipt_id outcome = (case ho_decision outcome of
       Accepted \<Rightarrow> \<lparr>ep_status = Executed, ep_reason_code = None, ep_context_id = Some (vc_context_id context),
         ep_receipt_id = Some receipt_id, ep_output_schema = Some (op_schema_id profile), ep_output = ho_output outcome\<rparr>
     | Rejected \<Rightarrow> \<lparr>ep_status = ExecutionRejected,
         ep_reason_code = Some (case ho_reason outcome of Some r \<Rightarrow> r | None \<Rightarrow> ''handler_rejected''),
         ep_context_id = Some (vc_context_id context), ep_receipt_id = Some receipt_id, ep_output_schema = None,
         ep_output = None\<rparr>)"

definition run_program ::
  "'w MachineProgram \<Rightarrow> string \<Rightarrow> VerifiedCallContext \<Rightarrow> bytes \<Rightarrow> ExecutionLimits \<Rightarrow>
     ('w GatewayState, HandlerOutcome) state" where
  "run_program program handler_id context payload limits = State (\<lambda>s.
     let (outcome, w) = program context payload limits (gs_world s) in
     (case outcome of Some h \<Rightarrow> h | None \<Rightarrow> handler_rejected ''handler_timeout'',
      s\<lparr>gs_world := w, gs_invocations := gs_invocations s
        @ [\<lparr>iv_handler_id = handler_id, iv_context = context, iv_payload = payload\<rparr>]\<rparr>))"

definition mark_started :: "('w GatewayState, unit) state" where
  "mark_started = State (\<lambda>s. ((), s\<lparr>gs_started := map_option (\<lambda>_. True) (gs_started s)\<rparr>))"

definition set_projection :: "ExecutionRouteProjection \<Rightarrow> ('w GatewayState, unit) state" where
  "set_projection projection = State (\<lambda>s. ((), s\<lparr>gs_projection := map_option (\<lambda>_. Some projection) (gs_projection s)\<rparr>))"

definition handler_limits_for :: "ExecutionLimits \<Rightarrow> OperationDescriptor \<Rightarrow> ExecutionLimits" where
  "handler_limits_for limits d = (case od_output_profile d of
       None \<Rightarrow> limits
     | Some profile \<Rightarrow> limits\<lparr>el_max_output_bytes := min (el_max_output_bytes limits) (op_max_output_bytes profile)\<rparr>)"

text \<open>The response to a finished handler.\<close>

definition respond_outcome ::
  "platform \<Rightarrow> OperationDescriptor \<Rightarrow> VerifiedCallContext \<Rightarrow> HandlerOutcome \<Rightarrow> string \<Rightarrow> u64 \<Rightarrow>
     ('w GatewayState, DecisionResponse) state" where
  "respond_outcome P d context outcome receipt_id timestamp = do {
     record_operation_event P (case ho_decision outcome of Accepted \<Rightarrow> HandlerSucceeded | Rejected \<Rightarrow> HandlerFailed)
       context timestamp (ho_reason outcome);
     case od_output_profile d of
       Some profile \<Rightarrow> do {
         let projection = execution_projection context profile receipt_id outcome;
         set_projection projection;
         State_Monad.return (case ep_status projection of
             Executed \<Rightarrow> response_accepted (ep_context_id projection) (ep_receipt_id projection)
           | _ \<Rightarrow> response_rejected
               (case ep_reason_code projection of Some r \<Rightarrow> r | None \<Rightarrow> ''handler_rejected'')
               (ep_context_id projection) (ep_receipt_id projection)) }
     | None \<Rightarrow> State_Monad.return (case ho_decision outcome of
           Accepted \<Rightarrow> response_accepted (Some (vc_context_id context)) (Some receipt_id)
         | Rejected \<Rightarrow> response_rejected (case ho_reason outcome of Some r \<Rightarrow> r | None \<Rightarrow> ''handler_rejected'')
             (Some (vc_context_id context)) (Some receipt_id)) }"

definition execute_handler ::
  "platform \<Rightarrow> 'w ConfigurableRouter \<Rightarrow> OperationDescriptor \<Rightarrow> VerifiedCallContext \<Rightarrow> VerifiedCallContext \<Rightarrow>
     'w MachineProgram \<Rightarrow> string \<Rightarrow> bytes \<Rightarrow> u64 \<Rightarrow> ('w GatewayState, DecisionResponse) state" where
  "execute_handler P R d context receipt_context program handler_id payload timestamp = do {
     record_operation_event P HandlerStarted context timestamp
       (Some (''payload_size:'' @ dec_string (length payload)));
     let limits = handler_limits_for (cr_limits R) d;
     raw \<leftarrow> run_program program handler_id context payload limits;
     let outcome = normalize_handler_outcome d limits raw;
     receipt \<leftarrow> (if od_output_profile d \<noteq> None
       then record_execution_receipt_required P R receipt_context (ho_decision outcome) (ho_reason outcome) timestamp
         (Option.bind (ho_output outcome) (\<lambda>_. map_option op_schema_id (od_output_profile d))) (ho_output outcome)
       else do { receipt_id \<leftarrow> record_execution_receipt P R receipt_context (ho_decision outcome) (ho_reason outcome)
                   timestamp;
                 State_Monad.return (Some receipt_id) });
     case receipt of
       None \<Rightarrow> State_Monad.return
         (response_rejected ''execution_transport_failure'' (Some (vc_context_id context)) None)
     | Some receipt_id \<Rightarrow> respond_outcome P d context outcome receipt_id timestamp }"

definition route_execution ::
  "platform \<Rightarrow> 'w ConfigurableRouter \<Rightarrow> OperationDescriptor \<Rightarrow> VerifiedCallContext \<Rightarrow> VerifiedCallContext \<Rightarrow> bytes \<Rightarrow>
     u64 \<Rightarrow> ('w GatewayState, DecisionResponse) state" where
  "route_execution P R d context receipt_context payload timestamp = do {
     mark_started;
     if length payload > el_max_payload_bytes (cr_limits R)
     then post_start_execution_rejection P R d receipt_context ''payload_too_large'' timestamp
     else (case vc_handler_id context of
         None \<Rightarrow> post_start_execution_rejection P R d receipt_context ''handler_unavailable'' timestamp
       | Some handler_id \<Rightarrow> (case cr_programs R handler_id of
             None \<Rightarrow> post_start_execution_rejection P R d receipt_context ''handler_unavailable'' timestamp
           | Some program \<Rightarrow>
               execute_handler P R d context receipt_context program handler_id payload timestamp)) }"

definition permission_denial ::
  "'w ConfigurableRouter \<Rightarrow> VerifiedCallContext \<Rightarrow> u64 \<Rightarrow> DenyReason option" where
  "permission_denial R context timestamp = (case cr_permission_policy R of
       None \<Rightarrow> None
     | Some policy \<Rightarrow> (case evaluate policy (vs_subject_id (vc_subject context)) (vc_opcode context)
           (vc_operation context) (case vc_resource context of Some r \<Rightarrow> r | None \<Rightarrow> []) timestamp of
           Inl deny \<Rightarrow> Some deny | Inr _ \<Rightarrow> None))"

text \<open>After the nullifier: telemetry, the verify receipt, the routing event and the permission gate.\<close>

definition route_permitted ::
  "platform \<Rightarrow> 'w ConfigurableRouter \<Rightarrow> OperationDescriptor \<Rightarrow> SignedVerifiedCallContext \<Rightarrow> SignedVerifiedCallContext \<Rightarrow>
     bytes \<Rightarrow> u64 \<Rightarrow> ('w GatewayState, DecisionResponse) state" where
  "route_permitted P R d sctx receipt_signed payload timestamp = do {
     let context = sc_context sctx;
     _ \<leftarrow> record_telemetry P (vc_opcode context) payload (vc_operation context);
     _ \<leftarrow> record_verify_receipt P R receipt_signed timestamp;
     record_operation_event P OperationRouted context timestamp None;
     case permission_denial R context timestamp of
       Some deny \<Rightarrow> reject_execution P R context (deny_code deny) timestamp
     | None \<Rightarrow> route_execution P R d context (sc_context receipt_signed) payload timestamp }"

definition route_reserved ::
  "platform \<Rightarrow> 'w ConfigurableRouter \<Rightarrow> OperationDescriptor \<Rightarrow> SignedVerifiedCallContext \<Rightarrow> SignedVerifiedCallContext \<Rightarrow>
     bytes \<Rightarrow> u64 \<Rightarrow> ('w GatewayState, DecisionResponse) state" where
  "route_reserved P R d sctx receipt_signed payload timestamp =
     (let context = sc_context sctx in
      if ''scoped_use_required'' \<notin> set (vc_evidence_summary context)
      then route_permitted P R d sctx receipt_signed payload timestamp
      else case scoped_evidence_from_context (pf_crypto P) context of
          Inl reason \<Rightarrow> reject_execution P R context (NullifierReason_as_str reason) timestamp
        | Inr evidence \<Rightarrow> do {
            used \<leftarrow> record_scoped_nullifier_use (pf_crypto P) (pf_failing P) (sne_domain evidence)
              (sne_commitment evidence) context timestamp;
            case used of
              Inl _ \<Rightarrow> reject_execution P R context ''scoped_nullifier_storage_failed'' timestamp
            | Inr DuplicateUse \<Rightarrow>
                reject_execution P R context (NullifierReason_as_str DuplicateNullifier) timestamp
            | Inr Recorded \<Rightarrow> route_permitted P R d sctx receipt_signed payload timestamp })"

definition route_admitted ::
  "platform \<Rightarrow> 'w ConfigurableRouter \<Rightarrow> OperationDescriptor \<Rightarrow> SignedVerifiedCallContext \<Rightarrow> bytes \<Rightarrow> u64 \<Rightarrow>
     ('w GatewayState, DecisionResponse) state" where
  "route_admitted P R d sctx payload timestamp =
     (let context = sc_context sctx in
      case authority_mode_rejection d context of
        Some (reason, summary) \<Rightarrow> reject_authority_mode P R context reason summary timestamp
      | None \<Rightarrow> (case proof_gate R context timestamp of
            Inl reason \<Rightarrow> reject_packet P R context (gate_reason_code reason) timestamp
          | Inr fs \<Rightarrow> do {
              reserved \<leftarrow> reserve_replay (pf_failing P) context (sc_signer_key_id sctx) timestamp;
              case reserved of
                Inl _ \<Rightarrow> reject_packet P R context REPLAY_RESERVATION_FAILED_REASON timestamp
              | Inr Duplicate \<Rightarrow> reject_packet P R context REPLAY_DETECTED_REASON timestamp
              | Inr Reserved \<Rightarrow> route_reserved P R d sctx (append_evidence sctx fs) payload timestamp }))"

definition registration_projection ::
  "platform \<Rightarrow> OperationDescriptor \<Rightarrow> VerifiedCallContext \<Rightarrow> bytes \<Rightarrow> u64 \<Rightarrow> NodeRegistrationReason + string list" where
  "registration_projection P d context payload timestamp =
     (if vc_operation context = NODE_REGISTRATION_OPERATION
      then validate_verified_registration_route (pf_crypto P) (pf_parse_registration P) payload context d timestamp
      else Inr [])"

definition route_verified ::
  "platform \<Rightarrow> 'w ConfigurableRouter \<Rightarrow> SignedVerifiedCallContext \<Rightarrow> bytes \<Rightarrow> u64 \<Rightarrow>
     ('w GatewayState, DecisionResponse option) state" where
  "route_verified P R sctx payload timestamp =
     (let context = sc_context sctx; returned = (\<lambda>m. m \<bind> (\<lambda>r. State_Monad.return (Some r))) in
      case verify_routed_context P R sctx timestamp of
        Inl error \<Rightarrow> returned (reject_unverified P R context error timestamp)
      | Inr _ \<Rightarrow>
          if \<not> signed_context_matches_active_manifest (pf_crypto P) context (cr_manifest R)
          then returned (reject_packet P R context DESCRIPTOR_CONTEXT_MISMATCH_REASON timestamp)
          else if production_context_uses_dev_descriptor sctx (ni_authenticator_kind (cr_identity R)) (cr_manifest R)
          then returned (reject_packet P R context (reason_code PrototypeOperationNotProductionAuthorized) timestamp)
          else case manifest_lookup (cr_manifest R) (vc_opcode context) of
              Inl _ \<Rightarrow> State_Monad.return None
            | Inr d \<Rightarrow> (case registration_projection P d context payload timestamp of
                  Inl e \<Rightarrow> returned (reject_packet P R context (NodeRegistrationReason_as_str e) timestamp)
                | Inr projection \<Rightarrow>
                    returned (route_admitted P R d (append_evidence sctx projection) payload timestamp)))"

section \<open>Execution requests\<close>

datatype ExecutionTransportFailure = ReceiptPersistenceFailed

definition execution_response_of ::
  "string \<Rightarrow> bytes \<Rightarrow> DecisionResponse \<Rightarrow> ExecutionRouteProjection option \<Rightarrow> bool \<Rightarrow>
     ExecutionTransportFailure + ExecutionResponse" where
  "execution_response_of signer_key_id request_digest decision projection execution_started =
     (case projection of
        Some p \<Rightarrow> Inr \<lparr>er_schema_version = EXECUTION_RESPONSE_SCHEMA_VERSION, er_status = ep_status p,
          er_reason_code = ep_reason_code p, er_request_digest = request_digest, er_context_id = ep_context_id p,
          er_receipt_id = ep_receipt_id p, er_output_schema = ep_output_schema p, er_output = ep_output p,
          er_authenticator_kind = Ed25519Receiver, er_signer_key_id = signer_key_id, er_signature = replicate 64 0\<rparr>
      | None \<Rightarrow> rbind (ok_or ReceiptPersistenceFailed (de_reason_code decision)) (\<lambda>reason.
          Inr \<lparr>er_schema_version = EXECUTION_RESPONSE_SCHEMA_VERSION,
            er_status = (if execution_started then ExecutionRejected else VerifierRejected),
            er_reason_code = Some reason, er_request_digest = request_digest, er_context_id = de_context_id decision,
            er_receipt_id = de_receipt_id decision, er_output_schema = None, er_output = None,
            er_authenticator_kind = Ed25519Receiver, er_signer_key_id = signer_key_id,
            er_signature = replicate 64 0\<rparr>))"

definition finish_execution ::
  "platform \<Rightarrow> 'w ConfigurableRouter \<Rightarrow> OutputProfile \<Rightarrow> bytes \<Rightarrow> DecisionResponse \<Rightarrow>
     ExecutionRouteProjection option \<Rightarrow> bool \<Rightarrow> ExecutionTransportFailure + ExecutionResponse" where
  "finish_execution P R profile request_digest decision projection execution_started =
     (if de_reason_code decision = Some ''execution_transport_failure'' then Inl ReceiptPersistenceFailed
      else rbind (execution_response_of (ni_signer_key_id (cr_identity R)) request_digest decision projection
          execution_started) (\<lambda>response.
        rbind (map_err (\<lambda>_. ReceiptPersistenceFailed) (sign_execution_response (pf_crypto P) (cr_identity R) response))
          (\<lambda>response.
        rbind (map_err (\<lambda>_. ReceiptPersistenceFailed) (for_output_profile (cr_limits R) profile)) (\<lambda>effective.
        rbind (map_err (\<lambda>_. ReceiptPersistenceFailed)
          (encode_frame response (ee_max_execution_response_bytes effective))) (\<lambda>_. Inr response)))))"

text \<open>The two task-local slots live for the duration of the call.\<close>

definition route_verified_for_execution ::
  "platform \<Rightarrow> 'w ConfigurableRouter \<Rightarrow> SignedVerifiedCallContext \<Rightarrow> bytes \<Rightarrow> bytes \<Rightarrow> u64 \<Rightarrow>
     ('w GatewayState, (ExecutionTransportFailure + ExecutionResponse) option) state" where
  "route_verified_for_execution P R sctx payload request_digest timestamp =
     (case manifest_lookup (cr_manifest R) (vc_opcode (sc_context sctx)) of
        Inl _ \<Rightarrow> State_Monad.return (Some (Inl ReceiptPersistenceFailed))
      | Inr d \<Rightarrow> (case od_output_profile d of
            None \<Rightarrow> State_Monad.return (Some (Inl ReceiptPersistenceFailed))
          | Some profile \<Rightarrow> do {
              outer \<leftarrow> State (\<lambda>s. ((gs_started s, gs_projection s),
                s\<lparr>gs_started := Some False, gs_projection := Some None\<rparr>));
              decision \<leftarrow> route_verified P R sctx payload timestamp;
              inner \<leftarrow> State (\<lambda>s. ((gs_started s = Some True, Option.bind (gs_projection s) (\<lambda>p. p)),
                s\<lparr>gs_started := fst outer, gs_projection := snd outer\<rparr>));
              State_Monad.return (map_option (\<lambda>decision.
                finish_execution P R profile request_digest decision (snd inner) (fst inner)) decision) }))"

end
