(* ===== verification/Gateway_Safety.thy ===== *)
theory Gateway_Safety
  imports Gateway
begin

text \<open>
  What the gateway guarantees: which computations leave the handlers alone, which checks stand before every
  invocation, that the gateway is a refinement of an executor that uses every replay slot at most once, and
  what an accepted answer means.
\<close>

section \<open>Frames\<close>

text \<open>A computation leaves a part of the state unchanged. The handler invocations and the task-local slots are
  outside the tables, so no ledger operation touches them.\<close>

definition unchanged :: "('w GatewayState \<Rightarrow> 'c) \<Rightarrow> ('w GatewayState, 'b) state \<Rightarrow> bool" where
  "unchanged f m \<longleftrightarrow> (\<forall>s. f (snd (run_state m s)) = f s)"

definition outside_ledger :: "('w GatewayState \<Rightarrow> 'c) \<Rightarrow> bool" where
  "outside_ledger f \<longleftrightarrow> (\<forall>s n rr nu ev re te. f (s\<lparr>db_queries := n\<rparr>) = f s \<and>
     f (s\<lparr>db_replay_reservations := rr\<rparr>) = f s \<and> f (s\<lparr>db_scoped_nullifier_uses := nu\<rparr>) = f s \<and>
     f (s\<lparr>db_events := ev\<rparr>) = f s \<and> f (s\<lparr>db_receipts := re\<rparr>) = f s \<and> f (s\<lparr>db_node_telemetry := te\<rparr>) = f s)"

abbreviation quiet :: "('w GatewayState, 'b) state \<Rightarrow> bool" where
  "quiet \<equiv> unchanged gs_invocations"

abbreviation steady :: "('w GatewayState, 'b) state \<Rightarrow> bool" where
  "steady \<equiv> unchanged gs_projection"

named_theorems quiet_intros

lemma outside_slots [quiet_intros, simp]: "outside_ledger gs_invocations" "outside_ledger gs_projection"
  by (simp_all add: outside_ledger_def)

lemma quiet_return [quiet_intros]: "unchanged f (State_Monad.return x)"
  by (simp add: unchanged_def)

lemma quiet_bind [quiet_intros]: "unchanged f m \<Longrightarrow> (\<And>x. unchanged f (g x)) \<Longrightarrow> unchanged f (m \<bind> g)"
  by (simp add: unchanged_def split_def)

lemma quiet_run_query:
  "outside_ledger f \<Longrightarrow> (\<And>s. f (snd (q s)) = f s) \<Longrightarrow> unchanged f (run_query F q)"
  by (simp add: unchanged_def run_query_eq outside_ledger_def)

lemma quiet_event [quiet_intros]: "outside_ledger f \<Longrightarrow> unchanged f (record_event F k ph oc opn h reason t)"
  unfolding record_event_def by (intro quiet_run_query) (simp_all add: outside_ledger_def)

lemma quiet_telemetry [quiet_intros]: "outside_ledger f \<Longrightarrow> unchanged f (record_telemetry P oc payload opn)"
  unfolding record_telemetry_def by (intro quiet_run_query) (simp_all add: outside_ledger_def)

lemma quiet_reserve [quiet_intros]: "outside_ledger f \<Longrightarrow> unchanged f (reserve_replay F c kid t)"
  unfolding reserve_replay_def prune_expired_replay_reservations_def
  by (auto intro!: quiet_bind quiet_return quiet_run_query simp: Let_def split_def outside_ledger_def)

lemma quiet_nullifier [quiet_intros]: "outside_ledger f \<Longrightarrow> unchanged f (record_scoped_nullifier_use C F d n c t)"
  unfolding record_scoped_nullifier_use_def
  by (intro quiet_run_query) (simp_all add: Let_def split_def outside_ledger_def)

lemma quiet_receipt_transaction [quiet_intros]:
  assumes "outside_ledger f"
  shows "unchanged f (record_receipt_with_emitted_event F r k ph oc opn h reason t)"
  unfolding unchanged_def
proof
  fix s
  show "f (snd (run_state (record_receipt_with_emitted_event F r k ph oc opn h reason t) s)) = f s"
    using receipt_transaction [where F = F and receipt = r and k = k and ph = ph and oc = oc and opn = opn and h = h
        and reason = reason and now = t and db = s] assms
    by (auto simp: outside_ledger_def split: prod.splits sum.splits)
qed

lemma quiet_started [quiet_intros]: "quiet mark_started" "steady mark_started"
  by (simp_all add: unchanged_def mark_started_def)

lemma quiet_projection [quiet_intros]: "quiet (set_projection p)"
  by (simp add: unchanged_def set_projection_def)

lemma quiet_persist [quiet_intros]: "outside_ledger f \<Longrightarrow> unchanged f (persist_receipt P R r)"
  unfolding persist_receipt_def by (auto intro!: quiet_intros split: sum.split)

lemma quiet_signed_receipt [quiet_intros]: "outside_ledger f \<Longrightarrow> unchanged f (record_signed_receipt P R r)"
  unfolding record_signed_receipt_def by (intro quiet_intros)

lemma quiet_operation_event [quiet_intros]: "outside_ledger f \<Longrightarrow> unchanged f (record_operation_event P k c t reason)"
  unfolding record_operation_event_def by (intro quiet_intros)

lemma quiet_receipts [quiet_intros]:
  "outside_ledger f \<Longrightarrow> unchanged f (record_verified_reject_receipt P R c reason t)"
  "outside_ledger f \<Longrightarrow> unchanged f (record_authority_mode_reject_receipt P R c reason summary t)"
  "outside_ledger f \<Longrightarrow> unchanged f (record_verify_receipt P R sctx t)"
  "outside_ledger f \<Longrightarrow> unchanged f (record_execution_receipt P R c dec rea t)"
  unfolding record_verified_reject_receipt_def record_authority_mode_reject_receipt_def record_verify_receipt_def
    record_execution_receipt_def Let_def
  by (auto intro!: quiet_intros)

lemma quiet_receipt_required [quiet_intros]:
  "outside_ledger f \<Longrightarrow> unchanged f (record_execution_receipt_required P R c dec rea t sch out)"
  unfolding record_execution_receipt_required_def Let_def
  by (auto intro!: quiet_intros split: sum.split)

lemma quiet_rejections [quiet_intros]:
  "outside_ledger f \<Longrightarrow> unchanged f (reject_packet P R c reason t)" "outside_ledger f \<Longrightarrow> unchanged f (reject_authority_mode P R c reason summary t)"
  "outside_ledger f \<Longrightarrow> unchanged f (reject_execution P R c reason t)" "outside_ledger f \<Longrightarrow> unchanged f (reject_unverified P R c error t)"
  unfolding reject_packet_def reject_authority_mode_def reject_execution_def reject_unverified_def
  by (auto intro!: quiet_intros)

lemma quiet_post_start [quiet_intros]: "outside_ledger f \<Longrightarrow> unchanged f (post_start_execution_rejection P R d c reason t)"
  unfolding post_start_execution_rejection_def by (auto intro!: quiet_intros split: option.split)

lemma quiet_respond [quiet_intros]: "quiet (respond_outcome P d c outcome receipt_id t)"
  unfolding respond_outcome_def Let_def by (auto intro!: quiet_intros split: option.split)

lemma quiet_route [quiet_intros]: "quiet (route P oc payload t)" "quiet (record_reject P R packet error t)"
  unfolding route_def record_reject_def Let_def by (intro quiet_intros)+

lemmas quiet_rejection = quiet_rejections [OF outside_slots(1)]
lemmas quiet_invocations = quiet_telemetry [OF outside_slots(1)] quiet_receipts [OF outside_slots(1)]
  quiet_operation_event [OF outside_slots(1)] quiet_nullifier [OF outside_slots(1)] quiet_reserve [OF outside_slots(1)]
  quiet_post_start [OF outside_slots(1)]

section \<open>Computations that invoke at most one handler\<close>

definition invokes :: "(Invocation \<Rightarrow> bool) \<Rightarrow> ('w GatewayState, 'b) state \<Rightarrow> bool" where
  "invokes Q m \<longleftrightarrow> (\<forall>s. \<exists>xs. gs_invocations (snd (run_state m s)) = gs_invocations s @ xs \<and>
     (xs = [] \<or> (\<exists>i. xs = [i] \<and> Q i)))"

lemma invokes_quiet: "quiet m \<Longrightarrow> invokes Q m"
  by (simp add: invokes_def unchanged_def)

lemma invokes_mono: "invokes Q m \<Longrightarrow> (\<And>i. Q i \<Longrightarrow> Q' i) \<Longrightarrow> invokes Q' m"
  unfolding invokes_def by meson

lemma invokes_after_quiet:
  assumes "quiet m" and "\<And>x. invokes Q (f x)"
  shows "invokes Q (m \<bind> f)"
  unfolding invokes_def
proof
  fix s
  obtain x s1 where r: "run_state m s = (x, s1)" by fastforce
  have "gs_invocations s1 = gs_invocations s" using assms(1) r unfolding unchanged_def by (metis snd_conv)
  then show "\<exists>xs. gs_invocations (snd (run_state (m \<bind> f) s)) = gs_invocations s @ xs \<and>
      (xs = [] \<or> (\<exists>i. xs = [i] \<and> Q i))"
    using assms(2) [of x, unfolded invokes_def] by (metis r case_prod_conv run_state_bind)
qed

lemma invokes_then_quiet: "invokes Q m \<Longrightarrow> (\<And>x. quiet (f x)) \<Longrightarrow> invokes Q (m \<bind> f)"
  by (simp add: invokes_def unchanged_def split_def)

lemma invokes_run_program:
  "invokes (\<lambda>i. i = \<lparr>iv_handler_id = h, iv_context = c, iv_payload = p\<rparr>) (run_program program h c p limits)"
  by (auto simp: invokes_def run_program_def split_def Let_def)

lemma invokes_execute_handler:
  "invokes (\<lambda>i. i = \<lparr>iv_handler_id = h, iv_context = c, iv_payload = p\<rparr>)
     (execute_handler P R d c rc program h p t)"
  unfolding execute_handler_def Let_def
  by (intro invokes_after_quiet [OF quiet_operation_event [OF outside_slots(1)]] invokes_then_quiet [OF invokes_run_program])
    (auto intro!: quiet_intros split: option.split)

lemma invokes_route_execution:
  "invokes (\<lambda>i. iv_context i = c \<and> iv_payload i = p \<and> vc_handler_id c = Some (iv_handler_id i) \<and>
       cr_programs R (iv_handler_id i) \<noteq> None \<and> length p \<le> el_max_payload_bytes (cr_limits R))
     (route_execution P R d c rc p t)"
  unfolding route_execution_def
  by (intro invokes_after_quiet [OF quiet_started(1)])
    (auto intro!: invokes_quiet [OF quiet_post_start [OF outside_slots(1)]] intro: invokes_mono [OF invokes_execute_handler]
      split: option.split)

lemma invokes_route_permitted:
  "invokes (\<lambda>i. iv_context i = sc_context sctx \<and> iv_payload i = p \<and>
       vc_handler_id (sc_context sctx) = Some (iv_handler_id i) \<and>
       cr_programs R (iv_handler_id i) \<noteq> None \<and> length p \<le> el_max_payload_bytes (cr_limits R) \<and>
       permission_denial R (sc_context sctx) t = None)
     (route_permitted P R d sctx rsctx p t)"
proof (cases "permission_denial R (sc_context sctx) t")
  case None
  show ?thesis
    unfolding route_permitted_def Let_def None option.case
    by (intro invokes_after_quiet quiet_invocations
        invokes_mono [OF invokes_route_execution]) simp
next
  case (Some deny)
  show ?thesis
    unfolding route_permitted_def Let_def Some option.case
    by (intro invokes_quiet quiet_intros)
qed

lemma invokes_route_reserved:
  "invokes (\<lambda>i. iv_context i = sc_context sctx \<and> iv_payload i = p \<and>
       vc_handler_id (sc_context sctx) = Some (iv_handler_id i) \<and>
       cr_programs R (iv_handler_id i) \<noteq> None \<and> length p \<le> el_max_payload_bytes (cr_limits R) \<and>
       permission_denial R (sc_context sctx) t = None)
     (route_reserved P R d sctx rsctx p t)"
  unfolding route_reserved_def Let_def
  by (auto intro!: invokes_route_permitted invokes_quiet [OF quiet_rejection(3)] invokes_after_quiet quiet_invocations
      simp del: not_None_eq split: sum.split ScopedNullifierUseOutcome.split)

lemma invokes_route_admitted:
  "invokes (\<lambda>i. iv_context i = sc_context sctx \<and> iv_payload i = p \<and>
       vc_handler_id (sc_context sctx) = Some (iv_handler_id i) \<and>
       cr_programs R (iv_handler_id i) \<noteq> None \<and> length p \<le> el_max_payload_bytes (cr_limits R) \<and>
       permission_denial R (sc_context sctx) t = None \<and>
       authority_mode_rejection d (sc_context sctx) = None \<and> is_ok (proof_gate R (sc_context sctx) t))
     (route_admitted P R d sctx p t)"
proof (cases "authority_mode_rejection d (sc_context sctx)")
  case None
  show ?thesis
  proof (cases "proof_gate R (sc_context sctx) t")
    case (Inl e)
    show ?thesis
      unfolding route_admitted_def Let_def None Inl option.case sum.case by (intro invokes_quiet quiet_intros)
  next
    case (Inr fs)
    show ?thesis
      unfolding route_admitted_def Let_def None Inr option.case sum.case
      by (intro invokes_after_quiet quiet_invocations)
        (auto intro!: invokes_quiet [OF quiet_rejection(1)] intro: invokes_mono [OF invokes_route_reserved]
          simp: is_ok_def split: sum.split ReplayReservationOutcome.split)
  qed
next
  case (Some x)
  obtain reason summary where "x = (reason, summary)" by fastforce
  then show ?thesis
    unfolding route_admitted_def Let_def Some option.case by (simp add: invokes_quiet quiet_intros)
qed

lemma append_evidence_context [simp]:
  "sc_context (append_evidence sctx fs) = (sc_context sctx)\<lparr>vc_evidence_summary := vc_evidence_summary (sc_context sctx) @ fs\<rparr>"
  "sc_signer_key_id (append_evidence sctx fs) = sc_signer_key_id sctx"
  by (simp_all add: append_evidence_def)

lemma matches_manifest_lookup:
  "signed_context_matches_active_manifest C c m \<Longrightarrow> \<exists>d. manifest_lookup m (vc_opcode c) = Inr d"
  by (auto simp: signed_context_matches_active_manifest_def split: sum.splits)

section \<open>The ledger under the gateway\<close>

lemma ledger_frame [simp]:
  fixes s :: "'w GatewayState"
  shows "ledger_ok (s\<lparr>gs_world := w\<rparr>) = ledger_ok s" "ledger_ok (s\<lparr>gs_started := b\<rparr>) = ledger_ok s"
    "ledger_ok (s\<lparr>gs_projection := p\<rparr>) = ledger_ok s" "ledger_ok (s\<lparr>gs_invocations := i\<rparr>) = ledger_ok s"
    "ledger_le T s0 (s\<lparr>gs_world := w\<rparr>) = ledger_le T s0 s" "ledger_le T s0 (s\<lparr>gs_started := b\<rparr>) = ledger_le T s0 s"
    "ledger_le T s0 (s\<lparr>gs_projection := p\<rparr>) = ledger_le T s0 s"
    "ledger_le T s0 (s\<lparr>gs_invocations := i\<rparr>) = ledger_le T s0 s"
  by (simp_all add: ledger_ok_def ledger_le_def)

lemma keeps_program [keeps_intros]: "keeps_ledger T (run_program program h c p limits)"
  by (simp add: keeps_ledger_def run_program_def split_def Let_def)

lemma keeps_slots [keeps_intros]: "keeps_ledger T mark_started" "keeps_ledger T (set_projection p)"
  by (simp_all add: keeps_ledger_def mark_started_def set_projection_def)

lemma keeps_telemetry [keeps_intros]: "keeps_ledger T (record_telemetry P oc payload opn)"
  unfolding record_telemetry_def by (intro keeps_run_query) (simp add: ledger_ok_def ledger_le_def)

lemma keeps_persist [keeps_intros]: "keeps_ledger T (persist_receipt P R r)"
  unfolding persist_receipt_def by (auto intro!: keeps_intros split: sum.split)

lemma keeps_gateway_receipts [keeps_intros]:
  "keeps_ledger T (record_signed_receipt P R r)" "keeps_ledger T (record_operation_event P k c t reason)"
  unfolding record_signed_receipt_def record_operation_event_def by (intro keeps_intros)+

lemma keeps_named_receipts [keeps_intros]:
  "keeps_ledger T (record_verified_reject_receipt P R c reason t)"
  "keeps_ledger T (record_authority_mode_reject_receipt P R c reason summary t)"
  "keeps_ledger T (record_verify_receipt P R sctx t)"
  "keeps_ledger T (record_execution_receipt P R c dec rea t)"
  unfolding record_verified_reject_receipt_def record_authority_mode_reject_receipt_def record_verify_receipt_def
    record_execution_receipt_def Let_def
  by (intro keeps_intros)+

lemma keeps_receipt_required [keeps_intros]:
  "keeps_ledger T (record_execution_receipt_required P R c dec rea t sch out)"
  unfolding record_execution_receipt_required_def Let_def
  by (auto intro!: keeps_intros split: sum.split)

lemma keeps_rejections [keeps_intros]:
  "keeps_ledger T (reject_packet P R c reason t)" "keeps_ledger T (reject_authority_mode P R c reason summary t)"
  "keeps_ledger T (reject_execution P R c reason t)" "keeps_ledger T (reject_unverified P R c error t)"
  unfolding reject_packet_def reject_authority_mode_def reject_execution_def reject_unverified_def
  by (auto intro!: keeps_intros)

lemma keeps_post_start [keeps_intros]: "keeps_ledger T (post_start_execution_rejection P R d c reason t)"
  unfolding post_start_execution_rejection_def by (auto intro!: keeps_intros split: option.split)

lemma keeps_respond [keeps_intros]: "keeps_ledger T (respond_outcome P d c outcome receipt_id t)"
  unfolding respond_outcome_def Let_def by (auto intro!: keeps_intros split: option.split)

lemma keeps_execute_handler [keeps_intros]: "keeps_ledger T (execute_handler P R d c rc program h p t)"
  unfolding execute_handler_def Let_def by (auto intro!: keeps_intros split: option.split)

lemma keeps_route_execution [keeps_intros]: "keeps_ledger T (route_execution P R d c rc p t)"
  unfolding route_execution_def by (auto intro!: keeps_intros split: option.split)

lemma keeps_route_permitted [keeps_intros]: "keeps_ledger T (route_permitted P R d sctx rsctx p t)"
  unfolding route_permitted_def Let_def by (auto intro!: keeps_intros split: option.split)

lemma keeps_route_reserved [keeps_intros]: "keeps_ledger T (route_reserved P R d sctx rsctx p t)"
  unfolding route_reserved_def Let_def
  by (auto intro!: keeps_intros split: sum.split ScopedNullifierUseOutcome.split)

lemma keeps_unverified_route [keeps_intros]:
  "keeps_ledger T (route P oc payload t)" "keeps_ledger T (record_reject P R packet error t)"
  unfolding route_def record_reject_def Let_def by (intro keeps_intros)+

section \<open>Refusals\<close>

definition refuses :: "('w GatewayState, DecisionResponse) state \<Rightarrow> bool" where
  "refuses m \<longleftrightarrow> (\<forall>s. de_decision (fst (run_state m s)) = ResponseRejected)"

lemma refuses_return: "refuses (State_Monad.return (response_rejected reason c r))"
  by (simp add: refuses_def response_rejected_def)

lemma refuses_bind: "(\<And>x. refuses (f x)) \<Longrightarrow> refuses (m \<bind> f)"
  by (simp add: refuses_def split_def)

lemma refuses_rejections:
  "refuses (reject_packet P R c reason t)" "refuses (reject_authority_mode P R c reason summary t)"
  "refuses (reject_execution P R c reason t)" "refuses (reject_unverified P R c error t)"
  unfolding reject_packet_def reject_authority_mode_def reject_execution_def reject_unverified_def
  by (auto intro!: refuses_bind refuses_return)

lemma refuses_post_start: "refuses (post_start_execution_rejection P R d c reason t)"
  unfolding post_start_execution_rejection_def
  by (auto intro!: refuses_bind refuses_return split: option.split)

section \<open>The checks before any invocation\<close>

definition admissible ::
  "platform \<Rightarrow> 'w ConfigurableRouter \<Rightarrow> SignedVerifiedCallContext \<Rightarrow> bytes \<Rightarrow> u64 \<Rightarrow> OperationDescriptor \<Rightarrow>
     string list \<Rightarrow> bool" where
  "admissible P R sctx payload t d fs \<longleftrightarrow>
     verify_routed_context P R sctx t = Inr () \<and>
     signed_context_matches_active_manifest (pf_crypto P) (sc_context sctx) (cr_manifest R) \<and>
     \<not> production_context_uses_dev_descriptor sctx (ni_authenticator_kind (cr_identity R)) (cr_manifest R) \<and>
     manifest_lookup (cr_manifest R) (vc_opcode (sc_context sctx)) = Inr d \<and>
     registration_projection P d (sc_context sctx) payload t = Inr fs"

abbreviation returning :: "('s, 'b) state \<Rightarrow> ('s, 'b option) state" where
  "returning m \<equiv> m \<bind> (\<lambda>r. State_Monad.return (Some r))"

text \<open>A call is refused without touching a handler, or admitted; it never panics.\<close>

lemma route_verified_cases:
  obtains (rejected) m where "quiet m" "\<And>T. keeps_ledger T m" "refuses m"
      "route_verified P R sctx payload t = returning m"
  | (admitted) d fs where "admissible P R sctx payload t d fs"
      "route_verified P R sctx payload t = returning (route_admitted P R d (append_evidence sctx fs) payload t)"
proof (cases "verify_routed_context P R sctx t")
  case (Inl e)
  then show ?thesis
    by (intro rejected [of "reject_unverified P R (sc_context sctx) e t"] quiet_intros keeps_intros refuses_rejections)
      (simp add: route_verified_def Let_def)
next
  case (Inr u)
  let ?match = "signed_context_matches_active_manifest (pf_crypto P) (sc_context sctx) (cr_manifest R)"
  let ?dev = "production_context_uses_dev_descriptor sctx (ni_authenticator_kind (cr_identity R)) (cr_manifest R)"
  have rej: "thesis" if "route_verified P R sctx payload t = returning (reject_packet P R (sc_context sctx) reason t)"
    for reason
    by (rule rejected [OF quiet_rejection(1) keeps_rejections(1) refuses_rejections(1) that])
  show ?thesis
  proof (cases "?match \<and> \<not> ?dev")
    case False
    then show ?thesis using Inr rej by (cases ?match) (auto simp: route_verified_def Let_def)
  next
    case True
    then obtain d where d: "manifest_lookup (cr_manifest R) (vc_opcode (sc_context sctx)) = Inr d"
      using matches_manifest_lookup by blast
    show ?thesis
    proof (cases "registration_projection P d (sc_context sctx) payload t")
      case (Inl e)
      then show ?thesis using Inr True d by (intro rej) (simp add: route_verified_def Let_def)
    next
      case p: (Inr fs)
      show ?thesis
        using Inr True d p by (intro admitted [of d fs]) (simp_all add: admissible_def route_verified_def Let_def)
    qed
  qed
qed

lemma invokes_route_verified:
  "invokes (\<lambda>i. \<exists>d fs. admissible P R sctx payload t d fs \<and>
       iv_context i = (sc_context sctx)\<lparr>vc_evidence_summary := vc_evidence_summary (sc_context sctx) @ fs\<rparr> \<and>
       iv_payload i = payload \<and> vc_handler_id (sc_context sctx) = Some (iv_handler_id i) \<and>
       cr_programs R (iv_handler_id i) \<noteq> None \<and> length payload \<le> el_max_payload_bytes (cr_limits R) \<and>
       permission_denial R (iv_context i) t = None \<and> authority_mode_rejection d (iv_context i) = None \<and>
       is_ok (proof_gate R (iv_context i) t))
     (route_verified P R sctx payload t)"
proof (rule route_verified_cases [of P R sctx payload t], goal_cases)
  case (1 m)
  then show ?case by (simp add: invokes_quiet quiet_intros)
next
  case (2 d fs)
  have "invokes (\<lambda>i. iv_context i = sc_context (append_evidence sctx fs) \<and> iv_payload i = payload \<and>
       vc_handler_id (sc_context (append_evidence sctx fs)) = Some (iv_handler_id i) \<and>
       cr_programs R (iv_handler_id i) \<noteq> None \<and> length payload \<le> el_max_payload_bytes (cr_limits R) \<and>
       permission_denial R (sc_context (append_evidence sctx fs)) t = None \<and>
       authority_mode_rejection d (sc_context (append_evidence sctx fs)) = None \<and>
       is_ok (proof_gate R (sc_context (append_evidence sctx fs)) t))
     (returning (route_admitted P R d (append_evidence sctx fs) payload t))"
    by (intro invokes_then_quiet invokes_route_admitted quiet_return)
  then show ?case unfolding 2(2) by (rule invokes_mono) (use 2(1) in auto)
qed

section \<open>At most one execution per replay slot\<close>

text \<open>The abstract executor: a list of used slots that only ever grows by a slot not used before.\<close>

inductive once_step :: "'k list \<Rightarrow> 'k list \<Rightarrow> bool" where
  stutter: "once_step ks ks"
| use: "k \<notin> set ks \<Longrightarrow> once_step ks (ks @ [k])"

inductive_simps once_step_iff: "once_step ks ks'"

text \<open>A context is live when all clock readings in use are failed ones or within its lifetime.\<close>

definition live :: "(u64 \<Rightarrow> bool) \<Rightarrow> VerifiedCallContext \<Rightarrow> bool" where
  "live T c \<longleftrightarrow> (\<forall>now. T now \<longrightarrow> is_clock_read_failure now \<or> as_i64 now \<le> as_i64 (vc_expires_at c))"

definition invocation_slots :: "(u64 \<Rightarrow> bool) \<Rightarrow> Invocation list \<Rightarrow> (bytes \<times> u8 \<times> bytes \<times> string) list" where
  "invocation_slots T is = map (\<lambda>i. context_replay_key (iv_context i)) (filter (\<lambda>i. live T (iv_context i)) is)"

definition used_slots :: "(u64 \<Rightarrow> bool) \<Rightarrow> 'w GatewayState \<Rightarrow> (bytes \<times> u8 \<times> bytes \<times> string) list" where
  "used_slots T s = invocation_slots T (gs_invocations s)"

text \<open>The invariant: the ledger's own, no slot twice, and a reservation behind every live invocation.\<close>

definition reserved_for :: "'w GatewayState \<Rightarrow> VerifiedCallContext \<Rightarrow> bool" where
  "reserved_for s c \<longleftrightarrow> (\<exists>r \<in> set (db_replay_reservations s).
     replay_key r = context_replay_key c \<and> rr_expires_at r = as_i64 (vc_expires_at c))"

definition gateway_inv :: "(u64 \<Rightarrow> bool) \<Rightarrow> 'w GatewayState \<Rightarrow> bool" where
  "gateway_inv T s \<longleftrightarrow> ledger_ok s \<and> distinct (used_slots T s) \<and>
     (\<forall>i \<in> set (gs_invocations s). live T (iv_context i) \<longrightarrow> reserved_for s (iv_context i))"

lemma reserved_persists:
  assumes "ledger_le T s s'" and "live T c" and "reserved_for s c"
  shows "reserved_for s' c"
proof -
  obtain r where r: "r \<in> set (db_replay_reservations s)" "replay_key r = context_replay_key c"
      "rr_expires_at r = as_i64 (vc_expires_at c)"
    using assms(3) by (auto simp: reserved_for_def)
  have "\<not> expired_by T r" using assms(2) r(3) by (fastforce simp: expired_by_def live_def)
  then show ?thesis using assms(1) r by (auto simp: ledger_le_def reserved_for_def)
qed

lemma inv_quiet:
  assumes "gateway_inv T s" and "quiet m" and "keeps_ledger T m"
  shows "gateway_inv T (snd (run_state m s)) \<and> used_slots T (snd (run_state m s)) = used_slots T s"
proof -
  let ?s = "snd (run_state m s)"
  have inv: "gs_invocations ?s = gs_invocations s" using assms(2) by (simp add: unchanged_def)
  have led: "ledger_ok ?s" "ledger_le T s ?s"
    using keeps_ledgerD [OF assms(3)] assms(1) by (auto simp: gateway_inv_def)
  show ?thesis
    using assms(1) led reserved_persists [OF led(2)] by (auto simp: gateway_inv_def used_slots_def inv)
qed

text \<open>Once a fresh slot is reserved, at most one invocation with it keeps the invariant.\<close>

lemma inv_invokes:
  assumes inv: "gateway_inv T s" and "reserved_for s c" and fresh: "live T c \<Longrightarrow> context_replay_key c \<notin> set (used_slots T s)"
    and m: "invokes (\<lambda>i. context_replay_key (iv_context i) = context_replay_key c \<and>
      vc_expires_at (iv_context i) = vc_expires_at c) m" and "keeps_ledger T m"
  shows "gateway_inv T (snd (run_state m s)) \<and> once_step (used_slots T s) (used_slots T (snd (run_state m s)))"
proof -
  let ?s = "snd (run_state m s)"
  obtain xs where xs: "gs_invocations ?s = gs_invocations s @ xs"
    and one: "xs = [] \<or> (\<exists>i. xs = [i] \<and> context_replay_key (iv_context i) = context_replay_key c \<and>
      vc_expires_at (iv_context i) = vc_expires_at c)"
    using m unfolding invokes_def by blast
  have led: "ledger_ok ?s" "ledger_le T s ?s"
    using keeps_ledgerD [OF assms(5)] inv by (auto simp: gateway_inv_def)
  note keep = reserved_persists [OF led(2)]
  from one show ?thesis
  proof
    assume "xs = []"
    then show ?thesis using inv led keep by (auto simp: gateway_inv_def used_slots_def xs once_step_iff)
  next
    assume "\<exists>i. xs = [i] \<and> context_replay_key (iv_context i) = context_replay_key c \<and>
      vc_expires_at (iv_context i) = vc_expires_at c"
    then obtain i where i: "xs = [i]" "context_replay_key (iv_context i) = context_replay_key c"
        "vc_expires_at (iv_context i) = vc_expires_at c" by blast
    have same: "live T (iv_context i) = live T c" "reserved_for z (iv_context i) = reserved_for z c" for z :: "'w GatewayState"
      by (simp_all add: live_def reserved_for_def i)
    have slots: "used_slots T ?s = used_slots T s @ (if live T c then [context_replay_key c] else [])"
      by (simp add: used_slots_def invocation_slots_def xs i same)
    have "once_step (used_slots T s) (used_slots T ?s)"
      unfolding slots using fresh by (auto intro: once_step.intros)
    moreover have "gateway_inv T ?s"
      using inv led keep assms(2) fresh by (auto simp: gateway_inv_def slots xs i(1) same)
    ultimately show ?thesis by simp
  qed
qed

lemma inv_route_admitted:
  fixes s :: "'w GatewayState"
  assumes inv: "gateway_inv T s" and "T t"
  shows "gateway_inv T (snd (run_state (route_admitted P R d sctx payload t) s)) \<and>
    once_step (used_slots T s) (used_slots T (snd (run_state (route_admitted P R d sctx payload t) s)))"
proof -
  let ?c = "sc_context sctx"
  have quiet: "gateway_inv T (snd (run_state m s)) \<and> once_step (used_slots T s) (used_slots T (snd (run_state m s)))"
    if "quiet m" "keeps_ledger T m" for m :: "('w GatewayState, DecisionResponse) state"
    using inv_quiet [OF inv that] once_step.stutter [of "used_slots T s"] by simp
  show ?thesis
  proof (cases "authority_mode_rejection d ?c")
    case (Some x)
    then show ?thesis
      by (cases x) (simp add: route_admitted_def Let_def quiet quiet_intros keeps_intros)
  next
    case auth: None
    show ?thesis
    proof (cases "proof_gate R ?c t")
      case (Inl e)
      then show ?thesis by (simp add: route_admitted_def Let_def auth quiet quiet_intros keeps_intros)
    next
      case (Inr fs)
      let ?m = "reserve_replay (pf_failing P) ?c (sc_signer_key_id sctx) t"
      obtain r s1 where run: "run_state ?m s = (r, s1)" by fastforce
      have s1: "gateway_inv T s1 \<and> used_slots T s1 = used_slots T s"
        using inv_quiet [OF inv, of ?m] keeps_reserve [of T t "pf_failing P" ?c "sc_signer_key_id sctx"] assms(2)
        by (simp add: run quiet_reserve)
      have rej: "gateway_inv T (snd (run_state (reject_packet P R ?c reason t) s1)) \<and>
          used_slots T (snd (run_state (reject_packet P R ?c reason t) s1)) = used_slots T s" for reason
        using inv_quiet [of T s1 "reject_packet P R ?c reason t"] s1 by (simp add: quiet_intros keeps_intros)
      show ?thesis
      proof (cases "r = Inr Reserved")
        case False
        then show ?thesis
          using rej run by (cases r; (cases "projr r")?)
            (auto simp: route_admitted_def Let_def auth Inr once_step_iff split: ReplayReservationOutcome.split)
      next
        case True
        have row: "replay_row ?c (sc_signer_key_id sctx) t \<in> set (db_replay_reservations s1)"
          using reserved_row_present run True by blast
        have res: "reserved_for s1 ?c" using row by (force simp: reserved_for_def)
        have fresh: "context_replay_key ?c \<notin> set (used_slots T s1)"
        proof
          assume "context_replay_key ?c \<in> set (used_slots T s1)"
          then have "context_replay_key ?c \<in> set (used_slots T s)" using s1 by simp
          then obtain i where i: "i \<in> set (gs_invocations s)" "live T (iv_context i)"
              "context_replay_key (iv_context i) = context_replay_key ?c"
            by (auto simp: used_slots_def invocation_slots_def)
          then obtain r' where r': "r' \<in> set (db_replay_reservations s)" "replay_key r' = context_replay_key ?c"
              "rr_expires_at r' = as_i64 (vc_expires_at (iv_context i))"
            using inv by (auto simp: gateway_inv_def reserved_for_def)
          have "is_clock_read_failure t \<or> as_i64 t \<le> rr_expires_at r'"
            using i(2) assms(2) r'(3) by (auto simp: live_def)
          from live_row_refuses [OF r'(1,2) this, of "pf_failing P" "sc_signer_key_id sctx"] show False
            by (simp add: run True)
        qed
        have "gateway_inv T (snd (run_state (route_reserved P R d sctx (append_evidence sctx fs) payload t) s1)) \<and>
            once_step (used_slots T s1)
              (used_slots T (snd (run_state (route_reserved P R d sctx (append_evidence sctx fs) payload t) s1)))"
          using s1 res fresh
          by (intro inv_invokes [of T s1 ?c]) (auto intro: invokes_mono [OF invokes_route_reserved] keeps_intros)
        then show ?thesis using s1 by (simp add: route_admitted_def Let_def auth Inr run True)
      qed
    qed
  qed
qed

lemma run_returning: "snd (run_state (returning m) s) = snd (run_state m s)"
    "fst (run_state (returning m) s) = Some (fst (run_state m s))"
  by (simp_all add: split_def)

lemma inv_route_verified:
  assumes "gateway_inv T s" and "T t"
  shows "gateway_inv T (snd (run_state (route_verified P R sctx payload t) s)) \<and>
    once_step (used_slots T s) (used_slots T (snd (run_state (route_verified P R sctx payload t) s)))"
proof (rule route_verified_cases [of P R sctx payload t], goal_cases)
  case (1 m)
  show ?case
    unfolding 1(4) run_returning using inv_quiet [OF assms(1) 1(1) 1(2)] once_step.stutter [of "used_slots T s"] by simp
next
  case (2 d fs)
  show ?case unfolding 2(2) run_returning by (rule inv_route_admitted [OF assms])
qed

lemma gateway_inv_frame [simp]:
  "gateway_inv T (s\<lparr>gs_started := b\<rparr>) = gateway_inv T s" "gateway_inv T (s\<lparr>gs_projection := p\<rparr>) = gateway_inv T s"
  "used_slots T (s\<lparr>gs_started := b\<rparr>) = used_slots T s" "used_slots T (s\<lparr>gs_projection := p\<rparr>) = used_slots T s"
  by (simp_all add: gateway_inv_def used_slots_def reserved_for_def)

lemma inv_route_for_execution:
  assumes "gateway_inv T s" and "T t"
  shows "gateway_inv T (snd (run_state (route_verified_for_execution P R sctx payload digest t) s)) \<and>
    once_step (used_slots T s) (used_slots T (snd (run_state (route_verified_for_execution P R sctx payload digest t) s)))"
proof -
  have "gateway_inv T (s\<lparr>gs_started := Some False, gs_projection := Some None\<rparr>)" using assms(1) by simp
  from inv_route_verified [OF this assms(2), of P R sctx payload] assms(1) show ?thesis
    by (auto simp: route_verified_for_execution_def split_def once_step_iff split: sum.split option.split)
qed

text \<open>The gateway as a state machine. Besides its own calls, any other task may use the ledger in between, as
  long as it respects the ledger's contract.\<close>

inductive gateway_step :: "'w ConfigurableRouter \<Rightarrow> (u64 \<Rightarrow> bool) \<Rightarrow> 'w GatewayState \<Rightarrow> 'w GatewayState \<Rightarrow> bool"
  for R T where
  call: "T t \<Longrightarrow> gateway_step R T s (snd (run_state (route_verified P R sctx payload t) s))"
| execution: "T t \<Longrightarrow>
    gateway_step R T s (snd (run_state (route_verified_for_execution P R sctx payload digest t) s))"
| unverified: "T t \<Longrightarrow> gateway_step R T s (snd (run_state (route P opcode payload t) s))"
| reject: "T t \<Longrightarrow> gateway_step R T s (snd (run_state (record_reject P R packet error t) s))"
| other_task: "quiet m \<Longrightarrow> keeps_ledger T m \<Longrightarrow> gateway_step R T s (snd (run_state (m :: ('w GatewayState, unit) state) s))"

definition gateway_start :: "'w GatewayState \<Rightarrow> bool" where
  "gateway_start s \<longleftrightarrow> ledger_ok s \<and> gs_invocations s = []"

lemma gateway_step_inv:
  "gateway_step R T s s' \<Longrightarrow> gateway_inv T s \<Longrightarrow> gateway_inv T s' \<and> once_step (used_slots T s) (used_slots T s')"
proof (induction rule: gateway_step.induct)
  case (unverified t s P opcode payload)
  then show ?case using inv_quiet [OF _ quiet_route(1) keeps_unverified_route(1)] by (metis once_step.stutter)
next
  case (reject t s P packet error)
  then show ?case using inv_quiet [OF _ quiet_route(2) keeps_unverified_route(2)] by (metis once_step.stutter)
next
  case (other_task m s)
  then show ?case using inv_quiet by (metis once_step.stutter)
next
  case (call t s P sctx payload)
  show ?case by (rule inv_route_verified [OF call(2,1)])
next
  case (execution t s P sctx payload digest)
  show ?case by (rule inv_route_for_execution [OF execution(2,1)])
qed

lemma gateway_run_inv:
  "(gateway_step R T)\<^sup>*\<^sup>* s s' \<Longrightarrow> gateway_start s \<Longrightarrow> gateway_inv T s'"
proof (induction rule: rtranclp_induct)
  case base
  then show ?case by (simp add: gateway_start_def gateway_inv_def used_slots_def invocation_slots_def)
next
  case (step y z)
  then show ?case using gateway_step_inv by blast
qed

section \<open>What an accepted answer means\<close>

definition executes :: "bool \<Rightarrow> ('w GatewayState, DecisionResponse) state \<Rightarrow> bool" where
  "executes Q m \<longleftrightarrow> (\<forall>s. de_decision (fst (run_state m s)) = ResponseAccepted \<longrightarrow>
     Q \<and> length (gs_invocations (snd (run_state m s))) = Suc (length (gs_invocations s)))"

lemma executes_refuses: "refuses m \<Longrightarrow> executes Q m"
  by (simp add: executes_def refuses_def)

lemma executes_mono: "executes Q m \<Longrightarrow> (Q \<Longrightarrow> Q') \<Longrightarrow> executes Q' m"
  unfolding executes_def by blast

lemma executes_after_quiet:
  assumes "quiet m" and "\<And>x. executes Q (f x)"
  shows "executes Q (m \<bind> f)"
  unfolding executes_def
proof (intro allI impI)
  fix s
  assume acc: "de_decision (fst (run_state (m \<bind> f) s)) = ResponseAccepted"
  obtain x s1 where r: "run_state m s = (x, s1)" by fastforce
  have "gs_invocations s1 = gs_invocations s" using assms(1) r unfolding unchanged_def by (metis snd_conv)
  then show "Q \<and> length (gs_invocations (snd (run_state (m \<bind> f) s))) = Suc (length (gs_invocations s))"
    using assms(2) [of x, unfolded executes_def] acc by (simp add: r)
qed

lemma normalize_accepted:
  assumes "ho_decision (normalize_handler_outcome d limits h) = Accepted"
  shows "ho_decision h = Accepted \<and> (case od_output_profile d of
      None \<Rightarrow> ho_output h = None
    | Some profile \<Rightarrow> \<exists>out. ho_output h = Some out \<and> length out \<le> el_max_output_bytes limits)"
  using assms
  by (auto simp: normalize_handler_outcome_def handler_rejected_def split: if_splits option.splits)

lemma respond_accepted:
  "de_decision (fst (run_state (respond_outcome P d c h rid t) s)) = ResponseAccepted \<longleftrightarrow> ho_decision h = Accepted"
  by (auto simp: respond_outcome_def execution_projection_def response_accepted_def response_rejected_def split_def
      Let_def split: option.split Decision.split)

definition handler_accepts ::
  "OperationDescriptor \<Rightarrow> ExecutionLimits \<Rightarrow> 'w MachineProgram \<Rightarrow> VerifiedCallContext \<Rightarrow> bytes \<Rightarrow> bool" where
  "handler_accepts d limits program c p \<longleftrightarrow> (\<exists>w h w'. program c p (handler_limits_for limits d) w = (Some h, w') \<and>
     ho_decision h = Accepted \<and> (case od_output_profile d of
         None \<Rightarrow> ho_output h = None
       | Some profile \<Rightarrow> \<exists>out. ho_output h = Some out \<and> length out \<le> el_max_output_bytes limits \<and>
           length out \<le> op_max_output_bytes profile))"

lemma handler_limits_output:
  "length out \<le> el_max_output_bytes (handler_limits_for limits d) \<Longrightarrow> od_output_profile d = Some profile \<Longrightarrow>
     length out \<le> el_max_output_bytes limits \<and> length out \<le> op_max_output_bytes profile"
  by (simp add: handler_limits_for_def)

lemma executes_execute_handler:
  "executes (handler_accepts d (cr_limits R) program c p) (execute_handler P R d c rc program h p t)"
  unfolding execute_handler_def Let_def
proof (rule executes_after_quiet [OF quiet_operation_event [OF outside_slots(1)]])
  let ?limits = "handler_limits_for (cr_limits R) d"
  let ?receipt = "\<lambda>outcome. if od_output_profile d \<noteq> None
       then record_execution_receipt_required P R rc (ho_decision outcome) (ho_reason outcome) t
         (Option.bind (ho_output outcome) (\<lambda>_. map_option op_schema_id (od_output_profile d))) (ho_output outcome)
       else record_execution_receipt P R rc (ho_decision outcome) (ho_reason outcome) t \<bind>
         (\<lambda>receipt_id. State_Monad.return (Some receipt_id))"
  let ?answer = "\<lambda>outcome receipt. case receipt of
       None \<Rightarrow> State_Monad.return (response_rejected ''execution_transport_failure'' (Some (vc_context_id c)) None)
     | Some receipt_id \<Rightarrow> respond_outcome P d c outcome receipt_id t"
  let ?rest = "\<lambda>raw. let outcome = normalize_handler_outcome d ?limits raw in ?receipt outcome \<bind> ?answer outcome"
  have quiet: "quiet (?rest raw)" for raw
    unfolding Let_def by (auto intro!: quiet_intros split: option.split)
  show "executes (handler_accepts d (cr_limits R) program c p)
      (run_program program h c p ?limits \<bind> (\<lambda>raw. ?receipt (normalize_handler_outcome d ?limits raw) \<bind>
        ?answer (normalize_handler_outcome d ?limits raw)))"
    unfolding executes_def
  proof (intro allI impI)
    fix s :: "'a GatewayState"
    obtain raw s2 where r: "run_state (run_program program h c p ?limits) s = (raw, s2)" by fastforce
    assume acc: "de_decision (fst (run_state (run_program program h c p ?limits \<bind>
        (\<lambda>raw. ?receipt (normalize_handler_outcome d ?limits raw) \<bind>
          ?answer (normalize_handler_outcome d ?limits raw))) s)) = ResponseAccepted"
    obtain rec s3 where r3: "run_state (?receipt (normalize_handler_outcome d ?limits raw)) s2 = (rec, s3)" by fastforce
    have "ho_decision (normalize_handler_outcome d ?limits raw) = Accepted"
      using acc r r3 by (cases rec) (simp_all add: respond_accepted response_rejected_def del: not_None_eq)
    note raw = normalize_accepted [OF this]
    obtain oc w' where prog: "program c p ?limits (gs_world s) = (oc, w')" by fastforce
    have out: "raw = (case oc of Some h \<Rightarrow> h | None \<Rightarrow> handler_rejected ''handler_timeout'')"
      and s2: "gs_invocations s2 = gs_invocations s @ [\<lparr>iv_handler_id = h, iv_context = c, iv_payload = p\<rparr>]"
      using r by (auto simp: run_program_def prog)
    have "oc = Some raw" using raw out by (cases oc) (auto simp: handler_rejected_def)
    then have "handler_accepts d (cr_limits R) program c p"
      unfolding handler_accepts_def using raw prog
      by - (rule exI [of _ "gs_world s"], rule exI [of _ raw], rule exI [of _ w'],
        auto split: option.splits dest: handler_limits_output)
    moreover have "gs_invocations (snd (run_state (?rest raw) s2)) = gs_invocations s2"
      using quiet [of raw] by (simp add: unchanged_def)
    ultimately show "handler_accepts d (cr_limits R) program c p \<and>
        length (gs_invocations (snd (run_state (run_program program h c p ?limits \<bind>
          (\<lambda>raw. ?receipt (normalize_handler_outcome d ?limits raw) \<bind>
            ?answer (normalize_handler_outcome d ?limits raw))) s))) = Suc (length (gs_invocations s))"
      by (simp add: r s2 Let_def del: not_None_eq)
  qed
qed

definition route_accepts :: "'w ConfigurableRouter \<Rightarrow> OperationDescriptor \<Rightarrow> VerifiedCallContext \<Rightarrow> bytes \<Rightarrow> bool" where
  "route_accepts R d c p \<longleftrightarrow> (\<exists>h program. vc_handler_id c = Some h \<and> cr_programs R h = Some program \<and>
     handler_accepts d (cr_limits R) program c p)"

lemma executes_route_execution: "executes (route_accepts R d c p) (route_execution P R d c rc p t)"
  unfolding route_execution_def
  by (intro executes_after_quiet [OF quiet_started(1)])
    (auto intro!: executes_refuses [OF refuses_post_start]
      intro: executes_mono [OF executes_execute_handler] simp: route_accepts_def split: option.split)

lemma executes_route_permitted:
  "executes (route_accepts R d (sc_context sctx) p) (route_permitted P R d sctx rsctx p t)"
  unfolding route_permitted_def Let_def
  by (intro executes_after_quiet quiet_invocations)
    (auto intro!: executes_refuses [OF refuses_rejections(3)] executes_route_execution split: option.split)

lemma executes_route_reserved:
  "executes (route_accepts R d (sc_context sctx) p) (route_reserved P R d sctx rsctx p t)"
  unfolding route_reserved_def Let_def
  by (auto intro!: executes_route_permitted executes_refuses [OF refuses_rejections(3)] executes_after_quiet
      quiet_invocations split: sum.split ScopedNullifierUseOutcome.split)

lemma executes_route_admitted:
  "executes (route_accepts R d (sc_context sctx) p) (route_admitted P R d sctx p t)"
  unfolding route_admitted_def Let_def
  by (auto intro!: executes_route_reserved executes_refuses [OF refuses_rejections(1)]
      executes_refuses [OF refuses_rejections(2)] executes_after_quiet quiet_invocations
      split: sum.split option.split prod.split ReplayReservationOutcome.split)

section \<open>What an execution request gets back\<close>

definition projects :: "(ExecutionRouteProjection \<Rightarrow> bool) \<Rightarrow> ('w GatewayState, 'b) state \<Rightarrow> bool" where
  "projects Q m \<longleftrightarrow> (\<forall>s. gs_projection (snd (run_state m s)) = gs_projection s \<or>
     (\<exists>p. Q p \<and> gs_projection (snd (run_state m s)) = map_option (\<lambda>_. Some p) (gs_projection s)))"

lemma projects_steady: "steady m \<Longrightarrow> projects Q m"
  by (simp add: projects_def unchanged_def)

lemma projects_after_steady:
  assumes "steady m" and "\<And>x. projects Q (f x)"
  shows "projects Q (m \<bind> f)"
  unfolding projects_def
proof
  fix s
  obtain x s1 where r: "run_state m s = (x, s1)" by fastforce
  have "gs_projection s1 = gs_projection s" using assms(1) r unfolding unchanged_def by (metis snd_conv)
  then show "gs_projection (snd (run_state (m \<bind> f) s)) = gs_projection s \<or>
     (\<exists>p. Q p \<and> gs_projection (snd (run_state (m \<bind> f) s)) = map_option (\<lambda>_. Some p) (gs_projection s))"
    using assms(2) [of x, unfolded projects_def, rule_format, of s1] by (simp add: r)
qed

lemma projects_then_return: "projects Q m \<Longrightarrow> projects Q (returning m)"
  by (simp add: projects_def split_def)

text \<open>A projection agrees with the output profile of its descriptor.\<close>

definition profile_projection :: "ExecutionLimits \<Rightarrow> OperationDescriptor \<Rightarrow> ExecutionRouteProjection \<Rightarrow> bool" where
  "profile_projection limits d p \<longleftrightarrow> (\<exists>profile. od_output_profile d = Some profile \<and>
     (ep_status p = Executed \<longrightarrow> ep_output_schema p = Some (op_schema_id profile)) \<and>
     (\<forall>out. ep_output p = Some out \<longrightarrow> length out \<le> min (el_max_output_bytes limits) (op_max_output_bytes profile)))"

lemma projects_respond:
  assumes "\<And>out. ho_output h = Some out \<Longrightarrow> length out \<le> el_max_output_bytes (handler_limits_for limits d)"
  shows "projects (profile_projection limits d) (respond_outcome P d c h rid t)"
proof (cases "od_output_profile d")
  case None
  then show ?thesis
    unfolding respond_outcome_def by (simp add: projects_steady quiet_intros)
next
  case (Some profile)
  have "profile_projection limits d (execution_projection c profile rid h)"
    using assms Some
    by (auto simp: profile_projection_def execution_projection_def handler_limits_for_def split: Decision.splits)
  then have "projects (profile_projection limits d) (set_projection (execution_projection c profile rid h) \<bind> (\<lambda>_. State_Monad.return x))"
    for x :: DecisionResponse
    by (auto simp: projects_def set_projection_def)
  then show ?thesis
    unfolding respond_outcome_def Let_def Some option.case
    by (rule projects_after_steady [OF quiet_operation_event [OF outside_slots(2)]])
qed

lemma normalize_output_bound:
  "ho_output (normalize_handler_outcome d limits h) = Some out \<Longrightarrow> length out \<le> el_max_output_bytes limits"
  by (auto simp: normalize_handler_outcome_def handler_rejected_def split: if_splits option.splits)

lemma projects_execute_handler:
  "projects (profile_projection (cr_limits R) d) (execute_handler P R d c rc program h p t)"
proof -
  have prog: "steady (run_program program h c p limits)" for limits
    by (simp add: unchanged_def run_program_def split_def Let_def)
  show ?thesis
    unfolding execute_handler_def Let_def
    by (intro projects_after_steady quiet_operation_event outside_slots prog)
      (auto intro!: quiet_intros projects_steady projects_respond dest: normalize_output_bound split: option.split)
qed

lemma projects_route_admitted:
  "projects (profile_projection (cr_limits R) d) (route_admitted P R d sctx p t)"
proof -
  have exec: "projects (profile_projection (cr_limits R) d) (route_execution P R d c rc p t)" for c rc
    unfolding route_execution_def
    by (intro projects_after_steady quiet_started(2))
      (auto intro!: projects_execute_handler projects_steady quiet_intros split: option.split)
  have permitted: "projects (profile_projection (cr_limits R) d) (route_permitted P R d sctx rsctx p t)" for rsctx
    unfolding route_permitted_def Let_def
    by (intro projects_after_steady quiet_intros outside_slots)
      (auto intro!: exec projects_steady quiet_intros split: option.split)
  have reserved: "projects (profile_projection (cr_limits R) d) (route_reserved P R d sctx rsctx p t)" for rsctx
    unfolding route_reserved_def Let_def
    by (auto intro!: permitted projects_after_steady [OF quiet_nullifier [OF outside_slots(2)]]
        projects_steady [OF quiet_rejections(3) [OF outside_slots(2)]] split: sum.split ScopedNullifierUseOutcome.split)
  show ?thesis
    unfolding route_admitted_def Let_def
    by (auto intro!: reserved projects_after_steady [OF quiet_reserve [OF outside_slots(2)]]
        projects_steady [OF quiet_rejections(1) [OF outside_slots(2)]] projects_steady [OF quiet_rejections(2) [OF outside_slots(2)]]
        split: sum.split option.split prod.split ReplayReservationOutcome.split)
qed

lemma projects_route_verified:
  assumes "manifest_lookup (cr_manifest R) (vc_opcode (sc_context sctx)) = Inr d"
  shows "projects (profile_projection (cr_limits R) d) (route_verified P R sctx payload t)"
proof -
  have steady_rej: "steady (reject_packet P R c reason t)" "steady (reject_unverified P R c e t)" for c reason e
    by (intro quiet_rejections outside_slots)+
  show ?thesis
    unfolding route_verified_def Let_def assms sum.case
    by (auto intro!: projects_then_return projects_route_admitted projects_steady [OF steady_rej(1)]
        projects_steady [OF steady_rej(2)] split: sum.split)
qed

lemma finish_execution_Inr:
  assumes "finish_execution P R profile digest decision projection started = Inr r"
  shows "\<exists>eff frame p r0. for_output_profile (cr_limits R) profile = Inr eff \<and>
    encode_frame r (ee_max_execution_response_bytes eff) = Inr frame \<and>
    execution_response_of (ni_signer_key_id (cr_identity R)) digest decision projection started = Inr r0 \<and>
    signature_preimage r = Inr p \<and> er_signature r = c_sign (pf_crypto P) (ni_signing_key (cr_identity R)) p \<and>
    er_signer_key_id r = ni_signer_key_id (cr_identity R) \<and> er_request_digest r = er_request_digest r0 \<and>
    er_status r = er_status r0 \<and> er_output_schema r = er_output_schema r0 \<and> er_output r = er_output r0"
  using assms
  by (auto simp: finish_execution_def result_simps sign_execution_response_def Let_def
      signature_preimage_ignores_signature split: if_splits)

lemma client_accepts_finished:
  assumes fin: "finish_execution P R profile digest decision projection started = Inr r"
    and "signing_correct (pf_crypto P)"
    and "ni_public_key (cr_identity R) = c_public (pf_crypto P) (ni_signing_key (cr_identity R))"
    and ok: "response_ok r" and d: "od_output_profile d = Some profile"
    and proj: "\<And>p. projection = Some p \<Longrightarrow> profile_projection (cr_limits R) d p"
  shows "\<exists>eff frame. for_output_profile (cr_limits R) profile = Inr eff \<and>
    encode_frame r (ee_max_execution_response_bytes eff) = Inr frame \<and>
    decode_and_verify (c_verify (pf_crypto P)) frame (ee_max_execution_response_bytes eff) (ee_max_output_bytes eff)
      (ni_signer_key_id (cr_identity R)) (ni_public_key (cr_identity R)) digest (Some (op_schema_id profile)) = Inr r"
proof -
  obtain eff frame p r0 where eff: "for_output_profile (cr_limits R) profile = Inr eff"
    and frame: "encode_frame r (ee_max_execution_response_bytes eff) = Inr frame"
    and r0: "execution_response_of (ni_signer_key_id (cr_identity R)) digest decision projection started = Inr r0"
    and p: "signature_preimage r = Inr p" "er_signature r = c_sign (pf_crypto P) (ni_signing_key (cr_identity R)) p"
    and eqs: "er_signer_key_id r = ni_signer_key_id (cr_identity R)" "er_request_digest r = er_request_digest r0"
      "er_status r = er_status r0" "er_output_schema r = er_output_schema r0" "er_output r = er_output r0"
    using finish_execution_Inr [OF fin] by blast
  have lim: "ee_max_output_bytes eff = min (el_max_output_bytes (cr_limits R)) (op_max_output_bytes profile)"
    using eff by (auto simp: for_output_profile_def split: if_splits)
  have sig: "\<exists>body. canonical_unsigned_body r = Inr body \<and>
      c_verify (pf_crypto P) (ni_public_key (cr_identity R)) (EXECUTION_RESPONSE_SIGNATURE_DOMAIN @ body) (er_signature r)"
    using p assms(2,3) by (auto simp: signature_preimage_Inr_iff signing_correct_def)
  have "er_request_digest r0 = digest \<and> \<not> (er_status r0 = Executed \<and> er_output_schema r0 \<noteq> Some (op_schema_id profile)) \<and>
      \<not> (\<exists>out. er_output r0 = Some out \<and> length out > ee_max_output_bytes eff)"
    using r0 proj d lim
    by (cases projection; cases started) (auto simp: execution_response_of_def result_simps profile_projection_def not_less)
  then show ?thesis
    using eff frame sig ok eqs by (intro exI [of _ eff] exI [of _ frame]) (simp add: decode_and_verify_Inr_iff)
qed

section \<open>Properties\<close>


text \<open>C2. The gateway refines an executor that uses every replay slot at most once: seen through the slots of
  its handler invocations whose contexts are still live, every step of the gateway, whichever queries fail
  and whatever other tasks do with the ledger, either changes nothing or uses one slot that was never used
  before.\<close>

theorem gateway_refines_single_use:
  "{(s, s'). (\<exists>s0. gateway_start s0 \<and> (gateway_step R T)\<^sup>*\<^sup>* s0 s) \<and> gateway_step R T s s'}
     \<subseteq> {(s, s'). once_step (used_slots T s) (used_slots T s')}"
  using gateway_run_inv gateway_step_inv by blast

text \<open>C3. In every state the gateway can reach, no two handler invocations with live contexts share session,
  opcode, nonce and scope, and each is backed by a reservation in the ledger.\<close>

theorem handler_runs_once_per_slot:
  "{s. \<exists>s0. gateway_start s0 \<and> (gateway_step R T)\<^sup>*\<^sup>* s0 s}
     \<subseteq> {s. distinct (map (\<lambda>i. context_replay_key (iv_context i)) (filter (\<lambda>i. live T (iv_context i)) (gs_invocations s))) \<and>
          list_all (\<lambda>i. if live T (iv_context i) then reserved_for s (iv_context i) else True) (gs_invocations s)}"
  using gateway_run_inv by (force simp: gateway_inv_def used_slots_def invocation_slots_def list_all_iff)

text \<open>C4. An accepted answer means the operation was executed: the registered handler ran exactly once on this
  payload, finished in time and accepted, with no output for an operation without an output profile and
  with an output within both bounds otherwise.\<close>

theorem accepted_answer_means_executed:
  "case run_state (route_verified P R sctx payload t) s of (r, s') \<Rightarrow>
     (case r of None \<Rightarrow> False | Some response \<Rightarrow>
        if de_decision response = ResponseAccepted
        then \<exists>d fs h program w outcome w'. manifest_lookup (cr_manifest R) (vc_opcode (sc_context sctx)) = Inr d \<and>
          vc_handler_id (sc_context sctx) = Some h \<and> cr_programs R h = Some program \<and>
          program (sc_context (append_evidence sctx fs)) payload (handler_limits_for (cr_limits R) d) w = (Some outcome, w') \<and>
          ho_decision outcome = Accepted \<and>
          (case od_output_profile d of None \<Rightarrow> ho_output outcome = None
           | Some profile \<Rightarrow> \<exists>out. ho_output outcome = Some out \<and> length out \<le> el_max_output_bytes (cr_limits R) \<and>
               length out \<le> op_max_output_bytes profile) \<and>
          length (gs_invocations s') = Suc (length (gs_invocations s))
        else de_decision response = ResponseRejected)"
proof (rule route_verified_cases [of P R sctx payload t], goal_cases)
  case (1 m)
  then show ?case by (auto simp: refuses_def split_def)
next
  case (2 d fs)
  let ?m = "route_admitted P R d (append_evidence sctx fs) payload t"
  obtain r s' where run: "run_state ?m s = (r, s')" by fastforce
  have d: "manifest_lookup (cr_manifest R) (vc_opcode (sc_context sctx)) = Inr d" using 2(1) by (simp add: admissible_def)
  show ?case
  proof (cases "de_decision r")
    case ResponseAccepted
    then have "route_accepts R d (sc_context (append_evidence sctx fs)) payload"
        "length (gs_invocations s') = Suc (length (gs_invocations s))"
      using executes_route_admitted [of R d "append_evidence sctx fs" payload P t, unfolded executes_def, rule_format, of s]
      by (simp_all add: run)
    then show ?thesis
      unfolding 2(2) route_accepts_def handler_accepts_def using d by (simp add: run ResponseAccepted) blast
  next
    case ResponseRejected
    then show ?thesis by (simp add: 2(2) run)
  qed
qed

text \<open>C6. Without evidence adapters the production surface is inert: whatever packet a production receiver with
  the built-in manifest verifies on the descriptor-only path, routing the resulting context invokes no
  handler, because registration needs a resource that only evidence can bind.\<close>

theorem descriptor_only_production_never_executes:
  "case verify_manifest_operation_for_runtime_with_caller C B pj packet default_v0 aud now ProductionVerified callers of
     Inl _ \<Rightarrow> True
   | Inr ctx \<Rightarrow> gs_invocations (snd (run_state
       (route_verified P (R\<lparr>cr_manifest := default_v0\<rparr>) (sctx\<lparr>sc_context := ctx\<rparr>) payload t) s)) = gs_invocations s"
proof (cases "verify_manifest_operation_for_runtime_with_caller C B pj packet default_v0 aud now ProductionVerified callers")
  case (Inr ctx)
  let ?R = "R\<lparr>cr_manifest := default_v0\<rparr>" and ?sctx = "sctx\<lparr>sc_context := ctx\<rparr>"
  have "vc_operation ctx = NODE_REGISTRATION_OPERATION" "vc_resource ctx = None"
    using default_production_context [OF Inr] by (simp_all add: NODE_REGISTRATION_OPERATION_def)
  then have "registration_projection P d ctx payload t \<noteq> Inr fs" for d fs
    by (auto simp: registration_projection_def validate_verified_registration_route_def result_simps)
  then have "\<not> admissible P ?R ?sctx payload t d fs" for d fs by (simp add: admissible_def)
  then have "invokes (\<lambda>_. False) (route_verified P ?R ?sctx payload t)"
    by (intro invokes_mono [OF invokes_route_verified [of P ?R ?sctx payload t]]) blast
  then show ?thesis by (simp add: Inr) (simp add: invokes_def)
qed simp

text \<open>C5. What the gateway sends the client accepts: every response returned for an execution request with
  well-formed fields fits its frame bound, and the client that pins this node's key accepts exactly that
  response, for the request's digest, the operation's output schema and the effective bounds, given that
  signatures verify.\<close>

theorem client_accepts_gateway_response:
  "case fst (run_state (route_verified_for_execution P R sctx payload digest t) s) of
     Some (Inr r) \<Rightarrow>
       if signing_correct (pf_crypto P) \<and> response_ok r \<and>
         ni_public_key (cr_identity R) = c_public (pf_crypto P) (ni_signing_key (cr_identity R))
       then \<exists>d profile eff frame. manifest_lookup (cr_manifest R) (vc_opcode (sc_context sctx)) = Inr d \<and>
         od_output_profile d = Some profile \<and> for_output_profile (cr_limits R) profile = Inr eff \<and>
         encode_frame r (ee_max_execution_response_bytes eff) = Inr frame \<and>
         decode_and_verify (c_verify (pf_crypto P)) frame (ee_max_execution_response_bytes eff)
           (ee_max_output_bytes eff) (ni_signer_key_id (cr_identity R)) (ni_public_key (cr_identity R)) digest
           (Some (op_schema_id profile)) = Inr r
       else True
   | _ \<Rightarrow> True"
proof (cases "fst (run_state (route_verified_for_execution P R sctx payload digest t) s)")
  case (Some res)
  show ?thesis
  proof (cases res)
    case (Inr r)
    obtain d profile where d: "manifest_lookup (cr_manifest R) (vc_opcode (sc_context sctx)) = Inr d"
        "od_output_profile d = Some profile"
      using Some Inr by (auto simp: route_verified_for_execution_def split: sum.splits option.splits)
    let ?s = "s\<lparr>gs_started := Some False, gs_projection := Some None\<rparr>"
    obtain dec s1 where run: "run_state (route_verified P R sctx payload t) ?s = (dec, s1)" by fastforce
    obtain decision where fin: "finish_execution P R profile digest decision (Option.bind (gs_projection s1) (\<lambda>p. p))
        (gs_started s1 = Some True) = Inr r"
      using Some Inr d run by (auto simp: route_verified_for_execution_def split_def)
    have proj: "profile_projection (cr_limits R) d p" if "Option.bind (gs_projection s1) (\<lambda>p. p) = Some p" for p
      using projects_route_verified [OF d(1), of P payload t, unfolded projects_def, rule_format, of ?s] that
      by (auto simp: run)
    show ?thesis
      unfolding Some Inr using client_accepts_finished [OF fin _ _ _ d(2) proj] d by auto
  qed (simp add: Some)
qed simp

end
