(* ===== verification/Public_Audit.thy ===== *)
theory Public_Audit
  imports Ledger "HOL-Library.List_Lexorder" "HOL-Library.Product_Lexorder"
begin

text \<open>
  Public audit bundles (\<^verbatim>\<open>server/src/public_audit.rs\<close>, \<^verbatim>\<open>server/src/public_audit_cli.rs\<close>), and the parts of
  the ledger (\<^verbatim>\<open>server/src/ledger.rs\<close>) that read receipts back: the export of a context's receipts as a
  hash chain, its publication log, and the operator's inspection of single receipts. Properties: an exported
  bundle verifies, an anchored root determines every receipt, the publication log is consistent, and what
  the operator exports is what the export validator accepts.
\<close>

section \<open>Bundles\<close>

definition PUBLIC_AUDIT_BUNDLE_VERSION_V1 :: string where
  "PUBLIC_AUDIT_BUNDLE_VERSION_V1 = ''secs-public-audit-bundle-v1''"

definition PUBLIC_AUDIT_CHAIN_ALGORITHM_VERSION_V1 :: string where
  "PUBLIC_AUDIT_CHAIN_ALGORITHM_VERSION_V1 = ''secs-public-audit-chain-v1''"

definition PUBLIC_AUDIT_BUNDLE_VERSION :: string where
  "PUBLIC_AUDIT_BUNDLE_VERSION = ''secs-public-audit-bundle-v2''"

definition PUBLIC_AUDIT_CHAIN_ALGORITHM_VERSION :: string where
  "PUBLIC_AUDIT_CHAIN_ALGORITHM_VERSION = ''secs-public-audit-chain-v2''"

datatype PublicAuditRedactionPolicy = DefaultNoPayloadOrPrivateEvidence

datatype PublicAuditBundleStatus = Complete

record PublicAuditSignerKey =
  ps_signer_key_id :: string
  ps_public_key_hex :: string

record PublicAuditChainMetadata =
  pc_algorithm_version :: string
  pc_chain_scope :: string
  pc_root_hash_hex :: string
  pc_first_receipt_id :: string
  pc_last_receipt_id :: string
  pc_receipt_count :: nat
  pc_complete :: bool

record PublicAuditOutputProjection =
  po_schema_id :: string
  po_byte_count :: u64
  po_digest_sha256_hex :: string

record PublicAuditReceiptEntry =
  pe_chain_index :: nat
  pe_previous_entry_hash_hex :: "string option"
  pe_receipt_id :: string
  pe_schema_version :: u16
  pe_context_id :: "string option"
  pe_timestamp :: u64
  pe_kind :: string
  pe_decision :: string
  pe_reason :: "string option"
  pe_operation :: "string option"
  pe_handler_id :: "string option"
  pe_opcode :: u8
  pe_packet_hash_hex :: string
  pe_session_id_hex :: string
  pe_nonce_hex :: string
  pe_authenticator_kind :: string
  pe_signer_key_id :: string
  pe_signature_hex :: string
  pe_evidence_summary :: "string list"
  pe_output_projection :: "PublicAuditOutputProjection option"
  pe_entry_hash_hex :: string

record PublicAuditBundle =
  pb_version :: string
  pb_redaction_policy :: PublicAuditRedactionPolicy
  pb_status :: PublicAuditBundleStatus
  pb_exported_at :: u64
  pb_chain :: PublicAuditChainMetadata
  pb_signer_keys :: "PublicAuditSignerKey list"
  pb_receipts :: "PublicAuditReceiptEntry list"

datatype PublicAuditVerificationError =
    UnsupportedBundleVersion | IncompleteBundle | ReceiptCountMismatch | ChainEndpointMismatch
  | ChainRootMismatch | ReceiptEntryHashMismatch | ReceiptChainLinkMismatch | UnknownSignerKey
  | InvalidSignerPublicKey | InvalidReceiptField | InvalidReceiptSignature | RedactionViolation

text \<open>Third-party code: cryptography, bincode, \<^verbatim>\<open>VerifyingKey::from_bytes\<close>, and the text that serde\_json
  gives a value.\<close>

record audit_platform =
  au_crypto :: crypto
  au_bincode :: receipt_bincode
  au_key_ok :: "bytes \<Rightarrow> bool"
  au_json_text :: "json \<Rightarrow> string"

section \<open>Hashes\<close>

definition sha256_hex :: "audit_platform \<Rightarrow> bytes \<Rightarrow> string" where
  "sha256_hex P bs = hex_lower (c_sha256 (au_crypto P) bs)"

definition json_opt :: "string option \<Rightarrow> json" where
  "json_opt v = (case v of None \<Rightarrow> JNull | Some s \<Rightarrow> JString s)"

definition output_projection_json :: "PublicAuditOutputProjection \<Rightarrow> json" where
  "output_projection_json p = JObject
     [(''schema_id'', JString (po_schema_id p)), (''byte_count'', JNumber (Some (po_byte_count p))),
      (''digest_sha256_hex'', JString (po_digest_sha256_hex p))]"

text \<open>The derived serialisation of an entry; an absent output projection is skipped.\<close>

definition entry_json :: "PublicAuditReceiptEntry \<Rightarrow> json" where
  "entry_json e = JObject (
     [(''chain_index'', JNumber (Some (word_of_nat (pe_chain_index e)))),
      (''previous_entry_hash_hex'', json_opt (pe_previous_entry_hash_hex e)),
      (''receipt_id'', JString (pe_receipt_id e)),
      (''schema_version'', JNumber (Some (ucast (pe_schema_version e)))),
      (''context_id'', json_opt (pe_context_id e)),
      (''timestamp'', JNumber (Some (pe_timestamp e))),
      (''kind'', JString (pe_kind e)),
      (''decision'', JString (pe_decision e)),
      (''reason'', json_opt (pe_reason e)),
      (''operation'', json_opt (pe_operation e)),
      (''handler_id'', json_opt (pe_handler_id e)),
      (''opcode'', JNumber (Some (ucast (pe_opcode e)))),
      (''packet_hash_hex'', JString (pe_packet_hash_hex e)),
      (''session_id_hex'', JString (pe_session_id_hex e)),
      (''nonce_hex'', JString (pe_nonce_hex e)),
      (''authenticator_kind'', JString (pe_authenticator_kind e)),
      (''signer_key_id'', JString (pe_signer_key_id e)),
      (''signature_hex'', JString (pe_signature_hex e)),
      (''evidence_summary'', JArray (map JString (pe_evidence_summary e)))]
     @ (case pe_output_projection e of None \<Rightarrow> [] | Some p \<Rightarrow> [(''output_projection'', output_projection_json p)])
     @ [(''entry_hash_hex'', JString (pe_entry_hash_hex e))])"

definition public_audit_entry_hash_for :: "audit_platform \<Rightarrow> PublicAuditReceiptEntry \<Rightarrow> string \<Rightarrow> string" where
  "public_audit_entry_hash_for P e chain_version = sha256_hex P
     ((if chain_version = PUBLIC_AUDIT_CHAIN_ALGORITHM_VERSION then as_bytes ''secs-public-audit-entry-v2/hash'' else [])
      @ as_bytes (au_json_text P (entry_json (e\<lparr>pe_entry_hash_hex := []\<rparr>))))"

definition public_audit_entry_hash :: "audit_platform \<Rightarrow> PublicAuditReceiptEntry \<Rightarrow> string" where
  "public_audit_entry_hash P e = public_audit_entry_hash_for P e PUBLIC_AUDIT_CHAIN_ALGORITHM_VERSION"

definition public_audit_root_hash_for ::
  "audit_platform \<Rightarrow> PublicAuditReceiptEntry list \<Rightarrow> string \<Rightarrow> string \<Rightarrow> string" where
  "public_audit_root_hash_for P entries bundle_version chain_version = sha256_hex P
     (as_bytes bundle_version
      @ (if chain_version = PUBLIC_AUDIT_CHAIN_ALGORITHM_VERSION then as_bytes chain_version else [])
      @ concat (map (\<lambda>e. as_bytes (pe_entry_hash_hex e)) entries))"

definition public_audit_root_hash :: "audit_platform \<Rightarrow> PublicAuditReceiptEntry list \<Rightarrow> string" where
  "public_audit_root_hash P entries = public_audit_root_hash_for P entries PUBLIC_AUDIT_BUNDLE_VERSION
     PUBLIC_AUDIT_CHAIN_ALGORITHM_VERSION"

section \<open>Verification\<close>

fun decode_hex_pairs :: "string \<Rightarrow> PublicAuditVerificationError + bytes" where
  "decode_hex_pairs (a # b # rest) = (case (hex_value a, hex_value b) of
       (Some high, Some low) \<Rightarrow> rbind (decode_hex_pairs rest) (\<lambda>bs. Inr (word_of_nat (16 * high + low) # bs))
     | _ \<Rightarrow> Inl InvalidReceiptField)"
| "decode_hex_pairs _ = Inr []"

definition audit_decode_hex :: "string \<Rightarrow> PublicAuditVerificationError + bytes" where
  "audit_decode_hex value = (if \<not> even (length value) then Inl InvalidReceiptField else decode_hex_pairs value)"

definition fixed_hex :: "nat \<Rightarrow> string \<Rightarrow> PublicAuditVerificationError + bytes" where
  "fixed_hex n value = rbind (audit_decode_hex value) (\<lambda>bs. if length bs = n then Inr bs else Inl InvalidReceiptField)"

definition verifying_key_from_hex :: "audit_platform \<Rightarrow> string \<Rightarrow> PublicAuditVerificationError + bytes" where
  "verifying_key_from_hex P value = rbind (fixed_hex 32 value) (\<lambda>bs.
     if au_key_ok P bs then Inr bs else Inl InvalidSignerPublicKey)"

definition parse_kind :: "string \<Rightarrow> PublicAuditVerificationError + ReceiptKind" where
  "parse_kind value =
     (if value = ''reject'' then Inr Reject else if value = ''verify'' then Inr Verify
      else if value = ''execute'' then Inr Execute else if value = ''forward'' then Inr Forward
      else Inl InvalidReceiptField)"

definition parse_decision :: "string \<Rightarrow> PublicAuditVerificationError + Decision" where
  "parse_decision value =
     (if value = ''accepted'' then Inr Accepted else if value = ''rejected'' then Inr Rejected
      else Inl InvalidReceiptField)"

definition parse_authenticator_kind :: "string \<Rightarrow> PublicAuditVerificationError + AuthenticatorKind" where
  "parse_authenticator_kind value =
     (if value = ''local_dev_untrusted'' then Inr LocalDevUntrusted
      else if value = ''local_mac'' then Inr LocalMac
      else if value = ''ed25519_node'' then Inr Ed25519Node
      else if value = ''ed25519_verifier'' then Inr Ed25519Verifier
      else if value = ''ed25519_node_and_verifier'' then Inr Ed25519NodeAndVerifier
      else if value = ''external_anchor'' then Inr ExternalAnchor
      else Inl InvalidReceiptField)"

definition to_output_projection ::
  "PublicAuditOutputProjection option \<Rightarrow> PublicAuditVerificationError + ReceiptOutputProjection option" where
  "to_output_projection projection = (case projection of
       None \<Rightarrow> Inr None
     | Some p \<Rightarrow> rbind (fixed_hex 32 (po_digest_sha256_hex p)) (\<lambda>digest.
         Inr (Some \<lparr>ro_schema_id = po_schema_id p, ro_byte_count = po_byte_count p, ro_digest_sha256 = digest\<rparr>)))"

definition to_receipt :: "PublicAuditReceiptEntry \<Rightarrow> PublicAuditVerificationError + Receipt" where
  "to_receipt e =
     rbind (parse_kind (pe_kind e)) (\<lambda>kind.
     rbind (fixed_hex 32 (pe_packet_hash_hex e)) (\<lambda>packet_hash.
     rbind (fixed_hex 16 (pe_session_id_hex e)) (\<lambda>session_id.
     rbind (fixed_hex 12 (pe_nonce_hex e)) (\<lambda>nonce.
     rbind (parse_decision (pe_decision e)) (\<lambda>decision.
     rbind (parse_authenticator_kind (pe_authenticator_kind e)) (\<lambda>authenticator_kind.
     rbind (to_output_projection (pe_output_projection e)) (\<lambda>output_projection.
     rbind (audit_decode_hex (pe_signature_hex e)) (\<lambda>signature.
       Inr \<lparr>rc_schema_version = pe_schema_version e, rc_receipt_id = pe_receipt_id e, rc_context_id = pe_context_id e,
         rc_kind = kind, rc_packet_hash = packet_hash, rc_session_id = session_id, rc_nonce = nonce,
         rc_opcode = pe_opcode e, rc_operation = pe_operation e, rc_decision = decision, rc_reason = pe_reason e,
         rc_handler_id = pe_handler_id e, rc_timestamp = pe_timestamp e,
         rc_authenticator_kind = authenticator_kind, rc_signer_key_id = pe_signer_key_id e,
         rc_evidence_summary = pe_evidence_summary e, rc_output_projection = output_projection,
         rc_signature = signature\<rparr>))))))))"

text \<open>The version rules of one entry.\<close>

definition entry_shape :: "bool \<Rightarrow> PublicAuditReceiptEntry \<Rightarrow> PublicAuditVerificationError + unit" where
  "entry_shape supported_v1 e =
     (if supported_v1
      then if pe_schema_version e \<notin> {1, 2} \<or> pe_output_projection e \<noteq> None then Inl UnsupportedBundleVersion else Inr ()
      else if pe_schema_version e \<notin> {1, 2, 3} \<or> (pe_schema_version e < 3 \<and> pe_output_projection e \<noteq> None)
        \<or> (pe_output_projection e \<noteq> None \<and> (pe_kind e \<noteq> ''execute'' \<or> pe_decision e \<noteq> ''accepted''))
      then Inl InvalidReceiptField else Inr ())"

text \<open>The text of an entry must not mention the fields that are never exported.\<close>

definition discloses_raw_fields :: "audit_platform \<Rightarrow> PublicAuditReceiptEntry \<Rightarrow> bool" where
  "discloses_raw_fields P e \<longleftrightarrow>
     str_contains ''raw_payload'' (au_json_text P (entry_json e)) \<or>
     str_contains ''raw_private_evidence'' (au_json_text P (entry_json e))"

definition verify_entry ::
  "audit_platform \<Rightarrow> PublicAuditBundle \<Rightarrow> nat \<Rightarrow> string option \<Rightarrow> PublicAuditReceiptEntry \<Rightarrow>
     PublicAuditVerificationError + unit" where
  "verify_entry P b index expected_previous e =
     rbind (entry_shape (pb_version b = PUBLIC_AUDIT_BUNDLE_VERSION_V1 \<and>
       pc_algorithm_version (pb_chain b) = PUBLIC_AUDIT_CHAIN_ALGORITHM_VERSION_V1) e) (\<lambda>_.
     if pe_chain_index e \<noteq> index then Inl ReceiptChainLinkMismatch
     else if pe_previous_entry_hash_hex e \<noteq> expected_previous then Inl ReceiptChainLinkMismatch
     else if pe_entry_hash_hex e \<noteq> public_audit_entry_hash_for P e (pc_algorithm_version (pb_chain b))
     then Inl ReceiptEntryHashMismatch
     else if discloses_raw_fields P e then Inl RedactionViolation
     else rbind (ok_or UnknownSignerKey
         (find (\<lambda>s. ps_signer_key_id s = pe_signer_key_id e) (pb_signer_keys b))) (\<lambda>signer.
       rbind (verifying_key_from_hex P (ps_public_key_hex signer)) (\<lambda>public_key.
       rbind (to_receipt e) (\<lambda>receipt.
       map_err (\<lambda>_. InvalidReceiptSignature)
         (receipt_verify_ed25519_with_key (au_crypto P) (au_bincode P) receipt public_key)))))"

fun verify_entries ::
  "audit_platform \<Rightarrow> PublicAuditBundle \<Rightarrow> nat \<Rightarrow> string option \<Rightarrow> PublicAuditReceiptEntry list \<Rightarrow>
     PublicAuditVerificationError + unit" where
  "verify_entries P b index previous [] = Inr ()"
| "verify_entries P b index previous (e # es) =
     rbind (verify_entry P b index previous e) (\<lambda>_.
       verify_entries P b (Suc index) (Some (pe_entry_hash_hex e)) es)"

definition supported_versions :: "PublicAuditBundle \<Rightarrow> bool" where
  "supported_versions b \<longleftrightarrow>
     pb_version b = PUBLIC_AUDIT_BUNDLE_VERSION_V1 \<and>
       pc_algorithm_version (pb_chain b) = PUBLIC_AUDIT_CHAIN_ALGORITHM_VERSION_V1 \<or>
     pb_version b = PUBLIC_AUDIT_BUNDLE_VERSION \<and>
       pc_algorithm_version (pb_chain b) = PUBLIC_AUDIT_CHAIN_ALGORITHM_VERSION"

definition verify_local_public_audit :: "audit_platform \<Rightarrow> PublicAuditBundle \<Rightarrow> PublicAuditVerificationError + unit" where
  "verify_local_public_audit P b =
     (if \<not> supported_versions b then Inl UnsupportedBundleVersion
      else if pb_status b \<noteq> Complete \<or> \<not> pc_complete (pb_chain b) then Inl IncompleteBundle
      else if pc_receipt_count (pb_chain b) \<noteq> length (pb_receipts b) then Inl ReceiptCountMismatch
      else if pb_receipts b = [] then Inl IncompleteBundle
      else rbind (verify_entries P b 0 None (pb_receipts b)) (\<lambda>_.
        if pc_first_receipt_id (pb_chain b) \<noteq> pe_receipt_id (hd (pb_receipts b))
          \<or> pc_last_receipt_id (pb_chain b) \<noteq> pe_receipt_id (last (pb_receipts b))
        then Inl ChainEndpointMismatch
        else if pc_root_hash_hex (pb_chain b)
          \<noteq> public_audit_root_hash_for P (pb_receipts b) (pb_version b) (pc_algorithm_version (pb_chain b))
        then Inl ChainRootMismatch
        else Inr ()))"

section \<open>Anchors and publishers\<close>

definition GITHUB_GIST_ANCHOR_SCHEMA_VERSION :: string where
  "GITHUB_GIST_ANCHOR_SCHEMA_VERSION = ''secs-public-audit-github-gist-anchor-v1''"

definition GITHUB_GIST_TARGET_KIND :: string where
  "GITHUB_GIST_TARGET_KIND = ''github-gist''"

record ExternalAuditAnchorRecord =
  ea_anchor_schema_version :: string
  ea_target_kind :: string
  ea_target_ref :: string
  ea_bundle_version :: string
  ea_chain_algorithm_version :: string
  ea_chain_scope :: string
  ea_root_hash_hex :: string
  ea_receipt_count :: nat
  ea_published_at :: u64
  ea_verifier_command :: string

definition anchor_from_bundle :: "PublicAuditBundle \<Rightarrow> string \<Rightarrow> string \<Rightarrow> u64 \<Rightarrow> ExternalAuditAnchorRecord" where
  "anchor_from_bundle b target_kind target_ref published_at =
     \<lparr>ea_anchor_schema_version = GITHUB_GIST_ANCHOR_SCHEMA_VERSION, ea_target_kind = target_kind,
      ea_target_ref = target_ref, ea_bundle_version = pb_version b,
      ea_chain_algorithm_version = pc_algorithm_version (pb_chain b), ea_chain_scope = pc_chain_scope (pb_chain b),
      ea_root_hash_hex = pc_root_hash_hex (pb_chain b), ea_receipt_count = pc_receipt_count (pb_chain b),
      ea_published_at = published_at, ea_verifier_command = ''secz audit verify <bundle.json>''\<rparr>"

text \<open>The error names the first field that differs.\<close>

definition verify_external_audit_anchor_record ::
  "audit_platform \<Rightarrow> PublicAuditBundle \<Rightarrow> ExternalAuditAnchorRecord \<Rightarrow> string + unit" where
  "verify_external_audit_anchor_record P b a =
     (if \<not> is_ok (verify_local_public_audit P b) then Inl ''bundle''
      else if ea_anchor_schema_version a \<noteq> GITHUB_GIST_ANCHOR_SCHEMA_VERSION then Inl ''anchor_schema_version''
      else if ea_target_kind a \<noteq> GITHUB_GIST_TARGET_KIND then Inl ''target_kind''
      else if ea_bundle_version a \<noteq> pb_version b then Inl ''bundle_version''
      else if ea_chain_algorithm_version a \<noteq> pc_algorithm_version (pb_chain b) then Inl ''chain_algorithm_version''
      else if ea_chain_scope a \<noteq> pc_chain_scope (pb_chain b) then Inl ''chain_scope''
      else if ea_root_hash_hex a \<noteq> pc_root_hash_hex (pb_chain b) then Inl ''root_hash_hex''
      else if ea_receipt_count a \<noteq> pc_receipt_count (pb_chain b) then Inl ''receipt_count''
      else Inr ())"

datatype PublicAuditPublicationStatus = Pending | Published | Failed

record PublicAuditPublishOutcome =
  pu_target_kind :: string
  pu_target_ref_digest_hex :: "string option"
  pu_status :: PublicAuditPublicationStatus
  pu_error :: "string option"

type_synonym AuditPublisher = "PublicAuditBundle \<Rightarrow> PublicAuditPublishOutcome"

definition redact_publication_error :: "string \<Rightarrow> string" where
  "redact_publication_error error = trim (hd (split_on CHR '':'' error))"

definition local_publish :: "audit_platform \<Rightarrow> string \<Rightarrow> string \<Rightarrow> string option \<Rightarrow> AuditPublisher" where
  "local_publish P target_kind target_ref failure b = (case failure of
       Some error \<Rightarrow> \<lparr>pu_target_kind = target_kind, pu_target_ref_digest_hex = Some (sha256_hex P (as_bytes target_ref)),
         pu_status = Failed, pu_error = Some (redact_publication_error error)\<rparr>
     | None \<Rightarrow> \<lparr>pu_target_kind = target_kind, pu_target_ref_digest_hex = Some (sha256_hex P (as_bytes target_ref)),
         pu_status = Published, pu_error = None\<rparr>)"

definition gist_publish :: "audit_platform \<Rightarrow> string \<Rightarrow> string option \<Rightarrow> AuditPublisher" where
  "gist_publish P target_ref failure = local_publish P GITHUB_GIST_TARGET_KIND target_ref failure"

definition anchor_record ::
  "audit_platform \<Rightarrow> string \<Rightarrow> PublicAuditBundle \<Rightarrow> u64 \<Rightarrow> PublicAuditVerificationError + ExternalAuditAnchorRecord" where
  "anchor_record P target_ref b published_at =
     rbind (verify_local_public_audit P b) (\<lambda>_. Inr (anchor_from_bundle b GITHUB_GIST_TARGET_KIND target_ref published_at))"

section \<open>Export from the ledger\<close>

datatype PublicAuditExportError = ExportNotFound | IncompleteReceiptChain | ExportUnknownSignerKey | ExportDatabase sqlx_error

record PublicAuditReceiptRow =
  px_receipt_id :: string
  px_schema_version :: u16
  px_context_id :: "string option"
  px_timestamp :: u64
  px_kind :: string
  px_packet_hash :: bytes
  px_session_id :: bytes
  px_nonce :: bytes
  px_opcode :: u8
  px_operation :: "string option"
  px_decision :: string
  px_reason :: "string option"
  px_handler_id :: "string option"
  px_authenticator_kind :: string
  px_signer_key_id :: string
  px_evidence_summary :: "string list"
  px_output_projection :: "PublicAuditOutputProjection option"
  px_signature :: bytes

definition require_blob_len :: "bytes \<Rightarrow> nat \<Rightarrow> sqlx_error + unit" where
  "require_blob_len bs expected = (if length bs = expected then Inr () else Inl ProtocolError)"

text \<open>The three output columns of a row are all set, and then only for an accepted execution, or all null.
  The stored count is never negative.\<close>

definition output_projection_from_row :: "ReceiptRow \<Rightarrow> sqlx_error + PublicAuditOutputProjection option" where
  "output_projection_from_row row =
     (case (tr_output_schema_id row, tr_output_byte_count row, tr_output_digest_sha256 row) of
        (None, None, None) \<Rightarrow> Inr None
      | (Some schema_id, Some byte_count, Some digest) \<Rightarrow>
          if schema_id = [] \<or> tr_kind row \<noteq> ''execute'' \<or> tr_decision row \<noteq> ''accepted'' then Inl ProtocolError
          else rbind (require_blob_len digest 32) (\<lambda>_.
            Inr (Some \<lparr>po_schema_id = schema_id, po_byte_count = word_of_nat byte_count,
                       po_digest_sha256_hex = hex_lower digest\<rparr>))
      | _ \<Rightarrow> Inl ProtocolError)"

definition public_audit_row :: "ReceiptRow \<Rightarrow> sqlx_error + PublicAuditReceiptRow" where
  "public_audit_row row = rbind (output_projection_from_row row) (\<lambda>output_projection.
     Inr \<lparr>px_receipt_id = tr_receipt_id row, px_schema_version = tr_schema_version row,
       px_context_id = tr_context_id row, px_timestamp = word_of_int (tr_timestamp row), px_kind = tr_kind row,
       px_packet_hash = tr_packet_hash row, px_session_id = tr_session_id row, px_nonce = tr_nonce row,
       px_opcode = tr_opcode row, px_operation = tr_operation row, px_decision = tr_decision row,
       px_reason = tr_reason row, px_handler_id = tr_handler_id row,
       px_authenticator_kind = tr_authenticator_kind row, px_signer_key_id = tr_signer_key_id row,
       px_evidence_summary = tr_evidence_summary row, px_output_projection = output_projection,
       px_signature = tr_signature row\<rparr>)"

fun collect_rows :: "('a \<Rightarrow> 'e + 'b) \<Rightarrow> 'a list \<Rightarrow> 'e + 'b list" where
  "collect_rows f [] = Inr []"
| "collect_rows f (x # xs) = rbind (f x) (\<lambda>y. rbind (collect_rows f xs) (\<lambda>ys. Inr (y # ys)))"

text \<open>The order of a context's receipts: time, then kind, then id, compared byte by byte.\<close>

definition kind_rank :: "string \<Rightarrow> nat" where
  "kind_rank kind = (if kind = ''verify'' then 0 else if kind = ''execute'' then 1 else if kind = ''reject'' then 2
     else if kind = ''forward'' then 3 else 4)"

definition byte_order :: "string \<Rightarrow> nat list" where
  "byte_order s = map of_char s"

definition receipts_for_context :: "string \<Rightarrow> ReceiptRow list \<Rightarrow> ReceiptRow list" where
  "receipts_for_context context_id rows =
     sort_key (\<lambda>r. (tr_timestamp r, kind_rank (tr_kind r), byte_order (tr_receipt_id r)))
       (filter (\<lambda>r. tr_context_id r = Some context_id) rows)"

definition public_audit_receipts_for_context ::
  "(nat \<Rightarrow> bool) \<Rightarrow> string \<Rightarrow> ('a Db_scheme, sqlx_error + PublicAuditReceiptRow list) state" where
  "public_audit_receipts_for_context F context_id = run_query F (\<lambda>db.
     (collect_rows public_audit_row (receipts_for_context context_id (db_receipts db)), db))"

definition entry_of_row ::
  "audit_platform \<Rightarrow> nat \<Rightarrow> string option \<Rightarrow> PublicAuditReceiptRow \<Rightarrow> PublicAuditReceiptEntry" where
  "entry_of_row P chain_index previous row =
     (let e = \<lparr>pe_chain_index = chain_index, pe_previous_entry_hash_hex = previous, pe_receipt_id = px_receipt_id row,
        pe_schema_version = px_schema_version row, pe_context_id = px_context_id row,
        pe_timestamp = px_timestamp row, pe_kind = px_kind row, pe_decision = px_decision row,
        pe_reason = px_reason row, pe_operation = px_operation row, pe_handler_id = px_handler_id row,
        pe_opcode = px_opcode row, pe_packet_hash_hex = hex_lower (px_packet_hash row),
        pe_session_id_hex = hex_lower (px_session_id row), pe_nonce_hex = hex_lower (px_nonce row),
        pe_authenticator_kind = px_authenticator_kind row, pe_signer_key_id = px_signer_key_id row,
        pe_signature_hex = hex_lower (px_signature row), pe_evidence_summary = px_evidence_summary row,
        pe_output_projection = px_output_projection row, pe_entry_hash_hex = []\<rparr> in
      e\<lparr>pe_entry_hash_hex := public_audit_entry_hash P e\<rparr>)"

fun chain_entries ::
  "audit_platform \<Rightarrow> nat \<Rightarrow> string option \<Rightarrow> PublicAuditReceiptRow list \<Rightarrow> PublicAuditReceiptEntry list" where
  "chain_entries P index previous [] = []"
| "chain_entries P index previous (row # rows) =
     (let e = entry_of_row P index previous row in
      e # chain_entries P (Suc index) (Some (pe_entry_hash_hex e)) rows)"

definition sorted_signer_keys :: "(string \<times> bytes) list \<Rightarrow> PublicAuditSignerKey list" where
  "sorted_signer_keys keys = sort_key (\<lambda>s. byte_order (ps_signer_key_id s))
     (map (\<lambda>(k, pk). \<lparr>ps_signer_key_id = k, ps_public_key_hex = hex_lower pk\<rparr>) keys)"

definition public_audit_bundle_from_rows ::
  "audit_platform \<Rightarrow> string \<Rightarrow> (string \<times> bytes) list \<Rightarrow> u64 \<Rightarrow> PublicAuditReceiptRow list \<Rightarrow>
     PublicAuditExportError + PublicAuditBundle" where
  "public_audit_bundle_from_rows P context_id keys exported_at rows =
     (let signer_keys = sorted_signer_keys keys in
      if rows = [] then Inl ExportNotFound
      else if list_ex (\<lambda>row. px_signature row = []) rows then Inl IncompleteReceiptChain
      else if list_ex (\<lambda>row. \<not> list_ex (\<lambda>s. ps_signer_key_id s = px_signer_key_id row) signer_keys) rows
      then Inl ExportUnknownSignerKey
      else let receipts = chain_entries P 0 None rows in
        Inr \<lparr>pb_version = PUBLIC_AUDIT_BUNDLE_VERSION, pb_redaction_policy = DefaultNoPayloadOrPrivateEvidence,
          pb_status = Complete, pb_exported_at = exported_at,
          pb_chain = \<lparr>pc_algorithm_version = PUBLIC_AUDIT_CHAIN_ALGORITHM_VERSION,
            pc_chain_scope = ''context:'' @ context_id, pc_root_hash_hex = public_audit_root_hash P receipts,
            pc_first_receipt_id = pe_receipt_id (hd receipts), pc_last_receipt_id = pe_receipt_id (last receipts),
            pc_receipt_count = length receipts, pc_complete = True\<rparr>,
          pb_signer_keys = signer_keys, pb_receipts = receipts\<rparr>)"

definition export_public_audit_bundle_for_context ::
  "audit_platform \<Rightarrow> (nat \<Rightarrow> bool) \<Rightarrow> string \<Rightarrow> (string \<times> bytes) list \<Rightarrow> u64 \<Rightarrow>
     ('a Db_scheme, PublicAuditExportError + PublicAuditBundle) state" where
  "export_public_audit_bundle_for_context P F context_id keys exported_at = do {
     rows \<leftarrow> public_audit_receipts_for_context F context_id;
     State_Monad.return (rbind (map_err ExportDatabase rows)
       (public_audit_bundle_from_rows P context_id keys exported_at)) }"

fun position :: "('a \<Rightarrow> bool) \<Rightarrow> 'a list \<Rightarrow> nat option" where
  "position f [] = None"
| "position f (x # xs) = (if f x then Some 0 else map_option Suc (position f xs))"

definition select_range ::
  "string \<Rightarrow> string \<Rightarrow> PublicAuditReceiptRow list \<Rightarrow> PublicAuditExportError + PublicAuditReceiptRow list" where
  "select_range first_receipt_id last_receipt_id rows =
     rbind (ok_or IncompleteReceiptChain (position (\<lambda>r. px_receipt_id r = first_receipt_id) rows)) (\<lambda>start.
     rbind (ok_or IncompleteReceiptChain (position (\<lambda>r. px_receipt_id r = last_receipt_id) rows)) (\<lambda>last.
       if last < start then Inl IncompleteReceiptChain else Inr (take (Suc last - start) (drop start rows))))"

definition export_public_audit_bundle_for_context_range ::
  "audit_platform \<Rightarrow> (nat \<Rightarrow> bool) \<Rightarrow> string \<Rightarrow> string \<Rightarrow> string \<Rightarrow> (string \<times> bytes) list \<Rightarrow> u64 \<Rightarrow>
     ('a Db_scheme, PublicAuditExportError + PublicAuditBundle) state" where
  "export_public_audit_bundle_for_context_range P F context_id first_receipt_id last_receipt_id keys exported_at = do {
     rows \<leftarrow> public_audit_receipts_for_context F context_id;
     State_Monad.return (rbind (map_err ExportDatabase rows) (\<lambda>rows.
       rbind (select_range first_receipt_id last_receipt_id rows)
         (public_audit_bundle_from_rows P context_id keys exported_at))) }"

section \<open>The publication log\<close>

datatype PublicAuditPublicationError = BundleVerificationFailed | PublicationDatabase sqlx_error

record PublicAuditPublicationRecord =
  pp_idempotency_key :: string
  pp_bundle_version :: string
  pp_chain_algorithm_version :: string
  pp_chain_scope :: string
  pp_root_hash_hex :: string
  pp_receipt_count :: nat
  pp_target_kind :: string
  pp_target_ref_digest_hex :: "string option"
  pp_status :: PublicAuditPublicationStatus
  pp_attempt_count :: nat
  pp_last_error :: "string option"
  pp_published_at :: "u64 option"
  pp_updated_at :: u64

record AuditDb = Db +
  db_audit_publication_status :: "PublicAuditPublicationRecord list"

definition public_audit_publication_idempotency_key ::
  "audit_platform \<Rightarrow> string \<Rightarrow> string \<Rightarrow> string \<Rightarrow> string \<Rightarrow> nat \<Rightarrow> string \<Rightarrow> string" where
  "public_audit_publication_idempotency_key P bundle_version chain_version chain_scope root_hash_hex receipt_count
       target_kind =
     sha256_hex P (as_bytes (bundle_version @ ''|'' @ chain_version @ ''|'' @ chain_scope @ ''|'' @ root_hash_hex
       @ ''|'' @ dec_string receipt_count @ ''|'' @ target_kind))"

definition bundle_idempotency_key :: "audit_platform \<Rightarrow> PublicAuditBundle \<Rightarrow> string \<Rightarrow> string" where
  "bundle_idempotency_key P b target_kind = public_audit_publication_idempotency_key P (pb_version b)
     (pc_algorithm_version (pb_chain b)) (pc_chain_scope (pb_chain b)) (pc_root_hash_hex (pb_chain b))
     (pc_receipt_count (pb_chain b)) target_kind"

text \<open>\<^verbatim>\<open>INSERT ... ON CONFLICT(idempotency_key) DO UPDATE\<close>.\<close>

fun upsert_publication ::
  "PublicAuditPublicationRecord \<Rightarrow> PublicAuditPublicationRecord list \<Rightarrow> PublicAuditPublicationRecord list" where
  "upsert_publication row [] = [row]"
| "upsert_publication row (r # rs) =
     (if pp_idempotency_key r = pp_idempotency_key row
      then r\<lparr>pp_target_ref_digest_hex := pp_target_ref_digest_hex row, pp_status := pp_status row,
             pp_attempt_count := pp_attempt_count r + 1, pp_last_error := pp_last_error row,
             pp_published_at := (case pp_published_at row of None \<Rightarrow> pp_published_at r | Some t \<Rightarrow> Some t),
             pp_updated_at := pp_updated_at row\<rparr> # rs
      else r # upsert_publication row rs)"

definition publication_row ::
  "audit_platform \<Rightarrow> PublicAuditBundle \<Rightarrow> PublicAuditPublishOutcome \<Rightarrow> u64 \<Rightarrow> PublicAuditPublicationRecord" where
  "publication_row P b outcome now =
     \<lparr>pp_idempotency_key = bundle_idempotency_key P b (pu_target_kind outcome), pp_bundle_version = pb_version b,
      pp_chain_algorithm_version = pc_algorithm_version (pb_chain b), pp_chain_scope = pc_chain_scope (pb_chain b),
      pp_root_hash_hex = pc_root_hash_hex (pb_chain b), pp_receipt_count = pc_receipt_count (pb_chain b),
      pp_target_kind = pu_target_kind outcome, pp_target_ref_digest_hex = pu_target_ref_digest_hex outcome,
      pp_status = pu_status outcome, pp_attempt_count = 1, pp_last_error = pu_error outcome,
      pp_published_at = (if pu_status outcome = Published then Some now else None), pp_updated_at = now\<rparr>"

definition audit_publication_status_by_idempotency_key ::
  "(nat \<Rightarrow> bool) \<Rightarrow> string \<Rightarrow> ('a AuditDb_scheme, sqlx_error + PublicAuditPublicationRecord option) state" where
  "audit_publication_status_by_idempotency_key F key = run_query F (\<lambda>db.
     (Inr (find (\<lambda>r. pp_idempotency_key r = key) (db_audit_publication_status db)), db))"

definition audit_publication_statuses_for_root ::
  "(nat \<Rightarrow> bool) \<Rightarrow> string \<Rightarrow> ('a AuditDb_scheme, sqlx_error + PublicAuditPublicationRecord list) state" where
  "audit_publication_statuses_for_root F root_hash_hex = run_query F (\<lambda>db.
     (Inr (sort_key (\<lambda>r. (byte_order (pp_target_kind r), byte_order (pp_idempotency_key r)))
        (filter (\<lambda>r. pp_root_hash_hex r = root_hash_hex) (db_audit_publication_status db))), db))"

definition publish_public_audit_bundle ::
  "audit_platform \<Rightarrow> (nat \<Rightarrow> bool) \<Rightarrow> PublicAuditBundle \<Rightarrow> AuditPublisher \<Rightarrow> u64 \<Rightarrow>
     ('a AuditDb_scheme, PublicAuditPublicationError + PublicAuditPublicationRecord) state" where
  "publish_public_audit_bundle P F b publisher now =
     (if \<not> is_ok (verify_local_public_audit P b) then State_Monad.return (Inl BundleVerificationFailed)
      else let outcome = publisher b in do {
        stored \<leftarrow> run_query F (\<lambda>db. (Inr (), db\<lparr>db_audit_publication_status :=
          upsert_publication (publication_row P b outcome now) (db_audit_publication_status db)\<rparr>));
        case stored of
          Inl e \<Rightarrow> State_Monad.return (Inl (PublicationDatabase e))
        | Inr _ \<Rightarrow> do {
            found \<leftarrow> audit_publication_status_by_idempotency_key F (bundle_idempotency_key P b (pu_target_kind outcome));
            State_Monad.return (rbind (map_err PublicationDatabase found)
              (ok_or (PublicationDatabase RowNotFound))) } })"

section \<open>The operator's view of a receipt\<close>

definition LEDGER_REDACTION_POLICY :: string where
  "LEDGER_REDACTION_POLICY = ''local_redacted_no_payload_or_private_evidence_by_default''"

definition LEDGER_RETENTION_POLICY :: string where
  "LEDGER_RETENTION_POLICY = ''local_sqlite_operator_retained_until_database_rotation_or_deletion''"

record OperatorReceiptInspection =
  oi_export_schema_version :: u16
  oi_schema_version :: u16
  oi_redaction_policy :: string
  oi_retention_policy :: string
  oi_receipt_id :: string
  oi_context_id :: "string option"
  oi_timestamp :: u64
  oi_kind :: string
  oi_decision :: string
  oi_reason :: "string option"
  oi_operation :: "string option"
  oi_handler_id :: "string option"
  oi_opcode :: u8
  oi_packet_hash_hex :: string
  oi_session_id_hex :: string
  oi_nonce_hex :: string
  oi_authenticator_kind :: string
  oi_signer_key_id :: string
  oi_signature_present :: bool
  oi_signature_len :: nat
  oi_signature_sha256_hex :: "string option"
  oi_evidence_summary :: "string list"
  oi_output_projection :: "PublicAuditOutputProjection option"

definition operator_inspection_from_row :: "audit_platform \<Rightarrow> ReceiptRow \<Rightarrow> sqlx_error + OperatorReceiptInspection" where
  "operator_inspection_from_row P row =
     rbind (output_projection_from_row row) (\<lambda>output_projection.
     if tr_timestamp row < 0 then Inl ProtocolError
     else rbind (require_blob_len (tr_packet_hash row) 32) (\<lambda>_.
       rbind (require_blob_len (tr_session_id row) 16) (\<lambda>_.
       rbind (require_blob_len (tr_nonce row) 12) (\<lambda>_.
       Inr \<lparr>oi_export_schema_version = tr_schema_version row, oi_schema_version = tr_schema_version row,
         oi_redaction_policy = LEDGER_REDACTION_POLICY, oi_retention_policy = LEDGER_RETENTION_POLICY,
         oi_receipt_id = tr_receipt_id row, oi_context_id = tr_context_id row,
         oi_timestamp = word_of_int (tr_timestamp row), oi_kind = tr_kind row, oi_decision = tr_decision row,
         oi_reason = tr_reason row, oi_operation = tr_operation row, oi_handler_id = tr_handler_id row,
         oi_opcode = tr_opcode row, oi_packet_hash_hex = hex_lower (tr_packet_hash row),
         oi_session_id_hex = hex_lower (tr_session_id row), oi_nonce_hex = hex_lower (tr_nonce row),
         oi_authenticator_kind = tr_authenticator_kind row, oi_signer_key_id = tr_signer_key_id row,
         oi_signature_present = (tr_signature row \<noteq> []), oi_signature_len = length (tr_signature row),
         oi_signature_sha256_hex = (if tr_signature row = [] then None else Some (sha256_hex P (tr_signature row))),
         oi_evidence_summary = tr_evidence_summary row, oi_output_projection = output_projection\<rparr>))))"

definition inspect_receipt_by_id ::
  "audit_platform \<Rightarrow> (nat \<Rightarrow> bool) \<Rightarrow> string \<Rightarrow> ('a Db_scheme, sqlx_error + OperatorReceiptInspection option) state" where
  "inspect_receipt_by_id P F receipt_id = run_query F (\<lambda>db.
     (case find (\<lambda>r. tr_receipt_id r = receipt_id) (db_receipts db) of
        None \<Rightarrow> Inr None
      | Some row \<Rightarrow> rbind (operator_inspection_from_row P row) (\<lambda>i. Inr (Some i)), db))"

definition inspect_receipt_chain_by_context_id ::
  "audit_platform \<Rightarrow> (nat \<Rightarrow> bool) \<Rightarrow> string \<Rightarrow> ('a Db_scheme, sqlx_error + OperatorReceiptInspection list) state" where
  "inspect_receipt_chain_by_context_id P F context_id = run_query F (\<lambda>db.
     (collect_rows (operator_inspection_from_row P) (receipts_for_context context_id (db_receipts db)), db))"

text \<open>The serialised inspection, by receipt version.\<close>

definition wire_v1 :: "OperatorReceiptInspection \<Rightarrow> (string \<times> json) list" where
  "wire_v1 i =
     [(''export_schema_version'', JNumber (Some (ucast (oi_schema_version i)))),
      (''schema_version'', JNumber (Some (ucast (oi_schema_version i)))),
      (''redaction_policy'', JString (oi_redaction_policy i)),
      (''retention_policy'', JString (oi_retention_policy i)),
      (''receipt_id'', JString (oi_receipt_id i)),
      (''context_id'', json_opt (oi_context_id i)),
      (''timestamp'', JNumber (Some (oi_timestamp i))),
      (''kind'', JString (oi_kind i)),
      (''decision'', JString (oi_decision i)),
      (''reason'', json_opt (oi_reason i)),
      (''operation'', json_opt (oi_operation i)),
      (''handler_id'', json_opt (oi_handler_id i)),
      (''opcode'', JNumber (Some (ucast (oi_opcode i)))),
      (''packet_hash_hex'', JString (oi_packet_hash_hex i)),
      (''session_id_hex'', JString (oi_session_id_hex i)),
      (''nonce_hex'', JString (oi_nonce_hex i)),
      (''authenticator_kind'', JString (oi_authenticator_kind i)),
      (''signer_key_id'', JString (oi_signer_key_id i)),
      (''signature_present'', JBool (oi_signature_present i)),
      (''signature_len'', JNumber (Some (word_of_nat (oi_signature_len i)))),
      (''signature_sha256_hex'', json_opt (oi_signature_sha256_hex i))]"

definition wire_v2 :: "OperatorReceiptInspection \<Rightarrow> (string \<times> json) list" where
  "wire_v2 i = wire_v1 i @ [(''evidence_summary'', JArray (map JString (oi_evidence_summary i)))]"

definition wire_v3 :: "OperatorReceiptInspection \<Rightarrow> (string \<times> json) list" where
  "wire_v3 i = wire_v2 i @ [(''output_projection'',
     case oi_output_projection i of None \<Rightarrow> JNull | Some p \<Rightarrow> output_projection_json p)]"

definition serialize_inspection :: "OperatorReceiptInspection \<Rightarrow> string + json" where
  "serialize_inspection i =
     (if oi_export_schema_version i \<noteq> oi_schema_version i
      then Inl ''operator export version does not match persisted receipt schema''
      else if oi_schema_version i = 1
      then if oi_evidence_summary i = [] \<and> oi_output_projection i = None then Inr (JObject (wire_v1 i))
           else Inl ''operator v1 cannot disclose evidence or output projection''
      else if oi_schema_version i = 2
      then if oi_output_projection i = None then Inr (JObject (wire_v2 i))
           else Inl ''operator v2 cannot disclose output projection''
      else if oi_schema_version i = 3
      then if oi_output_projection i = None \<or> oi_kind i = ''execute'' \<and> oi_decision i = ''accepted''
           then Inr (JObject (wire_v3 i))
           else Inl ''operator v3 projection requires an accepted execute receipt''
      else Inl ''unsupported persisted receipt schema for operator export'')"

datatype OperatorReceiptExportError = Malformed | UnsupportedVersion | CrossVersionShape | InvalidProjection

definition operator_common_keys :: "string set" where
  "operator_common_keys =
     {''export_schema_version'', ''schema_version'', ''redaction_policy'', ''retention_policy'', ''receipt_id'',
      ''context_id'', ''timestamp'', ''kind'', ''decision'', ''reason'', ''operation'', ''handler_id'', ''opcode'',
      ''packet_hash_hex'', ''session_id_hex'', ''nonce_hex'', ''authenticator_kind'', ''signer_key_id'',
      ''signature_present'', ''signature_len'', ''signature_sha256_hex''}"

definition lower_hex_digest :: "string \<Rightarrow> bool" where
  "lower_hex_digest digest \<longleftrightarrow> length digest = 64 \<and>
     list_all (\<lambda>c. (48 \<le> (of_char c :: nat) \<and> (of_char c :: nat) \<le> 57) \<or> (97 \<le> (of_char c :: nat) \<and> (of_char c :: nat) \<le> 102)) digest"

text \<open>Indexing an object with a key it does not have panics.\<close>

definition index_key :: "(string \<times> json) list \<Rightarrow> string \<Rightarrow> panicked + json" where
  "index_key members k = ok_or Panicked (map_of members k)"

definition projection_valid :: "(string \<times> json) list \<Rightarrow> (string \<times> json) list \<Rightarrow> panicked + bool" where
  "projection_valid members projection =
     rbind (index_key projection ''schema_id'') (\<lambda>schema_id.
     rbind (index_key projection ''digest_sha256_hex'') (\<lambda>digest.
       if fst ` set projection \<noteq> {''schema_id'', ''byte_count'', ''digest_sha256_hex''}
         \<or> \<not> (case json_as_str schema_id of Some schema \<Rightarrow> schema \<noteq> [] | None \<Rightarrow> False)
       then Inr False
       else rbind (index_key projection ''byte_count'') (\<lambda>byte_count.
         if json_as_u64 byte_count = None
           \<or> \<not> (case json_as_str digest of Some d \<Rightarrow> lower_hex_digest d | None \<Rightarrow> False)
         then Inr False
         else rbind (index_key members ''kind'') (\<lambda>kind.
           rbind (index_key members ''decision'') (\<lambda>decision.
           Inr (json_as_str kind = Some ''execute'' \<and> json_as_str decision = Some ''accepted''))))))"

definition validate_operator_receipt_export_json ::
  "(string \<Rightarrow> json option) \<Rightarrow> string \<Rightarrow> panicked + (OperatorReceiptExportError + unit)" where
  "validate_operator_receipt_export_json parse text = (case parse text of
       Some (JObject members) \<Rightarrow> (case Option.bind (map_of members ''export_schema_version'') json_as_u64 of
           None \<Rightarrow> Inr (Inl Malformed)
         | Some version \<Rightarrow>
             if version \<notin> {1, 2, 3} then Inr (Inl UnsupportedVersion)
             else (case Option.bind (map_of members ''schema_version'') json_as_u64 of
                 None \<Rightarrow> Inr (Inl Malformed)
               | Some receipt_version \<Rightarrow>
                   if receipt_version \<noteq> version then Inr (Inl CrossVersionShape)
                   else if fst ` set members \<noteq> operator_common_keys \<union> (if version = 1 then {} else {''evidence_summary''})
                     \<union> (if version = 3 then {''output_projection''} else {})
                   then Inr (Inl CrossVersionShape)
                   else if version \<noteq> 3 then Inr (Inr ())
                   else rbind (index_key members ''output_projection'') (\<lambda>projection.
                     case projection of
                       JObject ps \<Rightarrow> rbind (projection_valid members ps) (\<lambda>ok.
                         Inr (if ok then Inr () else Inl InvalidProjection))
                     | JNull \<Rightarrow> Inr (Inr ())
                     | _ \<Rightarrow> Inr (Inl InvalidProjection))))
     | _ \<Rightarrow> Inr (Inl Malformed))"

section \<open>The command line\<close>

datatype PublicAuditCliError = ReadBundleFailed | ParseBundleFailed | CliVerification PublicAuditVerificationError | CliAnchor string

record PublicAuditCliVerification =
  cv_valid :: bool
  cv_bundle_version :: string
  cv_chain_algorithm_version :: string
  cv_chain_scope :: string
  cv_root_hash_hex :: string
  cv_receipt_count :: nat
  cv_error :: "string option"

definition verify_public_audit_bundle ::
  "audit_platform \<Rightarrow> PublicAuditBundle \<Rightarrow> PublicAuditCliError + PublicAuditCliVerification" where
  "verify_public_audit_bundle P b =
     rbind (map_err CliVerification (verify_local_public_audit P b)) (\<lambda>_.
       Inr \<lparr>cv_valid = True, cv_bundle_version = pb_version b,
         cv_chain_algorithm_version = pc_algorithm_version (pb_chain b), cv_chain_scope = pc_chain_scope (pb_chain b),
         cv_root_hash_hex = pc_root_hash_hex (pb_chain b), cv_receipt_count = pc_receipt_count (pb_chain b),
         cv_error = None\<rparr>)"

definition verify_public_audit_bundle_file ::
  "audit_platform \<Rightarrow> (bytes \<Rightarrow> PublicAuditBundle option) \<Rightarrow> bytes option \<Rightarrow> PublicAuditCliError + PublicAuditCliVerification" where
  "verify_public_audit_bundle_file P parse contents =
     rbind (ok_or ReadBundleFailed contents) (\<lambda>bs.
     rbind (ok_or ParseBundleFailed (parse bs)) (verify_public_audit_bundle P))"

record PublicAuditCliAnchorVerification =
  ca_valid :: bool
  ca_target_kind :: string
  ca_target_ref :: string
  ca_root_hash_hex :: string
  ca_receipt_count :: nat

definition verify_public_audit_anchor_files ::
  "audit_platform \<Rightarrow> (bytes \<Rightarrow> PublicAuditBundle option) \<Rightarrow> (bytes \<Rightarrow> ExternalAuditAnchorRecord option) \<Rightarrow>
     bytes option \<Rightarrow> bytes option \<Rightarrow> PublicAuditCliError + PublicAuditCliAnchorVerification" where
  "verify_public_audit_anchor_files P parse_bundle parse_anchor bundle_contents anchor_contents =
     rbind (ok_or ReadBundleFailed bundle_contents) (\<lambda>bundle_bytes.
     rbind (ok_or ReadBundleFailed anchor_contents) (\<lambda>anchor_bytes.
     rbind (ok_or ParseBundleFailed (parse_bundle bundle_bytes)) (\<lambda>b.
     rbind (ok_or ParseBundleFailed (parse_anchor anchor_bytes)) (\<lambda>a.
     rbind (map_err CliAnchor (verify_external_audit_anchor_record P b a)) (\<lambda>_.
       Inr \<lparr>ca_valid = True, ca_target_kind = ea_target_kind a, ca_target_ref = ea_target_ref a,
            ca_root_hash_hex = ea_root_hash_hex a, ca_receipt_count = ea_receipt_count a\<rparr>)))))"

definition render_anchor_summary :: "PublicAuditCliAnchorVerification \<Rightarrow> string" where
  "render_anchor_summary v = ''external_anchor_valid='' @ bool_string (ca_valid v) @ '' target_kind='' @ ca_target_kind v
     @ '' target_ref='' @ ca_target_ref v @ '' root_hash_hex='' @ ca_root_hash_hex v @ '' receipt_count=''
     @ dec_string (ca_receipt_count v)"

definition render_summary :: "PublicAuditCliVerification \<Rightarrow> string" where
  "render_summary v = ''valid='' @ bool_string (cv_valid v) @ '' bundle_version='' @ cv_bundle_version v
     @ '' chain_algorithm_version='' @ cv_chain_algorithm_version v @ '' chain_scope='' @ cv_chain_scope v
     @ '' root_hash_hex='' @ cv_root_hash_hex v @ '' receipt_count='' @ dec_string (cv_receipt_count v)"

section \<open>Lemmas\<close>

subsection \<open>Hexadecimal fields\<close>

lemma decode_hex_pairs_hex_lower: "decode_hex_pairs (hex_lower bs) = Inr bs"
proof (induction bs)
  case (Cons b bs)
  have "word_of_nat (16 * (unat b div 16) + unat b mod 16) = b" by simp
  then show ?case
    using Cons hex_digit_cases [OF hex_byte_chars(2) [of b]] hex_digit_cases [OF hex_byte_chars(3) [of b]]
    by (simp add: hex_lower_def hex_byte_chars(1))
qed (simp add: hex_lower_def)

lemma audit_decode_hex_lower [simp]: "audit_decode_hex (hex_lower bs) = Inr bs"
  by (simp add: audit_decode_hex_def decode_hex_pairs_hex_lower)

lemma fixed_hex_lower [simp]: "length bs = n \<Longrightarrow> fixed_hex n (hex_lower bs) = Inr bs"
  by (simp add: fixed_hex_def)

lemma parse_as_str [simp]:
  "parse_kind (ReceiptKind_as_str k) = Inr k" "parse_decision (Decision_as_str d) = Inr d"
  "parse_authenticator_kind (AuthenticatorKind_as_str a) = Inr a"
  by (simp_all add: parse_kind_def ReceiptKind_as_str_def parse_decision_def Decision_as_str_def
      parse_authenticator_kind_def AuthenticatorKind_as_str_def split: ReceiptKind.split Decision.split AuthenticatorKind.split)

lemma word_of_int_as_i64 [simp]: "word_of_int (as_i64 w) = w"
  by (simp add: as_i64_def i64_limit_def)

subsection \<open>Receipts through the ledger\<close>

text \<open>A receipt whose fixed-size fields have their sizes.\<close>

definition receipt_sized :: "Receipt \<Rightarrow> bool" where
  "receipt_sized r \<longleftrightarrow> length (rc_packet_hash r) = 32 \<and> length (rc_session_id r) = 16 \<and> length (rc_nonce r) = 12 \<and>
     (case rc_output_projection r of None \<Rightarrow> True
      | Some p \<Rightarrow> unat (ro_byte_count p) < i64_limit \<and> length (ro_digest_sha256 p) = 32)"

definition projected :: "Receipt \<Rightarrow> PublicAuditOutputProjection option" where
  "projected r = map_option (\<lambda>p. \<lparr>po_schema_id = ro_schema_id p, po_byte_count = ro_byte_count p,
     po_digest_sha256_hex = hex_lower (ro_digest_sha256 p)\<rparr>) (rc_output_projection r)"

lemma output_projection_of_receipt:
  assumes "receipt_sized r" and "validate_output_projection r = Inr ()"
  shows "output_projection_from_row (receipt_row r) = Inr (projected r)"
  using assms
  by (cases "rc_output_projection r")
    (auto simp: output_projection_from_row_def receipt_row_def projected_def receipt_sized_def
      validate_output_projection_def require_blob_len_def ReceiptKind_as_str_def Decision_as_str_def split: if_splits)

lemma to_output_projection_projected:
  "receipt_sized r \<Longrightarrow> to_output_projection (projected r) = Inr (rc_output_projection r)"
  by (cases "rc_output_projection r") (simp_all add: to_output_projection_def projected_def receipt_sized_def)

lemma small_version: "1 \<le> (v :: u16) \<Longrightarrow> v \<le> 3 \<Longrightarrow> v \<in> {1, 2, 3}"
  unfolding word_le_nat_alt insert_iff empty_iff unat_eq_word [symmetric] by simp presburger

lemma public_audit_row_fields:
  assumes "public_audit_row row = Inr x"
  shows "px_receipt_id x = tr_receipt_id row" "px_schema_version x = tr_schema_version row"
    "px_context_id x = tr_context_id row" "px_timestamp x = word_of_int (tr_timestamp row)" "px_kind x = tr_kind row"
    "px_packet_hash x = tr_packet_hash row" "px_session_id x = tr_session_id row" "px_nonce x = tr_nonce row"
    "px_opcode x = tr_opcode row" "px_operation x = tr_operation row" "px_decision x = tr_decision row"
    "px_reason x = tr_reason row" "px_handler_id x = tr_handler_id row"
    "px_authenticator_kind x = tr_authenticator_kind row"
    "px_signer_key_id x = tr_signer_key_id row" "px_evidence_summary x = tr_evidence_summary row"
    "px_signature x = tr_signature row"
  using assms by (auto simp: public_audit_row_def result_simps)

lemma public_audit_row_receipt:
  assumes "receipt_sized r" and "validate_output_projection r = Inr ()"
  obtains x where "public_audit_row (receipt_row r) = Inr x" "px_signer_key_id x = rc_signer_key_id r"
    "\<And>P k prev. to_receipt (entry_of_row P k prev x) = Inr r"
    "\<And>P k prev. entry_shape False (entry_of_row P k prev x) = Inr ()"
proof -
  obtain x where x: "public_audit_row (receipt_row r) = Inr x" "px_output_projection x = projected r"
    by (simp add: public_audit_row_def output_projection_of_receipt [OF assms])
  then have fs: "px_receipt_id x = rc_receipt_id r" "px_schema_version x = rc_schema_version r"
    "px_context_id x = rc_context_id r" "px_timestamp x = rc_timestamp r" "px_kind x = ReceiptKind_as_str (rc_kind r)"
    "px_packet_hash x = rc_packet_hash r" "px_session_id x = rc_session_id r" "px_nonce x = rc_nonce r"
    "px_opcode x = rc_opcode r" "px_operation x = rc_operation r" "px_decision x = Decision_as_str (rc_decision r)"
    "px_reason x = rc_reason r" "px_handler_id x = rc_handler_id r"
    "px_authenticator_kind x = AuthenticatorKind_as_str (rc_authenticator_kind r)"
    "px_signer_key_id x = rc_signer_key_id r" "px_evidence_summary x = rc_evidence_summary r"
    "px_signature x = rc_signature r"
    using public_audit_row_fields [OF x(1)] by (simp_all add: receipt_row_def)
  have "to_receipt (entry_of_row P k prev x) = Inr r" for P k prev
    using assms(1) by (simp add: to_receipt_def entry_of_row_def Let_def fs x(2) to_output_projection_projected receipt_sized_def)
  moreover have "entry_shape False (entry_of_row P k prev x) = Inr ()" for P k prev
  proof -
    have v: "1 \<le> rc_schema_version r" "rc_schema_version r \<le> 3"
      "rc_schema_version r \<in> {1, 2} \<Longrightarrow> rc_output_projection r = None"
      "rc_output_projection r \<noteq> None \<Longrightarrow> rc_kind r = Execute \<and> rc_decision r = Accepted"
      using assms(2) by (auto simp: validate_output_projection_def split: if_splits option.splits)
    have "rc_schema_version r \<in> {1, 2, 3}" by (rule small_version [OF v(1,2)])
    then show ?thesis
      using v(3,4) by (auto simp: entry_shape_def entry_of_row_def Let_def fs x(2) projected_def ReceiptKind_as_str_def Decision_as_str_def)
  qed
  ultimately show thesis using that x(1) fs(15) by blast
qed

subsection \<open>The exported chain\<close>

lemma entry_of_row_fields [simp]:
  "pe_chain_index (entry_of_row P k prev x) = k" "pe_previous_entry_hash_hex (entry_of_row P k prev x) = prev"
  "pe_receipt_id (entry_of_row P k prev x) = px_receipt_id x"
  "pe_signer_key_id (entry_of_row P k prev x) = px_signer_key_id x"
  "pe_entry_hash_hex (entry_of_row P k prev x) =
     public_audit_entry_hash_for P (entry_of_row P k prev x) PUBLIC_AUDIT_CHAIN_ALGORITHM_VERSION"
  by (simp_all add: entry_of_row_def Let_def public_audit_entry_hash_def public_audit_entry_hash_for_def)

lemma distinct_map_sort_key: "distinct (map f (sort_key g xs)) \<longleftrightarrow> distinct (map f xs)"
  by (simp add: distinct_map)

lemma find_distinct_key:
  "distinct (map f xs) \<Longrightarrow> x \<in> set xs \<Longrightarrow> find (\<lambda>y. f y = f x) xs = Some x"
  by (induction xs) (auto simp: rev_image_eqI)

lemma find_sorted_signer:
  assumes "distinct (map fst keys)" and "(k, pk) \<in> set keys"
  shows "find (\<lambda>s. ps_signer_key_id s = k) (sorted_signer_keys keys) = Some \<lparr>ps_signer_key_id = k, ps_public_key_hex = hex_lower pk\<rparr>"
proof -
  let ?ks = "map (\<lambda>(k, pk). \<lparr>ps_signer_key_id = k, ps_public_key_hex = hex_lower pk\<rparr>) keys"
  have "map ps_signer_key_id ?ks = map fst keys" by (simp add: comp_def split_def)
  then have "distinct (map ps_signer_key_id (sorted_signer_keys keys))"
    using assms(1) unfolding sorted_signer_keys_def distinct_map_sort_key by (simp only:)
  moreover have "\<lparr>ps_signer_key_id = k, ps_public_key_hex = hex_lower pk\<rparr> \<in> set (sorted_signer_keys keys)"
    using assms(2) by (force simp: sorted_signer_keys_def)
  ultimately show ?thesis using find_distinct_key [of ps_signer_key_id] by fastforce
qed

text \<open>A row that stores a receipt which verifies under one of the given keys.\<close>

definition honest_row :: "audit_platform \<Rightarrow> (string \<times> bytes) list \<Rightarrow> ReceiptRow \<Rightarrow> bool" where
  "honest_row P keys row \<longleftrightarrow> (\<exists>r pk. row = receipt_row r \<and> receipt_sized r \<and>
     (rc_signer_key_id r, pk) \<in> set keys \<and> length pk = 32 \<and> au_key_ok P pk \<and>
     receipt_verify_ed25519_with_key (au_crypto P) (au_bincode P) r pk = Inr ())"

lemma verify_valid_projection:
  "receipt_verify_ed25519_with_key C B r pk = Inr u \<Longrightarrow> validate_output_projection r = Inr ()"
  by (auto simp: receipt_verify_ed25519_with_key_def result_simps)

lemma exported_entry_verifies:
  assumes "honest_row P keys row" and "distinct (map fst keys)" and "public_audit_row row = Inr x"
    and "pb_version b = PUBLIC_AUDIT_BUNDLE_VERSION"
    and "pc_algorithm_version (pb_chain b) = PUBLIC_AUDIT_CHAIN_ALGORITHM_VERSION"
    and "pb_signer_keys b = sorted_signer_keys keys" and "\<not> discloses_raw_fields P (entry_of_row P k prev x)"
  shows "verify_entry P b k prev (entry_of_row P k prev x) = Inr ()"
proof -
  obtain r pk where r: "row = receipt_row r" "receipt_sized r" "(rc_signer_key_id r, pk) \<in> set keys" "length pk = 32"
      "au_key_ok P pk" "receipt_verify_ed25519_with_key (au_crypto P) (au_bincode P) r pk = Inr ()"
    using assms(1) by (auto simp: honest_row_def)
  obtain y where "public_audit_row (receipt_row r) = Inr y" "px_signer_key_id y = rc_signer_key_id r"
    "\<And>P k prev. to_receipt (entry_of_row P k prev y) = Inr r"
    "\<And>P k prev. entry_shape False (entry_of_row P k prev y) = Inr ()"
    by (rule public_audit_row_receipt [OF r(2) verify_valid_projection [OF r(6)]]) blast
  moreover from this(1) have "y = x" using assms(3) r(1) by simp
  moreover have "pb_version b \<noteq> PUBLIC_AUDIT_BUNDLE_VERSION_V1"
    by (simp add: assms(4) PUBLIC_AUDIT_BUNDLE_VERSION_def PUBLIC_AUDIT_BUNDLE_VERSION_V1_def)
  ultimately show ?thesis
    using find_sorted_signer [OF assms(2) r(3)] r assms
    by (simp add: verify_entry_def verifying_key_from_hex_def)
qed

lemma exported_entries_verify:
  assumes "list_all (honest_row P keys) rows" and "distinct (map fst keys)" and "collect_rows public_audit_row rows = Inr xs"
    and "pb_version b = PUBLIC_AUDIT_BUNDLE_VERSION"
    and "pc_algorithm_version (pb_chain b) = PUBLIC_AUDIT_CHAIN_ALGORITHM_VERSION"
    and "pb_signer_keys b = sorted_signer_keys keys"
    and "list_all (\<lambda>e. \<not> discloses_raw_fields P e) (chain_entries P k prev xs)"
  shows "verify_entries P b k prev (chain_entries P k prev xs) = Inr ()"
  using assms(1,3,7)
proof (induction rows arbitrary: k prev xs)
  case (Cons row rows)
  obtain x ys where x: "public_audit_row row = Inr x" "collect_rows public_audit_row rows = Inr ys" "xs = x # ys"
    using Cons.prems(2) by (auto simp: result_simps)
  show ?case
    using Cons.prems x Cons.IH [of ys] exported_entry_verifies [OF _ assms(2) x(1) assms(4-6)]
    by (simp add: Let_def)
qed simp

lemma length_chain_entries [simp]: "length (chain_entries P k prev xs) = length xs"
  by (induction xs arbitrary: k prev) (simp_all add: Let_def)

lemma chain_entries_Nil_iff [simp]: "chain_entries P k prev xs = [] \<longleftrightarrow> xs = []"
  by (cases xs) (simp_all add: Let_def)

lemma exported_bundle:
  assumes "public_audit_bundle_from_rows P context_id keys now xs = Inr b"
  shows "pb_version b = PUBLIC_AUDIT_BUNDLE_VERSION" "pc_algorithm_version (pb_chain b) = PUBLIC_AUDIT_CHAIN_ALGORITHM_VERSION"
    "pb_signer_keys b = sorted_signer_keys keys" "pb_receipts b = chain_entries P 0 None xs" "xs \<noteq> []"
    "verify_entries P b 0 None (pb_receipts b) = Inr () \<Longrightarrow> verify_local_public_audit P b = Inr ()"
proof -
  note b = assms [unfolded public_audit_bundle_from_rows_def Let_def if_guard_Inr_iff sum.inject]
  show f: "pb_version b = PUBLIC_AUDIT_BUNDLE_VERSION" "pc_algorithm_version (pb_chain b) = PUBLIC_AUDIT_CHAIN_ALGORITHM_VERSION"
    "pb_signer_keys b = sorted_signer_keys keys" "pb_receipts b = chain_entries P 0 None xs" "xs \<noteq> []"
    using b by auto
  have "pb_status b = Complete" "pc_complete (pb_chain b)" "pc_receipt_count (pb_chain b) = length (pb_receipts b)"
    "pc_first_receipt_id (pb_chain b) = pe_receipt_id (hd (pb_receipts b))"
    "pc_last_receipt_id (pb_chain b) = pe_receipt_id (last (pb_receipts b))"
    "pc_root_hash_hex (pb_chain b) = public_audit_root_hash P (pb_receipts b)" "pb_receipts b \<noteq> []"
    using b by auto
  then show "verify_local_public_audit P b = Inr ()" if "verify_entries P b 0 None (pb_receipts b) = Inr ()"
    using that f(1,2) by (simp add: verify_local_public_audit_def supported_versions_def public_audit_root_hash_def)
qed

lemma chain_entries_ids: "map pe_receipt_id (chain_entries P k prev xs) = map px_receipt_id xs"
  by (induction xs arbitrary: k prev) (simp_all add: Let_def)

lemma honest_rows_collected:
  assumes "list_all (honest_row P keys) rows"
  shows "\<exists>xs. collect_rows public_audit_row rows = Inr xs \<and> map px_receipt_id xs = map tr_receipt_id rows \<and>
    list_all (\<lambda>x. px_signature x \<noteq> [] \<and> px_signer_key_id x \<in> fst ` set keys) xs"
  using assms
proof (induction rows)
  case (Cons row rows)
  obtain r pk where r: "row = receipt_row r" "receipt_sized r" "(rc_signer_key_id r, pk) \<in> set keys"
      "receipt_verify_ed25519_with_key (au_crypto P) (au_bincode P) r pk = Inr ()"
    using Cons.prems by (auto simp: honest_row_def)
  obtain x where x: "public_audit_row (receipt_row r) = Inr x" "px_signer_key_id x = rc_signer_key_id r"
    by (rule public_audit_row_receipt [OF r(2) verify_valid_projection [OF r(4)]]) blast
  have "rc_signature r \<noteq> []"
    using r(4) by (auto simp: receipt_verify_ed25519_with_key_def result_simps signature_from_slice_def split: if_splits)
  then have "px_signature x \<noteq> []" "px_receipt_id x = tr_receipt_id row"
    using public_audit_row_fields [OF x(1)] by (simp_all add: r(1) receipt_row_def)
  then show ?case using Cons x r(1,3) by (force simp: rbind_def split: sum.split)
qed simp

lemma honest_rows_bundled:
  assumes "list_all (\<lambda>x. px_signature x \<noteq> [] \<and> px_signer_key_id x \<in> fst ` set keys) xs" and "xs \<noteq> []"
  shows "\<exists>b. public_audit_bundle_from_rows P context_id keys now xs = Inr b"
proof -
  have "list_ex (\<lambda>s. ps_signer_key_id s = k) (sorted_signer_keys keys)" if "k \<in> fst ` set keys" for k
    using that by (force simp: list_ex_iff sorted_signer_keys_def)
  then show ?thesis
    using assms by (simp add: public_audit_bundle_from_rows_def Let_def list_ex_iff list_all_iff)
qed

subsection \<open>The root hash\<close>

lemma concat_fixed_inj:
  assumes "concat xs = concat ys" and "\<forall>x \<in> set xs. length x = n" and "\<forall>y \<in> set ys. length y = n" and "0 < n"
  shows "xs = ys"
  using assms
proof (induction xs arbitrary: ys)
  case Nil
  then show ?case by (cases ys) auto
next
  case (Cons x xs)
  then obtain y ys' where "ys = y # ys'" by (cases ys) auto
  then show ?case using Cons by auto
qed

lemma verify_entries_nth:
  assumes "verify_entries P b k prev es = Inr ()" and "i < length es"
  shows "pe_chain_index (es ! i) = k + i \<and>
    pe_entry_hash_hex (es ! i) = public_audit_entry_hash_for P (es ! i) (pc_algorithm_version (pb_chain b))"
  using assms
proof (induction es arbitrary: k prev i)
  case (Cons e es)
  then show ?case by (cases i) (auto simp: result_simps verify_entry_def split: if_splits)
qed simp

lemma json_opt_inj [simp]: "json_opt a = json_opt b \<longleftrightarrow> a = b"
  by (auto simp: json_opt_def split: option.splits)

lemma output_projection_json_inj [simp]: "output_projection_json p = output_projection_json q \<longleftrightarrow> p = q"
  by (auto simp: output_projection_json_def intro: PublicAuditOutputProjection.equality)

lemma ucast_up_inj: "(ucast (a :: u16) :: u64) = ucast b \<longleftrightarrow> a = b" "(ucast (c :: u8) :: u64) = ucast d \<longleftrightarrow> c = d"
proof -
  have "unat (ucast (a :: u16) :: u64) = unat a" for a
    using unsigned_less [of a, where 'a = nat] by (simp add: unsigned_ucast_eq take_bit_nat_eq_self)
  moreover have "unat (ucast (c :: u8) :: u64) = unat c" for c
  proof -
    have "unat c < 2 ^ 64" by (rule order.strict_trans [OF unat_u8_less]) simp
    then show ?thesis by (simp add: unsigned_ucast_eq take_bit_nat_eq_self del: unat_u8_less)
  qed
  ultimately show "(ucast a :: u64) = ucast b \<longleftrightarrow> a = b" "(ucast c :: u64) = ucast d \<longleftrightarrow> c = d"
    by (metis unat_eq_word)+
qed

lemma inj_JString: "inj JString"
  by (simp add: inj_def)

lemma optional_member_inj:
  "map snd (case a of None \<Rightarrow> [] | Some p \<Rightarrow> [(k, output_projection_json p)]) @ [x] =
   map snd (case b of None \<Rightarrow> [] | Some p \<Rightarrow> [(k, output_projection_json p)]) @ [y] \<longleftrightarrow> a = b \<and> x = y"
  by (cases a; cases b) auto

lemma entry_json_fields:
  assumes "entry_json e = entry_json e'"
  shows "pe_previous_entry_hash_hex e = pe_previous_entry_hash_hex e'" "pe_receipt_id e = pe_receipt_id e'"
    "pe_schema_version e = pe_schema_version e'" "pe_context_id e = pe_context_id e'" "pe_timestamp e = pe_timestamp e'"
    "pe_kind e = pe_kind e'" "pe_decision e = pe_decision e'" "pe_reason e = pe_reason e'"
    "pe_operation e = pe_operation e'" "pe_handler_id e = pe_handler_id e'" "pe_opcode e = pe_opcode e'"
    "pe_packet_hash_hex e = pe_packet_hash_hex e'" "pe_session_id_hex e = pe_session_id_hex e'"
    "pe_nonce_hex e = pe_nonce_hex e'" "pe_authenticator_kind e = pe_authenticator_kind e'"
    "pe_signer_key_id e = pe_signer_key_id e'" "pe_signature_hex e = pe_signature_hex e'"
    "pe_evidence_summary e = pe_evidence_summary e'" "pe_output_projection e = pe_output_projection e'"
  using arg_cong [OF assms [unfolded entry_json_def json.inject], of "map snd",
      unfolded list.map snd_conv map_append append.simps list.inject json.inject option.inject json_opt_inj ucast_up_inj
      inj_map_eq_map [OF inj_JString] optional_member_inj]
  by blast+

lemma entry_json_determines:
  assumes "entry_json (e\<lparr>pe_entry_hash_hex := []\<rparr>) = entry_json (e'\<lparr>pe_entry_hash_hex := []\<rparr>)"
    and "pe_chain_index e = pe_chain_index e'" and "pe_entry_hash_hex e = pe_entry_hash_hex e'"
  shows "e = e'"
proof -
  note same = entry_json_fields [OF assms(1), simplified]
  show ?thesis by (rule PublicAuditReceiptEntry.equality, (rule same assms(2,3))+, simp)
qed

lemma entry_hash_determines:
  assumes "public_audit_entry_hash_for P e v = public_audit_entry_hash_for P e' v"
    and "pe_chain_index e = pe_chain_index e'" and "pe_entry_hash_hex e = pe_entry_hash_hex e'"
  shows "e = e' \<or> (\<exists>x y. x \<noteq> y \<and> c_sha256 (au_crypto P) x = c_sha256 (au_crypto P) y) \<or>
    (\<exists>v w. v \<noteq> w \<and> au_json_text P v = au_json_text P w)"
proof -
  define d where "d = (if v = PUBLIC_AUDIT_CHAIN_ALGORITHM_VERSION then as_bytes ''secs-public-audit-entry-v2/hash'' else [])"
  define j where "j e = entry_json (e\<lparr>pe_entry_hash_hex := []\<rparr>)" for e
  have h: "c_sha256 (au_crypto P) (d @ as_bytes (au_json_text P (j e))) = c_sha256 (au_crypto P) (d @ as_bytes (au_json_text P (j e')))"
    using hex_lower_inj [OF assms(1) [unfolded public_audit_entry_hash_for_def sha256_hex_def, folded d_def j_def]] .
  consider "j e = j e'" | "j e \<noteq> j e'" "au_json_text P (j e) = au_json_text P (j e')"
    | "d @ as_bytes (au_json_text P (j e)) \<noteq> d @ as_bytes (au_json_text P (j e'))"
    unfolding same_append_eq as_bytes_eq_iff by blast
  then show ?thesis
  proof cases
    case 1
    from entry_json_determines [OF this [unfolded j_def] assms(2,3)] show ?thesis by (rule disjI1)
  next
    case 2
    show ?thesis by (rule disjI2, rule disjI2, rule exI, rule exI, rule conjI, fact 2(1), fact 2(2))
  next
    case 3
    show ?thesis by (rule disjI2, rule disjI1, rule exI, rule exI, rule conjI, fact 3, fact h)
  qed
qed

lemma verified_chain:
  assumes "verify_local_public_audit P b = Inr ()"
  shows "verify_entries P b 0 None (pb_receipts b) = Inr ()"
    "pc_root_hash_hex (pb_chain b) = public_audit_root_hash_for P (pb_receipts b) (pb_version b) (pc_algorithm_version (pb_chain b))"
  using assms unfolding verify_local_public_audit_def if_guard_Inr_iff rbind_Inr_iff by simp_all

lemma verified_hash_length:
  assumes "verify_entries P b 0 None es = Inr ()" and "\<And>x. length (c_sha256 (au_crypto P) x) = 32"
  shows "\<forall>x \<in> set (map (\<lambda>e. as_bytes (pe_entry_hash_hex e)) es). length x = 64"
proof
  fix x assume "x \<in> set (map (\<lambda>e. as_bytes (pe_entry_hash_hex e)) es)"
  then obtain i where "i < length es" "x = as_bytes (pe_entry_hash_hex (es ! i))" by (auto simp: in_set_conv_nth)
  then show "length x = 64"
    using verify_entries_nth [OF assms(1)] by (simp add: public_audit_entry_hash_for_def sha256_hex_def assms(2))
qed

lemma root_hash_determines:
  assumes v: "verify_local_public_audit P b = Inr ()" "verify_local_public_audit P b' = Inr ()"
    and same: "pb_version b = pb_version b'" "pc_algorithm_version (pb_chain b) = pc_algorithm_version (pb_chain b')"
      "pc_root_hash_hex (pb_chain b) = pc_root_hash_hex (pb_chain b')"
    and len: "\<And>x. length (c_sha256 (au_crypto P) x) = 32"
    and nocol: "\<And>x y. c_sha256 (au_crypto P) x = c_sha256 (au_crypto P) y \<Longrightarrow> x = y"
    and unamb: "\<And>v w. au_json_text P v = au_json_text P w \<Longrightarrow> v = w"
  shows "pb_receipts b = pb_receipts b'"
proof -
  note e = verified_chain(1) [OF v(1)] verified_chain(1) [OF v(2)]
  let ?h = "map (\<lambda>e. as_bytes (pe_entry_hash_hex e))"
  have "public_audit_root_hash_for P (pb_receipts b) (pb_version b') (pc_algorithm_version (pb_chain b')) =
      public_audit_root_hash_for P (pb_receipts b') (pb_version b') (pc_algorithm_version (pb_chain b'))"
    by (rule trans [OF trans [OF verified_chain(2) [OF v(1), unfolded same(1,2), symmetric] same(3)] verified_chain(2) [OF v(2)]])
  from nocol [OF hex_lower_inj [OF this [unfolded public_audit_root_hash_for_def sha256_hex_def]]]
  have "concat (?h (pb_receipts b)) = concat (?h (pb_receipts b'))" by (simp only: same_append_eq)
  then have h: "?h (pb_receipts b) = ?h (pb_receipts b')"
    by (rule concat_fixed_inj [OF _ verified_hash_length [OF e(1) len] verified_hash_length [OF e(2) len]]) simp
  then have l: "length (pb_receipts b) = length (pb_receipts b')" by (rule map_eq_imp_length_eq)
  show ?thesis
  proof (rule nth_equalityI [OF l])
    fix i assume i: "i < length (pb_receipts b)"
    let ?e = "pb_receipts b ! i" and ?e' = "pb_receipts b' ! i"
    have hash: "pe_entry_hash_hex ?e = pe_entry_hash_hex ?e'"
      using arg_cong [OF h, of "\<lambda>xs. xs ! i"] i l by simp
    have "i < length (pb_receipts b')" using i l by simp
    note n = verify_entries_nth [OF e(1) i] verify_entries_nth [OF e(2) this]
    have index: "pe_chain_index ?e = pe_chain_index ?e'"
      by (simp only: n(1) [THEN conjunct1] n(2) [THEN conjunct1])
    have "public_audit_entry_hash_for P ?e (pc_algorithm_version (pb_chain b')) =
       public_audit_entry_hash_for P ?e' (pc_algorithm_version (pb_chain b'))"
      by (rule trans [OF trans [OF n(1) [THEN conjunct2, unfolded same(2), symmetric] hash] n(2) [THEN conjunct2]])
    from entry_hash_determines [OF this index hash] show "?e = ?e'"
      by (elim disjE exE conjE) (assumption | (erule notE, (erule nocol | erule unamb)))+
  qed
qed

subsection \<open>The publication log\<close>

abbreviation publication :: "PublicAuditPublicationRecord list \<Rightarrow> string \<Rightarrow> PublicAuditPublicationRecord option" where
  "publication rows key \<equiv> find (\<lambda>r. pp_idempotency_key r = key) rows"

lemma upsert_keys:
  "map pp_idempotency_key (upsert_publication row rows) =
     (if pp_idempotency_key row \<in> pp_idempotency_key ` set rows then map pp_idempotency_key rows
      else map pp_idempotency_key rows @ [pp_idempotency_key row])"
  by (induction rows) auto

lemma upsert_other:
  "filter (\<lambda>r. pp_idempotency_key r \<noteq> pp_idempotency_key row) (upsert_publication row rows) =
     filter (\<lambda>r. pp_idempotency_key r \<noteq> pp_idempotency_key row) rows"
  by (induction rows) auto

lemma upsert_found:
  "publication (upsert_publication row rows) (pp_idempotency_key row) = Some (case publication rows (pp_idempotency_key row) of
     None \<Rightarrow> row
   | Some r \<Rightarrow> r\<lparr>pp_target_ref_digest_hex := pp_target_ref_digest_hex row, pp_status := pp_status row,
       pp_attempt_count := pp_attempt_count r + 1, pp_last_error := pp_last_error row,
       pp_published_at := (case pp_published_at row of None \<Rightarrow> pp_published_at r | Some t \<Rightarrow> Some t),
       pp_updated_at := pp_updated_at row\<rparr>)"
  by (induction rows) (auto split: option.splits)

subsection \<open>The operator's export\<close>

lemma hex_lower_digest:
  assumes "length bs = 32"
  shows "lower_hex_digest (hex_lower bs)"
proof -
  have digit: "(48 \<le> (of_char (hex_digit n) :: nat) \<and> (of_char (hex_digit n) :: nat) \<le> 57) \<or>
      (97 \<le> (of_char (hex_digit n) :: nat) \<and> (of_char (hex_digit n) :: nat) \<le> 102)" if "n < 16" for n
    using that by (simp add: of_char_hex_digit)
  have "length (hex_lower bs) = 64" using assms by simp
  then show ?thesis
    using digit [OF hex_byte_chars(2)] digit [OF hex_byte_chars(3)]
    by (simp add: lower_hex_digest_def list_all_iff) (simp add: hex_lower_def hex_byte_chars(1))
qed

lemma wire_v1_lookup [simp]:
  "map_of (wire_v1 i) ''export_schema_version'' = Some (JNumber (Some (ucast (oi_schema_version i))))"
  "map_of (wire_v1 i) ''schema_version'' = Some (JNumber (Some (ucast (oi_schema_version i))))"
  "map_of (wire_v1 i) ''kind'' = Some (JString (oi_kind i))" "map_of (wire_v1 i) ''decision'' = Some (JString (oi_decision i))"
  "map_of (wire_v1 i) ''evidence_summary'' = None" "map_of (wire_v1 i) ''output_projection'' = None"
  by (simp_all add: wire_v1_def)

lemma wire_v1_keys [simp]: "fst ` set (wire_v1 i) = operator_common_keys"
  by (simp only: wire_v1_def operator_common_keys_def list.set image_insert fst_conv image_empty)

lemma wire_lookup [simp]:
  "map_of (wire_v2 i) k = (case map_of (wire_v1 i) k of Some v \<Rightarrow> Some v
     | None \<Rightarrow> if k = ''evidence_summary'' then Some (JArray (map JString (oi_evidence_summary i))) else None)"
  "map_of (wire_v3 i) k = (case map_of (wire_v2 i) k of Some v \<Rightarrow> Some v
     | None \<Rightarrow> if k = ''output_projection'' then Some (case oi_output_projection i of None \<Rightarrow> JNull | Some p \<Rightarrow> output_projection_json p)
               else None)"
  "fst ` set (wire_v2 i) = insert ''evidence_summary'' operator_common_keys"
  "fst ` set (wire_v3 i) = insert ''output_projection'' (insert ''evidence_summary'' operator_common_keys)"
  by (auto simp: wire_v2_def wire_v3_def map_add_def image_Un split: option.splits)

lemma inspected_projection:
  assumes "operator_inspection_from_row P row = Inr i" and "oi_output_projection i = Some p"
  shows "po_schema_id p \<noteq> []" "lower_hex_digest (po_digest_sha256_hex p)" "oi_kind i = ''execute''" "oi_decision i = ''accepted''"
  using assms
  by (auto simp: operator_inspection_from_row_def result_simps output_projection_from_row_def require_blob_len_def
      hex_lower_digest split: if_splits option.splits)

lemma inspection_versions:
  "operator_inspection_from_row P row = Inr i \<Longrightarrow> oi_export_schema_version i = oi_schema_version i"
  by (auto simp: operator_inspection_from_row_def result_simps split: if_splits)

lemma projection_valid_output:
  assumes "po_schema_id p \<noteq> []" and "lower_hex_digest (po_digest_sha256_hex p)"
    and "map_of members ''kind'' = Some (JString ''execute'')" and "map_of members ''decision'' = Some (JString ''accepted'')"
  shows "projection_valid members [(''schema_id'', JString (po_schema_id p)), (''byte_count'', JNumber (Some (po_byte_count p))),
      (''digest_sha256_hex'', JString (po_digest_sha256_hex p))] = Inr True"
  using assms by (simp add: projection_valid_def index_key_def json_as_str_def json_as_u64_def)

lemma validate_v3:
  assumes "oi_schema_version i = 3" and "parse t = Some (JObject (wire_v3 i))"
    and "\<And>p. oi_output_projection i = Some p \<Longrightarrow> po_schema_id p \<noteq> [] \<and> lower_hex_digest (po_digest_sha256_hex p) \<and>
      oi_kind i = ''execute'' \<and> oi_decision i = ''accepted''"
  shows "validate_operator_receipt_export_json parse t = Inr (Inr ())"
proof (cases "oi_output_projection i")
  case None
  then show ?thesis
    using assms(1,2) by (simp add: validate_operator_receipt_export_json_def index_key_def json_as_u64_def Un_commute)
next
  case (Some p)
  then show ?thesis
    using assms(1,2) assms(3) [OF Some] projection_valid_output [of p "wire_v3 i"]
    by (simp add: validate_operator_receipt_export_json_def index_key_def json_as_u64_def output_projection_json_def Un_commute)
qed

lemma validate_serialized:
  assumes "operator_inspection_from_row P row = Inr i" and "serialize_inspection i = Inr j" and "parse t = Some j"
  shows "validate_operator_receipt_export_json parse t = Inr (Inr ())"
proof -
  consider "oi_schema_version i = 1" "j = JObject (wire_v1 i)" | "oi_schema_version i = 2" "j = JObject (wire_v2 i)"
    | "oi_schema_version i = 3" "j = JObject (wire_v3 i)"
    using assms(2) by (auto simp: serialize_inspection_def split: if_splits)
  then show ?thesis
  proof cases
    case 3
    then show ?thesis using validate_v3 inspected_projection [OF assms(1)] assms(3) by metis
  qed (use assms(3) in \<open>simp_all add: validate_operator_receipt_export_json_def json_as_u64_def Un_commute\<close>)
qed

lemma inspect_recorded:
  assumes "receipt_sized r" and "validate_output_projection r = Inr ()" and "unat (rc_timestamp r) < i64_limit"
  shows "\<exists>i j. operator_inspection_from_row P (receipt_row r) = Inr i \<and> serialize_inspection i = Inr j"
proof -
  obtain i where i: "operator_inspection_from_row P (receipt_row r) = Inr i" "oi_schema_version i = rc_schema_version r"
      "oi_evidence_summary i = rc_evidence_summary r" "oi_output_projection i = projected r"
      "oi_kind i = ReceiptKind_as_str (rc_kind r)" "oi_decision i = Decision_as_str (rc_decision r)"
    using assms(1,3) unfolding operator_inspection_from_row_def output_projection_of_receipt [OF assms(1,2)]
    by (simp add: receipt_row_def receipt_sized_def require_blob_len_def as_i64_small)
  have v: "1 \<le> rc_schema_version r" "rc_schema_version r \<le> 3"
    "rc_schema_version r = 1 \<Longrightarrow> rc_evidence_summary r = [] \<and> rc_output_projection r = None"
    "rc_schema_version r = 2 \<Longrightarrow> rc_output_projection r = None"
    "rc_output_projection r \<noteq> None \<Longrightarrow> rc_kind r = Execute \<and> rc_decision r = Accepted"
    using assms(2) by (auto simp: validate_output_projection_def split: if_splits option.splits)
  have "rc_schema_version r \<in> {1, 2, 3}" by (rule small_version [OF v(1,2)])
  then have "\<exists>j. serialize_inspection i = Inr j"
    using v(3-5) inspection_versions [OF i(1)] i
    by (auto simp: serialize_inspection_def projected_def ReceiptKind_as_str_def Decision_as_str_def)
  then show ?thesis using i(1) by blast
qed

section \<open>Properties\<close>


text \<open>C37. Exporting and auditing fit together: for a context whose stored receipts all verify under the given
  node keys, the export succeeds unless its query fails, it contains every receipt of the context, and the
  bundle passes the public audit and the check against its own anchor, unless a receipt mentions a field name
  that must never be exported.\<close>

theorem exported_audit_bundle_verifies:
  "if distinct (map fst keys) \<and> \<not> F (db_queries db) \<and> receipts_for_context context_id (db_receipts db) \<noteq> [] \<and>
     list_all (honest_row P keys) (receipts_for_context context_id (db_receipts db))
   then \<exists>b. run_state (export_public_audit_bundle_for_context P F context_id keys now) db =
       (Inr b, db\<lparr>db_queries := Suc (db_queries db)\<rparr>) \<and>
     map pe_receipt_id (pb_receipts b) = map tr_receipt_id (receipts_for_context context_id (db_receipts db)) \<and>
     (if list_ex (discloses_raw_fields P) (pb_receipts b) then True
      else verify_local_public_audit P b = Inr () \<and>
        verify_external_audit_anchor_record P b (anchor_from_bundle b GITHUB_GIST_TARGET_KIND target now) = Inr ())
   else True"
proof (cases "distinct (map fst keys) \<and> \<not> F (db_queries db) \<and> receipts_for_context context_id (db_receipts db) \<noteq> [] \<and>
     list_all (honest_row P keys) (receipts_for_context context_id (db_receipts db))")
  case True
  let ?rows = "receipts_for_context context_id (db_receipts db)"
  obtain xs where xs: "collect_rows public_audit_row ?rows = Inr xs" "map px_receipt_id xs = map tr_receipt_id ?rows"
      "list_all (\<lambda>x. px_signature x \<noteq> [] \<and> px_signer_key_id x \<in> fst ` set keys) xs"
    using honest_rows_collected True by blast
  obtain b where b: "public_audit_bundle_from_rows P context_id keys now xs = Inr b"
    using honest_rows_bundled [OF xs(3)] xs(2) True by fastforce
  have run: "run_state (export_public_audit_bundle_for_context P F context_id keys now) db =
      (Inr b, db\<lparr>db_queries := Suc (db_queries db)\<rparr>)"
    using True by (simp add: export_public_audit_bundle_for_context_def public_audit_receipts_for_context_def
        run_query_def Let_def xs(1) b)
  note eb = exported_bundle [OF b]
  have "verify_local_public_audit P b = Inr ()" if "\<not> list_ex (discloses_raw_fields P) (pb_receipts b)"
    using that True xs(1) eb(1-4) unfolding eb(4)
    by (intro eb(6) [unfolded eb(4)] exported_entries_verify [of P keys ?rows]) (auto simp: list_ex_iff list_all_iff)
  moreover have "verify_external_audit_anchor_record P b (anchor_from_bundle b GITHUB_GIST_TARGET_KIND target now) = Inr ()"
    if "verify_local_public_audit P b = Inr ()"
    using that by (simp add: verify_external_audit_anchor_record_def anchor_from_bundle_def)
  moreover have "map pe_receipt_id (pb_receipts b) = map tr_receipt_id ?rows"
    using xs(2) by (simp add: eb(4) chain_entries_ids)
  ultimately show ?thesis using True run by simp
next
  case False
  then show ?thesis by (simp only: False if_False)
qed

text \<open>C38. The publication log is consistent: publishing touches only the record of this bundle and target, keeps
  one record per idempotency key, records only bundles that pass the audit, counts every attempt, and never
  forgets when a bundle was published, also when a later attempt fails.\<close>

theorem publication_log_consistent:
  "case run_state (publish_public_audit_bundle P F b publisher now) db of (r, db') \<Rightarrow>
     let k = bundle_idempotency_key P b (pu_target_kind (publisher b));
       rows = db_audit_publication_status db; rows' = db_audit_publication_status db' in
     filter (\<lambda>q. pp_idempotency_key q \<noteq> k) rows' = filter (\<lambda>q. pp_idempotency_key q \<noteq> k) rows \<and>
     (if distinct (map pp_idempotency_key rows) then distinct (map pp_idempotency_key rows') else True) \<and>
     (case r of
        Inl BundleVerificationFailed \<Rightarrow> rows' = rows \<and> \<not> is_ok (verify_local_public_audit P b)
      | Inl (PublicationDatabase _) \<Rightarrow> is_ok (verify_local_public_audit P b)
      | Inr p \<Rightarrow> is_ok (verify_local_public_audit P b) \<and> publication rows' k = Some p \<and>
          pp_status p = pu_status (publisher b) \<and>
          pp_attempt_count p = Suc (case publication rows k of None \<Rightarrow> 0 | Some q \<Rightarrow> pp_attempt_count q) \<and>
          pp_published_at p = (if pu_status (publisher b) = Published then Some now
            else Option.bind (publication rows k) pp_published_at))"
proof -
  let ?row = "publication_row P b (publisher b) now"
  have k: "pp_idempotency_key ?row = bundle_idempotency_key P b (pu_target_kind (publisher b))"
    and f: "pp_status ?row = pu_status (publisher b)" "pp_attempt_count ?row = 1"
      "pp_published_at ?row = (if pu_status (publisher b) = Published then Some now else None)"
    by (simp_all add: publication_row_def)
  have up: "filter (\<lambda>q. pp_idempotency_key q \<noteq> pp_idempotency_key ?row) (upsert_publication ?row rows) =
      filter (\<lambda>q. pp_idempotency_key q \<noteq> pp_idempotency_key ?row) rows"
    "distinct (map pp_idempotency_key rows) \<Longrightarrow> distinct (map pp_idempotency_key (upsert_publication ?row rows))" for rows
    using upsert_other [of ?row rows] upsert_keys [of ?row rows] by simp_all
  note defs = publish_public_audit_bundle_def audit_publication_status_by_idempotency_key_def run_query_def Let_def
  note rules = up(1) [unfolded k] up(2) upsert_found [of ?row, unfolded k] f
  show ?thesis
  proof (cases "is_ok (verify_local_public_audit P b)")
    case True
    then show ?thesis
      by (cases "F (db_queries db)"; cases "F (Suc (db_queries db))") (simp_all add: defs rules split: option.split)
  qed (simp add: defs)
qed



end
