(* ===== verification/Spec2Isabelle.thy ===== *)
theory Spec2Isabelle
  imports Gateway_Safety Public_Audit
begin

text \<open>
  A verification development for secS-magik, a receiver-controlled gateway for permissioned machine-to-machine
  calls written in Rust. A caller sends a packet; the receiver decodes it, decrypts its payload, authenticates
  the caller, checks the packet against the receiver's own manifest, collects evidence where the operation
  requires it, and signs a verified call context. The gateway routes such contexts: it checks them again,
  reserves their replay slot, asks the permission policy, runs the registered handler within its limits,
  records signed receipts and events in a SQLite ledger, and answers. The ledger can be inspected by the
  operator and exported as a public audit bundle.

  \<^bold>\<open>Modelling.\<close> Strings are lists of bytes written as characters, byte strings are lists of 8-bit words, machine
  integers are words of their width, and \<^verbatim>\<open>usize\<close> is a natural number. Fallible functions return a sum
  whose left side is the error; a panic is a value of its own where the code can panic. Stateful code is a
  state monad: over the tables of the database in \<^verbatim>\<open>Ledger\<close>, and over an extension of them by the world of
  the handlers and the task-local slots in \<^verbatim>\<open>Gateway\<close>. Third-party code is a parameter: SHA-256 and Ed25519
  (the record \<^verbatim>\<open>crypto\<close>), bincode, the JSON parser and printer, the file system, the clock, child processes,
  and which database queries fail. What is assumed of a parameter, such as that signatures verify, is a named
  hypothesis of the theorems that need it.

  \<^bold>\<open>Theories and sources\<close> (under \<^verbatim>\<open>src/\<close>).
  \<^item> \<^verbatim>\<open>Prelude\<close>: results, options, lists, words, UTF-8, decimal and hexadecimal text, string functions of the
    standard library. \<^verbatim>\<open>Codec\<close>: the interface of a cursor codec. \<^verbatim>\<open>Keys\<close>: the interface of a key registry in
    which a duplicate id disables the key.
  \<^item> \<^verbatim>\<open>Permissions\<close>: \<^verbatim>\<open>permissions/src/lib.rs\<close>, \<^verbatim>\<open>server/src/permctl.rs\<close>, \<^verbatim>\<open>panel/src/lib.rs\<close>. The evaluator
    allows exactly what an applicable allow record and no applicable deny record says; revocation.
  \<^item> \<^verbatim>\<open>Ingress_Request\<close> (\<^verbatim>\<open>core/src/ingress_request.rs\<close>), \<^verbatim>\<open>Exec_Response\<close> (\<^verbatim>\<open>core/src/execution_response.rs\<close>):
    the wire formats, exactly which byte strings are accepted, round trips, what a signature covers.
  \<^item> \<^verbatim>\<open>Basics\<close>: errors and reason codes, clock, runtime mode, JSON values. \<^verbatim>\<open>Tunnel\<close> (\<^verbatim>\<open>core/src/tunnel.rs\<close>):
    keys, associated data, payload decryption. \<^verbatim>\<open>Caller\<close> (\<^verbatim>\<open>core/src/caller_proof.rs\<close>, \<^verbatim>\<open>server/src/caller.rs\<close>):
    canonical bytes, proof codec, key registry, attribution of packets to callers.
  \<^item> \<^verbatim>\<open>Privacy\<close>, \<^verbatim>\<open>Manifest\<close>, \<^verbatim>\<open>Proof_Keys\<close>, \<^verbatim>\<open>Call_Context\<close>, \<^verbatim>\<open>Nullifier\<close>, \<^verbatim>\<open>Receipt\<close>, \<^verbatim>\<open>Identity\<close>,
    \<^verbatim>\<open>Verifier\<close>: the files of the same name under \<^verbatim>\<open>server/src\<close> (\<^verbatim>\<open>verification_context.rs\<close> for the call
    context). Descriptors and fingerprints, the proof metadata gate, what handlers may see, receipts and
    contexts and their signatures, and that a verified context exists only for a fresh, caller-signed packet
    of a descriptor that the mode admits.
  \<^item> \<^verbatim>\<open>Dregg_Authority\<close>, \<^verbatim>\<open>Evidence\<close>, \<^verbatim>\<open>Authority_Evidence\<close>, \<^verbatim>\<open>Evidence_Verifier\<close>: \<^verbatim>\<open>dregg_authority.rs\<close>,
    \<^verbatim>\<open>evidence.rs\<close> and the evidence paths of \<^verbatim>\<open>verifier.rs\<close>. When an authority lookup or a snapshot admits a
    request, what each adapter accepts, and that contexts meet the tier of their operation.
  \<^item> \<^verbatim>\<open>Ledger\<close> (\<^verbatim>\<open>ledger.rs\<close>, \<^verbatim>\<open>schema.rs\<close>): reservations, nullifier uses, events and receipts under failing
    queries and arbitrary interleaving; the interface of a single-use store and its interpretations.
  \<^item> \<^verbatim>\<open>Handlers\<close> (handler parts of \<^verbatim>\<open>gateway.rs\<close>, \<^verbatim>\<open>membership.rs\<close>, \<^verbatim>\<open>file_write.rs\<close>), \<^verbatim>\<open>Node_Registration\<close>
    (\<^verbatim>\<open>node_registration.rs\<close>): outcomes and limits, the bounded subprocess loop, the sandboxed file writer,
    registration requests and the registration route.
  \<^item> \<^verbatim>\<open>Gateway\<close> (\<^verbatim>\<open>gateway.rs\<close>, \<^verbatim>\<open>core/src/response.rs\<close>): the router and its routes, one definition per stage of
    \<^verbatim>\<open>route_verified\<close> in the order of the code. \<^verbatim>\<open>Gateway_Safety\<close>: every handler invocation passed every gate;
    the gateway as a step relation refines an executor that uses each replay slot at most once; an accepted
    answer means the handler ran and accepted; the client accepts what the gateway sends.
  \<^item> \<^verbatim>\<open>Public_Audit\<close> (\<^verbatim>\<open>public_audit.rs\<close>, \<^verbatim>\<open>public_audit_cli.rs\<close>, the reading side of \<^verbatim>\<open>ledger.rs\<close>): an anchored
    root determines the receipts, an exported bundle verifies, the publication log, the operator's export.

  \<^bold>\<open>Bounds and fuel.\<close> Path resolution follows at most 40 symbolic links, the limit of the operating system, and
  terminates by that budget. The subprocess loop terminates because every round reads at least one byte, closes
  a stream or returns; no fuel is used. All other recursions are structural or have a termination proof.

  \<^bold>\<open>Not modelled.\<close> The accept loop and timeouts of the TCP listener, start-up configuration, the session key
  cache and the clients are I/O around the modelled functions. Interleaving of other tasks with a routed call is
  modelled between calls and not between the queries of one call. The live Dregg source polls an external
  service. The Devgraph, Frank, intake and grant tools are separate programs that the gateway does not call. The
  text of log output, \<^verbatim>\<open>Debug\<close> formatters and error display strings is left out.
\<close>

end
